(* ===== verification/Prelude.thy ===== *)
theory Prelude
  imports "HOL-Library.Word" "HOL-Library.AList" "HOL-Library.Multiset"
begin

text \<open>
  Shared vocabulary of the development.  Machine integers are words of the width the Go source
  uses, a Go array \<open>[n]byte\<close> is the type \<open>n barr\<close> of byte lists of exactly that length, and a Go
  call that can return an error or panic has a result of type \<open>('e, 'a) res\<close>.  The theory also
  holds the generic lemmas on lists, association lists and slices that several components use.
\<close>

section \<open>Automation collections\<close>

named_theorems res_simps \<open>equations that run the result monad\<close>
named_theorems slice_simps \<open>equations for in-range slices\<close>

section \<open>Machine integers and byte strings\<close>

type_synonym byte = "8 word"
type_synonym bytes = "8 word list"
type_synonym u8 = "8 word"
type_synonym u32 = "32 word"
type_synonym u64 = "64 word"

section \<open>Fixed-length byte arrays\<close>

typedef (overloaded) ('n::len0) barr = "{xs :: byte list. length xs = LENGTH('n)}"
  morphisms barr_list barr_abs
  by (rule exI [where x = "replicate LENGTH('n) 0"]) simp

text \<open>
  \<open>barr_list a\<close> is Go's \<open>a[:]\<close>.  \<open>barr_copy xs\<close> is the array after \<open>copy(a[:], xs)\<close> into a
  zeroed array: the first bytes of \<open>xs\<close>, and zeros where \<open>xs\<close> is too short.
\<close>

definition barr_copy :: "bytes \<Rightarrow> 'n::len0 barr" where
  "barr_copy xs = barr_abs (take LENGTH('n) (xs @ replicate LENGTH('n) 0))"

instantiation barr :: (len0) equal
begin

definition equal_barr :: "'a barr \<Rightarrow> 'a barr \<Rightarrow> bool" where
  "equal_barr x y \<longleftrightarrow> barr_list x = barr_list y"

instance
  by standard (simp add: equal_barr_def barr_list_inject)

end

instantiation barr :: (len0) zero
begin

definition zero_barr :: "'a barr" where
  "zero_barr = barr_copy []"

instance ..

end

type_synonym hash = "32 barr"
type_synonym root = "32 barr"
type_synonym u256 = "32 barr"
type_synonym pubkey = "48 barr"
type_synonym signature = "96 barr"
type_synonym address = "20 barr"
type_synonym bloom = "256 barr"
type_synonym domain = "32 barr"

section \<open>Results of Go calls\<close>

datatype ('e, 'a) res = Ok 'a | Err 'e | Panic

fun bind_res :: "('e, 'a) res \<Rightarrow> ('a \<Rightarrow> ('e, 'b) res) \<Rightarrow> ('e, 'b) res" where
  "bind_res (Ok x) f = f x"
| "bind_res (Err e) f = Err e"
| "bind_res Panic f = Panic"

fun map_err :: "('e \<Rightarrow> 'd) \<Rightarrow> ('e, 'a) res \<Rightarrow> ('d, 'a) res" where
  "map_err h (Ok x) = Ok x"
| "map_err h (Err e) = Err (h e)"
| "map_err h Panic = Panic"

text \<open>
  A handler: it runs on a state, returns a result and leaves a state, also when it fails.
\<close>

type_synonym ('e, 's, 'a) handler = "'s \<Rightarrow> ('e, 'a) res \<times> 's"

definition bind_h :: "('e, 's, 'a) handler \<Rightarrow> ('a \<Rightarrow> ('e, 's, 'b) handler) \<Rightarrow> ('e, 's, 'b) handler" where
  "bind_h m f = (\<lambda>s. case m s of
       (Ok x, s') \<Rightarrow> f x s'
     | (Err e, s') \<Rightarrow> (Err e, s')
     | (Panic, s') \<Rightarrow> (Panic, s'))"

definition lift_h :: "('e, 'a) res \<Rightarrow> ('e, 's, 'a) handler" where
  "lift_h r = (\<lambda>s. (r, s))"

text \<open>
  \<open>slice_res a b xs\<close> is \<open>xs[a:b]\<close>.  Go panics when the bounds do not fit; it allows \<open>b\<close> up to the
  capacity, which is never below the length, so a slice that is in range here is in range there.
\<close>

definition slice :: "nat \<Rightarrow> nat \<Rightarrow> 'a list \<Rightarrow> 'a list" where
  "slice a b xs = take (b - a) (drop a xs)"

definition slice_res :: "nat \<Rightarrow> nat \<Rightarrow> 'a list \<Rightarrow> ('e, 'a list) res" where
  "slice_res a b xs = (if a \<le> b \<and> b \<le> length xs then Ok (slice a b xs) else Panic)"

text \<open>The value of a pointer, or the object the code creates for a nil one.\<close>

definition the_default :: "'a \<Rightarrow> 'a option \<Rightarrow> 'a" where
  "the_default d p = (case p of None \<Rightarrow> d | Some x \<Rightarrow> x)"

section \<open>Lemmas on arrays\<close>

lemma barr_abstype [code abstype]: "barr_abs (barr_list x) = x"
  by (fact barr_list_inverse)

lemma barr_list_copy [code]:
  "barr_list (barr_copy xs :: 'n::len0 barr) = take LENGTH('n) (xs @ replicate LENGTH('n) 0)"
  by (simp add: barr_copy_def barr_abs_inverse)

lemma length_barr_list [simp]: "length (barr_list (x :: 'n::len0 barr)) = LENGTH('n)"
  using barr_list [of x] by simp

lemma barr_copy_list [simp]: "barr_copy (barr_list x) = x"
  by (simp add: barr_list_inject [symmetric] barr_list_copy)

lemma barr_list_copy_exact [simp]:
  "length xs = LENGTH('n) \<Longrightarrow> barr_list (barr_copy xs :: 'n::len0 barr) = xs"
  by (simp add: barr_list_copy)

lemma barr_list_zero: "barr_list (0 :: 'n::len0 barr) = replicate LENGTH('n) 0"
  by (simp add: zero_barr_def barr_list_copy)

lemma barr_eq_iff: "x = y \<longleftrightarrow> barr_list x = barr_list y"
  by (simp add: barr_list_inject)

text \<open>Small literals \<open>barr_copy [k]\<close> are told apart by their first byte.\<close>

lemma hd_barr_list_copy: "hd (barr_list (barr_copy [x] :: 'n::len barr)) = x"
  by (simp add: barr_list_copy hd_take)

lemma barr_copy_zero: "barr_copy [0] = (0 :: 'n::len barr)"
proof -
  have "take LENGTH('n) (0 # replicate LENGTH('n) 0) = take LENGTH('n) (replicate (Suc LENGTH('n)) (0 :: byte))"
    by simp
  then show ?thesis
    by (simp only: barr_eq_iff barr_list_copy barr_list_zero append_Cons append_Nil take_replicate) simp
qed

lemma barr_copy_single_eq [simp]:
  "(barr_copy [x] = (barr_copy [y] :: 'n::len barr)) = (x = y)"
  by (metis hd_barr_list_copy)

lemma barr_copy_single_zero [simp]:
  "(barr_copy [x] = (0 :: 'n::len barr)) = (x = 0)"
  by (metis barr_copy_zero hd_barr_list_copy)

lemma zero_barr_copy_single [simp]:
  "((0 :: 'n::len barr) = barr_copy [x]) = (x = 0)"
  by (metis barr_copy_zero hd_barr_list_copy)

section \<open>Lemmas on results\<close>

lemma bind_res_Ok_iff [res_simps]:
  "bind_res m f = Ok y \<longleftrightarrow> (\<exists>x. m = Ok x \<and> f x = Ok y)"
  by (cases m) auto

lemma bind_res_Err_iff [res_simps]:
  "bind_res m f = Err e \<longleftrightarrow> m = Err e \<or> (\<exists>x. m = Ok x \<and> f x = Err e)"
  by (cases m) auto

lemma bind_res_Panic_iff [res_simps]:
  "bind_res m f = Panic \<longleftrightarrow> m = Panic \<or> (\<exists>x. m = Ok x \<and> f x = Panic)"
  by (cases m) auto

lemma map_err_iff [res_simps]:
  "map_err h m = Ok y \<longleftrightarrow> m = Ok y"
  "map_err h m = Panic \<longleftrightarrow> m = Panic"
  "map_err h m = Err d \<longleftrightarrow> (\<exists>e. m = Err e \<and> d = h e)"
  by (cases m; auto)+

lemma bind_h_Ok_iff [res_simps]:
  "bind_h m f s = (Ok y, s') \<longleftrightarrow> (\<exists>x s1. m s = (Ok x, s1) \<and> f x s1 = (Ok y, s'))"
  by (auto simp: bind_h_def split: prod.splits res.splits)

lemma bind_h_lift [simp]:
  "bind_h (lift_h (Ok x)) f = f x"
  "bind_h (lift_h (Err e)) f = lift_h (Err e)"
  "bind_h (lift_h Panic) f = lift_h Panic"
  by (auto simp: bind_h_def lift_h_def)

lemma lift_h_iff [res_simps]: "lift_h r s = (q, s') \<longleftrightarrow> r = q \<and> s' = s"
  by (auto simp: lift_h_def)

text \<open>A step whose own state is kept keeps an invariant of the whole handler.\<close>

lemma bind_h_inv:
  assumes "\<And>r s'. m s = (r, s') \<Longrightarrow> P s'"
    and "\<And>x s1 r s'. m s = (Ok x, s1) \<Longrightarrow> f x s1 = (r, s') \<Longrightarrow> P s'"
    and "bind_h m f s = (r, s')"
  shows "P s'"
  using assms by (auto simp: bind_h_def split: prod.splits res.splits)

lemma bind_res_assoc: "bind_res (bind_res m f) g = bind_res m (\<lambda>x. bind_res (f x) g)"
  by (cases m) auto

section \<open>Lemmas on slices\<close>

lemma slice_res_in_range [slice_simps]:
  "a \<le> b \<Longrightarrow> b \<le> length xs \<Longrightarrow> slice_res a b xs = Ok (slice a b xs)"
  by (simp add: slice_res_def)

lemma length_slice [simp]: "b \<le> length xs \<Longrightarrow> length (slice a b xs) = b - a"
  by (simp add: slice_def)

lemma slice_to_end: "slice a (length xs) xs = drop a xs"
  by (simp add: slice_def)

lemma slice_full [slice_simps]: "length xs = b \<Longrightarrow> slice 0 b xs = xs"
  by (simp add: slice_def)

text \<open>A slice of a concatenation that starts behind the first part is a slice of the second.\<close>

lemma slice_append_skip: "length ys \<le> a \<Longrightarrow> slice a b (ys @ xs) = slice (a - length ys) (b - length ys) xs"
  by (simp add: slice_def)

lemma slice_append_fit: "length ys = b \<Longrightarrow> slice 0 b (ys @ xs) = ys"
  by (simp add: slice_def)

section \<open>Lemmas on lists\<close>

lemma set_eq_if_mset_eq: "mset xs = mset ys \<Longrightarrow> set xs = set ys"
  by (metis set_mset_mset)

lemma map_of_AList_update [simp]: "map_of (AList.update k v xs) = (map_of xs)(k \<mapsto> v)"
  by (rule update_conv')

lemma set_AList_update: "set (AList.update k v xs) \<subseteq> insert (k, v) (set xs)"
  by (induction xs) auto

end
