(* ===== verification/GoStd.thy ===== *)
theory GoStd
  imports Prelude
begin

text \<open>
  The parts of Go's standard library that the relay relies on for its own decisions: decimal
  formatting and parsing of unsigned integers (\<open>fmt\<close>'s verb for decimal numbers and
  \<open>strconv.ParseUint(s, 10, 64)\<close>), \<open>strings.ToLower\<close> on ASCII, prefixes and suffixes, and a
  string lookup in a \<open>map[string]string\<close>, which gives the empty string for a missing key.
\<close>

section \<open>Decimal numbers\<close>

definition digit_char :: "nat \<Rightarrow> char" where
  "digit_char d = char_of (48 + d)"

definition is_digit :: "char \<Rightarrow> bool" where
  "is_digit c \<longleftrightarrow> 48 \<le> (of_char c :: nat) \<and> (of_char c :: nat) \<le> 57"

definition digit_val :: "char \<Rightarrow> nat" where
  "digit_val c = of_char c - 48"

fun dec :: "nat \<Rightarrow> string" where
  "dec n = (if n < 10 then [digit_char n] else dec (n div 10) @ [digit_char (n mod 10)])"

declare dec.simps [simp del]

datatype num_error = ErrSyntax | ErrRange

text \<open>
  The loop of \<open>ParseUint\<close>: it stops at the first character that is not a digit (a syntax error) or
  at the first digit that takes the number beyond 64 bits (a range error).
\<close>

fun parse_loop :: "nat \<Rightarrow> string \<Rightarrow> (num_error, nat) res" where
  "parse_loop n [] = Ok n"
| "parse_loop n (c # cs) =
     (if \<not> is_digit c then Err ErrSyntax
      else if 2 ^ 64 \<le> n * 10 + digit_val c then Err ErrRange
      else parse_loop (n * 10 + digit_val c) cs)"

definition ParseUint :: "string \<Rightarrow> (num_error, u64) res" where
  "ParseUint s =
     (if s = [] then Err ErrSyntax
      else bind_res (parse_loop 0 s) (\<lambda>n. Ok (of_nat n)))"

section \<open>Strings\<close>

definition lower_char :: "char \<Rightarrow> char" where
  "lower_char c =
     (if 65 \<le> (of_char c :: nat) \<and> (of_char c :: nat) \<le> 90 then char_of (of_char c + 32 :: nat) else c)"

definition ToLower :: "string \<Rightarrow> string" where
  "ToLower s = map lower_char s"

definition has_prefix :: "'a list \<Rightarrow> 'a list \<Rightarrow> bool" where
  "has_prefix s p \<longleftrightarrow> length p \<le> length s \<and> take (length p) s = p"

definition has_suffix :: "'a list \<Rightarrow> 'a list \<Rightarrow> bool" where
  "has_suffix s p \<longleftrightarrow> length p \<le> length s \<and> drop (length s - length p) s = p"

text \<open>Reading a Go \<open>map[string]string\<close>: the zero value for an absent key.\<close>

definition map_get :: "('k \<rightharpoonup> 'v list) \<Rightarrow> 'k \<Rightarrow> 'v list" where
  "map_get m k = (case m k of None \<Rightarrow> [] | Some v \<Rightarrow> v)"

text \<open>Conversions between strings and byte slices.\<close>

definition string_bytes :: "string \<Rightarrow> bytes" where
  "string_bytes s = map (\<lambda>c. of_nat (of_char c)) s"

definition bytes_string :: "bytes \<Rightarrow> string" where
  "bytes_string bs = map (\<lambda>b. char_of (unat b)) bs"

text \<open>\<open>strings.Contains\<close>.\<close>

fun str_contains :: "'a list \<Rightarrow> 'a list \<Rightarrow> bool" where
  "str_contains [] p \<longleftrightarrow> p = []"
| "str_contains (c # cs) p \<longleftrightarrow> has_prefix (c # cs) p \<or> str_contains cs p"

text \<open>
  Little-endian numbers of \<open>encoding/binary\<close>: \<open>PutUint64\<close> writes \<open>le_bytes 8\<close>, \<open>Uint64\<close> reads \<open>le_val\<close>.
\<close>

fun le_bytes :: "nat \<Rightarrow> nat \<Rightarrow> bytes" where
  "le_bytes 0 n = []"
| "le_bytes (Suc k) n = of_nat (n mod 256) # le_bytes k (n div 256)"

fun le_val :: "bytes \<Rightarrow> nat" where
  "le_val [] = 0"
| "le_val (b # bs) = unat b + 256 * le_val bs"

text \<open>\<open>hex.EncodeToString\<close>.\<close>

definition hex_digit :: "nat \<Rightarrow> char" where
  "hex_digit n = ''0123456789abcdef'' ! n"

definition hex_byte :: "byte \<Rightarrow> string" where
  "hex_byte b = [hex_digit (unat b div 16), hex_digit (unat b mod 16)]"

definition EncodeToString :: "bytes \<Rightarrow> string" where
  "EncodeToString bs = concat (map hex_byte bs)"

section \<open>Errors\<close>

text \<open>
  Error values: \<open>errors.New\<close>, an error wrapped with a message by \<open>fmt.Errorf\<close>, and the errors of
  libraries, known by name only.  \<open>errors_Is\<close> is \<open>errors.Is\<close>: the target is the error or one it wraps.
\<close>

datatype go_error =
  ErrNew string
| Wrap string go_error
| LibErr string
| LibErrFn string string nat nat
| NumErr num_error

fun errors_Is :: "go_error \<Rightarrow> go_error \<Rightarrow> bool" where
  "errors_Is (Wrap m e) target \<longleftrightarrow> Wrap m e = target \<or> errors_Is e target"
| "errors_Is e target \<longleftrightarrow> e = target"

text \<open>
  \<open>err.Error()\<close>.  A wrapped error carries its full message.  \<open>fmt.Errorf("%w: %s", e, f.Error())\<close> is
  \<open>wrap_text e f\<close>: it wraps \<open>e\<close> and keeps \<open>f\<close> as text only.
\<close>

fun error_text :: "go_error \<Rightarrow> string" where
  "error_text (ErrNew s) = s"
| "error_text (Wrap m e) = m"
| "error_text (LibErr s) = s"
| "error_text (LibErrFn s t m n) = s @ '': '' @ t"
| "error_text (NumErr e) = (case e of ErrSyntax \<Rightarrow> ''invalid syntax'' | ErrRange \<Rightarrow> ''value out of range'')"

definition wrap_text :: "go_error \<Rightarrow> go_error \<Rightarrow> go_error" where
  "wrap_text e f = Wrap (error_text e @ '': '' @ error_text f) e"

text \<open>\<open>fmt.Errorf("m: %w", e)\<close>.\<close>

definition wrap_msg :: "string \<Rightarrow> go_error \<Rightarrow> go_error" where
  "wrap_msg m e = Wrap (m @ '': '' @ error_text e) e"

section \<open>Lemmas\<close>

lemma of_char_digit_char: "d < 10 \<Longrightarrow> (of_char (digit_char d) :: nat) = 48 + d"
  by (simp add: digit_char_def)

lemma is_digit_digit_char [simp]: "d < 10 \<Longrightarrow> is_digit (digit_char d)"
  by (simp add: is_digit_def of_char_digit_char)

lemma digit_val_digit_char [simp]: "d < 10 \<Longrightarrow> digit_val (digit_char d) = d"
  by (simp add: digit_val_def of_char_digit_char)

lemma dec_nonempty [simp]: "dec n \<noteq> []"
  by (subst dec.simps) simp

lemma dec_digits: "\<forall>c \<in> set (dec n). is_digit c"
proof (induction n rule: dec.induct)
  case (1 n)
  then show ?case
    by (cases "n < 10") (simp_all add: dec.simps [of n])
qed

lemma parse_loop_append:
  "parse_loop n (xs @ ys) = bind_res (parse_loop n xs) (\<lambda>m. parse_loop m ys)"
  by (induction xs arbitrary: n) auto

lemma parse_loop_dec: "m < 2 ^ 64 \<Longrightarrow> parse_loop 0 (dec m) = Ok m"
proof (induction m rule: dec.induct)
  case (1 m)
  show ?case
  proof (cases "m < 10")
    case True
    then show ?thesis by (simp add: dec.simps [of m])
  next
    case False
    moreover have "m div 10 < 2 ^ 64" using "1.prems" by simp
    ultimately have "parse_loop 0 (dec (m div 10)) = Ok (m div 10)"
      using "1.IH" by simp
    moreover have "m div 10 * 10 + m mod 10 = m" by simp
    ultimately show ?thesis
      using "1.prems" False by (simp add: dec.simps [of m] parse_loop_append)
  qed
qed

lemma ParseUint_dec: "ParseUint (dec (unat w)) = Ok w"
proof -
  have "unat w < 2 ^ 64" using unsigned_less [of w, where 'a = nat] by simp
  then show ?thesis by (simp add: ParseUint_def parse_loop_dec)
qed

lemma dec_inj: "dec (unat v) = dec (unat w) \<Longrightarrow> v = (w :: u64)"
  by (metis ParseUint_dec res.inject)

lemma parse_loop_bound: "parse_loop n s = Ok m \<Longrightarrow> n < 2 ^ 64 \<Longrightarrow> m < 2 ^ 64"
  by (induction n s rule: parse_loop.induct) (auto split: if_splits)

lemma has_suffix_append [simp]: "has_suffix (xs @ ys) ys"
  by (simp add: has_suffix_def)

lemma has_prefix_append [simp]: "has_prefix (xs @ ys) xs"
  by (simp add: has_prefix_def)

lemma has_suffix_iff: "has_suffix s p \<longleftrightarrow> (\<exists>q. s = q @ p)"
proof
  assume "has_suffix s p"
  then have "s = take (length s - length p) s @ p"
    by (metis append_take_drop_id has_suffix_def)
  then show "\<exists>q. s = q @ p" ..
qed auto

lemma has_prefix_iff: "has_prefix s p \<longleftrightarrow> (\<exists>q. s = p @ q)"
proof
  assume "has_prefix s p"
  then have "s = p @ drop (length p) s"
    by (metis append_take_drop_id has_prefix_def)
  then show "\<exists>q. s = p @ q" ..
qed auto

lemma bytes_string_bytes [simp]: "bytes_string (string_bytes s) = s"
proof -
  have "char_of (unat (of_nat (of_char c) :: byte)) = c" for c
    by (simp add: unat_of_nat)
  then show ?thesis
    by (simp add: bytes_string_def string_bytes_def comp_def)
qed

lemma length_string_bytes [simp]: "length (string_bytes s) = length s"
  by (simp add: string_bytes_def)

lemma length_le_bytes [simp]: "length (le_bytes k n) = k"
  by (induction k arbitrary: n) auto

lemma le_val_le_bytes: "n < 256 ^ k \<Longrightarrow> le_val (le_bytes k n) = n"
proof (induction k arbitrary: n)
  case (Suc k)
  have "n div 256 < 256 ^ k"
    using Suc.prems by (simp add: less_mult_imp_div_less mult.commute)
  then show ?case
    using Suc.IH by (simp add: unat_of_nat)
qed simp

lemma hex_digit_inj: "\<lbrakk>hex_digit m = hex_digit n; m < 16; n < 16\<rbrakk> \<Longrightarrow> m = n"
  unfolding hex_digit_def by (subst (asm) nth_eq_iff_index_eq) simp_all

lemma byte_nibbles: "unat (b :: byte) div 16 < 16" "unat b mod 16 < 16"
proof -
  have "unat b < 256"
    using unsigned_less [of b] by simp
  then show "unat b div 16 < 16" "unat b mod 16 < 16"
    by simp_all
qed

lemma hex_byte_inj: "hex_byte b = hex_byte c \<longleftrightarrow> b = c"
proof
  assume "hex_byte b = hex_byte c"
  then have "unat b div 16 = unat c div 16" "unat b mod 16 = unat c mod 16"
    using hex_digit_inj byte_nibbles by (auto simp: hex_byte_def)
  then have "unat b = unat c"
    by (metis div_mult_mod_eq)
  then show "b = c"
    by (rule unsigned_word_eqI)
qed simp

lemma EncodeToString_inj: "EncodeToString xs = EncodeToString ys \<Longrightarrow> xs = ys"
  unfolding EncodeToString_def
proof (induction xs arbitrary: ys)
  case Nil
  then show ?case by (cases ys) (simp_all add: hex_byte_def)
next
  case (Cons x xs)
  then obtain y ys' where ys: "ys = y # ys'"
    by (cases ys) (simp_all add: hex_byte_def)
  have "hex_byte x = hex_byte y \<and> concat (map hex_byte xs) = concat (map hex_byte ys')"
    using Cons.prems by (simp add: ys hex_byte_def [of x] hex_byte_def [of y])
  then show ?case
    using Cons.IH by (simp add: ys hex_byte_inj)
qed

lemma hex_digit_in: "n < 16 \<Longrightarrow> hex_digit n \<in> set ''0123456789abcdef''"
  unfolding hex_digit_def by (intro nth_mem) simp

lemma EncodeToString_chars: "c \<in> set (EncodeToString bs) \<Longrightarrow> c \<in> set ''0123456789abcdef''"
proof -
  assume "c \<in> set (EncodeToString bs)"
  then obtain b where "c \<in> set (hex_byte b)"
    by (auto simp: EncodeToString_def)
  then have "c = hex_digit (unat b div 16) \<or> c = hex_digit (unat b mod 16)"
    by (simp add: hex_byte_def)
  then show ?thesis
    using hex_digit_in [OF byte_nibbles(1) [of b]] hex_digit_in [OF byte_nibbles(2) [of b]] by metis
qed

lemma length_EncodeToString: "length (EncodeToString bs) = 2 * length bs"
  by (induction bs) (simp_all add: EncodeToString_def hex_byte_def)

end
