(* ===== verification/Structs.thy ===== *)
theory Structs
  imports GoStd
begin

text \<open>
  The data model of package \<open>structs\<close> (\<open>structs.go\<close>, \<open>const.go\<close>, \<open>api.go\<close>): slots and epochs, the
  fork schedule, the query arguments of the data API, payload keys, traces and the pieces of the
  beacon state.  The properties are about the fork schedule, which decides the wire format of
  every message the relay handles, and about the request parameters of \<open>GetHeader\<close>.
\<close>

section \<open>Slots and epochs\<close>

type_synonym slot = u64
type_synonym epoch = u64

definition SlotsPerEpoch :: slot where
  "SlotsPerEpoch = 32"

definition NumberOfSlotsInState :: u64 where
  "NumberOfSlotsInState = 2"

text \<open>Durations in milliseconds.\<close>

definition DurationPerSlot :: int where
  "DurationPerSlot = 12000"

definition DurationPerEpoch :: int where
  "DurationPerEpoch = DurationPerSlot * int (unat SlotsPerEpoch)"

definition slot_Epoch :: "slot \<Rightarrow> epoch" where
  "slot_Epoch s = s div SlotsPerEpoch"

text \<open>The index of a slot in the arrays of \<open>NumberOfSlotsInState\<close> entries.\<close>

definition slot_index :: "u64 \<Rightarrow> nat" where
  "slot_index s = unat (s mod NumberOfSlotsInState)"

section \<open>Fork schedule\<close>

datatype fork_version = ForkUnknown | ForkAltair | ForkBellatrix | ForkCapella

fun fork_String :: "fork_version \<Rightarrow> string" where
  "fork_String ForkAltair = ''altair''"
| "fork_String ForkBellatrix = ''bellatrix''"
| "fork_String ForkCapella = ''capella''"
| "fork_String ForkUnknown = ''unknown''"

record fork_state =
  AltairEpoch :: epoch
  BellatrixEpoch :: epoch
  CapellaEpoch :: epoch

definition zero_fork_state :: fork_state where
  "zero_fork_state = \<lparr>AltairEpoch = 0, BellatrixEpoch = 0, CapellaEpoch = 0\<rparr>"

definition IsCapella :: "fork_state \<Rightarrow> slot \<Rightarrow> bool" where
  "IsCapella fs slot \<longleftrightarrow> CapellaEpoch fs > 0 \<and> slot_Epoch slot \<ge> CapellaEpoch fs"

definition IsBellatrix :: "fork_state \<Rightarrow> slot \<Rightarrow> bool" where
  "IsBellatrix fs slot =
     (if CapellaEpoch fs = 0
      then BellatrixEpoch fs > 0 \<and> slot_Epoch slot \<ge> BellatrixEpoch fs
      else BellatrixEpoch fs > 0 \<and> slot_Epoch slot \<ge> BellatrixEpoch fs
           \<and> slot_Epoch slot < CapellaEpoch fs)"

definition IsAltair :: "fork_state \<Rightarrow> slot \<Rightarrow> bool" where
  "IsAltair fs slot \<longleftrightarrow> slot_Epoch slot \<ge> AltairEpoch fs \<and> slot_Epoch slot < BellatrixEpoch fs"

definition fork_Version :: "fork_state \<Rightarrow> slot \<Rightarrow> fork_version" where
  "fork_Version fs slot =
     (if IsCapella fs slot then ForkCapella
      else if IsBellatrix fs slot then ForkBellatrix
      else if IsAltair fs slot then ForkAltair
      else ForkUnknown)"

section \<open>Queries of the data API\<close>

record payload_trace_query =
  ptq_Slot :: slot
  ptq_BlockHash :: hash
  ptq_BlockNum :: u64
  ptq_ProposerPubkey :: pubkey
  ptq_BuilderPubkey :: pubkey
  ptq_Cursor :: u64
  ptq_Limit :: u64
  ptq_OrderByValue :: int

definition ptq_HasSlot :: "payload_trace_query \<Rightarrow> bool" where
  "ptq_HasSlot q \<longleftrightarrow> ptq_Slot q \<noteq> 0"

definition ptq_HasBlockHash :: "payload_trace_query \<Rightarrow> bool" where
  "ptq_HasBlockHash q \<longleftrightarrow> ptq_BlockHash q \<noteq> 0"

definition ptq_HasBlockNum :: "payload_trace_query \<Rightarrow> bool" where
  "ptq_HasBlockNum q \<longleftrightarrow> ptq_BlockNum q \<noteq> 0"

definition ptq_HasPubkey :: "payload_trace_query \<Rightarrow> bool" where
  "ptq_HasPubkey q \<longleftrightarrow> ptq_ProposerPubkey q \<noteq> 0"

record payload_query =
  pq_Slot :: slot
  pq_BlockHash :: hash
  pq_BlockNum :: u64
  pq_PubKey :: pubkey

record submission_trace_query =
  stq_Slot :: slot
  stq_BlockHash :: hash
  stq_BlockNum :: u64
  stq_Limit :: u64
  stq_BuilderPubkey :: pubkey

definition stq_HasSlot :: "submission_trace_query \<Rightarrow> bool" where
  "stq_HasSlot q \<longleftrightarrow> stq_Slot q \<noteq> 0"

definition stq_HasBlockHash :: "submission_trace_query \<Rightarrow> bool" where
  "stq_HasBlockHash q \<longleftrightarrow> stq_BlockHash q \<noteq> 0"

definition stq_HasBlockNum :: "submission_trace_query \<Rightarrow> bool" where
  "stq_HasBlockNum q \<longleftrightarrow> stq_BlockNum q \<noteq> 0"

section \<open>Traces and payload keys\<close>

record bid_trace =
  bt_Slot :: u64
  bt_ParentHash :: hash
  bt_BlockHash :: hash
  bt_BuilderPubkey :: pubkey
  bt_ProposerPubkey :: pubkey
  bt_ProposerFeeRecipient :: address
  bt_GasLimit :: u64
  bt_GasUsed :: u64
  bt_Value :: u256

record bid_trace_extended = bid_trace +
  bte_BlockNumber :: u64
  bte_NumTx :: u64

record bid_trace_with_timestamp = bid_trace_extended +
  btt_Timestamp :: u64
  btt_TimestampMs :: u64

record delivered_trace =
  dt_Trace :: bid_trace_with_timestamp
  dt_BlockNumber :: u64

record payload_key =
  pk_BlockHash :: hash
  pk_Proposer :: pubkey
  pk_Slot :: slot

section \<open>Beacon data\<close>

type_synonym pubkey_hex = string

record validators_state =
  KnownValidatorsByIndex :: "u64 \<rightharpoonup> pubkey_hex"
  KnownValidators :: "pubkey_hex \<rightharpoonup> unit"

record genesis_info =
  GenesisTime :: u64
  GenesisValidatorsRoot :: string
  GenesisForkVersion :: string

record withdrawals_state =
  ws_Slot :: slot
  ws_ParentHash :: hash
  ws_Root :: root

record randao_state =
  rs_Slot :: u64
  rs_ParentHash :: hash
  rs_Randao :: string

definition zero_withdrawals_state :: withdrawals_state where
  "zero_withdrawals_state = \<lparr>ws_Slot = 0, ws_ParentHash = 0, ws_Root = 0\<rparr>"

definition zero_randao_state :: randao_state where
  "zero_randao_state = \<lparr>rs_Slot = 0, rs_ParentHash = 0, rs_Randao = []\<rparr>"

section \<open>Request parameters of GetHeader\<close>

text \<open>
  \<open>HeaderRequest\<close> is the map of path variables.  Decoding a hash or a key from its text is code of
  \<open>go-boost-utils\<close>: the parameters \<open>unmarshal\<close>.
\<close>

type_synonym header_request = "string \<rightharpoonup> string"

definition hr_Slot :: "header_request \<Rightarrow> (num_error, slot) res" where
  "hr_Slot hr = ParseUint (map_get hr ''slot'')"

definition hr_ParentHash :: "(string \<Rightarrow> ('e, hash) res) \<Rightarrow> header_request \<Rightarrow> ('e, hash) res" where
  "hr_ParentHash unmarshal hr = unmarshal (ToLower (map_get hr ''parent_hash''))"

definition hr_Pubkey :: "(string \<Rightarrow> ('e, pubkey) res) \<Rightarrow> header_request \<Rightarrow> (string, pubkey) res" where
  "hr_Pubkey unmarshal hr =
     map_err (\<lambda>_. ''invalid public key'') (unmarshal (ToLower (map_get hr ''pubkey'')))"

section \<open>The fork schedule\<close>

definition schedule_ordered :: "fork_state \<Rightarrow> bool" where
  "schedule_ordered fs \<longleftrightarrow> 0 < BellatrixEpoch fs \<and> AltairEpoch fs \<le> BellatrixEpoch fs
     \<and> (CapellaEpoch fs = 0 \<or> BellatrixEpoch fs \<le> CapellaEpoch fs)"

fun fork_rank :: "fork_version \<Rightarrow> nat" where
  "fork_rank ForkUnknown = 0"
| "fork_rank ForkAltair = 1"
| "fork_rank ForkBellatrix = 2"
| "fork_rank ForkCapella = 3"

lemma slot_index_less [simp]: "slot_index s < 2"
  using mod_less_divisor [of 2 "unat s"]
  by (simp add: slot_index_def NumberOfSlotsInState_def unat_mod)

lemma slot_Epoch_mono: "s \<le> t \<Longrightarrow> slot_Epoch s \<le> slot_Epoch t"
  by (simp add: slot_Epoch_def SlotsPerEpoch_def word_le_nat_alt unat_div div_le_mono)

lemma unat_slot_Epoch: "unat (slot_Epoch s) = unat s div 32"
  by (simp add: slot_Epoch_def SlotsPerEpoch_def unat_div)

lemma IsCapella_not_IsBellatrix: "IsCapella fs s \<Longrightarrow> \<not> IsBellatrix fs s"
  by (auto simp: IsCapella_def IsBellatrix_def)

lemma IsBellatrix_not_IsAltair: "IsBellatrix fs s \<Longrightarrow> \<not> IsAltair fs s"
  by (auto simp: IsAltair_def IsBellatrix_def split: if_splits)

lemma fork_Version_cases:
  "fork_Version fs s = ForkCapella \<longleftrightarrow> IsCapella fs s"
  "fork_Version fs s = ForkBellatrix \<longleftrightarrow> IsBellatrix fs s"
  by (auto simp: fork_Version_def dest: IsCapella_not_IsBellatrix)

text \<open>
  under an ordered schedule (Altair, then Bellatrix, then Capella or no Capella), the fork that
  \<open>Version\<close> reports never goes back as slots advance, and it is known for every slot of the
  Altair epoch or later.
\<close>

theorem fork_Version_monotone:
  assumes "schedule_ordered fs"
  shows "(s \<le> t \<longrightarrow> fork_rank (fork_Version fs s) \<le> fork_rank (fork_Version fs t))
       \<and> (AltairEpoch fs \<le> slot_Epoch s \<longrightarrow> fork_Version fs s \<noteq> ForkUnknown)"
  using assms slot_Epoch_mono [of s t]
  by (simp add: schedule_ordered_def fork_Version_def IsCapella_def IsBellatrix_def IsAltair_def
      word_le_nat_alt word_less_nat_alt unat_eq_0 [symmetric] del: unat_eq_0) linarith

theorem fork_Version_monotone_witness:
  "fork_rank (fork_Version \<lparr>AltairEpoch = 74240, BellatrixEpoch = 144896, CapellaEpoch = 194048\<rparr> 4636672)
     \<le> fork_rank (fork_Version \<lparr>AltairEpoch = 74240, BellatrixEpoch = 144896, CapellaEpoch = 194048\<rparr> 6209536)
   \<and> fork_Version \<lparr>AltairEpoch = 74240, BellatrixEpoch = 144896, CapellaEpoch = 194048\<rparr> 4636672 \<noteq> ForkUnknown"
  using fork_Version_monotone [of "\<lparr>AltairEpoch = 74240, BellatrixEpoch = 144896, CapellaEpoch = 194048\<rparr>" 4636672 6209536]
  by (simp add: schedule_ordered_def slot_Epoch_def SlotsPerEpoch_def)

end
