(* ===== verification/ForkData.thy ===== *)
theory ForkData
  imports Structs
begin

text \<open>
  The data of the two forks the relay speaks (\<open>structs/forks\<close>, \<open>structs/blocks.go\<close>,
  \<open>structs/withdrawals.go\<close>): execution payloads and headers, builder bids, submissions, stored
  blocks and blinded blocks, and the interfaces of \<open>structs\<close> that a Bellatrix and a Capella type
  implement, as sum types with one function per method.

  A pointer that may be nil is an option.  A slice the source compares with nil is an option of a
  list; for every other slice nil and empty are the same value.  Objects of \<open>go-boost-utils\<close> whose
  fields the relay never reads are opaque.
\<close>

section \<open>Payloads and headers\<close>

datatype lib_obj = LibObj bytes

definition nil_list :: "'a list option \<Rightarrow> 'a list" where
  "nil_list s = (case s of None \<Rightarrow> [] | Some xs \<Rightarrow> xs)"

record withdrawal =
  w_Index :: u64
  w_ValidatorIndex :: u64
  w_Address :: address
  w_Amount :: u64

type_synonym withdrawals = "withdrawal option list option"

record exec_payload =
  EpParentHash :: hash
  EpFeeRecipient :: address
  EpStateRoot :: root
  EpReceiptsRoot :: root
  EpLogsBloom :: bloom
  EpRandom :: hash
  EpBlockNumber :: u64
  EpGasLimit :: u64
  EpGasUsed :: u64
  EpTimestamp :: u64
  EpExtraData :: "bytes option"
  EpBaseFeePerGas :: u256
  EpBlockHash :: hash
  EpTransactions :: "bytes list option"

record capella_payload = exec_payload +
  EpWithdrawals :: withdrawals

datatype execution_payload = BellatrixPayload exec_payload | CapellaPayload capella_payload

record exec_header =
  eph_ParentHash :: hash
  eph_FeeRecipient :: address
  eph_StateRoot :: root
  eph_ReceiptsRoot :: root
  eph_LogsBloom :: bloom
  eph_Random :: hash
  eph_BlockNumber :: u64
  eph_GasLimit :: u64
  eph_GasUsed :: u64
  eph_Timestamp :: u64
  eph_ExtraData :: bytes
  eph_BaseFeePerGas :: u256
  eph_BlockHash :: hash
  eph_TransactionsRoot :: root

record capella_header = exec_header +
  eph_WithdrawalsRoot :: root

text \<open>The zero values \<open>new(ExecutionPayloadHeader)\<close> and \<open>new(ExecutionPayload)\<close> of Capella.\<close>

definition zero_capella_header :: capella_header where
  "zero_capella_header =
     \<lparr>eph_ParentHash = 0, eph_FeeRecipient = 0, eph_StateRoot = 0, eph_ReceiptsRoot = 0,
      eph_LogsBloom = 0, eph_Random = 0, eph_BlockNumber = 0, eph_GasLimit = 0, eph_GasUsed = 0,
      eph_Timestamp = 0, eph_ExtraData = [], eph_BaseFeePerGas = 0, eph_BlockHash = 0,
      eph_TransactionsRoot = 0, eph_WithdrawalsRoot = 0\<rparr>"

definition zero_capella_payload :: capella_payload where
  "zero_capella_payload =
     \<lparr>EpParentHash = 0, EpFeeRecipient = 0, EpStateRoot = 0, EpReceiptsRoot = 0, EpLogsBloom = 0,
      EpRandom = 0, EpBlockNumber = 0, EpGasLimit = 0, EpGasUsed = 0, EpTimestamp = 0,
      EpExtraData = None, EpBaseFeePerGas = 0, EpBlockHash = 0, EpTransactions = None,
      EpWithdrawals = None\<rparr>"

text \<open>The payload with empty slices in the place of nil ones.\<close>

definition norm_payload :: "capella_payload \<Rightarrow> capella_payload" where
  "norm_payload p = p\<lparr>EpExtraData := Some (nil_list (EpExtraData p)),
     EpTransactions := Some (nil_list (EpTransactions p)), EpWithdrawals := Some (nil_list (EpWithdrawals p))\<rparr>"

text \<open>A value of the interface \<open>ExecutionPayloadHeader\<close> holds a pointer that may be nil.\<close>

datatype header_ref = BellatrixHeader "exec_header option" | CapellaHeader "capella_header option"

definition deref :: "('a \<Rightarrow> 'b) \<Rightarrow> 'a option \<Rightarrow> ('e, 'b) res" where
  "deref f p = (case p of None \<Rightarrow> Panic | Some x \<Rightarrow> Ok (f x))"

fun GetParentHash :: "header_ref \<Rightarrow> ('e, hash) res" where
  "GetParentHash (BellatrixHeader p) = deref eph_ParentHash p"
| "GetParentHash (CapellaHeader p) = deref eph_ParentHash p"

fun GetBlockHash :: "header_ref \<Rightarrow> ('e, hash) res" where
  "GetBlockHash (BellatrixHeader p) = deref eph_BlockHash p"
| "GetBlockHash (CapellaHeader p) = deref eph_BlockHash p"

fun GetBlockNumber :: "header_ref \<Rightarrow> ('e, u64) res" where
  "GetBlockNumber (BellatrixHeader p) = deref eph_BlockNumber p"
| "GetBlockNumber (CapellaHeader p) = deref eph_BlockNumber p"

section \<open>Bids\<close>

record 'h builder_bid =
  bb_Header :: "'h option"
  bb_Value :: u256
  bb_Pubkey :: pubkey

record 'h builder_bid_extended =
  bx_BuilderBid :: "'h builder_bid"
  bx_Proposer :: pubkey
  bx_Slot :: u64

record bellatrix_signed_bid =
  bsb_Message :: "exec_header builder_bid option"
  bsb_Signature :: signature

record capella_signed_bid =
  csb_Message :: "capella_header builder_bid"
  csb_Signature :: signature

record 'd versioned =
  vr_Version :: string
  vr_Data :: 'd

datatype header_response =
  BellatrixHeaderResponse "bellatrix_signed_bid versioned"
| CapellaHeaderResponse "capella_signed_bid versioned"

datatype payload_response =
  BellatrixPayloadResponse "exec_payload versioned"
| CapellaPayloadResponse "capella_payload versioned"

text \<open>The interface \<open>BuilderBidExtended\<close> and the methods of the \<open>BuilderBid\<close> it returns.\<close>

datatype bid =
  BellatrixBid "exec_header builder_bid_extended"
| CapellaBid "capella_header builder_bid_extended"

fun bid_Slot :: "bid \<Rightarrow> u64" where
  "bid_Slot (BellatrixBid b) = bx_Slot b"
| "bid_Slot (CapellaBid b) = bx_Slot b"

fun bid_Proposer :: "bid \<Rightarrow> pubkey" where
  "bid_Proposer (BellatrixBid b) = bx_Proposer b"
| "bid_Proposer (CapellaBid b) = bx_Proposer b"

fun bid_Value :: "bid \<Rightarrow> u256" where
  "bid_Value (BellatrixBid b) = bb_Value (bx_BuilderBid b)"
| "bid_Value (CapellaBid b) = bb_Value (bx_BuilderBid b)"

fun bid_Pubkey :: "bid \<Rightarrow> pubkey" where
  "bid_Pubkey (BellatrixBid b) = bb_Pubkey (bx_BuilderBid b)"
| "bid_Pubkey (CapellaBid b) = bb_Pubkey (bx_BuilderBid b)"

fun bid_Header :: "bid \<Rightarrow> header_ref" where
  "bid_Header (BellatrixBid b) = BellatrixHeader (bb_Header (bx_BuilderBid b))"
| "bid_Header (CapellaBid b) = CapellaHeader (bb_Header (bx_BuilderBid b))"

text \<open>A Capella bid with the fields an auction looks at, for concrete examples.\<close>

definition capella_bid :: "u64 \<Rightarrow> byte \<Rightarrow> byte \<Rightarrow> byte \<Rightarrow> bid" where
  "capella_bid slot parent builder amount = CapellaBid
     \<lparr>bx_BuilderBid =
        \<lparr>bb_Header = Some (zero_capella_header\<lparr>eph_ParentHash := barr_copy [parent]\<rparr>),
         bb_Value = barr_copy [amount], bb_Pubkey = barr_copy [builder]\<rparr>,
      bx_Proposer = 0, bx_Slot = slot\<rparr>"

lemma capella_bid_sel [simp]:
  "bid_Slot (capella_bid s p b v) = s"
  "bid_Pubkey (capella_bid s p b v) = barr_copy [b]"
  "bid_Value (capella_bid s p b v) = barr_copy [v]"
  "GetParentHash (bid_Header (capella_bid s p b v)) = Ok (barr_copy [p])"
  by (simp_all add: capella_bid_def deref_def)

section \<open>Submissions\<close>

record bellatrix_submit =
  BellatrixRaw :: bytes
  BellatrixSignature :: signature
  BellatrixMessage :: bid_trace
  BellatrixExecutionPayload :: exec_payload

record capella_submit =
  CapellaRaw :: bytes
  CapellaMessage :: bid_trace
  CapellaExecutionPayload :: capella_payload
  CapellaSignature :: signature

datatype submit_request = BellatrixSubmit bellatrix_submit | CapellaSubmit capella_submit

text \<open>The trace and the common part of the payload, which the methods of the interface read.\<close>

fun sr_trace :: "submit_request \<Rightarrow> bid_trace" where
  "sr_trace (BellatrixSubmit s) = BellatrixMessage s"
| "sr_trace (CapellaSubmit s) = CapellaMessage s"

fun sr_Raw :: "submit_request \<Rightarrow> bytes" where
  "sr_Raw (BellatrixSubmit s) = BellatrixRaw s"
| "sr_Raw (CapellaSubmit s) = CapellaRaw s"

definition sr_TraceBlockHash :: "submit_request \<Rightarrow> hash" where
  "sr_TraceBlockHash s = bt_BlockHash (sr_trace s)"

definition sr_TraceParentHash :: "submit_request \<Rightarrow> hash" where
  "sr_TraceParentHash s = bt_ParentHash (sr_trace s)"

definition sr_Slot :: "submit_request \<Rightarrow> u64" where
  "sr_Slot s = bt_Slot (sr_trace s)"

fun sr_BlockHash :: "submit_request \<Rightarrow> hash" where
  "sr_BlockHash (BellatrixSubmit s) = EpBlockHash (BellatrixExecutionPayload s)"
| "sr_BlockHash (CapellaSubmit s) = EpBlockHash (CapellaExecutionPayload s)"

fun sr_ParentHash :: "submit_request \<Rightarrow> hash" where
  "sr_ParentHash (BellatrixSubmit s) = EpParentHash (BellatrixExecutionPayload s)"
| "sr_ParentHash (CapellaSubmit s) = EpParentHash (CapellaExecutionPayload s)"

definition sr_BuilderPubkey :: "submit_request \<Rightarrow> pubkey" where
  "sr_BuilderPubkey s = bt_BuilderPubkey (sr_trace s)"

definition sr_ProposerPubkey :: "submit_request \<Rightarrow> pubkey" where
  "sr_ProposerPubkey s = bt_ProposerPubkey (sr_trace s)"

definition sr_ProposerFeeRecipient :: "submit_request \<Rightarrow> address" where
  "sr_ProposerFeeRecipient s = bt_ProposerFeeRecipient (sr_trace s)"

definition sr_Value :: "submit_request \<Rightarrow> u256" where
  "sr_Value s = bt_Value (sr_trace s)"

fun sr_Signature :: "submit_request \<Rightarrow> signature" where
  "sr_Signature (BellatrixSubmit s) = BellatrixSignature s"
| "sr_Signature (CapellaSubmit s) = CapellaSignature s"

fun sr_Timestamp :: "submit_request \<Rightarrow> u64" where
  "sr_Timestamp (BellatrixSubmit s) = EpTimestamp (BellatrixExecutionPayload s)"
| "sr_Timestamp (CapellaSubmit s) = EpTimestamp (CapellaExecutionPayload s)"

fun sr_Random :: "submit_request \<Rightarrow> hash" where
  "sr_Random (BellatrixSubmit s) = EpRandom (BellatrixExecutionPayload s)"
| "sr_Random (CapellaSubmit s) = EpRandom (CapellaExecutionPayload s)"

definition num_tx :: "bytes list option \<Rightarrow> u64" where
  "num_tx txs = of_nat (length (nil_list txs))"

fun sr_NumTx :: "submit_request \<Rightarrow> u64" where
  "sr_NumTx (BellatrixSubmit s) =
     (if EpTransactions (BellatrixExecutionPayload s) = None then 0
      else num_tx (EpTransactions (BellatrixExecutionPayload s)))"
| "sr_NumTx (CapellaSubmit s) =
     (if EpTransactions (CapellaExecutionPayload s) = None then 0
      else num_tx (EpTransactions (CapellaExecutionPayload s)))"

fun sr_Withdrawals :: "submit_request \<Rightarrow> withdrawals" where
  "sr_Withdrawals (BellatrixSubmit s) = None"
| "sr_Withdrawals (CapellaSubmit s) = EpWithdrawals (CapellaExecutionPayload s)"

definition sr_ToPayloadKey :: "submit_request \<Rightarrow> payload_key" where
  "sr_ToPayloadKey s =
     \<lparr>pk_BlockHash = bt_BlockHash (sr_trace s), pk_Proposer = bt_ProposerPubkey (sr_trace s),
      pk_Slot = bt_Slot (sr_trace s)\<rparr>"

section \<open>Stored blocks\<close>

record boost_signed_bid_trace =
  bst_Message :: "bid_trace option"
  bst_Signature :: signature

record bellatrix_block =
  bbat_Trace :: "boost_signed_bid_trace option"
  bbat_Bid :: "bellatrix_signed_bid versioned"
  bbat_Payload :: "exec_payload versioned"

record signed_bid_trace =
  sbt_Signature :: signature
  sbt_Message :: bid_trace

record capella_block =
  cbt_Payload :: "capella_payload versioned"
  cbt_Trace :: signed_bid_trace
  cbt_ExecutionHeaderHash :: hash

text \<open>The interface \<open>BlockAndTraceExtended\<close>.\<close>

datatype block_and_trace = BellatrixBT bellatrix_block | CapellaBT capella_block

fun bellatrix_trace :: "bellatrix_block \<Rightarrow> bid_trace option" where
  "bellatrix_trace b = Option.bind (bbat_Trace b) bst_Message"

fun bat_BidValue :: "block_and_trace \<Rightarrow> ('e, u256) res" where
  "bat_BidValue (BellatrixBT b) = deref bb_Value (bsb_Message (vr_Data (bbat_Bid b)))"
| "bat_BidValue (CapellaBT b) = Ok (bt_Value (sbt_Message (cbt_Trace b)))"

fun bat_Slot :: "block_and_trace \<Rightarrow> ('e, u64) res" where
  "bat_Slot (BellatrixBT b) = deref bt_Slot (bellatrix_trace b)"
| "bat_Slot (CapellaBT b) = Ok (bt_Slot (sbt_Message (cbt_Trace b)))"

fun bat_Proposer :: "block_and_trace \<Rightarrow> ('e, pubkey) res" where
  "bat_Proposer (BellatrixBT b) = deref bt_ProposerPubkey (bellatrix_trace b)"
| "bat_Proposer (CapellaBT b) = Ok (bt_ProposerPubkey (sbt_Message (cbt_Trace b)))"

fun bat_ExecutionPayload :: "block_and_trace \<Rightarrow> execution_payload" where
  "bat_ExecutionPayload (BellatrixBT b) = BellatrixPayload (vr_Data (bbat_Payload b))"
| "bat_ExecutionPayload (CapellaBT b) = CapellaPayload (vr_Data (cbt_Payload b))"

fun bat_BuilderPubkey :: "block_and_trace \<Rightarrow> pubkey" where
  "bat_BuilderPubkey (BellatrixBT b) =
     (case bellatrix_trace b of None \<Rightarrow> 0 | Some t \<Rightarrow> bt_BuilderPubkey t)"
| "bat_BuilderPubkey (CapellaBT b) = bt_BuilderPubkey (sbt_Message (cbt_Trace b))"

text \<open>
  \<open>ToDeliveredTrace\<close>: hashes, gas and the block number come from the payload, the parties and the
  value from the signed trace, the slot from the caller.
\<close>

definition delivered_of :: "bid_trace \<Rightarrow> ('a exec_payload_scheme) \<Rightarrow> u64 \<Rightarrow> delivered_trace" where
  "delivered_of t p slot =
     \<lparr>dt_Trace =
        \<lparr>bt_Slot = slot, bt_ParentHash = EpParentHash p, bt_BlockHash = EpBlockHash p,
         bt_BuilderPubkey = bt_BuilderPubkey t, bt_ProposerPubkey = bt_ProposerPubkey t,
         bt_ProposerFeeRecipient = bt_ProposerFeeRecipient t,
         bt_GasLimit = EpGasLimit p, bt_GasUsed = EpGasUsed p, bt_Value = bt_Value t,
         bte_BlockNumber = EpBlockNumber p, bte_NumTx = num_tx (EpTransactions p),
         btt_Timestamp = EpTimestamp p, btt_TimestampMs = 0\<rparr>,
      dt_BlockNumber = EpBlockNumber p\<rparr>"

fun ToDeliveredTrace :: "block_and_trace \<Rightarrow> u64 \<Rightarrow> (go_error, delivered_trace) res" where
  "ToDeliveredTrace (BellatrixBT b) slot =
     (case bellatrix_trace b of
        None \<Rightarrow> Err (ErrNew ''empty trace contents'')
      | Some t \<Rightarrow> Ok (delivered_of t (vr_Data (bbat_Payload b)) slot))"
| "ToDeliveredTrace (CapellaBT b) slot =
     Ok (delivered_of (sbt_Message (cbt_Trace b)) (vr_Data (cbt_Payload b)) slot)"

section \<open>Blinded and full beacon blocks\<close>

record bls_change =
  bls_ValidatorIndex :: u64
  bls_FromBLSPubkey :: pubkey
  bls_ToExecutionAddress :: address

definition zero_bls_change :: bls_change where
  "zero_bls_change = \<lparr>bls_ValidatorIndex = 0, bls_FromBLSPubkey = 0, bls_ToExecutionAddress = 0\<rparr>"

record signed_bls_change =
  sbls_Message :: "bls_change option"
  sbls_Signature :: signature

record body_common =
  RandaoReveal :: signature
  Eth1Data :: "lib_obj option"
  Graffiti :: hash
  ProposerSlashings :: "lib_obj list option"
  AttesterSlashings :: "lib_obj list option"
  Attestations :: "lib_obj list option"
  Deposits :: "lib_obj list option"
  VoluntaryExits :: "lib_obj list option"
  SyncAggregate :: "lib_obj option"

record bellatrix_blinded_body = body_common +
  bbb_ExecutionPayloadHeader :: "exec_header option"

record capella_blinded_body = body_common +
  cbb_ExecutionPayloadHeader :: "capella_header option"
  cbb_BLSToExecutionChanges :: "signed_bls_change option list"

record bellatrix_body = body_common +
  bb_ExecutionPayload :: "exec_payload option"

record capella_body = body_common +
  cb_BLSToExecutionChanges :: "signed_bls_change option list"
  cb_ExecutionPayload :: "capella_payload option"

record 'b beacon_block =
  bl_Slot :: u64
  bl_ProposerIndex :: u64
  bl_ParentRoot :: root
  bl_StateRoot :: root
  bl_Body :: "'b option"

record 'b signed_blinded =
  SRaw :: bytes
  SMessage :: "'b beacon_block"
  SSignature :: signature

record 'b signed_block =
  sbl_Message :: "'b beacon_block option"
  sbl_Signature :: signature

datatype blinded_block =
  BellatrixBlinded "bellatrix_blinded_body signed_blinded"
| CapellaBlinded "capella_blinded_body signed_blinded"

datatype signed_beacon_block =
  BellatrixBeacon "bellatrix_body signed_block"
| CapellaBeacon "capella_body signed_block"

text \<open>
  The header behind \<open>SMessage.Body.ExecutionPayloadHeader\<close>, absent when the body or the header
  is nil.
\<close>

fun bellatrix_blinded_header :: "bellatrix_blinded_body signed_blinded \<Rightarrow> exec_header option" where
  "bellatrix_blinded_header b = Option.bind (bl_Body (SMessage b)) bbb_ExecutionPayloadHeader"

fun capella_blinded_header :: "capella_blinded_body signed_blinded \<Rightarrow> capella_header option" where
  "capella_blinded_header b = Option.bind (bl_Body (SMessage b)) cbb_ExecutionPayloadHeader"

fun blk_Slot :: "blinded_block \<Rightarrow> u64" where
  "blk_Slot (BellatrixBlinded b) = bl_Slot (SMessage b)"
| "blk_Slot (CapellaBlinded b) = bl_Slot (SMessage b)"

fun blk_ProposerIndex :: "blinded_block \<Rightarrow> u64" where
  "blk_ProposerIndex (BellatrixBlinded b) = bl_ProposerIndex (SMessage b)"
| "blk_ProposerIndex (CapellaBlinded b) = bl_ProposerIndex (SMessage b)"

fun blk_Signature :: "blinded_block \<Rightarrow> signature" where
  "blk_Signature (BellatrixBlinded b) = SSignature b"
| "blk_Signature (CapellaBlinded b) = SSignature b"

fun blk_Validate :: "blinded_block \<Rightarrow> bool" where
  "blk_Validate (BellatrixBlinded b) \<longleftrightarrow> bellatrix_blinded_header b \<noteq> None"
| "blk_Validate (CapellaBlinded b) \<longleftrightarrow> capella_blinded_header b \<noteq> None"

fun blk_BlockHash :: "blinded_block \<Rightarrow> hash" where
  "blk_BlockHash (BellatrixBlinded b) =
     (case bellatrix_blinded_header b of None \<Rightarrow> 0 | Some h \<Rightarrow> eph_BlockHash h)"
| "blk_BlockHash (CapellaBlinded b) =
     (case capella_blinded_header b of None \<Rightarrow> 0 | Some h \<Rightarrow> eph_BlockHash h)"

fun blk_BlockNumber :: "blinded_block \<Rightarrow> u64" where
  "blk_BlockNumber (BellatrixBlinded b) =
     (case bellatrix_blinded_header b of None \<Rightarrow> 0 | Some h \<Rightarrow> eph_BlockNumber h)"
| "blk_BlockNumber (CapellaBlinded b) =
     (case capella_blinded_header b of None \<Rightarrow> 0 | Some h \<Rightarrow> eph_BlockNumber h)"

fun blk_ToPayloadKey :: "blinded_block \<Rightarrow> pubkey \<Rightarrow> (go_error, payload_key) res" where
  "blk_ToPayloadKey (BellatrixBlinded b) pk =
     (case bellatrix_blinded_header b of
        None \<Rightarrow> Err (ErrNew ''wrong payload key'')
      | Some h \<Rightarrow> Ok \<lparr>pk_BlockHash = eph_BlockHash h, pk_Proposer = pk, pk_Slot = bl_Slot (SMessage b)\<rparr>)"
| "blk_ToPayloadKey (CapellaBlinded b) pk =
     (case capella_blinded_header b of
        None \<Rightarrow> Err (ErrNew ''wrong payload key'')
      | Some h \<Rightarrow> Ok \<lparr>pk_BlockHash = eph_BlockHash h, pk_Proposer = pk, pk_Slot = bl_Slot (SMessage b)\<rparr>)"

section \<open>Unblinding\<close>

text \<open>
  \<open>ToBeaconBlock\<close> puts the payload in the place of the header.  The zero values \<open>&types.Eth1Data{}\<close>
  and \<open>&types.SyncAggregate{}\<close> are parameters.
\<close>

definition empty_slice :: "'a list option \<Rightarrow> 'a list option" where
  "empty_slice s = Some (nil_list s)"

definition or_new :: "'a \<Rightarrow> 'a option \<Rightarrow> 'a option" where
  "or_new z p = (case p of None \<Rightarrow> Some z | Some x \<Rightarrow> Some x)"

definition zero_body_common :: body_common where
  "zero_body_common =
     \<lparr>RandaoReveal = 0, Eth1Data = None, Graffiti = 0, ProposerSlashings = None,
      AttesterSlashings = None, Attestations = None, Deposits = None, VoluntaryExits = None,
      SyncAggregate = None\<rparr>"

definition fill_payload :: "('a exec_payload_scheme) \<Rightarrow> ('a exec_payload_scheme)" where
  "fill_payload ep = ep\<lparr>EpExtraData := empty_slice (EpExtraData ep),
                        EpTransactions := empty_slice (EpTransactions ep)\<rparr>"

fun bellatrix_ToBeaconBlock ::
  "lib_obj \<Rightarrow> lib_obj \<Rightarrow> bellatrix_blinded_body signed_blinded \<Rightarrow> execution_payload
     \<Rightarrow> (go_error, signed_beacon_block) res" where
  "bellatrix_ToBeaconBlock eth1 sync s (CapellaPayload _) = Err (ErrNew ''ExecutionPayload is not bellatrix'')"
| "bellatrix_ToBeaconBlock eth1 sync s (BellatrixPayload ep) =
     (let body = (case bl_Body (SMessage s) of
                    None \<Rightarrow> body_common.extend zero_body_common
                              (bellatrix_blinded_body.fields None)
                  | Some b \<Rightarrow> b)
      in Ok (BellatrixBeacon
        \<lparr>sbl_Message = Some
           \<lparr>bl_Slot = bl_Slot (SMessage s), bl_ProposerIndex = bl_ProposerIndex (SMessage s),
            bl_ParentRoot = bl_ParentRoot (SMessage s), bl_StateRoot = bl_StateRoot (SMessage s),
            bl_Body = Some
              \<lparr>RandaoReveal = RandaoReveal body, Eth1Data = or_new eth1 (Eth1Data body),
               Graffiti = Graffiti body,
               ProposerSlashings = empty_slice (ProposerSlashings body),
               AttesterSlashings = empty_slice (AttesterSlashings body),
               Attestations = empty_slice (Attestations body),
               Deposits = empty_slice (Deposits body),
               VoluntaryExits = empty_slice (VoluntaryExits body),
               SyncAggregate = or_new sync (SyncAggregate body),
               bb_ExecutionPayload = Some (fill_payload ep)\<rparr>\<rparr>,
         sbl_Signature = SSignature s\<rparr>))"

fun capella_ToBeaconBlock ::
  "lib_obj \<Rightarrow> lib_obj \<Rightarrow> capella_blinded_body signed_blinded \<Rightarrow> execution_payload
     \<Rightarrow> (go_error, signed_beacon_block) res" where
  "capella_ToBeaconBlock eth1 sync s (BellatrixPayload _) = Err (ErrNew ''ExecutionPayload is not Capella'')"
| "capella_ToBeaconBlock eth1 sync s (CapellaPayload ep) =
     (let body = (case bl_Body (SMessage s) of
                    None \<Rightarrow> body_common.extend zero_body_common
                              (capella_blinded_body.fields None [])
                  | Some b \<Rightarrow> b)
      in Ok (CapellaBeacon
        \<lparr>sbl_Message = Some
           \<lparr>bl_Slot = bl_Slot (SMessage s), bl_ProposerIndex = bl_ProposerIndex (SMessage s),
            bl_ParentRoot = bl_ParentRoot (SMessage s), bl_StateRoot = bl_StateRoot (SMessage s),
            bl_Body = Some
              \<lparr>RandaoReveal = RandaoReveal body, Eth1Data = or_new eth1 (Eth1Data body),
               Graffiti = Graffiti body,
               ProposerSlashings = empty_slice (ProposerSlashings body),
               AttesterSlashings = empty_slice (AttesterSlashings body),
               Attestations = empty_slice (Attestations body),
               Deposits = empty_slice (Deposits body),
               VoluntaryExits = empty_slice (VoluntaryExits body),
               SyncAggregate = or_new sync (SyncAggregate body),
               cb_BLSToExecutionChanges = cbb_BLSToExecutionChanges body,
               cb_ExecutionPayload = Some (fill_payload ep)\<rparr>\<rparr>,
         sbl_Signature = SSignature s\<rparr>))"

fun ToBeaconBlock ::
  "lib_obj \<Rightarrow> lib_obj \<Rightarrow> blinded_block \<Rightarrow> execution_payload \<Rightarrow> (go_error, signed_beacon_block) res" where
  "ToBeaconBlock eth1 sync (BellatrixBlinded s) p = bellatrix_ToBeaconBlock eth1 sync s p"
| "ToBeaconBlock eth1 sync (CapellaBlinded s) p = capella_ToBeaconBlock eth1 sync s p"

end
