(* ===== verification/HashWalk.thy ===== *)
theory HashWalk
  imports ForkData
begin

text \<open>
  Hash tree roots (the \<open>HashTreeRootWith\<close> methods of \<open>structs/withdrawals.go\<close> and
  \<open>structs/forks/capella/capella.go\<close>).  The methods drive a \<open>HashWalker\<close> of the library \<open>fastssz\<close>.
  The model keeps what they tell it: the tree of calls, where \<open>Merkleize xs\<close> stands for the calls
  \<open>xs\<close> between \<open>indx := hh.Index()\<close> and \<open>hh.Merkleize(indx)\<close>.  What the library computes from the
  calls is the parameter \<open>hasher\<close>, and the calls made by objects of \<open>go-boost-utils\<close> are the
  parameter \<open>lib_walk\<close>.

  The lemmas show that the calls determine the object, so a signed root commits to every field, and
  that the header the relay derives from a payload makes the calls of the payload with the lists
  replaced by their roots.
\<close>

section \<open>Calls to the hash walker\<close>

datatype walk =
  PutBytes bytes
| PutUint64 u64
| AppendBytes32 bytes
| Merkleize "walk list"
| MerkleizeWithMixin "walk list" u64 u64

type_synonym walker = "(go_error, walk list) res"

abbreviation ErrIncorrectListSize :: go_error where
  "ErrIncorrectListSize \<equiv> LibErr ''ssz.ErrIncorrectListSize''"

definition HashWithDefaultHasher :: "(walk list \<Rightarrow> (go_error, root) res) \<Rightarrow> walker \<Rightarrow> (go_error, root) res" where
  "HashWithDefaultHasher hasher w = bind_res w hasher"

text \<open>A list field: its size is checked, then every element is walked, then the length is mixed in.\<close>

fun walk_all :: "('a \<Rightarrow> walker) \<Rightarrow> 'a list \<Rightarrow> walker" where
  "walk_all f [] = Ok []"
| "walk_all f (x # xs) = bind_res (f x) (\<lambda>w. bind_res (walk_all f xs) (\<lambda>ws. Ok (w @ ws)))"

definition walk_list :: "nat \<Rightarrow> ('a \<Rightarrow> walker) \<Rightarrow> 'a list \<Rightarrow> walker" where
  "walk_list limit f xs =
     (if length xs > limit then Err ErrIncorrectListSize
      else bind_res (walk_all f xs) (\<lambda>ws.
        Ok [MerkleizeWithMixin ws (of_nat (length xs)) (of_nat limit)]))"

definition container :: "walk list \<Rightarrow> walk list" where
  "container ws = [Merkleize ws]"

section \<open>Withdrawals\<close>

definition withdrawal_walk :: "withdrawal \<Rightarrow> walk list" where
  "withdrawal_walk w = container
     [PutUint64 (w_Index w), PutUint64 (w_ValidatorIndex w), PutBytes (barr_list (w_Address w)),
      PutUint64 (w_Amount w)]"

definition withdrawal_ptr_walk :: "withdrawal option \<Rightarrow> walker" where
  "withdrawal_ptr_walk p = deref withdrawal_walk p"

definition HashWithdrawals_walk :: "withdrawals \<Rightarrow> walker" where
  "HashWithdrawals_walk ws =
     bind_res (walk_list 16 withdrawal_ptr_walk (nil_list ws)) (\<lambda>w. Ok (container w))"

definition HashWithdrawals_root :: "(walk list \<Rightarrow> (go_error, root) res) \<Rightarrow> withdrawals \<Rightarrow> (go_error, root) res" where
  "HashWithdrawals_root hasher ws = HashWithDefaultHasher hasher (HashWithdrawals_walk ws)"

section \<open>Headers and payloads\<close>

definition bytes_field :: "nat \<Rightarrow> bytes \<Rightarrow> walker" where
  "bytes_field limit xs =
     (if length xs > limit then Err ErrIncorrectListSize
      else Ok [MerkleizeWithMixin [PutBytes xs] (of_nat (length xs)) (of_nat ((limit + 31) div 32))])"

definition capella_header_walk :: "capella_header \<Rightarrow> walker" where
  "capella_header_walk e =
     bind_res (bytes_field 32 (eph_ExtraData e)) (\<lambda>extra.
       Ok (container
         ([PutBytes (barr_list (eph_ParentHash e)), PutBytes (barr_list (eph_FeeRecipient e)),
           PutBytes (barr_list (eph_StateRoot e)), PutBytes (barr_list (eph_ReceiptsRoot e)),
           PutBytes (barr_list (eph_LogsBloom e)), PutBytes (barr_list (eph_Random e)),
           PutUint64 (eph_BlockNumber e), PutUint64 (eph_GasLimit e), PutUint64 (eph_GasUsed e),
           PutUint64 (eph_Timestamp e)]
          @ extra @
          [PutBytes (barr_list (eph_BaseFeePerGas e)), PutBytes (barr_list (eph_BlockHash e)),
           PutBytes (barr_list (eph_TransactionsRoot e)), PutBytes (barr_list (eph_WithdrawalsRoot e))])))"

definition transaction_walk :: "bytes \<Rightarrow> walker" where
  "transaction_walk tx =
     (if length tx > 1073741824 then Err ErrIncorrectListSize
      else Ok [MerkleizeWithMixin [AppendBytes32 tx] (of_nat (length tx)) (of_nat ((1073741824 + 31) div 32))])"

definition capella_payload_walk :: "capella_payload \<Rightarrow> walker" where
  "capella_payload_walk e =
     bind_res (bytes_field 32 (nil_list (EpExtraData e))) (\<lambda>extra.
     bind_res (walk_list 1048576 transaction_walk (nil_list (EpTransactions e))) (\<lambda>txs.
     bind_res (walk_list 16 withdrawal_ptr_walk (nil_list (EpWithdrawals e))) (\<lambda>ws.
       Ok (container
         ([PutBytes (barr_list (EpParentHash e)), PutBytes (barr_list (EpFeeRecipient e)),
           PutBytes (barr_list (EpStateRoot e)), PutBytes (barr_list (EpReceiptsRoot e)),
           PutBytes (barr_list (EpLogsBloom e)), PutBytes (barr_list (EpRandom e)),
           PutUint64 (EpBlockNumber e), PutUint64 (EpGasLimit e), PutUint64 (EpGasUsed e),
           PutUint64 (EpTimestamp e)]
          @ extra @
          [PutBytes (barr_list (EpBaseFeePerGas e)), PutBytes (barr_list (EpBlockHash e))]
          @ txs @ ws)))))"

section \<open>Bids\<close>

definition capella_bid_walk :: "capella_header builder_bid \<Rightarrow> walker" where
  "capella_bid_walk b =
     (case bb_Header b of
        None \<Rightarrow> Err (ErrNew ''empty bid header'')
      | Some h \<Rightarrow> bind_res (capella_header_walk h) (\<lambda>hw.
          Ok (container (hw @ [PutBytes (barr_list (bb_Value b)), PutBytes (barr_list (bb_Pubkey b))]))))"

definition capella_bid_extended_walk :: "capella_header builder_bid_extended \<Rightarrow> walker" where
  "capella_bid_extended_walk b =
     bind_res (capella_bid_walk (bx_BuilderBid b)) (\<lambda>bw.
       Ok (container (bw @ [PutBytes (barr_list (bx_Proposer b)), PutUint64 (bx_Slot b)])))"

definition capella_signed_bid_walk :: "capella_signed_bid \<Rightarrow> walker" where
  "capella_signed_bid_walk s =
     bind_res (capella_bid_walk (csb_Message s)) (\<lambda>bw.
       Ok (container (bw @ [PutBytes (barr_list (csb_Signature s))])))"

text \<open>
  The Bellatrix header embeds the header of \<open>go-boost-utils\<close>, which walks itself (\<open>header_walk\<close>).
\<close>

definition bellatrix_bid_walk :: "(exec_header \<Rightarrow> walker) \<Rightarrow> exec_header builder_bid \<Rightarrow> walker" where
  "bellatrix_bid_walk header_walk b =
     (case bb_Header b of
        None \<Rightarrow> Panic
      | Some h \<Rightarrow> bind_res (header_walk h) (\<lambda>hw.
          Ok (container (hw @ [PutBytes (barr_list (bb_Value b)), PutBytes (barr_list (bb_Pubkey b))]))))"

section \<open>Blinded blocks\<close>

definition bls_change_walk :: "bls_change \<Rightarrow> walk list" where
  "bls_change_walk b = container
     [PutUint64 (bls_ValidatorIndex b), PutBytes (barr_list (bls_FromBLSPubkey b)),
      PutBytes (barr_list (bls_ToExecutionAddress b))]"

definition signed_bls_change_walk :: "signed_bls_change \<Rightarrow> walk list" where
  "signed_bls_change_walk s = container
     (bls_change_walk (case sbls_Message s of None \<Rightarrow> zero_bls_change | Some m \<Rightarrow> m)
      @ [PutBytes (barr_list (sbls_Signature s))])"

definition signed_bls_ptr_walk :: "signed_bls_change option \<Rightarrow> walker" where
  "signed_bls_ptr_walk p = deref signed_bls_change_walk p"

text \<open>\<open>lib_walk None\<close> is what the library does on a nil receiver.\<close>

definition capella_blinded_body_walk :: "(lib_obj option \<Rightarrow> walker) \<Rightarrow> capella_blinded_body \<Rightarrow> walker" where
  "capella_blinded_body_walk lib_walk b =
     bind_res (lib_walk (Eth1Data b)) (\<lambda>eth1.
     bind_res (walk_list 16 (\<lambda>x. lib_walk (Some x)) (nil_list (ProposerSlashings b))) (\<lambda>ps.
     bind_res (walk_list 2 (\<lambda>x. lib_walk (Some x)) (nil_list (AttesterSlashings b))) (\<lambda>asl.
     bind_res (walk_list 128 (\<lambda>x. lib_walk (Some x)) (nil_list (Attestations b))) (\<lambda>att.
     bind_res (walk_list 16 (\<lambda>x. lib_walk (Some x)) (nil_list (Deposits b))) (\<lambda>dep.
     bind_res (walk_list 16 (\<lambda>x. lib_walk (Some x)) (nil_list (VoluntaryExits b))) (\<lambda>ve.
     bind_res (lib_walk (SyncAggregate b)) (\<lambda>sync.
     bind_res (case cbb_ExecutionPayloadHeader b of None \<Rightarrow> Panic | Some h \<Rightarrow> capella_header_walk h) (\<lambda>hdr.
     bind_res (walk_list 16 signed_bls_ptr_walk (cbb_BLSToExecutionChanges b)) (\<lambda>bls.
       Ok (container
         ([PutBytes (barr_list (RandaoReveal b))] @ eth1 @ [PutBytes (barr_list (Graffiti b))]
          @ ps @ asl @ att @ dep @ ve @ sync @ hdr @ bls)))))))))))"

definition capella_blinded_block_walk ::
  "(lib_obj option \<Rightarrow> walker) \<Rightarrow> capella_blinded_body beacon_block \<Rightarrow> walker" where
  "capella_blinded_block_walk lib_walk b =
     (case bl_Body b of
        None \<Rightarrow> Panic
      | Some body \<Rightarrow> bind_res (capella_blinded_body_walk lib_walk body) (\<lambda>bw.
          Ok (container
            ([PutUint64 (bl_Slot b), PutUint64 (bl_ProposerIndex b), PutBytes (barr_list (bl_ParentRoot b)),
              PutBytes (barr_list (bl_StateRoot b))] @ bw))))"

section \<open>From payload to header\<close>

text \<open>
  \<open>TxRoot\<close> is \<open>types.Transactions.HashTreeRoot\<close>.  A nil withdrawal list gives the zero root.
\<close>

definition bellatrix_PayloadToPayloadHeader ::
  "(bytes list \<Rightarrow> (go_error, root) res) \<Rightarrow> exec_payload \<Rightarrow> (go_error, exec_header) res" where
  "bellatrix_PayloadToPayloadHeader TxRoot p =
     bind_res (TxRoot (nil_list (EpTransactions p))) (\<lambda>txroot.
       Ok \<lparr>eph_ParentHash = EpParentHash p, eph_FeeRecipient = EpFeeRecipient p,
           eph_StateRoot = EpStateRoot p, eph_ReceiptsRoot = EpReceiptsRoot p,
           eph_LogsBloom = EpLogsBloom p, eph_Random = EpRandom p, eph_BlockNumber = EpBlockNumber p,
           eph_GasLimit = EpGasLimit p, eph_GasUsed = EpGasUsed p, eph_Timestamp = EpTimestamp p,
           eph_ExtraData = nil_list (EpExtraData p), eph_BaseFeePerGas = EpBaseFeePerGas p,
           eph_BlockHash = EpBlockHash p, eph_TransactionsRoot = txroot\<rparr>)"

definition capella_PayloadToPayloadHeader ::
  "(bytes list \<Rightarrow> (go_error, root) res) \<Rightarrow> (walk list \<Rightarrow> (go_error, root) res) \<Rightarrow> capella_payload
     \<Rightarrow> (go_error, capella_header) res" where
  "capella_PayloadToPayloadHeader TxRoot hasher p =
     bind_res (TxRoot (nil_list (EpTransactions p))) (\<lambda>txroot.
     bind_res (if EpWithdrawals p = None then Ok 0 else HashWithdrawals_root hasher (EpWithdrawals p)) (\<lambda>wroot.
       Ok \<lparr>eph_ParentHash = EpParentHash p, eph_FeeRecipient = EpFeeRecipient p,
           eph_StateRoot = EpStateRoot p, eph_ReceiptsRoot = EpReceiptsRoot p,
           eph_LogsBloom = EpLogsBloom p, eph_Random = EpRandom p, eph_BlockNumber = EpBlockNumber p,
           eph_GasLimit = EpGasLimit p, eph_GasUsed = EpGasUsed p, eph_Timestamp = EpTimestamp p,
           eph_ExtraData = nil_list (EpExtraData p), eph_BaseFeePerGas = EpBaseFeePerGas p,
           eph_BlockHash = EpBlockHash p, eph_TransactionsRoot = txroot, eph_WithdrawalsRoot = wroot\<rparr>))"

section \<open>Lemmas\<close>

text \<open>A walk over a list determines the list if each element makes one call that determines it.\<close>

definition one_call :: "('a \<Rightarrow> walker) \<Rightarrow> bool" where
  "one_call f \<longleftrightarrow> (\<forall>x w. f x = Ok w \<longrightarrow> length w = 1) \<and> (\<forall>x y w. f x = Ok w \<longrightarrow> f y = Ok w \<longrightarrow> x = y)"

lemma length_walk_all: "one_call f \<Longrightarrow> walk_all f xs = Ok ws \<Longrightarrow> length ws = length xs"
  by (induction xs arbitrary: ws) (auto simp: bind_res_Ok_iff one_call_def)

lemma walk_all_inj:
  assumes "one_call f"
  shows "walk_all f xs = Ok ws \<Longrightarrow> walk_all f ys = Ok ws \<Longrightarrow> xs = ys"
proof (induction xs arbitrary: ys ws)
  case Nil
  then show ?case using length_walk_all [OF assms, of ys] by auto
next
  case (Cons x xs)
  then obtain y ys' where ys: "ys = y # ys'"
    using length_walk_all [OF assms] by (metis length_0_conv list.exhaust list.distinct(1))
  obtain v vs where x: "f x = Ok v" "walk_all f xs = Ok vs" "ws = v @ vs"
    using Cons.prems(1) by (auto simp: bind_res_Ok_iff)
  obtain u us where y: "f y = Ok u" "walk_all f ys' = Ok us" "ws = u @ us"
    using Cons.prems(2) ys by (auto simp: bind_res_Ok_iff)
  have "length v = length u"
    using assms x(1) y(1) by (simp add: one_call_def)
  then have "v = u" "vs = us"
    using x(3) y(3) by auto
  then show ?case
    using assms x y Cons.IH ys by (auto simp: one_call_def)
qed

lemma walk_list_inj:
  assumes "one_call f" and "walk_list n f xs = Ok ws" and "walk_list n f ys = Ok ws"
  shows "xs = ys"
  using assms walk_all_inj [OF assms(1)] by (auto simp: walk_list_def bind_res_Ok_iff split: if_splits)

lemma length_walk_list: "walk_list n f xs = Ok ws \<Longrightarrow> length ws = 1"
  by (auto simp: walk_list_def bind_res_Ok_iff split: if_splits)

lemma bytes_field_Ok: "bytes_field n xs = Ok w \<longleftrightarrow>
    length xs \<le> n \<and> w = [MerkleizeWithMixin [PutBytes xs] (of_nat (length xs)) (of_nat ((n + 31) div 32))]"
  by (auto simp: bytes_field_def)

lemma withdrawal_walk_inj: "withdrawal_walk v = withdrawal_walk w \<Longrightarrow> v = w"
  by (cases v; cases w) (simp add: withdrawal_walk_def container_def barr_list_inject)

lemma one_call_withdrawal: "one_call withdrawal_ptr_walk"
  by (auto simp: one_call_def withdrawal_ptr_walk_def deref_def withdrawal_walk_def container_def
      barr_list_inject split: option.splits)

lemma one_call_transaction: "one_call transaction_walk"
  by (auto simp: one_call_def transaction_walk_def split: if_splits)

lemma capella_header_walk_inj:
  "capella_header_walk h = Ok w \<Longrightarrow> capella_header_walk k = Ok w \<Longrightarrow> h = k"
  by (cases h; cases k) (auto simp: capella_header_walk_def bind_res_Ok_iff bytes_field_Ok container_def barr_list_inject)

lemma length_capella_header_walk: "capella_header_walk h = Ok w \<Longrightarrow> length w = 1"
  by (auto simp: capella_header_walk_def bind_res_Ok_iff container_def)

lemma capella_bid_walk_inj:
  assumes "capella_bid_walk a = Ok w" and "capella_bid_walk b = Ok w"
  shows "a = b"
  using assms
  by (cases a; cases b)
    (auto simp: capella_bid_walk_def bind_res_Ok_iff container_def barr_list_inject append_eq_append_conv
      dest: capella_header_walk_inj length_capella_header_walk split: option.splits)

section \<open>Properties\<close>

text \<open>
  the calls a Capella builder bid or execution payload makes to the hasher determine every field
  of it: two bids, or two payloads, with the same successful walk are the same up to the difference
  between a nil and an empty list.  A signature over the root leaves nothing of the bid open.
\<close>

theorem capella_walks_commit:
  "inj_on capella_bid_walk {b. \<exists>w. capella_bid_walk b = Ok w}
   \<and> inj_on capella_payload_walk (norm_payload ` {p. \<exists>w. capella_payload_walk p = Ok w})"
proof
  show "inj_on capella_bid_walk {b. \<exists>w. capella_bid_walk b = Ok w}"
    by (auto intro!: inj_onI dest: capella_bid_walk_inj)
  show "inj_on capella_payload_walk (norm_payload ` {p. \<exists>w. capella_payload_walk p = Ok w})"
  proof (rule inj_onI)
    fix x y assume "x \<in> norm_payload ` {p. \<exists>w. capella_payload_walk p = Ok w}"
      "y \<in> norm_payload ` {p. \<exists>w. capella_payload_walk p = Ok w}"
      and eq: "capella_payload_walk x = capella_payload_walk y"
    then obtain p q v where p: "x = norm_payload p" "capella_payload_walk p = Ok v" and q: "y = norm_payload q"
      by blast
    have norm: "capella_payload_walk (norm_payload r) = capella_payload_walk r" for r
      by (simp add: capella_payload_walk_def norm_payload_def nil_list_def)
    have "capella_payload_walk p = Ok v" "capella_payload_walk q = Ok v"
      using p q eq by (simp_all add: norm)
    then show "x = y"
      unfolding p(1) q
      by (cases p; cases q)
        (auto simp: capella_payload_walk_def norm_payload_def bind_res_Ok_iff bytes_field_Ok container_def
          barr_list_inject append_eq_append_conv length_walk_list
          dest: walk_list_inj [OF one_call_transaction] walk_list_inj [OF one_call_withdrawal])
  qed
qed

text \<open>
  the header that \<open>PayloadToPayloadHeader\<close> derives from a Capella payload makes exactly the calls
  of the payload, with the transaction list and the withdrawal list replaced by the roots stored in
  the header.  So the root of the header is the root of the payload whenever those two roots are the
  roots of the two lists.
\<close>

theorem PayloadToPayloadHeader_same_walk:
  assumes "capella_PayloadToPayloadHeader TxRoot hasher p = Ok h"
    and "capella_payload_walk p = Ok w"
  shows "\<exists>pre txs ws. w = container (pre @ txs @ ws)
           \<and> walk_list 1048576 transaction_walk (nil_list (EpTransactions p)) = Ok txs
           \<and> walk_list 16 withdrawal_ptr_walk (nil_list (EpWithdrawals p)) = Ok ws
           \<and> TxRoot (nil_list (EpTransactions p)) = Ok (eph_TransactionsRoot h)
           \<and> capella_header_walk h = Ok (container (pre
                @ [PutBytes (barr_list (eph_TransactionsRoot h)), PutBytes (barr_list (eph_WithdrawalsRoot h))]))"
  using assms
  by (auto simp: capella_PayloadToPayloadHeader_def capella_payload_walk_def capella_header_walk_def
      bind_res_Ok_iff bytes_field_Ok container_def)

theorem PayloadToPayloadHeader_same_walk_witness:
  "\<exists>h w. capella_PayloadToPayloadHeader (\<lambda>txs. Ok (barr_copy [of_nat (length txs)])) (\<lambda>w. Ok 0) zero_capella_payload = Ok h
     \<and> capella_payload_walk zero_capella_payload = Ok w
     \<and> (\<exists>pre txs ws. w = container (pre @ txs @ ws)
          \<and> walk_list 1048576 transaction_walk [] = Ok txs \<and> walk_list 16 withdrawal_ptr_walk [] = Ok ws
          \<and> capella_header_walk h = Ok (container (pre
                @ [PutBytes (barr_list (eph_TransactionsRoot h)), PutBytes (barr_list (eph_WithdrawalsRoot h))])))"
proof -
  let ?T = "\<lambda>txs :: bytes list. Ok (barr_copy [of_nat (length txs)]) :: (go_error, root) res"
  obtain h where h: "capella_PayloadToPayloadHeader ?T (\<lambda>w. Ok 0) zero_capella_payload = Ok h"
    by (simp add: capella_PayloadToPayloadHeader_def zero_capella_payload_def)
  obtain w where w: "capella_payload_walk zero_capella_payload = Ok w"
    by (simp add: capella_payload_walk_def zero_capella_payload_def nil_list_def bytes_field_def walk_list_def)
  from PayloadToPayloadHeader_same_walk [OF h w] h w show ?thesis
    by (auto simp: zero_capella_payload_def nil_list_def)
qed

end
