(* ===== verification/Contents.thy ===== *)
theory Contents
  imports HashWalk
begin

text \<open>
  What a submission becomes inside the relay (\<open>PreparePayloadContents\<close> of both forks): a bid signed
  by the relay, the block stored for delivery and the trace published by the data API; and the
  methods of the fork types that need the libraries.  The record \<open>boost_lib\<close> collects the functions
  of \<open>go-boost-utils\<close> and \<open>fastssz\<close> that the relay calls; every definition takes it as an argument.
  The secret key is a pointer, which the library receives as it is.

  The lemmas show that a stored block is consistent: the header hash kept beside a Capella payload
  is the hash of the header the relay signs and later serves for that payload.
\<close>

section \<open>Library functions\<close>

record 'sk boost_lib =
  TxRoot :: "bytes list \<Rightarrow> (go_error, root) res"
  hasher :: "walk list \<Rightarrow> (go_error, root) res"
  header_walk :: "exec_header \<Rightarrow> walker"
  header_root :: "exec_header \<Rightarrow> (go_error, root) res"
  lib_walk :: "lib_obj option \<Rightarrow> walker"
  bellatrix_blinded_root :: "bellatrix_blinded_body beacon_block \<Rightarrow> (go_error, root) res"
  trace_root :: "bid_trace \<Rightarrow> (go_error, root) res"
  signing_root :: "root \<Rightarrow> domain \<Rightarrow> (go_error, root) res"
  sign_root :: "root \<Rightarrow> domain \<Rightarrow> 'sk option \<Rightarrow> (go_error, signature) res"
  BigInt :: "u256 \<Rightarrow> nat"
  hash_String :: "hash \<Rightarrow> string"
  HexToPubkey :: "string \<Rightarrow> (go_error, pubkey) res"
  hash_UnmarshalText :: "string \<Rightarrow> (go_error, hash) res"
  pubkey_UnmarshalText :: "string \<Rightarrow> (go_error, pubkey) res"
  NewPubkeyHex :: "string \<Rightarrow> string"
  new_Eth1Data :: lib_obj
  new_SyncAggregate :: lib_obj

text \<open>\<open>types.ComputeSigningRoot\<close> and \<open>types.SignMessage\<close> of an object with a given root.\<close>

definition ComputeSigningRoot :: "'sk boost_lib \<Rightarrow> (go_error, root) res \<Rightarrow> domain \<Rightarrow> (go_error, root) res" where
  "ComputeSigningRoot L r d = bind_res r (\<lambda>r. signing_root L r d)"

definition SignMessage :: "'sk boost_lib \<Rightarrow> (go_error, root) res \<Rightarrow> domain \<Rightarrow> 'sk option \<Rightarrow> (go_error, signature) res" where
  "SignMessage L r d sk = bind_res r (\<lambda>r. sign_root L r d sk)"

definition capella_header_root :: "'sk boost_lib \<Rightarrow> capella_header \<Rightarrow> (go_error, root) res" where
  "capella_header_root L h = HashWithDefaultHasher (hasher L) (capella_header_walk h)"

definition capella_bid_root :: "'sk boost_lib \<Rightarrow> capella_header builder_bid \<Rightarrow> (go_error, root) res" where
  "capella_bid_root L b = HashWithDefaultHasher (hasher L) (capella_bid_walk b)"

definition bellatrix_bid_root :: "'sk boost_lib \<Rightarrow> exec_header builder_bid \<Rightarrow> (go_error, root) res" where
  "bellatrix_bid_root L b = HashWithDefaultHasher (hasher L) (bellatrix_bid_walk (header_walk L) b)"

section \<open>Signing roots and header hashes\<close>

definition sr_ComputeSigningRoot :: "'sk boost_lib \<Rightarrow> submit_request \<Rightarrow> domain \<Rightarrow> (go_error, root) res" where
  "sr_ComputeSigningRoot L s d = ComputeSigningRoot L (trace_root L (sr_trace s)) d"

fun blk_ComputeSigningRoot :: "'sk boost_lib \<Rightarrow> blinded_block \<Rightarrow> domain \<Rightarrow> (go_error, root) res" where
  "blk_ComputeSigningRoot L (BellatrixBlinded b) d =
     (case bl_Body (SMessage b) of
        None \<Rightarrow> Err (ErrNew ''empty block body'')
      | Some body \<Rightarrow>
          if Eth1Data body = None \<or> SyncAggregate body = None \<or> bbb_ExecutionPayloadHeader body = None
          then Err (ErrNew ''empty block body'')
          else ComputeSigningRoot L (bellatrix_blinded_root L (SMessage b)) d)"
| "blk_ComputeSigningRoot L (CapellaBlinded b) d =
     (case bl_Body (SMessage b) of
        None \<Rightarrow> Err (ErrNew ''empty block body'')
      | Some body \<Rightarrow>
          if Eth1Data body = None \<or> SyncAggregate body = None \<or> cbb_ExecutionPayloadHeader body = None
          then Err (ErrNew ''empty block body'')
          else ComputeSigningRoot L
                 (HashWithDefaultHasher (hasher L) (capella_blinded_block_walk (lib_walk L) (SMessage b))) d)"

fun blk_ExecutionHeaderHash :: "'sk boost_lib \<Rightarrow> blinded_block \<Rightarrow> (go_error, hash) res" where
  "blk_ExecutionHeaderHash L (BellatrixBlinded b) =
     (case bellatrix_blinded_header b of None \<Rightarrow> Ok 0 | Some h \<Rightarrow> header_root L h)"
| "blk_ExecutionHeaderHash L (CapellaBlinded b) =
     (case capella_blinded_header b of None \<Rightarrow> Ok 0 | Some h \<Rightarrow> capella_header_root L h)"

fun bat_ExecutionHeaderHash :: "'sk boost_lib \<Rightarrow> block_and_trace \<Rightarrow> (go_error, hash) res" where
  "bat_ExecutionHeaderHash L (BellatrixBT b) =
     (case Option.bind (bsb_Message (vr_Data (bbat_Bid b))) bb_Header of
        None \<Rightarrow> Ok 0 | Some h \<Rightarrow> header_root L h)"
| "bat_ExecutionHeaderHash L (CapellaBT b) = Ok (cbt_ExecutionHeaderHash b)"

section \<open>Contents of a submission\<close>

record complete_block =
  cbs_Header :: header_ref
  cbs_Trace :: bid_trace_with_timestamp
  cbs_Payload :: block_and_trace

definition bellatrix_toSignedBuilderBid ::
  "'sk boost_lib \<Rightarrow> 'sk option \<Rightarrow> pubkey \<Rightarrow> domain \<Rightarrow> bellatrix_submit \<Rightarrow> (go_error, bellatrix_signed_bid) res" where
  "bellatrix_toSignedBuilderBid L sk pubkey d s =
     bind_res (bellatrix_PayloadToPayloadHeader (TxRoot L) (BellatrixExecutionPayload s)) (\<lambda>header.
       let builderBid = \<lparr>bb_Header = Some header, bb_Value = bt_Value (BellatrixMessage s), bb_Pubkey = pubkey\<rparr>
       in bind_res (SignMessage L (bellatrix_bid_root L builderBid) d sk) (\<lambda>sig.
         Ok \<lparr>bsb_Message = Some builderBid, bsb_Signature = sig\<rparr>))"

definition capella_toSignedBuilderBid ::
  "'sk boost_lib \<Rightarrow> 'sk option \<Rightarrow> pubkey \<Rightarrow> domain \<Rightarrow> capella_submit \<Rightarrow> (go_error, capella_signed_bid) res" where
  "capella_toSignedBuilderBid L sk pubkey d s =
     bind_res (capella_PayloadToPayloadHeader (TxRoot L) (hasher L) (CapellaExecutionPayload s)) (\<lambda>header.
       let builderBid = \<lparr>bb_Header = Some header, bb_Value = bt_Value (CapellaMessage s), bb_Pubkey = pubkey\<rparr>
       in bind_res (SignMessage L (capella_bid_root L builderBid) d sk) (\<lambda>sig.
         Ok \<lparr>csb_Message = builderBid, csb_Signature = sig\<rparr>))"

definition bellatrix_toBlockBidAndTrace :: "bellatrix_signed_bid \<Rightarrow> bellatrix_submit \<Rightarrow> block_and_trace" where
  "bellatrix_toBlockBidAndTrace sbb s = BellatrixBT
     \<lparr>bbat_Trace = Some \<lparr>bst_Message = Some (BellatrixMessage s), bst_Signature = BellatrixSignature s\<rparr>,
      bbat_Bid = \<lparr>vr_Version = ''bellatrix'', vr_Data = sbb\<rparr>,
      bbat_Payload = \<lparr>vr_Version = ''bellatrix'', vr_Data = BellatrixExecutionPayload s\<rparr>\<rparr>"

definition capella_toBlockBidAndTrace ::
  "'sk boost_lib \<Rightarrow> capella_signed_bid \<Rightarrow> capella_submit \<Rightarrow> (go_error, block_and_trace) res" where
  "capella_toBlockBidAndTrace L sbb s =
     (case bb_Header (csb_Message sbb) of
        None \<Rightarrow> Panic
      | Some h \<Rightarrow>
          bind_res (map_err (wrap_msg ''failed to calculate header hash'') (capella_header_root L h)) (\<lambda>execHeaderHash.
            Ok (CapellaBT
              \<lparr>cbt_Payload = \<lparr>vr_Version = ''capella'', vr_Data = CapellaExecutionPayload s\<rparr>,
               cbt_Trace = \<lparr>sbt_Signature = CapellaSignature s, sbt_Message = CapellaMessage s\<rparr>,
               cbt_ExecutionHeaderHash = execHeaderHash\<rparr>)))"

text \<open>
  The trace published by the data API; \<open>t1\<close> and \<open>t2\<close> are the two readings of the clock in
  milliseconds.
\<close>

definition submission_trace :: "bid_trace \<Rightarrow> ('a exec_payload_scheme) \<Rightarrow> nat \<Rightarrow> nat \<Rightarrow> bid_trace_with_timestamp" where
  "submission_trace m p t1 t2 =
     \<lparr>bt_Slot = bt_Slot m, bt_ParentHash = EpParentHash p, bt_BlockHash = EpBlockHash p,
      bt_BuilderPubkey = bt_BuilderPubkey m, bt_ProposerPubkey = bt_ProposerPubkey m,
      bt_ProposerFeeRecipient = bt_ProposerFeeRecipient m, bt_GasLimit = bt_GasLimit m,
      bt_GasUsed = bt_GasUsed m, bt_Value = bt_Value m,
      bte_BlockNumber = EpBlockNumber p, bte_NumTx = num_tx (EpTransactions p),
      btt_Timestamp = of_nat (t1 div 1000), btt_TimestampMs = of_nat t2\<rparr>"

fun PreparePayloadContents ::
  "'sk boost_lib \<Rightarrow> nat \<Rightarrow> nat \<Rightarrow> 'sk option \<Rightarrow> pubkey \<Rightarrow> domain \<Rightarrow> submit_request \<Rightarrow> (go_error, complete_block) res" where
  "PreparePayloadContents L t1 t2 sk pubkey d (BellatrixSubmit s) =
     bind_res (bellatrix_toSignedBuilderBid L sk pubkey d s) (\<lambda>sbb.
       Ok \<lparr>cbs_Header = BellatrixHeader (Option.bind (bsb_Message sbb) bb_Header),
           cbs_Trace = submission_trace (BellatrixMessage s) (BellatrixExecutionPayload s) t1 t2,
           cbs_Payload = bellatrix_toBlockBidAndTrace sbb s\<rparr>)"
| "PreparePayloadContents L t1 t2 sk pubkey d (CapellaSubmit s) =
     bind_res (capella_toSignedBuilderBid L sk pubkey d s) (\<lambda>sbb.
     bind_res (map_err (wrap_msg ''failed to create BlockBidAndTrace'') (capella_toBlockBidAndTrace L sbb s)) (\<lambda>payload.
       Ok \<lparr>cbs_Header = CapellaHeader (bb_Header (csb_Message sbb)),
           cbs_Trace = submission_trace (CapellaMessage s) (CapellaExecutionPayload s) t1 t2,
           cbs_Payload = payload\<rparr>))"

section \<open>Consistent blocks\<close>

text \<open>
  The header that belongs to a stored block: the one derived from its payload.  A block is
  consistent if its header hash is the hash of that header.
\<close>

fun block_consistent :: "'sk boost_lib \<Rightarrow> block_and_trace \<Rightarrow> bool" where
  "block_consistent L (BellatrixBT b) \<longleftrightarrow>
     (\<exists>h. bellatrix_PayloadToPayloadHeader (TxRoot L) (vr_Data (bbat_Payload b)) = Ok h
        \<and> bat_ExecutionHeaderHash L (BellatrixBT b) = header_root L h)"
| "block_consistent L (CapellaBT b) \<longleftrightarrow>
     (\<exists>h. capella_PayloadToPayloadHeader (TxRoot L) (hasher L) (vr_Data (cbt_Payload b)) = Ok h
        \<and> bat_ExecutionHeaderHash L (CapellaBT b) = capella_header_root L h)"

fun exec_payload_header :: "'sk boost_lib \<Rightarrow> execution_payload \<Rightarrow> header_ref \<Rightarrow> bool" where
  "exec_payload_header L (BellatrixPayload p) hr \<longleftrightarrow>
     (\<exists>h. hr = BellatrixHeader (Some h) \<and> bellatrix_PayloadToPayloadHeader (TxRoot L) p = Ok h)"
| "exec_payload_header L (CapellaPayload p) hr \<longleftrightarrow>
     (\<exists>h. hr = CapellaHeader (Some h) \<and> capella_PayloadToPayloadHeader (TxRoot L) (hasher L) p = Ok h)"

lemma PreparePayloadContents_Ok:
  assumes "PreparePayloadContents L t1 t2 sk pubkey d s = Ok c"
  shows "block_consistent L (cbs_Payload c)" "exec_payload_header L (bat_ExecutionPayload (cbs_Payload c)) (cbs_Header c)"
  using assms
  by (cases s; auto simp: bellatrix_toSignedBuilderBid_def capella_toSignedBuilderBid_def Let_def res_simps
      bellatrix_toBlockBidAndTrace_def capella_toBlockBidAndTrace_def)+

end
