(* ===== verification/BeaconState.thy ===== *)
theory BeaconState
  imports ForkData
begin

text \<open>
  The view of the beacon chain that the relay keeps in memory (\<open>beacon/state.go\<close>).  Each
  \<open>atomic.Value\<close> is an option, absent until the first store.  The expected withdrawals and the
  RANDAO value of the two latest slots are kept per parent hash in a ring of two \<open>AtomicState\<close>s.
  A zero \<open>AtomicState\<close> has a nil mutex and nil maps: locking it panics.

  The lemmas show the invariant of the ring and, once for both kinds of entries through the locale
  \<open>slot_ring\<close>, what a lookup returns after a store.
\<close>

section \<open>State\<close>

record registration_message =
  reg_FeeRecipient :: address
  reg_GasLimit :: u64
  reg_Timestamp :: u64
  reg_Pubkey :: pubkey

record signed_registration =
  sreg_Message :: "registration_message option"
  sreg_Signature :: signature

record validators_entry =
  ve_Slot :: u64
  ve_Entry :: signed_registration

record duties_state =
  CurrentSlot :: slot
  ProposerDutiesResponse :: "validators_entry list"

record atomic_state =
  as_Mutex :: bool
  as_slot :: u64
  as_withdrawals :: "hash \<rightharpoonup> withdrawals_state"
  as_randao :: "hash \<rightharpoonup> randao_state"

record multi_slot_state =
  ms_slots :: "atomic_state list"
  ms_duties :: "duties_state option"
  ms_validatorsUpdateTime :: "int option"
  ms_headSlot :: "slot option"
  ms_fork :: "fork_state option"
  ms_knownValidators :: "validators_state option"
  ms_genesis :: "genesis_info option"
  ms_parentBlockHash :: "hash option"

definition zero_atomic_state :: atomic_state where
  "zero_atomic_state = \<lparr>as_Mutex = False, as_slot = 0, as_withdrawals = Map.empty, as_randao = Map.empty\<rparr>"

definition new_atomic_state :: "u64 \<Rightarrow> atomic_state" where
  "new_atomic_state s = \<lparr>as_Mutex = True, as_slot = s, as_withdrawals = Map.empty, as_randao = Map.empty\<rparr>"

definition zero_multi_slot_state :: multi_slot_state where
  "zero_multi_slot_state =
     \<lparr>ms_slots = [zero_atomic_state, zero_atomic_state], ms_duties = None, ms_validatorsUpdateTime = None,
      ms_headSlot = None, ms_fork = None, ms_knownValidators = None, ms_genesis = None,
      ms_parentBlockHash = None\<rparr>"

definition load :: "'a \<Rightarrow> 'a option \<Rightarrow> 'a" where
  "load z p = (case p of None \<Rightarrow> z | Some x \<Rightarrow> x)"

section \<open>Plain values\<close>

definition ms_Duties :: "multi_slot_state \<Rightarrow> duties_state" where
  "ms_Duties s = load \<lparr>CurrentSlot = 0, ProposerDutiesResponse = []\<rparr> (ms_duties s)"

definition SetDuties :: "duties_state \<Rightarrow> multi_slot_state \<Rightarrow> multi_slot_state" where
  "SetDuties d s = s\<lparr>ms_duties := Some d\<rparr>"

definition ms_Genesis :: "multi_slot_state \<Rightarrow> genesis_info" where
  "ms_Genesis s = load \<lparr>GenesisTime = 0, GenesisValidatorsRoot = [], GenesisForkVersion = []\<rparr> (ms_genesis s)"

definition SetGenesis :: "genesis_info \<Rightarrow> multi_slot_state \<Rightarrow> multi_slot_state" where
  "SetGenesis g s = s\<lparr>ms_genesis := Some g\<rparr>"

definition ms_KnownValidators :: "multi_slot_state \<Rightarrow> validators_state" where
  "ms_KnownValidators s =
     load \<lparr>KnownValidatorsByIndex = Map.empty, KnownValidators = Map.empty\<rparr> (ms_knownValidators s)"

definition SetKnownValidators :: "int \<Rightarrow> validators_state \<Rightarrow> multi_slot_state \<Rightarrow> multi_slot_state" where
  "SetKnownValidators now v s = s\<lparr>ms_knownValidators := Some v, ms_validatorsUpdateTime := Some now\<rparr>"

text \<open>Times are milliseconds; \<open>zero_time\<close> stands for the zero \<open>time.Time\<close>, long before any other.\<close>

definition zero_time :: int where
  "zero_time = - 62135596800000"

definition KnownValidatorsUpdateTime :: "multi_slot_state \<Rightarrow> int" where
  "KnownValidatorsUpdateTime s = load zero_time (ms_validatorsUpdateTime s)"

definition ms_HeadSlot :: "multi_slot_state \<Rightarrow> slot" where
  "ms_HeadSlot s = load 0 (ms_headSlot s)"

definition SetHeadSlotIfHigher :: "slot \<Rightarrow> multi_slot_state \<Rightarrow> (slot \<times> bool) \<times> multi_slot_state" where
  "SetHeadSlotIfHigher slot s =
     (case ms_headSlot s of
        None \<Rightarrow> ((slot, True), s\<lparr>ms_headSlot := Some slot\<rparr>)
      | Some h \<Rightarrow> if slot > h then ((slot, True), s\<lparr>ms_headSlot := Some slot\<rparr>) else ((h, False), s))"

definition ms_Fork :: "multi_slot_state \<Rightarrow> fork_state" where
  "ms_Fork s = load zero_fork_state (ms_fork s)"

definition SetFork :: "fork_state \<Rightarrow> multi_slot_state \<Rightarrow> multi_slot_state" where
  "SetFork f s = s\<lparr>ms_fork := Some f\<rparr>"

definition ms_ForkVersion :: "multi_slot_state \<Rightarrow> slot \<Rightarrow> fork_version" where
  "ms_ForkVersion s slot = fork_Version (ms_Fork s) slot"

definition ms_ParentBlockHash :: "multi_slot_state \<Rightarrow> hash" where
  "ms_ParentBlockHash s = load 0 (ms_parentBlockHash s)"

definition SetParentBlockHash :: "hash \<Rightarrow> multi_slot_state \<Rightarrow> multi_slot_state" where
  "SetParentBlockHash h s = s\<lparr>ms_parentBlockHash := Some h\<rparr>"

section \<open>Withdrawals and RANDAO\<close>

definition as_Withdrawals :: "hash \<Rightarrow> atomic_state \<Rightarrow> (go_error, withdrawals_state) res" where
  "as_Withdrawals parent a =
     (if \<not> as_Mutex a then Panic else Ok (load zero_withdrawals_state (as_withdrawals a parent)))"

definition as_SetWithdrawals :: "withdrawals_state \<Rightarrow> atomic_state \<Rightarrow> (go_error, atomic_state) res" where
  "as_SetWithdrawals w a =
     (if \<not> as_Mutex a then Panic else Ok (a\<lparr>as_withdrawals := (as_withdrawals a)(ws_ParentHash w \<mapsto> w)\<rparr>))"

definition as_Randao :: "hash \<Rightarrow> atomic_state \<Rightarrow> (go_error, randao_state) res" where
  "as_Randao parent a =
     (if \<not> as_Mutex a then Panic else Ok (load zero_randao_state (as_randao a parent)))"

definition as_SetRandao :: "randao_state \<Rightarrow> atomic_state \<Rightarrow> (go_error, atomic_state) res" where
  "as_SetRandao r a =
     (if \<not> as_Mutex a then Panic else Ok (a\<lparr>as_randao := (as_randao a)(rs_ParentHash r \<mapsto> r)\<rparr>))"

definition Withdrawals :: "u64 \<Rightarrow> hash \<Rightarrow> multi_slot_state \<Rightarrow> (go_error, withdrawals_state) res" where
  "Withdrawals slot parent s =
     (let ws = ms_slots s ! slot_index slot
      in if as_slot ws = slot then as_Withdrawals parent ws else Ok zero_withdrawals_state)"

text \<open>
  The Go code copies the ring entry, stores a fresh one if the slot differs, and writes through the
  copy into the map, which the copy and the ring entry share.
\<close>

definition SetWithdrawals :: "withdrawals_state \<Rightarrow> multi_slot_state \<Rightarrow> (go_error, multi_slot_state) res" where
  "SetWithdrawals w s =
     (let i = slot_index (ws_Slot w);
          curr = ms_slots s ! i;
          curr = (if as_slot curr \<noteq> ws_Slot w then new_atomic_state (ws_Slot w) else curr)
      in bind_res (as_SetWithdrawals w curr) (\<lambda>curr. Ok (s\<lparr>ms_slots := (ms_slots s)[i := curr]\<rparr>)))"

definition Randao :: "u64 \<Rightarrow> hash \<Rightarrow> multi_slot_state \<Rightarrow> (go_error, randao_state) res" where
  "Randao slot parent s =
     (let r = ms_slots s ! slot_index slot
      in if as_slot r = slot then as_Randao parent r else Ok zero_randao_state)"

definition SetRandao :: "randao_state \<Rightarrow> multi_slot_state \<Rightarrow> (go_error, multi_slot_state) res" where
  "SetRandao r s =
     (let i = slot_index (rs_Slot r);
          curr = ms_slots s ! i;
          curr = (if as_slot curr \<noteq> rs_Slot r then new_atomic_state (rs_Slot r) else curr)
      in bind_res (as_SetRandao r curr) (\<lambda>curr. Ok (s\<lparr>ms_slots := (ms_slots s)[i := curr]\<rparr>)))"

section \<open>Invariant\<close>

text \<open>
  Every entry sits in the ring at the index of its slot and under its own parent hash; only an
  entry that was never stored has a nil mutex, and it has slot 0.
\<close>

definition atomic_ok :: "atomic_state \<Rightarrow> bool" where
  "atomic_ok a \<longleftrightarrow> (\<not> as_Mutex a \<longrightarrow> as_slot a = 0)
     \<and> (\<forall>p w. as_withdrawals a p = Some w \<longrightarrow> ws_Slot w = as_slot a \<and> ws_ParentHash w = p)
     \<and> (\<forall>p r. as_randao a p = Some r \<longrightarrow> rs_Slot r = as_slot a \<and> rs_ParentHash r = p)"

definition ms_ok :: "multi_slot_state \<Rightarrow> bool" where
  "ms_ok s \<longleftrightarrow> length (ms_slots s) = 2 \<and> (\<forall>a \<in> set (ms_slots s). atomic_ok a)"

section \<open>Lookup and store\<close>

text \<open>Storing several values, the first one first.\<close>

fun run_puts :: "('v \<Rightarrow> 's \<Rightarrow> (go_error, 's) res) \<Rightarrow> 'v list \<Rightarrow> 's \<Rightarrow> (go_error, 's) res" where
  "run_puts put [] s = Ok s"
| "run_puts put (v # vs) s = bind_res (put v s) (run_puts put vs)"

locale slot_ring =
  fixes put :: "'v \<Rightarrow> 's \<Rightarrow> (go_error, 's) res"
    and get :: "u64 \<Rightarrow> hash \<Rightarrow> 's \<Rightarrow> (go_error, 'v) res"
    and slot_of :: "'v \<Rightarrow> u64"
    and parent_of :: "'v \<Rightarrow> hash"
    and zero :: 'v
    and inv :: "'s \<Rightarrow> bool"
  assumes put_returns: "inv s \<Longrightarrow> slot_of v \<noteq> 0 \<Longrightarrow> \<exists>s'. put v s = Ok s'"
    and put_inv: "inv s \<Longrightarrow> put v s = Ok s' \<Longrightarrow> inv s'"
    and get_put: "inv s \<Longrightarrow> put v s = Ok s' \<Longrightarrow> get slot p s' =
      (if slot = slot_of v \<and> p = parent_of v then Ok v
       else if slot \<noteq> slot_of v \<and> slot_index slot = slot_index (slot_of v) then Ok zero
       else get slot p s)"
    and get_own: "inv s \<Longrightarrow> get slot p s = Ok w \<Longrightarrow> w = zero \<or> slot_of w = slot \<and> parent_of w = p"
begin

lemma run_puts_returns:
  "inv s \<Longrightarrow> \<forall>v \<in> set vs. slot_of v \<noteq> 0 \<Longrightarrow> \<exists>s'. run_puts put vs s = Ok s' \<and> inv s'"
proof (induction vs arbitrary: s)
  case (Cons v vs)
  then obtain s1 where "put v s = Ok s1"
    using put_returns [of s v] by auto
  with Cons show ?case
    by (auto dest: put_inv)
qed simp

text \<open>A value stays until its parent gets another one or another slot takes the place in the ring.\<close>

lemma get_kept:
  assumes "inv s" and "get slot p s = Ok w" and "run_puts put vs s = Ok s'"
    and "\<forall>v \<in> set vs. (slot_index (slot_of v) = slot_index slot \<longrightarrow> slot_of v = slot)
           \<and> (slot_of v = slot \<longrightarrow> parent_of v \<noteq> p)"
  shows "get slot p s' = Ok w"
  using assms
proof (induction vs arbitrary: s)
  case (Cons v vs)
  then obtain s1 where s1: "put v s = Ok s1" "run_puts put vs s1 = Ok s'"
    by (auto simp: bind_res_Ok_iff)
  moreover have "get slot p s1 = Ok w"
    using Cons.prems get_put [OF Cons.prems(1) s1(1), of slot p] by auto
  ultimately show ?case
    using Cons.IH [OF put_inv [OF Cons.prems(1) s1(1)]] Cons.prems(4) by auto
qed simp

lemma get_last_put:
  assumes "inv s" and "put v s = Ok s1" and "run_puts put vs s1 = Ok s'"
    and "\<forall>u \<in> set vs. (slot_index (slot_of u) = slot_index (slot_of v) \<longrightarrow> slot_of u = slot_of v)
           \<and> (slot_of u = slot_of v \<longrightarrow> parent_of u \<noteq> parent_of v)"
  shows "get (slot_of v) (parent_of v) s' = Ok v"
  using get_kept [OF put_inv [OF assms(1,2)] _ assms(3)] get_put [OF assms(1,2), of "slot_of v" "parent_of v"] assms(4)
  by auto

end

section \<open>The ring of the beacon state\<close>

lemma ms_ok_nth: "ms_ok s \<Longrightarrow> atomic_ok (ms_slots s ! slot_index slot)"
  by (simp add: ms_ok_def)

lemma atomic_ok_new: "atomic_ok (new_atomic_state slot)"
  by (simp add: atomic_ok_def new_atomic_state_def)

lemma ms_ok_zero: "ms_ok zero_multi_slot_state"
  by (simp add: ms_ok_def zero_multi_slot_state_def atomic_ok_def zero_atomic_state_def)

lemma ms_ok_update:
  "ms_ok s \<Longrightarrow> atomic_ok a \<Longrightarrow> ms_ok (s\<lparr>ms_slots := (ms_slots s)[i := a]\<rparr>)"
  by (auto simp: ms_ok_def dest: set_update_subset_insert [THEN subsetD])

text \<open>The entry a store writes to: the one of the same slot, or a fresh one.\<close>

definition ring_at :: "u64 \<Rightarrow> multi_slot_state \<Rightarrow> atomic_state" where
  "ring_at slot s = (if as_slot (ms_slots s ! slot_index slot) \<noteq> slot then new_atomic_state slot
                     else ms_slots s ! slot_index slot)"

lemma ring_at_ok:
  assumes "ms_ok s"
  shows "as_slot (ring_at slot s) = slot" "atomic_ok (ring_at slot s)" "slot \<noteq> 0 \<Longrightarrow> as_Mutex (ring_at slot s)"
  using ms_ok_nth [OF assms, of slot] atomic_ok_new [of slot]
  by (auto simp: ring_at_def new_atomic_state_def atomic_ok_def)

lemma ring_at_update:
  assumes "ms_ok s" and "as_slot e = t"
  shows "ring_at slot (s\<lparr>ms_slots := (ms_slots s)[slot_index t := e]\<rparr>)
       = (if slot_index slot = slot_index t then if slot = t then e else new_atomic_state slot else ring_at slot s)"
  using assms by (auto simp: ring_at_def ms_ok_def)

lemma SetWithdrawals_ring:
  "SetWithdrawals w s = (if as_Mutex (ring_at (ws_Slot w) s)
     then Ok (s\<lparr>ms_slots := (ms_slots s)[slot_index (ws_Slot w) :=
            (ring_at (ws_Slot w) s)\<lparr>as_withdrawals := (as_withdrawals (ring_at (ws_Slot w) s))(ws_ParentHash w \<mapsto> w)\<rparr>]\<rparr>)
     else Panic)"
  unfolding SetWithdrawals_def Let_def ring_at_def [symmetric] as_SetWithdrawals_def by simp

lemma SetRandao_ring:
  "SetRandao r s = (if as_Mutex (ring_at (rs_Slot r) s)
     then Ok (s\<lparr>ms_slots := (ms_slots s)[slot_index (rs_Slot r) :=
            (ring_at (rs_Slot r) s)\<lparr>as_randao := (as_randao (ring_at (rs_Slot r) s))(rs_ParentHash r \<mapsto> r)\<rparr>]\<rparr>)
     else Panic)"
  unfolding SetRandao_def Let_def ring_at_def [symmetric] as_SetRandao_def by simp

lemma Withdrawals_ring:
  "Withdrawals slot p s = (if as_Mutex (ring_at slot s)
     then Ok (load zero_withdrawals_state (as_withdrawals (ring_at slot s) p)) else Panic)"
  by (simp add: Withdrawals_def Let_def as_Withdrawals_def ring_at_def new_atomic_state_def load_def)

lemma Randao_ring:
  "Randao slot p s = (if as_Mutex (ring_at slot s)
     then Ok (load zero_randao_state (as_randao (ring_at slot s) p)) else Panic)"
  by (simp add: Randao_def Let_def as_Randao_def ring_at_def new_atomic_state_def load_def)

lemma atomic_ok_set:
  "atomic_ok a \<Longrightarrow> as_slot a = ws_Slot w
     \<Longrightarrow> atomic_ok (a\<lparr>as_withdrawals := (as_withdrawals a)(ws_ParentHash w \<mapsto> w)\<rparr>)"
  "atomic_ok a \<Longrightarrow> as_slot a = rs_Slot r
     \<Longrightarrow> atomic_ok (a\<lparr>as_randao := (as_randao a)(rs_ParentHash r \<mapsto> r)\<rparr>)"
  by (auto simp: atomic_ok_def)

lemmas ring_simps = SetWithdrawals_ring SetRandao_ring Withdrawals_ring Randao_ring ring_at_update
  ring_at_ok new_atomic_state_def load_def

interpretation withdrawals_ring:
  slot_ring SetWithdrawals Withdrawals ws_Slot ws_ParentHash zero_withdrawals_state ms_ok
proof
  fix s s' :: multi_slot_state and v :: withdrawals_state
  assume ok: "ms_ok s"
  show "\<exists>s'. SetWithdrawals v s = Ok s'" if "ws_Slot v \<noteq> 0"
    using that ok by (simp add: ring_simps)
  show "ms_ok s'" if "SetWithdrawals v s = Ok s'"
    using that ok by (auto simp: SetWithdrawals_ring ring_at_ok split: if_splits intro!: ms_ok_update atomic_ok_set)
  show "Withdrawals slot p s' = (if slot = ws_Slot v \<and> p = ws_ParentHash v then Ok v
      else if slot \<noteq> ws_Slot v \<and> slot_index slot = slot_index (ws_Slot v) then Ok zero_withdrawals_state
      else Withdrawals slot p s)" if "SetWithdrawals v s = Ok s'" for slot p
    using that ok by (auto simp: ring_simps split: if_splits)
  show "w = zero_withdrawals_state \<or> ws_Slot w = slot \<and> ws_ParentHash w = p"
    if "Withdrawals slot p s = Ok w" for slot p w
    using that ring_at_ok(1,2) [OF ok, of slot]
    by (auto simp: Withdrawals_ring atomic_ok_def load_def split: if_splits option.splits)
qed

interpretation randao_ring:
  slot_ring SetRandao Randao rs_Slot rs_ParentHash zero_randao_state ms_ok
proof
  fix s s' :: multi_slot_state and v :: randao_state
  assume ok: "ms_ok s"
  show "\<exists>s'. SetRandao v s = Ok s'" if "rs_Slot v \<noteq> 0"
    using that ok by (simp add: ring_simps)
  show "ms_ok s'" if "SetRandao v s = Ok s'"
    using that ok by (auto simp: SetRandao_ring ring_at_ok split: if_splits intro!: ms_ok_update atomic_ok_set)
  show "Randao slot p s' = (if slot = rs_Slot v \<and> p = rs_ParentHash v then Ok v
      else if slot \<noteq> rs_Slot v \<and> slot_index slot = slot_index (rs_Slot v) then Ok zero_randao_state
      else Randao slot p s)" if "SetRandao v s = Ok s'" for slot p
    using that ok by (auto simp: ring_simps split: if_splits)
  show "w = zero_randao_state \<or> rs_Slot w = slot \<and> rs_ParentHash w = p"
    if "Randao slot p s = Ok w" for slot p w
    using that ring_at_ok(1,2) [OF ok, of slot]
    by (auto simp: Randao_ring atomic_ok_def load_def split: if_splits option.splits)
qed

text \<open>
  Storing a RANDAO value of a slot leaves the withdrawals of that slot alone, and takes the place of
  those of another slot with the same index; likewise the other way round.
\<close>

lemma Withdrawals_SetRandao:
  assumes "ms_ok s" and "SetRandao r s = Ok s'"
  shows "Withdrawals slot p s' = (if slot \<noteq> rs_Slot r \<and> slot_index slot = slot_index (rs_Slot r)
           then Ok zero_withdrawals_state else Withdrawals slot p s)"
  using assms by (auto simp: ring_simps split: if_splits)

lemma Randao_SetWithdrawals:
  assumes "ms_ok s" and "SetWithdrawals w s = Ok s'"
  shows "Randao slot p s' = (if slot \<noteq> ws_Slot w \<and> slot_index slot = slot_index (ws_Slot w)
           then Ok zero_randao_state else Randao slot p s)"
  using assms by (auto simp: ring_simps split: if_splits)

section \<open>Properties\<close>

text \<open>
  The expected withdrawals of a slot and parent stay available: after they are stored, any number
  of further stores for the same slot with other parents, or for slots at the other place of the ring,
  leave them as they are, and the same holds for RANDAO values.
\<close>

theorem stored_state_is_found:
  assumes "ms_ok s" and "SetWithdrawals w s = Ok s1" and "run_puts SetWithdrawals ws s1 = Ok s2"
    and "\<forall>u \<in> set ws. (slot_index (ws_Slot u) = slot_index (ws_Slot w) \<longrightarrow> ws_Slot u = ws_Slot w)
           \<and> (ws_Slot u = ws_Slot w \<longrightarrow> ws_ParentHash u \<noteq> ws_ParentHash w)"
    and "SetRandao r s2 = Ok s3" and "rs_Slot r = ws_Slot w" and "run_puts SetRandao rs s3 = Ok s4"
    and "\<forall>u \<in> set rs. (slot_index (rs_Slot u) = slot_index (rs_Slot r) \<longrightarrow> rs_Slot u = rs_Slot r)
           \<and> (rs_Slot u = rs_Slot r \<longrightarrow> rs_ParentHash u \<noteq> rs_ParentHash r)"
  shows "Withdrawals (ws_Slot w) (ws_ParentHash w) s2 = Ok w \<and> Withdrawals (ws_Slot w) (ws_ParentHash w) s3 = Ok w
    \<and> Randao (rs_Slot r) (rs_ParentHash r) s4 = Ok r"
proof -
  have ok1: "ms_ok s1"
    using withdrawals_ring.put_inv [OF assms(1,2)] .
  have ok2: "ms_ok s2"
    using ok1 assms(3)
  proof (induction ws arbitrary: s1)
    case (Cons u ws)
    then show ?case by (auto simp: res_simps dest: withdrawals_ring.put_inv)
  qed simp
  have "Withdrawals (ws_Slot w) (ws_ParentHash w) s2 = Ok w"
    using withdrawals_ring.get_last_put [OF assms(1-4)] .
  moreover from this have "Withdrawals (ws_Slot w) (ws_ParentHash w) s3 = Ok w"
    using Withdrawals_SetRandao [OF ok2 assms(5), of "ws_Slot w" "ws_ParentHash w"] assms(6) by simp
  moreover have "Randao (rs_Slot r) (rs_ParentHash r) s4 = Ok r"
    using randao_ring.get_last_put [OF ok2 assms(5,7,8)] .
  ultimately show ?thesis by blast
qed

theorem stored_state_is_found_witness:
  "\<exists>s1 s2 s3. SetWithdrawals \<lparr>ws_Slot = 3, ws_ParentHash = 0, ws_Root = barr_copy [9]\<rparr> zero_multi_slot_state = Ok s1
     \<and> SetWithdrawals \<lparr>ws_Slot = 3, ws_ParentHash = barr_copy [1], ws_Root = 0\<rparr> s1 = Ok s2
     \<and> SetRandao \<lparr>rs_Slot = 3, rs_ParentHash = 0, rs_Randao = ''0xaa''\<rparr> s2 = Ok s3
     \<and> Withdrawals 3 0 s3 = Ok \<lparr>ws_Slot = 3, ws_ParentHash = 0, ws_Root = barr_copy [9]\<rparr>"
proof -
  let ?w = "\<lparr>ws_Slot = 3, ws_ParentHash = 0, ws_Root = barr_copy [9]\<rparr>"
  let ?u = "\<lparr>ws_Slot = 3, ws_ParentHash = barr_copy [1], ws_Root = 0\<rparr>"
  let ?r = "\<lparr>rs_Slot = 3, rs_ParentHash = 0, rs_Randao = ''0xaa''\<rparr>"
  obtain s1 where s1: "SetWithdrawals ?w zero_multi_slot_state = Ok s1" "ms_ok s1"
    using withdrawals_ring.run_puts_returns [OF ms_ok_zero, of "[?w]"] by (auto simp: res_simps)
  obtain s2 where s2: "SetWithdrawals ?u s1 = Ok s2" "ms_ok s2"
    using withdrawals_ring.run_puts_returns [OF s1(2), of "[?u]"] by (auto simp: res_simps)
  obtain s3 where s3: "SetRandao ?r s2 = Ok s3"
    using randao_ring.put_returns [OF s2(2), of ?r] by auto
  show ?thesis
    using stored_state_is_found [OF ms_ok_zero s1(1), of "[?u]" s2 ?r s3 "[]" s3] s1 s2 s3 by auto
qed

text \<open>
  Slot 0 cannot be used before anything was stored for it: the entries of a new state have slot 0
  and a nil mutex, so that reading or storing withdrawals or RANDAO values of slot 0 panics.
\<close>

theorem slot_zero_panics:
  assumes "ws_Slot w = 0" and "rs_Slot r = 0"
  shows "Withdrawals 0 p zero_multi_slot_state = Panic \<and> Randao 0 p zero_multi_slot_state = Panic
    \<and> SetWithdrawals w zero_multi_slot_state = Panic \<and> SetRandao r zero_multi_slot_state = Panic"
  using assms
  by (simp add: Withdrawals_def Randao_def SetWithdrawals_def SetRandao_def as_Withdrawals_def as_Randao_def
      as_SetWithdrawals_def as_SetRandao_def zero_multi_slot_state_def zero_atomic_state_def slot_index_def)

theorem slot_zero_panics_witness:
  "SetWithdrawals zero_withdrawals_state zero_multi_slot_state = Panic"
  using slot_zero_panics [of zero_withdrawals_state zero_randao_state]
  by (simp add: zero_withdrawals_state_def zero_randao_state_def)

end
