(* ===== verification/Auction.thy ===== *)
theory Auction
  imports ForkData
begin

text \<open>
  The auctioneer (\<open>auction/auctioneer.go\<close>): for each of the two slots kept in memory, an object with
  the latest bid of every builder and parent and the most profitable bid of every parent.

  The array of the auctioneer holds pointers, so the model has an explicit heap: \<open>auctions\<close> lists
  addresses and \<open>heap\<close> the objects.  The text of \<open>BigInt\<close> is in \<open>go-boost-utils\<close>: it is the
  parameter \<open>num\<close>.  Go leaves the order of a \<open>range\<close> over a map open: it is the parameter \<open>iter\<close>,
  of which the properties assume only that it is a permutation of the entries.

  The lemmas show an invariant of every reachable auctioneer, that the heap with its cached maxima
  refines a plain map of latest bids, and what \<open>AddBlock\<close> reports.
\<close>

section \<open>State and operations\<close>

type_synonym latest_key = "pubkey \<times> hash"

record auction =
  au_Slot :: u64
  maxProfit :: "hash \<rightharpoonup> bid"
  latestBlockByBuilder :: "(latest_key \<times> bid) list"

record auctioneer =
  auctions :: "nat list"
  heap :: "auction list"

definition new_auction :: "u64 \<Rightarrow> auction" where
  "new_auction s = \<lparr>au_Slot = s, maxProfit = Map.empty, latestBlockByBuilder = []\<rparr>"

definition NewAuctioneer :: auctioneer where
  "NewAuctioneer = \<lparr>auctions = [0, 1], heap = [new_auction 0, new_auction 1]\<rparr>"

definition U256_Cmp :: "(u256 \<Rightarrow> nat) \<Rightarrow> u256 \<Rightarrow> u256 \<Rightarrow> int" where
  "U256_Cmp num x y = (if num x < num y then -1 else if num x = num y then 0 else 1)"

text \<open>The loop that looks for the best remaining bid of a parent.\<close>

fun reassign :: "(u256 \<Rightarrow> nat) \<Rightarrow> hash \<Rightarrow> u64 \<Rightarrow> (latest_key \<times> bid) list \<Rightarrow> (hash \<rightharpoonup> bid)
    \<Rightarrow> (go_error, hash \<rightharpoonup> bid) res" where
  "reassign num parent slot [] mps = Ok mps"
| "reassign num parent slot (kb # rest) mps =
     bind_res (GetParentHash (bid_Header (snd kb))) (\<lambda>ph.
       if ph = parent \<and> slot = bid_Slot (snd kb)
       then (case mps parent of
               None \<Rightarrow> reassign num parent slot rest mps
             | Some mp \<Rightarrow>
                 if U256_Cmp num (bid_Value mp) (bid_Value (snd kb)) \<le> 0
                 then reassign num parent slot rest (mps(parent \<mapsto> snd kb))
                 else reassign num parent slot rest mps)
       else reassign num parent slot rest mps)"

definition AddBlock ::
  "(u256 \<Rightarrow> nat) \<Rightarrow> ((latest_key \<times> bid) list \<Rightarrow> (latest_key \<times> bid) list) \<Rightarrow> bid \<Rightarrow> auctioneer
     \<Rightarrow> (go_error, bool \<times> auctioneer) res" where
  "AddBlock num iter bid a =
     (let i = slot_index (bid_Slot bid);
          p = auctions a ! i;
          au = heap a ! p
      in bind_res (GetParentHash (bid_Header bid)) (\<lambda>parent.
        if au_Slot au > bid_Slot bid then Ok (False, a)
        else if au_Slot au < bid_Slot bid then
          Ok (True, a\<lparr>auctions := (auctions a)[i := length (heap a)],
                     heap := (heap a @ [new_auction (bid_Slot bid)])
                       [p := au\<lparr>maxProfit := (maxProfit au)(parent \<mapsto> bid),
                               latestBlockByBuilder :=
                                 AList.update (bid_Pubkey bid, parent) bid (latestBlockByBuilder au)\<rparr>]\<rparr>)
        else
          (let au1 = au\<lparr>latestBlockByBuilder :=
                         AList.update (bid_Pubkey bid, parent) bid (latestBlockByBuilder au)\<rparr>;
               store = (\<lambda>mps. a\<lparr>heap := (heap a)[p := au1\<lparr>maxProfit := mps\<rparr>]\<rparr>)
           in case maxProfit au parent of
                None \<Rightarrow> Ok (True, store ((maxProfit au)(parent \<mapsto> bid)))
              | Some mp \<Rightarrow>
                  if U256_Cmp num (bid_Value mp) (bid_Value bid) \<le> 0
                  then Ok (True, store ((maxProfit au)(parent \<mapsto> bid)))
                  else if bid_Pubkey mp = bid_Pubkey bid
                          \<and> U256_Cmp num (bid_Value mp) (bid_Value bid) > 0
                  then bind_res (reassign num parent (bid_Slot mp) (iter (latestBlockByBuilder au1))
                                   ((maxProfit au)(parent \<mapsto> bid)))
                         (\<lambda>mps. Ok (bid = mp, store mps))
                  else Ok (bid = mp, store (maxProfit au)))))"

definition MaxProfitBlock :: "slot \<Rightarrow> hash \<Rightarrow> auctioneer \<Rightarrow> bid option" where
  "MaxProfitBlock slot parentHash a =
     (case maxProfit (heap a ! (auctions a ! slot_index slot)) parentHash of
        None \<Rightarrow> None
      | Some mp \<Rightarrow> if bid_Slot mp = slot then Some mp else None)"

text \<open>A run of submissions, each with the iteration order its loop happens to see.\<close>

fun AddBlocks ::
  "(u256 \<Rightarrow> nat) \<Rightarrow> (((latest_key \<times> bid) list \<Rightarrow> (latest_key \<times> bid) list) \<times> bid) list \<Rightarrow> auctioneer
     \<Rightarrow> (go_error, auctioneer) res" where
  "AddBlocks num [] a = Ok a"
| "AddBlocks num ((iter, bid) # steps) a =
     bind_res (AddBlock num iter bid a) (\<lambda>(_, a'). AddBlocks num steps a')"

section \<open>Specification\<close>

text \<open>
  The abstract auction of a slot index: the slot and, for each builder and parent, the latest bid
  that counts.  A bid for an older slot is dropped; a bid for a newer slot opens an empty auction;
  a bid for the current slot replaces the one of the same builder and parent.
\<close>

type_synonym abs_auction = "u64 \<times> (latest_key \<rightharpoonup> bid)"

definition abs_auction_of :: "auction \<Rightarrow> abs_auction" where
  "abs_auction_of au = (au_Slot au, map_of (latestBlockByBuilder au))"

definition abs_auctions :: "auctioneer \<Rightarrow> abs_auction list" where
  "abs_auctions a = map (\<lambda>p. abs_auction_of (heap a ! p)) (auctions a)"

definition abs_add :: "bid \<Rightarrow> hash \<Rightarrow> abs_auction \<Rightarrow> abs_auction" where
  "abs_add bid parent s =
     (if fst s > bid_Slot bid then s
      else if fst s < bid_Slot bid then (bid_Slot bid, Map.empty)
      else (fst s, (snd s)((bid_Pubkey bid, parent) \<mapsto> bid)))"

text \<open>\<open>best_for num L p m\<close>: \<open>m\<close> is a most profitable bid of \<open>L\<close> for the parent \<open>p\<close>, none if there is none.\<close>

definition best_for :: "(u256 \<Rightarrow> nat) \<Rightarrow> (latest_key \<rightharpoonup> bid) \<Rightarrow> hash \<Rightarrow> bid option \<Rightarrow> bool" where
  "best_for num L p m =
     (case m of
        None \<Rightarrow> \<forall>pk. L (pk, p) = None
      | Some b \<Rightarrow> L (bid_Pubkey b, p) = Some b
          \<and> (\<forall>pk c. L (pk, p) = Some c \<longrightarrow> num (bid_Value c) \<le> num (bid_Value b)))"

definition entry_ok :: "u64 \<Rightarrow> latest_key \<Rightarrow> bid \<Rightarrow> bool" where
  "entry_ok s k b \<longleftrightarrow> bid_Slot b = s \<and> bid_Pubkey b = fst k
     \<and> (GetParentHash (bid_Header b) :: (go_error, hash) res) = Ok (snd k)"

definition auction_ok :: "(u256 \<Rightarrow> nat) \<Rightarrow> auction \<Rightarrow> bool" where
  "auction_ok num au \<longleftrightarrow> distinct (map fst (latestBlockByBuilder au))
     \<and> (\<forall>(k, b) \<in> set (latestBlockByBuilder au). entry_ok (au_Slot au) k b)
     \<and> (\<forall>p. best_for num (map_of (latestBlockByBuilder au)) p (maxProfit au p))"

definition auctioneer_ok :: "(u256 \<Rightarrow> nat) \<Rightarrow> auctioneer \<Rightarrow> bool" where
  "auctioneer_ok num a \<longleftrightarrow> length (auctions a) = 2 \<and> distinct (auctions a)
     \<and> (\<forall>i < 2. auctions a ! i < length (heap a)
          \<and> slot_index (au_Slot (heap a ! (auctions a ! i))) = i
          \<and> auction_ok num (heap a ! (auctions a ! i)))"

definition abs_step :: "abs_auction list \<Rightarrow> bid \<Rightarrow> abs_auction list" where
  "abs_step A bid =
     (case (GetParentHash (bid_Header bid) :: (go_error, hash) res) of
        Ok parent \<Rightarrow> A[slot_index (bid_Slot bid) := abs_add bid parent (A ! slot_index (bid_Slot bid))]
      | _ \<Rightarrow> A)"

definition abs_init :: "abs_auction list" where
  "abs_init = [(0, Map.empty), (1, Map.empty)]"

text \<open>What a request for a slot and a parent may be served from an abstract auction.\<close>

definition serves :: "(u256 \<Rightarrow> nat) \<Rightarrow> abs_auction \<Rightarrow> slot \<Rightarrow> hash \<Rightarrow> bid option \<Rightarrow> bool" where
  "serves num A slot parent m = (if fst A = slot then best_for num (snd A) parent m else m = None)"

definition has_header :: "bid \<Rightarrow> bool" where
  "has_header b \<longleftrightarrow> (GetParentHash (bid_Header b) :: (go_error, hash) res) \<noteq> Panic"

definition iter_ok :: "('a list \<Rightarrow> 'a list) \<Rightarrow> bool" where
  "iter_ok iter \<longleftrightarrow> (\<forall>xs. mset (iter xs) = mset xs)"

section \<open>Lemmas\<close>

lemma U256_Cmp_le [simp]: "U256_Cmp num x y \<le> 0 \<longleftrightarrow> num x \<le> num y"
  by (simp add: U256_Cmp_def)

lemma U256_Cmp_gt [simp]: "0 < U256_Cmp num x y \<longleftrightarrow> num y < num x"
  by (simp add: U256_Cmp_def)

lemma auctioneer_okD:
  assumes "auctioneer_ok num a" and "i < 2"
  shows "auctions a ! i < length (heap a)" "slot_index (au_Slot (heap a ! (auctions a ! i))) = i"
    "auction_ok num (heap a ! (auctions a ! i))" "length (auctions a) = 2" "distinct (auctions a)"
  using assms by (auto simp: auctioneer_ok_def)

lemma auction_ok_new: "auction_ok num (new_auction s)"
  by (simp add: auction_ok_def new_auction_def best_for_def)

lemma auctioneer_ok_New: "auctioneer_ok num NewAuctioneer"
proof -
  have "slot_index 0 = 0" "slot_index 1 = 1"
    by (simp_all add: slot_index_def NumberOfSlotsInState_def unat_mod)
  then show ?thesis
    by (auto simp: auctioneer_ok_def NewAuctioneer_def auction_ok_new less_2_cases_iff new_auction_def
        auction_ok_def best_for_def)
qed

text \<open>
  Replacing the object of one index, or pointing the index to a new object, keeps the invariant
  and touches no other index.
\<close>

lemma auctioneer_ok_store:
  assumes "auctioneer_ok num a" and "i < 2" and "auction_ok num au" and "slot_index (au_Slot au) = i"
  shows "auctioneer_ok num (a\<lparr>heap := (heap a)[auctions a ! i := au]\<rparr>)"
  using assms
  by (auto simp: auctioneer_ok_def nth_list_update nth_eq_iff_index_eq)

lemma abs_auctions_store:
  assumes "auctioneer_ok num a" and "i < 2"
  shows "abs_auctions (a\<lparr>heap := (heap a)[auctions a ! i := au]\<rparr>) = (abs_auctions a)[i := abs_auction_of au]"
proof (rule nth_equalityI)
  show "length (abs_auctions (a\<lparr>heap := (heap a)[auctions a ! i := au]\<rparr>))
      = length ((abs_auctions a)[i := abs_auction_of au])"
    by (simp add: abs_auctions_def)
next
  fix j assume "j < length (abs_auctions (a\<lparr>heap := (heap a)[auctions a ! i := au]\<rparr>))"
  then have "j < length (auctions a)"
    by (simp add: abs_auctions_def)
  then show "abs_auctions (a\<lparr>heap := (heap a)[auctions a ! i := au]\<rparr>) ! j = (abs_auctions a)[i := abs_auction_of au] ! j"
    using auctioneer_okD [OF assms] assms(2)
    by (simp add: abs_auctions_def nth_list_update nth_eq_iff_index_eq)
qed

lemma nth_open:
  assumes "auctioneer_ok num a" and "i < 2" and "j < 2"
  shows "(heap a @ [au])[auctions a ! i := old] ! ((auctions a)[i := length (heap a)] ! j)
       = (if j = i then au else heap a ! (auctions a ! j))"
    and "(auctions a)[i := length (heap a)] ! j < Suc (length (heap a))"
  using auctioneer_okD [OF assms(1,2)] auctioneer_okD [OF assms(1,3)] assms(2,3)
  by (auto simp: nth_list_update nth_append nth_eq_iff_index_eq)

lemma auctioneer_ok_open:
  assumes "auctioneer_ok num a" and "i < 2" and "auction_ok num au" and "slot_index (au_Slot au) = i"
  shows "auctioneer_ok num (a\<lparr>auctions := (auctions a)[i := length (heap a)],
           heap := (heap a @ [au])[auctions a ! i := old]\<rparr>)"
proof -
  have "p < length (heap a)" if "p \<in> set (auctions a)" for p
    using that assms(1) by (auto simp: in_set_conv_nth auctioneer_ok_def)
  then have "length (heap a) \<notin> set (auctions a)"
    by blast
  then have "distinct ((auctions a)[i := length (heap a)])"
    using auctioneer_okD(5) [OF assms(1,2)] by (simp add: distinct_list_update)
  then show ?thesis
    using assms(1,3,4)
    by (simp add: auctioneer_ok_def nth_open [OF assms(1,2)])
qed

lemma abs_auctions_open:
  assumes "auctioneer_ok num a" and "i < 2"
  shows "abs_auctions (a\<lparr>auctions := (auctions a)[i := length (heap a)],
           heap := (heap a @ [au])[auctions a ! i := old]\<rparr>) = (abs_auctions a)[i := abs_auction_of au]"
    (is "?l = ?r")
proof (rule nth_equalityI)
  show "length ?l = length ?r"
    by (simp add: abs_auctions_def)
next
  fix j assume "j < length ?l"
  then have "j < 2"
    using auctioneer_okD [OF assms] by (simp add: abs_auctions_def)
  then show "?l ! j = ?r ! j"
    using auctioneer_okD [OF assms] assms(2)
    by (simp add: abs_auctions_def nth_open [OF assms])
qed

text \<open>The loop keeps the other parents and ends with a bid that no visited bid exceeds.\<close>

lemma reassign_best:
  assumes "\<forall>kb \<in> set xs. entry_ok s (fst kb) (snd kb)" and "mps parent = Some b0"
  shows "\<exists>m. reassign num parent s xs mps = Ok (mps(parent \<mapsto> m))
           \<and> (m = b0 \<or> (\<exists>k. (k, m) \<in> set xs \<and> snd k = parent))
           \<and> num (bid_Value b0) \<le> num (bid_Value m)
           \<and> (\<forall>(k, b) \<in> set xs. snd k = parent \<longrightarrow> num (bid_Value b) \<le> num (bid_Value m))"
  using assms
proof (induction xs arbitrary: mps b0)
  case Nil
  then show ?case by (auto simp: map_upd_triv)
next
  case (Cons kb xs)
  have kb: "(GetParentHash (bid_Header (snd kb)) :: (go_error, hash) res) = Ok (snd (fst kb))"
    "bid_Slot (snd kb) = s"
    using Cons.prems(1) by (auto simp: entry_ok_def)
  have xs: "\<forall>kb \<in> set xs. entry_ok s (fst kb) (snd kb)"
    using Cons.prems(1) by simp
  show ?case
  proof (cases "snd (fst kb) = parent \<and> num (bid_Value b0) \<le> num (bid_Value (snd kb))")
    case True
    obtain m where "reassign num parent s xs (mps(parent \<mapsto> snd kb)) = Ok (mps(parent \<mapsto> snd kb, parent \<mapsto> m))"
      "m = snd kb \<or> (\<exists>k. (k, m) \<in> set xs \<and> snd k = parent)" "num (bid_Value (snd kb)) \<le> num (bid_Value m)"
      "\<forall>(k, b) \<in> set xs. snd k = parent \<longrightarrow> num (bid_Value b) \<le> num (bid_Value m)"
      using Cons.IH [OF xs, of "mps(parent \<mapsto> snd kb)", OF fun_upd_same] by blast
    then show ?thesis
      using True kb Cons.prems(2) by (cases kb) (auto intro!: exI [of _ m])
  next
    case False
    obtain m where "reassign num parent s xs mps = Ok (mps(parent \<mapsto> m))"
      "m = b0 \<or> (\<exists>k. (k, m) \<in> set xs \<and> snd k = parent)" "num (bid_Value b0) \<le> num (bid_Value m)"
      "\<forall>(k, b) \<in> set xs. snd k = parent \<longrightarrow> num (bid_Value b) \<le> num (bid_Value m)"
      using Cons.IH [of mps b0, OF xs Cons.prems(2)] by blast
    then show ?thesis
      using False kb Cons.prems(2) by (cases kb) (auto intro!: exI [of _ m])
  qed
qed

lemma best_for_other:
  "p \<noteq> q \<Longrightarrow> best_for num (L((pk, q) \<mapsto> b)) p m \<longleftrightarrow> best_for num L p m"
  by (cases m) (simp_all add: best_for_def)

lemma auction_ok_update:
  assumes "auction_ok num au" and "entry_ok (au_Slot au) (bid_Pubkey bid, parent) bid"
    and "\<And>p. p \<noteq> parent \<Longrightarrow> mps p = maxProfit au p"
    and "best_for num ((map_of (latestBlockByBuilder au))((bid_Pubkey bid, parent) \<mapsto> bid)) parent (mps parent)"
  shows "auction_ok num (au\<lparr>latestBlockByBuilder := AList.update (bid_Pubkey bid, parent) bid (latestBlockByBuilder au),
           maxProfit := mps\<rparr>)"
proof -
  let ?L = "map_of (latestBlockByBuilder au)"
  have "best_for num (?L((bid_Pubkey bid, parent) \<mapsto> bid)) p (mps p)" for p
    using assms(1,4) assms(3) [of p]
    by (cases "p = parent") (simp_all add: auction_ok_def best_for_other)
  moreover have "entry_ok (au_Slot au) k b"
    if "(k, b) \<in> set (AList.update (bid_Pubkey bid, parent) bid (latestBlockByBuilder au))" for k b
    using that assms(1,2) set_AList_update by (fastforce simp: auction_ok_def)
  ultimately show ?thesis
    using assms(1) by (auto simp: auction_ok_def distinct_update)
qed

text \<open>A bid that is at least the old maximum is the new one; a lower bid of another builder leaves it.\<close>

lemma best_for_raise:
  assumes "best_for num L p m" and "\<And>b. m = Some b \<Longrightarrow> num (bid_Value b) \<le> num (bid_Value bid)"
  shows "best_for num (L((bid_Pubkey bid, p) \<mapsto> bid)) p (Some bid)"
  using assms by (cases m) (auto simp: best_for_def intro: le_trans)

lemma best_for_keep:
  assumes "best_for num L p (Some m)" and "num (bid_Value bid) \<le> num (bid_Value m)"
    and "bid_Pubkey m \<noteq> bid_Pubkey bid"
  shows "best_for num (L((bid_Pubkey bid, p) \<mapsto> bid)) p (Some m)"
  using assms by (auto simp: best_for_def)

lemma best_for_reassign:
  assumes ok: "distinct (map fst xs)" "\<forall>(k, b) \<in> set xs. entry_ok s k b" and it: "iter_ok iter"
    and bid: "((bid_Pubkey bid, p), bid) \<in> set xs" and mps: "mps p = Some bid"
  shows "\<exists>m. reassign num p s (iter xs) mps = Ok (mps(p \<mapsto> m)) \<and> best_for num (map_of xs) p (Some m)"
proof -
  have set: "set (iter xs) = set xs"
    using it set_eq_if_mset_eq [of "iter xs" xs] by (simp add: iter_ok_def)
  then have "\<forall>kb \<in> set (iter xs). entry_ok s (fst kb) (snd kb)"
    using ok(2) by auto
  from reassign_best [of "iter xs" s mps p bid num, OF this mps] obtain m where
    m: "reassign num p s (iter xs) mps = Ok (mps(p \<mapsto> m))"
      "m = bid \<or> (\<exists>k. (k, m) \<in> set xs \<and> snd k = p)"
      "\<forall>(k, b) \<in> set xs. snd k = p \<longrightarrow> num (bid_Value b) \<le> num (bid_Value m)"
    unfolding set by blast
  from m(2) bid ok(2) have "((bid_Pubkey m, p), m) \<in> set xs"
    by (auto simp: entry_ok_def)
  then have "best_for num (map_of xs) p (Some m)"
    using m(3) ok(1) by (auto simp: best_for_def)
  with m(1) show ?thesis by blast
qed

lemma AddBlock_same_slot:
  fixes a :: auctioneer and bid :: bid
  defines "p \<equiv> auctions a ! slot_index (bid_Slot bid)"
  assumes ok: "auctioneer_ok num a" and it: "iter_ok iter"
    and parent: "(GetParentHash (bid_Header bid) :: (go_error, hash) res) = Ok parent"
    and slot: "au_Slot (heap a ! p) = bid_Slot bid"
  shows "\<exists>r mps. AddBlock num iter bid a = Ok (r, a\<lparr>heap := (heap a)[p := (heap a ! p)
              \<lparr>latestBlockByBuilder := AList.update (bid_Pubkey bid, parent) bid (latestBlockByBuilder (heap a ! p)),
               maxProfit := mps\<rparr>]\<rparr>)
         \<and> (\<forall>q. q \<noteq> parent \<longrightarrow> mps q = maxProfit (heap a ! p) q)
         \<and> best_for num ((map_of (latestBlockByBuilder (heap a ! p)))((bid_Pubkey bid, parent) \<mapsto> bid)) parent (mps parent)
         \<and> (r \<longleftrightarrow> (\<forall>m. maxProfit (heap a ! p) parent = Some m \<longrightarrow> num (bid_Value m) \<le> num (bid_Value bid)))
         \<and> (r \<longrightarrow> mps parent = Some bid)"
proof -
  let ?au = "heap a ! p"
  let ?xs = "AList.update (bid_Pubkey bid, parent) bid (latestBlockByBuilder ?au)"
  have au: "auction_ok num ?au"
    using auctioneer_okD(3) [OF ok slot_index_less] by (simp add: p_def)
  have best: "best_for num (map_of (latestBlockByBuilder ?au)) parent (maxProfit ?au parent)"
    using au by (simp add: auction_ok_def)
  have new: "entry_ok (bid_Slot bid) (bid_Pubkey bid, parent) bid"
    using parent by (simp add: entry_ok_def)
  have xs: "distinct (map fst ?xs)" "\<forall>(k, b) \<in> set ?xs. entry_ok (bid_Slot bid) k b"
    "((bid_Pubkey bid, parent), bid) \<in> set ?xs"
    using au new slot set_AList_update [of "(bid_Pubkey bid, parent)" bid "latestBlockByBuilder ?au"]
    by (auto simp: auction_ok_def distinct_update intro!: map_of_SomeD)
  note step = AddBlock_def parent slot p_def [symmetric] Let_def
  show ?thesis
  proof (cases "\<forall>m. maxProfit ?au parent = Some m \<longrightarrow> num (bid_Value m) \<le> num (bid_Value bid)")
    case True
    then show ?thesis
      using best_for_raise [OF best, of bid]
      by (intro exI [of _ True] exI [of _ "(maxProfit ?au)(parent \<mapsto> bid)"])
        (auto simp: step split: option.splits)
  next
    case False
    then obtain mp where mp: "maxProfit ?au parent = Some mp" "num (bid_Value bid) < num (bid_Value mp)"
      by auto
    then have ne: "(bid = mp) = False"
      by auto
    show ?thesis
    proof (cases "bid_Pubkey mp = bid_Pubkey bid")
      case True
      have "bid_Slot mp = bid_Slot bid"
        using best mp(1) au slot by (auto simp: best_for_def auction_ok_def entry_ok_def dest!: map_of_SomeD)
      then show ?thesis
        using best_for_reassign [OF xs(1,2) it xs(3), of "(maxProfit ?au)(parent \<mapsto> bid)" num, OF fun_upd_same] mp True ne
        by (intro exI [of _ False]) (auto simp: step)
    next
      case False
      then show ?thesis
        using best_for_keep [OF best [unfolded mp(1)], of bid] mp ne
        by (intro exI [of _ False] exI [of _ "maxProfit ?au"]) (auto simp: step)
    qed
  qed
qed

lemma GetParentHash_not_Err: "GetParentHash h \<noteq> Err e"
  by (cases h) (simp_all add: deref_def split: option.splits)

lemma has_headerE:
  assumes "has_header b"
  obtains parent where "(GetParentHash (bid_Header b) :: (go_error, hash) res) = Ok parent"
  using assms GetParentHash_not_Err unfolding has_header_def
  by (metis res.exhaust)

lemma AddBlock_refines:
  assumes ok: "auctioneer_ok num a" and it: "iter_ok iter" and hdr: "has_header bid"
  shows "\<exists>r a'. AddBlock num iter bid a = Ok (r, a') \<and> auctioneer_ok num a'
           \<and> abs_auctions a' = abs_step (abs_auctions a) bid"
proof -
  let ?i = "slot_index (bid_Slot bid)"
  let ?p = "auctions a ! ?i"
  obtain parent where parent: "(GetParentHash (bid_Header bid) :: (go_error, hash) res) = Ok parent"
    using hdr by (rule has_headerE)
  note okD = auctioneer_okD [OF ok slot_index_less [of "bid_Slot bid"]]
  have abs: "abs_auctions a ! ?i = abs_auction_of (heap a ! ?p)"
    using okD(4) by (simp add: abs_auctions_def)
  consider (older) "au_Slot (heap a ! ?p) > bid_Slot bid" | (newer) "au_Slot (heap a ! ?p) < bid_Slot bid"
    | (same) "au_Slot (heap a ! ?p) = bid_Slot bid"
    by (rule linorder_cases)
  then show ?thesis
  proof cases
    case older
    then show ?thesis
      using ok by (simp add: AddBlock_def parent Let_def abs_step_def abs_add_def abs abs_auction_of_def)
        (auto simp: abs [symmetric] abs_auction_of_def [symmetric])
  next
    case newer
    have "slot_index (au_Slot (new_auction (bid_Slot bid))) = ?i"
      by (simp add: new_auction_def)
    note facts = auctioneer_ok_open [OF ok slot_index_less auction_ok_new this]
      abs_auctions_open [OF ok slot_index_less]
    have "\<not> bid_Slot bid < au_Slot (heap a ! ?p)"
      using newer by simp
    then show ?thesis
      using newer facts(1) by (simp add: AddBlock_def parent Let_def abs_step_def abs_add_def abs facts(2))
        (auto simp: abs_auction_of_def new_auction_def)
  next
    case same
    from AddBlock_same_slot [OF ok it parent same] obtain r mps where
      step: "AddBlock num iter bid a = Ok (r, a\<lparr>heap := (heap a)[?p := (heap a ! ?p)
              \<lparr>latestBlockByBuilder := AList.update (bid_Pubkey bid, parent) bid (latestBlockByBuilder (heap a ! ?p)),
               maxProfit := mps\<rparr>]\<rparr>)"
      and mps: "\<And>q. q \<noteq> parent \<Longrightarrow> mps q = maxProfit (heap a ! ?p) q"
        "best_for num ((map_of (latestBlockByBuilder (heap a ! ?p)))((bid_Pubkey bid, parent) \<mapsto> bid)) parent (mps parent)"
      by blast
    have "entry_ok (au_Slot (heap a ! ?p)) (bid_Pubkey bid, parent) bid"
      using parent same by (simp add: entry_ok_def)
    note au' = auction_ok_update [OF okD(3) this mps]
    show ?thesis
      unfolding step using auctioneer_ok_store [OF ok slot_index_less au'] okD(2) same
      by (simp add: abs_auctions_store [OF ok slot_index_less] abs_step_def parent abs_add_def abs)
        (simp add: abs_auction_of_def)
  qed
qed

lemma AddBlocks_refines:
  assumes "auctioneer_ok num a" and "\<forall>(it, b) \<in> set steps. iter_ok it \<and> has_header b"
  shows "\<exists>a'. AddBlocks num steps a = Ok a' \<and> auctioneer_ok num a'
           \<and> abs_auctions a' = foldl abs_step (abs_auctions a) (map snd steps)"
  using assms
proof (induction steps arbitrary: a)
  case Nil
  then show ?case by simp
next
  case (Cons s steps)
  obtain it b where s: "s = (it, b)" by (cases s)
  with Cons.prems AddBlock_refines [of num a it b] obtain r a' where
    "AddBlock num it b a = Ok (r, a')" "auctioneer_ok num a'" "abs_auctions a' = abs_step (abs_auctions a) b"
    by auto
  with Cons.IH [of a'] Cons.prems(2) show ?case
    by (simp add: s)
qed

lemma MaxProfitBlock_serves:
  assumes "auctioneer_ok num a"
  shows "serves num (abs_auctions a ! slot_index slot) slot parent (MaxProfitBlock slot parent a)"
proof -
  let ?au = "heap a ! (auctions a ! slot_index slot)"
  note okD = auctioneer_okD [OF assms slot_index_less [of slot]]
  have abs: "abs_auctions a ! slot_index slot = abs_auction_of ?au"
    using okD(4) by (simp add: abs_auctions_def)
  have best: "best_for num (map_of (latestBlockByBuilder ?au)) parent (maxProfit ?au parent)"
    using okD(3) by (simp add: auction_ok_def)
  have "bid_Slot m = au_Slot ?au" if "maxProfit ?au parent = Some m" for m
    using that best okD(3) by (auto simp: best_for_def auction_ok_def entry_ok_def dest!: map_of_SomeD)
  then show ?thesis
    using best by (auto simp: serves_def abs abs_auction_of_def MaxProfitBlock_def split: option.splits)
qed

lemma abs_auctions_New: "abs_auctions NewAuctioneer = abs_init"
  by (simp add: abs_auctions_def NewAuctioneer_def abs_auction_of_def new_auction_def abs_init_def)

section \<open>Properties\<close>

text \<open>
  C3: whatever bids arrive and in whatever order Go iterates over its maps, the auctioneer never
  panics on bids that have a header, its heap of auctions with cached maxima refines the plain map
  of latest bids of each builder, and \<open>MaxProfitBlock\<close> serves for every slot and parent a latest
  bid of maximal value among the bids that count, and nothing if there is none.
\<close>

theorem auction_refines_latest_bids:
  assumes "\<forall>(it, b) \<in> set steps. iter_ok it \<and> has_header b"
  shows "\<exists>a. AddBlocks num steps NewAuctioneer = Ok a
           \<and> abs_auctions a = foldl abs_step abs_init (map snd steps)
           \<and> (\<forall>slot parent. serves num (abs_auctions a ! slot_index slot) slot parent
                              (MaxProfitBlock slot parent a))"
  using AddBlocks_refines [OF auctioneer_ok_New [of num] assms] MaxProfitBlock_serves [of num]
  unfolding abs_auctions_New by blast

theorem auction_refines_latest_bids_witness:
  "\<exists>a. AddBlocks (\<lambda>x. unat (hd (barr_list x)))
         [(id, capella_bid 1 7 1 5), (rev, capella_bid 1 7 2 9), (rev, capella_bid 1 7 2 3)] NewAuctioneer = Ok a
     \<and> abs_auctions a = foldl abs_step abs_init [capella_bid 1 7 1 5, capella_bid 1 7 2 9, capella_bid 1 7 2 3]
     \<and> MaxProfitBlock 1 (barr_copy [7]) a = Some (capella_bid 1 7 1 5)"
proof -
  have ok: "\<forall>(it, b) \<in> set [(id, capella_bid 1 7 1 5), (rev, capella_bid 1 7 2 9), (rev, capella_bid 1 7 2 3)].
      iter_ok it \<and> has_header b"
    by (simp add: iter_ok_def has_header_def)
  have [simp]: "slot_index 1 = 1"
    by (simp add: slot_index_def NumberOfSlotsInState_def unat_mod)
  from auction_refines_latest_bids [OF ok, of "\<lambda>x. unat (hd (barr_list x))"] obtain a where
    a: "AddBlocks (\<lambda>x. unat (hd (barr_list x)))
         [(id, capella_bid 1 7 1 5), (rev, capella_bid 1 7 2 9), (rev, capella_bid 1 7 2 3)] NewAuctioneer = Ok a"
      "abs_auctions a = foldl abs_step abs_init [capella_bid 1 7 1 5, capella_bid 1 7 2 9, capella_bid 1 7 2 3]"
      "\<forall>slot parent. serves (\<lambda>x. unat (hd (barr_list x))) (abs_auctions a ! slot_index slot) slot parent
         (MaxProfitBlock slot parent a)"
    unfolding list.map snd_conv by blast
  have "MaxProfitBlock 1 (barr_copy [7]) a = Some (capella_bid 1 7 1 5)"
    using a(3) [rule_format, of 1 "barr_copy [7]"] unfolding a(2)
    by (auto simp: serves_def abs_step_def abs_init_def abs_add_def best_for_def hd_barr_list_copy
        split: option.splits if_splits)
  with a(1,2) show ?thesis by blast
qed

text \<open>
  a bid for the auction's current slot is reported as accepted exactly when no served bid of its
  parent is worth more; an accepted bid is the one served from then on, and no other slot index or
  parent is affected.
\<close>

theorem AddBlock_current_slot:
  assumes "auctioneer_ok num a" and "iter_ok iter"
    and "(GetParentHash (bid_Header bid) :: (go_error, hash) res) = Ok parent"
    and "au_Slot (heap a ! (auctions a ! slot_index (bid_Slot bid))) = bid_Slot bid"
  shows "\<exists>r a'. AddBlock num iter bid a = Ok (r, a')
           \<and> (r \<longleftrightarrow> (case MaxProfitBlock (bid_Slot bid) parent a of
                     None \<Rightarrow> True | Some m \<Rightarrow> num (bid_Value m) \<le> num (bid_Value bid)))
           \<and> (r \<longrightarrow> MaxProfitBlock (bid_Slot bid) parent a' = Some bid)
           \<and> (\<forall>s q. slot_index s \<noteq> slot_index (bid_Slot bid) \<or> q \<noteq> parent
                \<longrightarrow> MaxProfitBlock s q a' = MaxProfitBlock s q a)"
proof -
  let ?i = "slot_index (bid_Slot bid)"
  let ?p = "auctions a ! ?i"
  note okD = auctioneer_okD [OF assms(1) slot_index_less]
  have slot: "bid_Slot m = bid_Slot bid" if "maxProfit (heap a ! ?p) q = Some m" for m q
    using that okD(3) [of "bid_Slot bid"] assms(4)
    by (auto simp: auction_ok_def best_for_def entry_ok_def dest!: map_of_SomeD spec [where x = q])
  have cur: "MaxProfitBlock s q a = (if s = bid_Slot bid then maxProfit (heap a ! ?p) q else None)"
    if "slot_index s = ?i" for s q
    using that slot [of q] by (auto simp: MaxProfitBlock_def split: option.splits)
  have other: "auctions a ! slot_index s \<noteq> ?p" if "slot_index s \<noteq> ?i" for s
    using that okD(4,5) by (metis slot_index_less nth_eq_iff_index_eq)
  have mpb: "MaxProfitBlock s q (a\<lparr>heap := (heap a)[?p := (heap a ! ?p)\<lparr>latestBlockByBuilder := xs, maxProfit := mps\<rparr>]\<rparr>)
      = (if slot_index s = ?i
         then (case mps q of None \<Rightarrow> None | Some mp \<Rightarrow> if bid_Slot mp = s then Some mp else None)
         else MaxProfitBlock s q a)" for s q xs mps
    using okD(1) other [of s] by (auto simp: MaxProfitBlock_def)
  from AddBlock_same_slot [OF assms] obtain r mps where
    step: "AddBlock num iter bid a = Ok (r, a\<lparr>heap := (heap a)[?p := (heap a ! ?p)
        \<lparr>latestBlockByBuilder := AList.update (bid_Pubkey bid, parent) bid (latestBlockByBuilder (heap a ! ?p)),
         maxProfit := mps\<rparr>]\<rparr>)" (is "_ = Ok (r, ?a')")
    and mps: "\<And>q. q \<noteq> parent \<Longrightarrow> mps q = maxProfit (heap a ! ?p) q" "r \<longrightarrow> mps parent = Some bid"
    and r: "r \<longleftrightarrow> (\<forall>m. maxProfit (heap a ! ?p) parent = Some m \<longrightarrow> num (bid_Value m) \<le> num (bid_Value bid))"
    by blast
  have "r \<longleftrightarrow> (case MaxProfitBlock (bid_Slot bid) parent a of
      None \<Rightarrow> True | Some m \<Rightarrow> num (bid_Value m) \<le> num (bid_Value bid))"
    unfolding r by (simp add: cur split: option.split)
  moreover have "r \<longrightarrow> MaxProfitBlock (bid_Slot bid) parent ?a' = Some bid"
    using mps(2) by (simp add: mpb)
  moreover have "MaxProfitBlock s q ?a' = MaxProfitBlock s q a"
    if "slot_index s \<noteq> ?i \<or> q \<noteq> parent" for s q
    using that mps(1) [of q] unfolding mpb by (auto simp: MaxProfitBlock_def)
  ultimately show ?thesis
    using step by blast
qed

theorem AddBlock_current_slot_witness:
  "\<exists>r a'. AddBlock (\<lambda>x. unat (hd (barr_list x))) rev (capella_bid 1 7 2 9) NewAuctioneer = Ok (r, a')
     \<and> r \<and> MaxProfitBlock 1 (barr_copy [7]) a' = Some (capella_bid 1 7 2 9)"
proof -
  have "slot_index 1 = 1"
    by (simp add: slot_index_def NumberOfSlotsInState_def unat_mod)
  then show ?thesis
    using AddBlock_current_slot [OF auctioneer_ok_New, of rev "capella_bid 1 7 2 9" "barr_copy [7]"
        "\<lambda>x. unat (hd (barr_list x))"]
    by (auto simp: iter_ok_def NewAuctioneer_def new_auction_def MaxProfitBlock_def)
qed

text \<open>
  C38: a bid for a slot newer than the auction's opens an empty auction and is itself recorded only
  in the object being replaced: \<open>AddBlock\<close> reports that it was accepted, and \<open>MaxProfitBlock\<close> finds
  no bid for its slot and parent.
\<close>

theorem AddBlock_newer_slot_loses_bid:
  assumes "auctioneer_ok num a" and "has_header bid"
    and "au_Slot (heap a ! (auctions a ! slot_index (bid_Slot bid))) < bid_Slot bid"
  shows "\<exists>a'. AddBlock num iter bid a = Ok (True, a') \<and> (\<forall>parent. MaxProfitBlock (bid_Slot bid) parent a' = None)"
proof -
  obtain parent where "(GetParentHash (bid_Header bid) :: (go_error, hash) res) = Ok parent"
    using assms(2) by (rule has_headerE)
  then show ?thesis
    using assms(3) nth_open(1) [OF assms(1), of "slot_index (bid_Slot bid)" "slot_index (bid_Slot bid)"]
    by (auto simp: AddBlock_def Let_def MaxProfitBlock_def new_auction_def not_less_iff_gr_or_eq)
qed

theorem AddBlock_newer_slot_loses_bid_witness:
  "\<exists>a'. AddBlock (\<lambda>x. 0) id (capella_bid 4 7 1 5) NewAuctioneer = Ok (True, a')
      \<and> MaxProfitBlock 4 (barr_copy [7]) a' = None"
proof -
  have "slot_index 4 = 0"
    by (simp add: slot_index_def NumberOfSlotsInState_def unat_mod)
  then show ?thesis
    using AddBlock_newer_slot_loses_bid [OF auctioneer_ok_New, of "capella_bid 4 7 1 5" "\<lambda>x. 0" id]
    by (auto simp: has_header_def NewAuctioneer_def new_auction_def)
qed

end
