(* ===== verification/Relay.thy ===== *)
theory Relay
  imports Contents BeaconState Auction
begin

text \<open>
  State, configuration and dependencies of the relay (\<open>relay/relay.go\<close>, \<open>relay/config.go\<close>), and the
  submission of blocks by builders (\<open>relay/submit.go\<close>).

  The interfaces the relay is built on (payload cache, datastore, validator cache and store, block
  validation, signature verifier, beacon node) are the fields of \<open>relay_deps\<close>, functions on an
  abstract world.  Calls whose outcome the relay only logs (the data API store, the stream, the
  warehouse) are events of \<open>rs_log\<close>.  The auctioneer is the one of theory \<open>Auction\<close>.

  A handler reads the beacon state several times while the beacon manager updates it; in
  \<open>SubmitBlock\<close> the readings are the arguments \<open>bs 0\<close>, \<open>bs 1\<close>, ... in the order of the source.
  Readings of the clock and random numbers are arguments too.
\<close>

section \<open>Errors\<close>

abbreviation "ErrUnknownValue \<equiv> ErrNew ''value is unknown''"
abbreviation "ErrPayloadDiffBlockHash \<equiv> ErrNew ''slot payload already delivered with different blockHash''"
abbreviation "ErrHigherSlotDelivered \<equiv> ErrNew ''slot already delivered with higher slot''"
abbreviation "ErrNoPayloadFound \<equiv> ErrNew ''no payload found''"
abbreviation "ErrMissingSecretKey \<equiv> ErrNew ''secret key is nil''"
abbreviation "ErrNoBuilderBid \<equiv> ErrNew ''no builder bid''"
abbreviation "ErrTraceMismatch \<equiv> ErrNew ''trace and payload mismatch''"
abbreviation "ErrZeroBid \<equiv> ErrNew ''zero valued builder bid''"
abbreviation "ErrOldSlot \<equiv> ErrNew ''requested slot is old''"
abbreviation "ErrInvalidSignature \<equiv> ErrNew ''invalid signature''"
abbreviation "ErrStore \<equiv> ErrNew ''failed to store''"
abbreviation "ErrInternal \<equiv> ErrNew ''internal server error''"
abbreviation "ErrUnknownValidator \<equiv> ErrNew ''unknown validator''"
abbreviation "ErrVerification \<equiv> ErrNew ''failed to verify''"
abbreviation "ErrInvalidTimestamp \<equiv> ErrNew ''invalid timestamp''"
abbreviation "ErrInvalidSlot \<equiv> ErrNew ''invalid slot''"
abbreviation "ErrEmptyBlock \<equiv> ErrNew ''block is empty''"
abbreviation "ErrWrongPayload \<equiv> ErrNew ''wrong publish payload''"
abbreviation "ErrFailedToPublish \<equiv> ErrNew ''failed to publish block''"
abbreviation "ErrLateRequest \<equiv> ErrNew ''request too late''"
abbreviation "ErrInvalidExecutionPayload \<equiv> ErrNew ''invalid execution payload''"
abbreviation "ErrWrongFeeRecipient \<equiv> ErrNew ''wrong fee recipient''"
abbreviation "ErrInvalidWithdrawalRoot \<equiv> ErrNew ''invalid withdrawal root''"
abbreviation "ErrInvalidRandao \<equiv> ErrNew ''randao is invalid''"

section \<open>Configuration, dependencies, state\<close>

text \<open>Durations: the time limit in milliseconds, the cache lifetime in nanoseconds.\<close>

record 'sk relay_config =
  BuilderSigningDomain :: domain
  ProposerSigningDomain :: "fork_version \<rightharpoonup> domain"
  rc_PubKey :: pubkey
  rc_SecretKey :: "'sk option"
  GetPayloadRequestTimeLimit :: int
  RegistrationCacheTTL :: int
  Distributed :: bool
  StreamServedBids :: bool
  rc_PublishBlock :: bool
  AllowedListedBuilders :: "pubkey list option"
  rc_warehouse :: bool

record validator_cache_entry =
  vce_Time :: int
  vce_Entry :: signed_registration

record 'w relay_deps =
  pc_ContainsOrAdd :: "payload_key \<Rightarrow> block_and_trace \<Rightarrow> 'w \<Rightarrow> 'w"
  pc_Add :: "payload_key \<Rightarrow> block_and_trace \<Rightarrow> 'w \<Rightarrow> 'w"
  pc_Get :: "payload_key \<Rightarrow> 'w \<Rightarrow> block_and_trace option \<times> 'w"
  d_PutPayload :: "payload_key \<Rightarrow> block_and_trace \<Rightarrow> 'w \<Rightarrow> go_error option \<times> 'w"
  d_GetPayload :: "fork_version \<Rightarrow> payload_key \<Rightarrow> 'w \<Rightarrow> (go_error, block_and_trace) res"
  vc_Add :: "pubkey \<Rightarrow> validator_cache_entry \<Rightarrow> 'w \<Rightarrow> 'w"
  vc_Get :: "pubkey \<Rightarrow> 'w \<Rightarrow> validator_cache_entry option \<times> 'w"
  vc_Remove :: "pubkey \<Rightarrow> 'w \<Rightarrow> 'w"
  vstore_GetRegistration :: "pubkey \<Rightarrow> 'w \<Rightarrow> (go_error, signed_registration) res"
  bvc_IsSet :: bool
  bvc_ValidateBlock :: "bellatrix_submit \<Rightarrow> u64 \<Rightarrow> go_error option"
  bvc_ValidateBlockV2 :: "capella_submit \<Rightarrow> u64 \<Rightarrow> root \<Rightarrow> go_error option"
  ver_Enqueue :: "signature \<Rightarrow> pubkey \<Rightarrow> root \<Rightarrow> go_error option"
  VerifySignatureBytes :: "root \<Rightarrow> bytes \<Rightarrow> bytes \<Rightarrow> (go_error, bool) res"
  beacon_PublishBlock :: "nat \<Rightarrow> signed_beacon_block \<Rightarrow> go_error option"

datatype relay_event =
  EvPutBuilderBlockSubmission bid_trace_with_timestamp bool
| EvPublishBuilderBid bid
| EvPublishBlockCache block_and_trace
| EvWarehouse string u64 hash
| EvPublishBlock signed_beacon_block
| EvPutDelivered slot delivered_trace

record 'w relay_state =
  rs_a :: auctioneer
  rs_world :: 'w
  rs_lastDelivered :: "u64 \<times> hash"
  rs_log :: "relay_event list"

definition NewRelay :: "'w \<Rightarrow> 'w relay_state" where
  "NewRelay w = \<lparr>rs_a = NewAuctioneer, rs_world = w, rs_lastDelivered = (0, 0), rs_log = []\<rparr>"

definition emit :: "relay_event list \<Rightarrow> 'w relay_state \<Rightarrow> 'w relay_state" where
  "emit evs s = s\<lparr>rs_log := rs_log s @ evs\<rparr>"

type_synonym ('w, 'a) relay_handler = "(go_error, 'w relay_state, 'a) handler"

section \<open>Checks on a submission\<close>

text \<open>
  \<open>verifyBlock\<close> reads the beacon state \<open>bs\<close> and, if the RANDAO value is missing or different, once
  more after a second: \<open>bs'\<close>.  The result says whether it had to.
\<close>

definition verifyBlock ::
  "'sk boost_lib \<Rightarrow> submit_request \<Rightarrow> multi_slot_state \<Rightarrow> multi_slot_state \<Rightarrow> (go_error, bool) res" where
  "verifyBlock L sbr bs bs' =
     (if sr_Slot sbr = 0 then Err ErrEmptyBlock
      else
        let expectedTimestamp = GenesisTime (ms_Genesis bs) + sr_Slot sbr * 12
        in if sr_Timestamp sbr \<noteq> expectedTimestamp
           then Err (Wrap (error_text ErrInvalidTimestamp @ '': got '' @ dec (unat (sr_Timestamp sbr))
                           @ '', expected '' @ dec (unat expectedTimestamp)) ErrInvalidTimestamp)
           else
             let maxSlot = ms_HeadSlot bs + 1;
                 minSlot = maxSlot - (NumberOfSlotsInState - 1)
             in if sr_Slot sbr > maxSlot \<or> sr_Slot sbr < minSlot
                then Err (Wrap (error_text ErrInvalidSlot @ '': got '' @ dec (unat (sr_Slot sbr))
                                @ '', expected slot in range ['' @ dec (unat minSlot) @ ''-''
                                @ dec (unat maxSlot) @ '']'') ErrInvalidSlot)
                else bind_res (Randao (sr_Slot sbr - 1) (sr_ParentHash sbr) bs) (\<lambda>randao.
                  if rs_Randao randao = [] \<or> rs_Randao randao \<noteq> hash_String L (sr_Random sbr)
                  then bind_res (Randao (sr_Slot sbr - 1) (sr_ParentHash sbr) bs') (\<lambda>randao.
                    if rs_Randao randao = []
                    then Err (ErrNew (''randao for slot '' @ dec (unat (sr_Slot sbr)) @ '' not found''))
                    else if rs_Randao randao \<noteq> hash_String L (sr_Random sbr)
                    then Err (Wrap (error_text ErrInvalidRandao @ '': got '' @ hash_String L (sr_Random sbr)
                                    @ '', expected '' @ rs_Randao randao) ErrInvalidRandao)
                    else Ok True)
                  else if BigInt L (sr_Value sbr) = 0 \<and> sr_NumTx sbr = 0 then Err ErrZeroBid
                  else if sr_BlockHash sbr \<noteq> sr_TraceBlockHash sbr then Err ErrTraceMismatch
                  else if sr_ParentHash sbr \<noteq> sr_TraceParentHash sbr then Err ErrTraceMismatch
                  else Ok False))"

definition verifyWithdrawals ::
  "'sk boost_lib \<Rightarrow> submit_request \<Rightarrow> multi_slot_state \<Rightarrow> multi_slot_state \<Rightarrow> (go_error, root \<times> bool) res" where
  "verifyWithdrawals L sbr bs bs' =
     (case sr_Withdrawals sbr of
        None \<Rightarrow> Ok (0, False)
      | Some ws \<Rightarrow>
          bind_res (Withdrawals (sr_Slot sbr - 1) (sr_ParentHash sbr) bs) (\<lambda>st.
          bind_res
            (if ws_Root st = 0
             then bind_res (Withdrawals (sr_Slot sbr - 1) (sr_ParentHash sbr) bs') (\<lambda>st.
                    if ws_Root st = 0
                    then Err (ErrNew (''withdrawals for slot '' @ dec (unat (sr_Slot sbr)) @ '' not found''))
                    else Ok (st, True))
             else Ok (st, False)) (\<lambda>(st, retried).
          bind_res (map_err (wrap_msg ''failed to compute withdrawals root'')
                      (HashWithdrawals_root (hasher L) (Some ws))) (\<lambda>withdrawalsRoot.
            if ws_Root st \<noteq> withdrawalsRoot
            then Err (Wrap (error_text ErrInvalidWithdrawalRoot @ '': got '' @ hash_String L withdrawalsRoot
                            @ '', expected '' @ hash_String L (ws_Root st)) ErrInvalidWithdrawalRoot)
            else Ok (withdrawalsRoot, retried)))))"

definition allow_listed :: "'sk relay_config \<Rightarrow> submit_request \<Rightarrow> bool" where
  "allow_listed cfg sbr =
     (case AllowedListedBuilders cfg of
        None \<Rightarrow> False
      | Some keys \<Rightarrow> sr_Slot sbr > 0 \<and> sr_BuilderPubkey sbr \<in> set keys)"

fun fork_validate :: "'sk boost_lib \<Rightarrow> 'w relay_deps \<Rightarrow> u64 \<Rightarrow> submit_request \<Rightarrow> (go_error, unit) res" where
  "fork_validate L D gasLimit (BellatrixSubmit t) =
     (case bvc_ValidateBlock D t gasLimit of
        Some e \<Rightarrow> Err (wrap_text ErrVerification e)
      | None \<Rightarrow> Ok ())"
| "fork_validate L D gasLimit (CapellaSubmit t) =
     bind_res (map_err (wrap_text ErrVerification)
                 (HashWithdrawals_root (hasher L) (EpWithdrawals (CapellaExecutionPayload t)))) (\<lambda>withdrawalsRoot.
       case bvc_ValidateBlockV2 D t gasLimit withdrawalsRoot of
         Some e \<Rightarrow> Err (wrap_text ErrVerification e)
       | None \<Rightarrow> Ok ())"

definition validateBlock ::
  "'sk boost_lib \<Rightarrow> 'sk relay_config \<Rightarrow> 'w relay_deps \<Rightarrow> u64 \<Rightarrow> submit_request \<Rightarrow> (go_error, unit) res" where
  "validateBlock L cfg D gasLimit sbr =
     (if \<not> bvc_IsSet D then Ok ()
      else if allow_listed cfg sbr then Ok ()
      else fork_validate L D gasLimit sbr)"

definition verifySignature ::
  "'sk boost_lib \<Rightarrow> 'sk relay_config \<Rightarrow> 'w relay_deps \<Rightarrow> submit_request \<Rightarrow> (go_error, unit) res" where
  "verifySignature L cfg D sbr =
     (if allow_listed cfg sbr then Ok ()
      else bind_res (map_err (\<lambda>_. ErrInvalidSignature) (sr_ComputeSigningRoot L sbr (BuilderSigningDomain cfg))) (\<lambda>msg.
        case ver_Enqueue D (sr_Signature sbr) (sr_BuilderPubkey sbr) msg of
          Some e \<Rightarrow> Err (wrap_text ErrVerification e)
        | None \<Rightarrow> Ok ()))"

text \<open>
  \<open>checkRegistration\<close> at the time \<open>now\<close> (nanoseconds), with the random number \<open>rnd\<close> below the cache
  lifetime.  \<open>rand.Intn\<close> panics on a lifetime that is not positive.
\<close>

definition check_cached ::
  "'sk relay_config \<Rightarrow> 'w relay_deps \<Rightarrow> int \<Rightarrow> int \<Rightarrow> pubkey \<Rightarrow> address \<Rightarrow> ('w, u64 option) relay_handler" where
  "check_cached cfg D now rnd pubkey feeRecipient s =
     (case vc_Get D pubkey (rs_world s) of
        (None, w) \<Rightarrow> (Ok None, s\<lparr>rs_world := w\<rparr>)
      | (Some v, w) \<Rightarrow>
          if RegistrationCacheTTL cfg \<le> 0 then (Panic, s\<lparr>rs_world := w\<rparr>)
          else
            let w' = (if now - vce_Time v > rnd + RegistrationCacheTTL cfg then vc_Remove D pubkey w else w)
            in case sreg_Message (vce_Entry v) of
                 None \<Rightarrow> (Panic, s\<lparr>rs_world := w'\<rparr>)
               | Some msg \<Rightarrow>
                   (Ok (if reg_FeeRecipient msg = feeRecipient then Some (reg_GasLimit msg) else None),
                    s\<lparr>rs_world := w'\<rparr>))"

definition check_stored ::
  "'w relay_deps \<Rightarrow> int \<Rightarrow> pubkey \<Rightarrow> address \<Rightarrow> ('w, u64) relay_handler" where
  "check_stored D now pubkey feeRecipient s =
     (case vstore_GetRegistration D pubkey (rs_world s) of
        Err e \<Rightarrow> (Err (wrap_msg ''fail to check registration'' e), s)
      | Panic \<Rightarrow> (Panic, s)
      | Ok v \<Rightarrow>
          (case sreg_Message v of
             None \<Rightarrow> (Panic, s)
           | Some msg \<Rightarrow>
               if reg_FeeRecipient msg \<noteq> feeRecipient then (Err ErrWrongFeeRecipient, s)
               else (Ok (reg_GasLimit msg),
                     s\<lparr>rs_world := vc_Add D pubkey \<lparr>vce_Time = now, vce_Entry = v\<rparr> (rs_world s)\<rparr>)))"

definition checkRegistration ::
  "'sk relay_config \<Rightarrow> 'w relay_deps \<Rightarrow> int \<Rightarrow> int \<Rightarrow> pubkey \<Rightarrow> address \<Rightarrow> ('w, u64) relay_handler" where
  "checkRegistration cfg D now rnd pubkey feeRecipient =
     bind_h (check_cached cfg D now rnd pubkey feeRecipient) (\<lambda>g.
       case g of Some gasLimit \<Rightarrow> lift_h (Ok gasLimit) | None \<Rightarrow> check_stored D now pubkey feeRecipient)"

section \<open>Storing a submission\<close>

definition bidExtended :: "multi_slot_state \<Rightarrow> submit_request \<Rightarrow> header_ref \<Rightarrow> (go_error, bid) res" where
  "bidExtended bs sbr header =
     (let fork = ms_ForkVersion bs (sr_Slot sbr)
      in if fork = ForkBellatrix then
           (case header of
              BellatrixHeader h \<Rightarrow>
                Ok (BellatrixBid
                  \<lparr>bx_BuilderBid = \<lparr>bb_Header = h, bb_Value = sr_Value sbr, bb_Pubkey = sr_BuilderPubkey sbr\<rparr>,
                   bx_Proposer = sr_ProposerPubkey sbr, bx_Slot = sr_Slot sbr\<rparr>)
            | CapellaHeader _ \<Rightarrow> Err (ErrNew ''failed to cast header to bellatrix''))
         else if fork = ForkCapella then
           (case header of
              CapellaHeader h \<Rightarrow>
                Ok (CapellaBid
                  \<lparr>bx_BuilderBid = \<lparr>bb_Header = h, bb_Value = sr_Value sbr, bb_Pubkey = sr_BuilderPubkey sbr\<rparr>,
                   bx_Proposer = sr_ProposerPubkey sbr, bx_Slot = sr_Slot sbr\<rparr>)
            | BellatrixHeader _ \<Rightarrow> Err (ErrNew ''failed to cast header to capella''))
         else Err (ErrNew (''unkown fork: '' @ (if fork = ForkAltair then ''1'' else ''0''))))"

definition PutPayload :: "'w relay_deps \<Rightarrow> payload_key \<Rightarrow> block_and_trace \<Rightarrow> ('w, unit) relay_handler" where
  "PutPayload D key b s =
     (case d_PutPayload D key b (rs_world s) of
        (Some e, w) \<Rightarrow> (Err (Wrap (error_text ErrStore @ '' block as payload: '' @ error_text e) ErrStore), s\<lparr>rs_world := w\<rparr>)
      | (None, w) \<Rightarrow> (Ok (), s\<lparr>rs_world := w\<rparr>))"

definition relay_AddBlock ::
  "'sk boost_lib \<Rightarrow> ((latest_key \<times> bid) list \<Rightarrow> (latest_key \<times> bid) list) \<Rightarrow> bid \<Rightarrow> ('w, bool) relay_handler" where
  "relay_AddBlock L iter bid s =
     (case AddBlock (BigInt L) iter bid (rs_a s) of
        Ok (r, a) \<Rightarrow> (Ok r, s\<lparr>rs_a := a\<rparr>)
      | Err e \<Rightarrow> (Err e, s)
      | Panic \<Rightarrow> (Panic, s))"

definition storeSubmission ::
  "'sk boost_lib \<Rightarrow> 'sk relay_config \<Rightarrow> 'w relay_deps \<Rightarrow> nat \<Rightarrow> nat
     \<Rightarrow> ((latest_key \<times> bid) list \<Rightarrow> (latest_key \<times> bid) list) \<Rightarrow> multi_slot_state \<Rightarrow> submit_request
     \<Rightarrow> ('w, bool) relay_handler" where
  "storeSubmission L cfg D t1 t2 iter bs sbr =
     (case rc_SecretKey cfg of
        None \<Rightarrow> lift_h (Err ErrMissingSecretKey)
      | Some sk \<Rightarrow>
          bind_h (lift_h (map_err (wrap_msg ''fail to generate contents from block submission'')
                    (PreparePayloadContents L t1 t2 (Some sk) (rc_PubKey cfg) (BuilderSigningDomain cfg) sbr))) (\<lambda>complete.
          bind_h (PutPayload D (sr_ToPayloadKey sbr) (cbs_Payload complete)) (\<lambda>_.
          bind_h (lift_h (map_err (wrap_msg ''failed to generate bid'') (bidExtended bs sbr (cbs_Header complete)))) (\<lambda>bid.
          bind_h (relay_AddBlock L iter bid) (\<lambda>newMax s.
            (Ok newMax,
             emit (EvPutBuilderBlockSubmission (cbs_Trace complete) newMax
                   # (if Distributed cfg then [EvPublishBuilderBid bid] else [])) s))))))"

section \<open>SubmitBlock\<close>

text \<open>
  The validation runs beside the signature and withdrawal checks; a panic in it ends the process
  whatever they return.  \<open>ctx_err\<close> is the error of the request context if it ends before the
  validation answers.
\<close>

record submit_args =
  sa_bs :: "nat \<Rightarrow> multi_slot_state"
  sa_now :: int
  sa_rnd :: int
  sa_t1 :: nat
  sa_t2 :: nat
  sa_iter :: "(latest_key \<times> bid) list \<Rightarrow> (latest_key \<times> bid) list"
  sa_ctx_err :: "go_error option"

definition wait_validation :: "go_error option \<Rightarrow> (go_error, unit) res \<Rightarrow> (go_error, unit) res" where
  "wait_validation ctx_err v = (case ctx_err of Some e \<Rightarrow> Err e | None \<Rightarrow> v)"

definition SubmitBlock ::
  "'sk boost_lib \<Rightarrow> 'sk relay_config \<Rightarrow> 'w relay_deps \<Rightarrow> submit_args \<Rightarrow> submit_request \<Rightarrow> ('w, unit) relay_handler" where
  "SubmitBlock L cfg D ar sbr =
     bind_h (lift_h (map_err (wrap_text ErrVerification) (verifyBlock L sbr (sa_bs ar 0) (sa_bs ar 1)))) (\<lambda>bRetried.
     bind_h (checkRegistration cfg D (sa_now ar) (sa_rnd ar) (sr_ProposerPubkey sbr) (sr_ProposerFeeRecipient sbr)) (\<lambda>gasLimit.
       let valErr = validateBlock L cfg D gasLimit sbr
       in if valErr = Panic then lift_h Panic
          else
            bind_h (lift_h (verifySignature L cfg D sbr)) (\<lambda>_.
            bind_h (lift_h (map_err (wrap_msg ''failed to verify withdrawals'')
                      (verifyWithdrawals L sbr (sa_bs ar 2) (sa_bs ar 3)))) (\<lambda>_.
            bind_h (lift_h (wait_validation (sa_ctx_err ar) valErr)) (\<lambda>_.
            bind_h (storeSubmission L cfg D (sa_t1 ar) (sa_t2 ar) (sa_iter ar) (sa_bs ar 4) sbr) (\<lambda>isNewMax s.
              (Ok (), emit (if rc_warehouse cfg
                            then [EvWarehouse ''SubmitBlockRequest'' (sr_Slot sbr) (sr_BlockHash sbr)] else []) s)))))))"

section \<open>Subscribers\<close>

definition subscribe_block :: "'w relay_deps \<Rightarrow> block_and_trace \<Rightarrow> ('w, unit) relay_handler" where
  "subscribe_block D cache s =
     (case (bat_Proposer cache :: (go_error, pubkey) res, bat_Slot cache :: (go_error, u64) res) of
        (Ok proposer, Ok slot) \<Rightarrow>
          (Ok (), s\<lparr>rs_world := pc_ContainsOrAdd D
              \<lparr>pk_BlockHash = (case bat_ExecutionPayload cache of
                                 BellatrixPayload p \<Rightarrow> EpBlockHash p | CapellaPayload p \<Rightarrow> EpBlockHash p),
               pk_Proposer = proposer, pk_Slot = slot\<rparr> cache (rs_world s)\<rparr>)
      | _ \<Rightarrow> (Panic :: (go_error, unit) res, s))"

definition subscribe_bid ::
  "'sk boost_lib \<Rightarrow> ((latest_key \<times> bid) list \<Rightarrow> (latest_key \<times> bid) list) \<Rightarrow> bid \<Rightarrow> ('w, bool) relay_handler" where
  "subscribe_bid L iter bid = relay_AddBlock L iter bid"

end
