(* ===== verification/RelayDeliver.thy ===== *)
theory RelayDeliver
  imports Relay
begin

text \<open>
  The two calls of a proposer (\<open>relay/relay.go\<close>): \<open>GetHeader\<close>, which signs and serves the best bid,
  and \<open>GetPayload\<close>, which reveals a payload against a signed blinded block.

  The goroutine of \<open>GetHeader\<close> that copies a served payload into the cache is run at the point
  where it is started; the deferred goroutine of \<open>GetPayload\<close> that stores the request and the trace
  is run when the handler returns.
\<close>

section \<open>Time\<close>

text \<open>
  Milliseconds from the start of a slot to \<open>now\<close>, in 64-bit arithmetic:
  \<open>now - int64(genesis + slot * 12) * 1000\<close>.
\<close>

definition msIntoSlot :: "int \<Rightarrow> u64 \<Rightarrow> u64 \<Rightarrow> int" where
  "msIntoSlot now genesis slot = sint ((word_of_int now :: u64) - (genesis + slot * 12) * 1000)"

section \<open>GetHeader\<close>

definition fetch_payload ::
  "'sk relay_config \<Rightarrow> 'w relay_deps \<Rightarrow> fork_version \<Rightarrow> payload_key \<Rightarrow> 'w relay_state \<Rightarrow> 'w relay_state" where
  "fetch_payload cfg D fork key s =
     (case d_GetPayload D fork key (rs_world s) of
        Ok bbt \<Rightarrow>
          emit (if Distributed cfg \<and> StreamServedBids cfg then [EvPublishBlockCache bbt] else [])
            (s\<lparr>rs_world := pc_Add D key bbt (rs_world s)\<rparr>)
      | _ \<Rightarrow> s)"

definition refresh_cache ::
  "'sk relay_config \<Rightarrow> 'w relay_deps \<Rightarrow> fork_version \<Rightarrow> payload_key \<Rightarrow> ('w, unit) relay_handler" where
  "refresh_cache cfg D fork key s =
     (case pc_Get D key (rs_world s) of
        (None, w) \<Rightarrow> (Ok (), fetch_payload cfg D fork key (s\<lparr>rs_world := w\<rparr>))
      | (Some _, w) \<Rightarrow> (Ok (), s\<lparr>rs_world := w\<rparr>))"

definition signed_response ::
  "'sk boost_lib \<Rightarrow> 'sk relay_config \<Rightarrow> fork_version \<Rightarrow> header_ref \<Rightarrow> u256 \<Rightarrow> (go_error, header_response) res" where
  "signed_response L cfg fork header v =
     (if fork = ForkBellatrix then
        (case header of
           BellatrixHeader h \<Rightarrow>
             let bid = \<lparr>bb_Header = h, bb_Value = v, bb_Pubkey = rc_PubKey cfg\<rparr>
             in bind_res (map_err (\<lambda>_. ErrInternal)
                  (SignMessage L (bellatrix_bid_root L bid) (BuilderSigningDomain cfg) (rc_SecretKey cfg))) (\<lambda>sig.
                Ok (BellatrixHeaderResponse
                  \<lparr>vr_Version = ''bellatrix'', vr_Data = \<lparr>bsb_Message = Some bid, bsb_Signature = sig\<rparr>\<rparr>))
         | CapellaHeader _ \<Rightarrow> Err (ErrNew ''incompatible fork state''))
      else if fork = ForkCapella then
        (case header of
           CapellaHeader h \<Rightarrow>
             let bid = \<lparr>bb_Header = h, bb_Value = v, bb_Pubkey = rc_PubKey cfg\<rparr>
             in bind_res (map_err (\<lambda>_. ErrInternal)
                  (SignMessage L (capella_bid_root L bid) (BuilderSigningDomain cfg) (rc_SecretKey cfg))) (\<lambda>sig.
                Ok (CapellaHeaderResponse
                  \<lparr>vr_Version = ''capella'', vr_Data = \<lparr>csb_Message = bid, csb_Signature = sig\<rparr>\<rparr>))
         | BellatrixHeader _ \<Rightarrow> Err (ErrNew ''incompatible fork state''))
      else Err (ErrNew ''incompatible fork state''))"

definition serve_bid ::
  "'sk boost_lib \<Rightarrow> 'sk relay_config \<Rightarrow> 'w relay_deps \<Rightarrow> fork_version \<Rightarrow> hash \<Rightarrow> pubkey \<Rightarrow> bid
     \<Rightarrow> ('w, header_response) relay_handler" where
  "serve_bid L cfg D fork parentHash pk mp =
     bind_h (lift_h (GetBlockHash (bid_Header mp))) (\<lambda>blockHash.
     bind_h (lift_h (GetParentHash (bid_Header mp))) (\<lambda>headerParent.
       if headerParent \<noteq> parentHash then lift_h (Err ErrNoBuilderBid)
       else if bid_Proposer mp \<noteq> pk then lift_h (Err ErrNoBuilderBid)
       else if U256_Cmp (BigInt L) (bid_Value mp) 0 = 0 then lift_h (Err ErrZeroBid)
       else
         bind_h (refresh_cache cfg D fork
                   \<lparr>pk_BlockHash = blockHash, pk_Proposer = bid_Proposer mp, pk_Slot = bid_Slot mp\<rparr>) (\<lambda>_.
           lift_h (signed_response L cfg fork (bid_Header mp) (bid_Value mp)))))"

definition GetHeader ::
  "'sk boost_lib \<Rightarrow> 'sk relay_config \<Rightarrow> 'w relay_deps \<Rightarrow> (nat \<Rightarrow> multi_slot_state) \<Rightarrow> int \<Rightarrow> header_request
     \<Rightarrow> ('w, header_response) relay_handler" where
  "GetHeader L cfg D bs now request =
     bind_h (lift_h (map_err NumErr (hr_Slot request))) (\<lambda>slot.
       if slot < (ms_HeadSlot (bs 0) + 1) - (NumberOfSlotsInState - 1) then lift_h (Err ErrOldSlot)
       else
         bind_h (lift_h (hr_ParentHash (hash_UnmarshalText L) request)) (\<lambda>parentHash.
         bind_h (lift_h (map_err ErrNew (hr_Pubkey (pubkey_UnmarshalText L) request))) (\<lambda>pk.
           if msIntoSlot now (GenesisTime (ms_Genesis (bs 1))) slot > GetPayloadRequestTimeLimit cfg
           then lift_h (Err ErrLateRequest)
           else (\<lambda>s.
             case MaxProfitBlock slot parentHash (rs_a s) of
               None \<Rightarrow> (Err ErrNoBuilderBid, s)
             | Some mp \<Rightarrow> serve_bid L cfg D (ms_ForkVersion (bs 2) slot) parentHash pk mp s))))"

section \<open>GetPayload\<close>

definition validatePayload :: "'sk boost_lib \<Rightarrow> block_and_trace \<Rightarrow> blinded_block \<Rightarrow> (go_error, unit) res" where
  "validatePayload L expected requested =
     bind_res (map_err (wrap_msg ''failed to read expected header hash'') (bat_ExecutionHeaderHash L expected)) (\<lambda>have_hash.
     bind_res (map_err (wrap_msg ''failed to read requested header hash'') (blk_ExecutionHeaderHash L requested)) (\<lambda>got_hash.
       if have_hash \<noteq> got_hash
       then Err (Wrap (error_text ErrInvalidExecutionPayload @ '': expected '' @ hash_String L have_hash
                       @ '', received '' @ hash_String L got_hash) ErrInvalidExecutionPayload)
       else Ok ()))"

definition find_payload :: "'w relay_deps \<Rightarrow> fork_version \<Rightarrow> payload_key \<Rightarrow> ('w, block_and_trace) relay_handler" where
  "find_payload D forkv key s =
     (case pc_Get D key (rs_world s) of
        (Some payload, w) \<Rightarrow> (Ok payload, s\<lparr>rs_world := w\<rparr>)
      | (None, w) \<Rightarrow>
          (case d_GetPayload D forkv key w of
             Ok payload \<Rightarrow> (Ok payload, s\<lparr>rs_world := w\<rparr>)
           | Err e \<Rightarrow> (Err ErrNoPayloadFound, s\<lparr>rs_world := w\<rparr>)
           | Panic \<Rightarrow> (Panic, s\<lparr>rs_world := w\<rparr>)))"

text \<open>Two attempts to hand the block to the beacon node, if the relay publishes blocks.\<close>

definition publish_block ::
  "'sk boost_lib \<Rightarrow> 'sk relay_config \<Rightarrow> 'w relay_deps \<Rightarrow> blinded_block \<Rightarrow> block_and_trace \<Rightarrow> ('w, unit) relay_handler" where
  "publish_block L cfg D req payload =
     (if \<not> rc_PublishBlock cfg then lift_h (Ok ())
      else
        bind_h (lift_h (map_err (\<lambda>_. ErrWrongPayload)
                  (ToBeaconBlock (new_Eth1Data L) (new_SyncAggregate L) req (bat_ExecutionPayload payload)))) (\<lambda>block s.
          case beacon_PublishBlock D 0 block of
            None \<Rightarrow> (Ok (), emit [EvPublishBlock block] s)
          | Some _ \<Rightarrow>
              (case beacon_PublishBlock D 1 block of
                 None \<Rightarrow> (Ok (), emit [EvPublishBlock block, EvPublishBlock block] s)
               | Some _ \<Rightarrow> (Err ErrFailedToPublish, emit [EvPublishBlock block, EvPublishBlock block] s))))"

definition mark_delivered :: "blinded_block \<Rightarrow> ('w, unit) relay_handler" where
  "mark_delivered req s =
     (let slot = fst (rs_lastDelivered s); blockHash = snd (rs_lastDelivered s)
      in if slot < blk_Slot req then (Ok (), s\<lparr>rs_lastDelivered := (blk_Slot req, blk_BlockHash req)\<rparr>)
         else if slot = blk_Slot req \<and> blockHash \<noteq> blk_BlockHash req then (Err ErrPayloadDiffBlockHash, s)
         else if slot = blk_Slot req \<and> blockHash = blk_BlockHash req then (Ok (), s)
         else (Err ErrHigherSlotDelivered, s))"

text \<open>The type assertions on the payload panic if its fork is not the one of the slot.\<close>

definition payload_answer :: "fork_version \<Rightarrow> block_and_trace \<Rightarrow> (go_error, payload_response) res" where
  "payload_answer forkv payload =
     (case forkv of
        ForkBellatrix \<Rightarrow>
          (case bat_ExecutionPayload payload of
             BellatrixPayload bep \<Rightarrow> bind_res (bat_BidValue payload) (\<lambda>_.
               Ok (BellatrixPayloadResponse \<lparr>vr_Version = ''bellatrix'', vr_Data = bep\<rparr>))
           | CapellaPayload _ \<Rightarrow> Panic)
      | ForkCapella \<Rightarrow>
          (case bat_ExecutionPayload payload of
             CapellaPayload cep \<Rightarrow> bind_res (bat_BidValue payload) (\<lambda>_.
               Ok (CapellaPayloadResponse \<lparr>vr_Version = ''capella'', vr_Data = cep\<rparr>))
           | BellatrixPayload _ \<Rightarrow> Panic)
      | _ \<Rightarrow> Err (ErrNew ''unknown fork''))"

definition delivery_events :: "'sk relay_config \<Rightarrow> bool \<Rightarrow> blinded_block \<Rightarrow> block_and_trace \<Rightarrow> relay_event list" where
  "delivery_events cfg storeTrace req payload =
     (if rc_warehouse cfg then [EvWarehouse ''GetPayloadRequest'' (blk_Slot req) (blk_BlockHash req)] else [])
     @ (if storeTrace
        then (case ToDeliveredTrace payload (blk_Slot req) of
                Ok trace \<Rightarrow> [EvPutDelivered (blk_Slot req) trace] | _ \<Rightarrow> [])
        else [])"

definition deliver ::
  "'sk boost_lib \<Rightarrow> 'sk relay_config \<Rightarrow> 'w relay_deps \<Rightarrow> fork_version \<Rightarrow> blinded_block \<Rightarrow> block_and_trace
     \<Rightarrow> ('w, payload_response) relay_handler" where
  "deliver L cfg D forkv req payload s =
     (case publish_block L cfg D req payload s of
        (Ok _, s1) \<Rightarrow>
          (case bind_h (mark_delivered req) (\<lambda>_. lift_h (payload_answer forkv payload)) s1 of
             (r, s2) \<Rightarrow> (r, emit (delivery_events cfg True req payload) s2))
      | (Err e, s1) \<Rightarrow> (Err e, emit (delivery_events cfg False req payload) s1)
      | (Panic, s1) \<Rightarrow> (Panic, emit (delivery_events cfg False req payload) s1))"

definition signing_domain :: "'sk relay_config \<Rightarrow> fork_version \<Rightarrow> domain" where
  "signing_domain cfg forkv = load 0 (ProposerSigningDomain cfg forkv)"

definition check_proposer_signature ::
  "'w relay_deps \<Rightarrow> root \<Rightarrow> blinded_block \<Rightarrow> pubkey \<Rightarrow> (go_error, unit) res" where
  "check_proposer_signature D msg req pk =
     (case VerifySignatureBytes D msg (barr_list (blk_Signature req)) (barr_list pk) of
        Panic \<Rightarrow> Panic
      | Ok True \<Rightarrow> Ok ()
      | _ \<Rightarrow> Err ErrInvalidSignature)"

definition GetPayload ::
  "'sk boost_lib \<Rightarrow> 'sk relay_config \<Rightarrow> 'w relay_deps \<Rightarrow> (nat \<Rightarrow> multi_slot_state) \<Rightarrow> int \<Rightarrow> blinded_block
     \<Rightarrow> ('w, payload_response) relay_handler" where
  "GetPayload L cfg D bs now req =
     (if msIntoSlot now (GenesisTime (ms_Genesis (bs 0))) (blk_Slot req) > GetPayloadRequestTimeLimit cfg
      then lift_h (Err ErrLateRequest)
      else
        case KnownValidatorsByIndex (ms_KnownValidators (bs 1)) (blk_ProposerIndex req) of
          None \<Rightarrow> lift_h (Err (Wrap (error_text ErrUnknownValidator @ '' for index ''
                                   @ dec (unat (blk_ProposerIndex req))) ErrUnknownValidator))
        | Some proposerPubkey \<Rightarrow>
            bind_h (lift_h (HexToPubkey L proposerPubkey)) (\<lambda>pk.
              let forkv = ms_ForkVersion (bs 2) (blk_Slot req)
              in bind_h (lift_h (map_err (\<lambda>_. ErrInvalidSignature)
                           (blk_ComputeSigningRoot L req (signing_domain cfg forkv)))) (\<lambda>msg.
                 bind_h (lift_h (check_proposer_signature D msg req pk)) (\<lambda>_.
                 bind_h (lift_h (map_err (\<lambda>_. ErrNoPayloadFound) (blk_ToPayloadKey req pk))) (\<lambda>key.
                 bind_h (find_payload D forkv key) (\<lambda>payload.
                 bind_h (lift_h (validatePayload L payload req)) (\<lambda>_.
                   deliver L cfg D forkv req payload)))))))"

section \<open>Runs of the relay\<close>

text \<open>One call of the relay's interface, or one message from the stream.\<close>

datatype relay_op =
  OpSubmit submit_args submit_request
| OpGetHeader "nat \<Rightarrow> multi_slot_state" int header_request
| OpGetPayload "nat \<Rightarrow> multi_slot_state" int blinded_block
| OpBlockCache block_and_trace
| OpBid "(latest_key \<times> bid) list \<Rightarrow> (latest_key \<times> bid) list" bid

text \<open>\<open>relay_op\<close> run on a state: the new state, and the request and the answer if a payload was revealed.\<close>

fun run_op ::
  "'sk boost_lib \<Rightarrow> 'sk relay_config \<Rightarrow> 'w relay_deps \<Rightarrow> relay_op \<Rightarrow> 'w relay_state
     \<Rightarrow> 'w relay_state \<times> (blinded_block \<times> payload_response) list" where
  "run_op L cfg D (OpSubmit ar sbr) s = (snd (SubmitBlock L cfg D ar sbr s), [])"
| "run_op L cfg D (OpGetHeader bs now req) s = (snd (GetHeader L cfg D bs now req s), [])"
| "run_op L cfg D (OpGetPayload bs now req) s =
     (case GetPayload L cfg D bs now req s of
        (Ok answer, s') \<Rightarrow> (s', [(req, answer)])
      | (_, s') \<Rightarrow> (s', []))"
| "run_op L cfg D (OpBlockCache b) s = (snd (subscribe_block D b s), [])"
| "run_op L cfg D (OpBid iter b) s = (snd (subscribe_bid L iter b s), [])"

fun run_ops ::
  "'sk boost_lib \<Rightarrow> 'sk relay_config \<Rightarrow> 'w relay_deps \<Rightarrow> relay_op list \<Rightarrow> 'w relay_state
     \<Rightarrow> 'w relay_state \<times> (blinded_block \<times> payload_response) list" where
  "run_ops L cfg D [] s = (s, [])"
| "run_ops L cfg D (c # cs) s =
     (case run_op L cfg D c s of
        (s1, out) \<Rightarrow> (case run_ops L cfg D cs s1 of (s2, rest) \<Rightarrow> (s2, out @ rest)))"

end
