(* ===== verification/Samples.thy ===== *)
theory Samples
  imports Relay
begin

text \<open>
  A small concrete relay: library functions, dependencies kept in plain maps, a beacon state at head
  slot 63 and a Capella submission for slot 64.  The theorems about the relay are applied to it to
  show that their hypotheses can be met.
\<close>

definition sample_lib :: "unit boost_lib" where
  "sample_lib =
     \<lparr>TxRoot = (\<lambda>txs. Ok (barr_copy [7])), hasher = (\<lambda>w. Ok (barr_copy [9])),
      header_walk = (\<lambda>h. Ok []), header_root = (\<lambda>h. Ok (barr_copy [8])), lib_walk = (\<lambda>x. Ok []),
      bellatrix_blinded_root = (\<lambda>b. Ok (barr_copy [6])), trace_root = (\<lambda>t. Ok (barr_copy [5])),
      signing_root = (\<lambda>r d. Ok r), sign_root = (\<lambda>r d sk. Ok (barr_copy [4])),
      BigInt = (\<lambda>v. unat (hd (barr_list v))), hash_String = (\<lambda>h. if h = 0 then ''0x00'' else ''0x01''),
      HexToPubkey = (\<lambda>s. Ok (barr_copy [3])), hash_UnmarshalText = (\<lambda>s. Ok (barr_copy [2])),
      pubkey_UnmarshalText = (\<lambda>s. Ok (barr_copy [3])), NewPubkeyHex = (\<lambda>s. s),
      new_Eth1Data = LibObj [1], new_SyncAggregate = LibObj [2]\<rparr>"

definition sample_config :: "unit relay_config" where
  "sample_config =
     \<lparr>BuilderSigningDomain = 0, ProposerSigningDomain = Map.empty, rc_PubKey = barr_copy [11],
      rc_SecretKey = Some (), GetPayloadRequestTimeLimit = 4000, RegistrationCacheTTL = 1000,
      Distributed = True, StreamServedBids = False, rc_PublishBlock = True,
      AllowedListedBuilders = None, rc_warehouse = True\<rparr>"

definition sample_registration :: signed_registration where
  "sample_registration =
     \<lparr>sreg_Message = Some \<lparr>reg_FeeRecipient = barr_copy [20], reg_GasLimit = 30000000, reg_Timestamp = 1,
                           reg_Pubkey = barr_copy [3]\<rparr>,
      sreg_Signature = 0\<rparr>"

type_synonym sample_world = "(payload_key \<rightharpoonup> block_and_trace) \<times> (payload_key \<rightharpoonup> block_and_trace)"

text \<open>The world is the payload cache and the datastore; nothing is ever cached about validators.\<close>

definition sample_deps :: "sample_world relay_deps" where
  "sample_deps =
     \<lparr>pc_ContainsOrAdd = (\<lambda>k b w. ((fst w)(k \<mapsto> b), snd w)), pc_Add = (\<lambda>k b w. ((fst w)(k \<mapsto> b), snd w)),
      pc_Get = (\<lambda>k w. (fst w k, w)), d_PutPayload = (\<lambda>k b w. (None, (fst w, (snd w)(k \<mapsto> b)))),
      d_GetPayload = (\<lambda>f k w. case snd w k of None \<Rightarrow> Err (ErrNew ''not found'') | Some b \<Rightarrow> Ok b),
      vc_Add = (\<lambda>k v w. w), vc_Get = (\<lambda>k w. (None, w)), vc_Remove = (\<lambda>k w. w),
      vstore_GetRegistration = (\<lambda>k w. Ok sample_registration),
      bvc_IsSet = True, bvc_ValidateBlock = (\<lambda>b g. None), bvc_ValidateBlockV2 = (\<lambda>b g r. None),
      ver_Enqueue = (\<lambda>s p m. None), VerifySignatureBytes = (\<lambda>m s p. Ok True),
      beacon_PublishBlock = (\<lambda>n b. None)\<rparr>"

definition sample_state :: "sample_world relay_state" where
  "sample_state = NewRelay (Map.empty, Map.empty)"

definition sample_parent :: hash where
  "sample_parent = barr_copy [1]"

definition sample_bs :: multi_slot_state where
  "sample_bs = zero_multi_slot_state
     \<lparr>ms_slots := [zero_atomic_state,
        \<lparr>as_Mutex = True, as_slot = 63,
         as_withdrawals = [sample_parent \<mapsto> \<lparr>ws_Slot = 63, ws_ParentHash = sample_parent, ws_Root = barr_copy [9]\<rparr>],
         as_randao = [sample_parent \<mapsto> \<lparr>rs_Slot = 63, rs_ParentHash = sample_parent, rs_Randao = ''0x01''\<rparr>]\<rparr>],
      ms_headSlot := Some 63, ms_fork := Some \<lparr>AltairEpoch = 0, BellatrixEpoch = 1, CapellaEpoch = 2\<rparr>,
      ms_knownValidators := Some \<lparr>KnownValidatorsByIndex = [17 \<mapsto> ''0x03''], KnownValidators = [''0x03'' \<mapsto> ()]\<rparr>\<rparr>"

definition sample_payload :: capella_payload where
  "sample_payload = zero_capella_payload
     \<lparr>EpParentHash := sample_parent, EpRandom := barr_copy [1], EpTimestamp := 768, EpBlockHash := barr_copy [2],
      EpBlockNumber := 100, EpTransactions := Some [[1, 2, 3]], EpWithdrawals := Some []\<rparr>"

definition sample_trace :: bid_trace where
  "sample_trace =
     \<lparr>bt_Slot = 64, bt_ParentHash = sample_parent, bt_BlockHash = barr_copy [2],
      bt_BuilderPubkey = barr_copy [10], bt_ProposerPubkey = barr_copy [3],
      bt_ProposerFeeRecipient = barr_copy [20], bt_GasLimit = 30000000, bt_GasUsed = 21000,
      bt_Value = barr_copy [5]\<rparr>"

definition sample_submit :: submit_request where
  "sample_submit = CapellaSubmit
     \<lparr>CapellaRaw = [], CapellaMessage = sample_trace, CapellaExecutionPayload = sample_payload, CapellaSignature = 0\<rparr>"

definition sample_args :: submit_args where
  "sample_args =
     \<lparr>sa_bs = (\<lambda>_. sample_bs), sa_now = 0, sa_rnd = 0, sa_t1 = 768001, sa_t2 = 768002, sa_iter = id, sa_ctx_err = None\<rparr>"

lemmas sample_defs = sample_lib_def sample_config_def sample_registration_def sample_deps_def
  sample_state_def sample_parent_def sample_bs_def sample_payload_def sample_trace_def
  sample_submit_def sample_args_def NewRelay_def zero_multi_slot_state_def zero_atomic_state_def
  zero_capella_payload_def

lemma sample_allow [simp]: "AllowedListedBuilders sample_config = None"
  by (simp add: sample_config_def)

section \<open>The pieces of an accepted submission\<close>

lemma sample_slot_index [simp]: "slot_index 63 = 1" "slot_index 64 = 0"
  by (simp_all add: slot_index_def NumberOfSlotsInState_def unat_mod)

lemma sample_verifyBlock: "verifyBlock sample_lib sample_submit sample_bs bs' = Ok False"
  by (simp add: verifyBlock_def sample_defs sr_Slot_def Let_def ms_Genesis_def ms_HeadSlot_def load_def
      NumberOfSlotsInState_def Randao_def as_Randao_def sr_Value_def sr_TraceBlockHash_def
      sr_TraceParentHash_def hd_barr_list_copy)

lemma sample_checkRegistration:
  "checkRegistration cfg sample_deps now rnd (sr_ProposerPubkey sample_submit)
     (sr_ProposerFeeRecipient sample_submit) sample_state = (Ok 30000000, sample_state)"
  by (simp add: checkRegistration_def check_cached_def check_stored_def sample_defs bind_h_def
      sr_ProposerFeeRecipient_def)

lemma sample_walk: "HashWithdrawals_root (hasher sample_lib) (Some []) = Ok (barr_copy [9])"
  by (simp add: HashWithdrawals_root_def HashWithDefaultHasher_def HashWithdrawals_walk_def walk_list_def
      nil_list_def sample_lib_def)

lemma sample_validateBlock:
  "AllowedListedBuilders cfg = None \<Longrightarrow> validateBlock sample_lib cfg sample_deps g sample_submit = Ok ()"
  using sample_walk
  by (simp add: validateBlock_def sample_submit_def sample_payload_def sample_deps_def allow_listed_def)

lemma sample_verifySignature:
  "AllowedListedBuilders cfg = None \<Longrightarrow> verifySignature sample_lib cfg sample_deps sample_submit = Ok ()"
  by (simp add: verifySignature_def sample_defs allow_listed_def sr_ComputeSigningRoot_def ComputeSigningRoot_def)

lemma sample_verifyWithdrawals:
  "verifyWithdrawals sample_lib sample_submit sample_bs bs' = Ok (barr_copy [9], False)"
  using sample_walk
  by (simp add: verifyWithdrawals_def sample_submit_def sample_payload_def sr_Slot_def sample_trace_def
      Withdrawals_def sample_bs_def zero_multi_slot_state_def as_Withdrawals_def load_def Let_def sample_parent_def)

lemma sample_Prepare:
  "\<exists>c. PreparePayloadContents sample_lib t1 t2 sk pk d sample_submit = Ok c \<and> (\<exists>h. cbs_Header c = CapellaHeader (Some h))"
  by (simp add: sample_submit_def capella_toSignedBuilderBid_def capella_PayloadToPayloadHeader_def sample_payload_def
      HashWithdrawals_root_def HashWithdrawals_walk_def walk_list_def nil_list_def sample_lib_def Let_def
      HashWithDefaultHasher_def SignMessage_def capella_bid_root_def capella_bid_walk_def capella_header_walk_def
      bytes_field_def zero_capella_payload_def capella_toBlockBidAndTrace_def capella_header_root_def)

lemma sample_bidExtended:
  "bidExtended sample_bs sample_submit (CapellaHeader (Some h)) = Ok (CapellaBid
     \<lparr>bx_BuilderBid = \<lparr>bb_Header = Some h, bb_Value = barr_copy [5], bb_Pubkey = barr_copy [10]\<rparr>,
      bx_Proposer = barr_copy [3], bx_Slot = 64\<rparr>)"
  by (simp add: bidExtended_def sample_submit_def sr_Slot_def sample_trace_def Let_def ms_ForkVersion_def ms_Fork_def
      sample_bs_def load_def fork_Version_def IsCapella_def slot_Epoch_def SlotsPerEpoch_def sr_Value_def
      sr_BuilderPubkey_def sr_ProposerPubkey_def)

lemma sample_storeSubmission:
  "\<exists>m s'. storeSubmission sample_lib sample_config sample_deps t1 t2 id sample_bs sample_submit sample_state = (Ok m, s')"
proof -
  obtain c h where c: "PreparePayloadContents sample_lib t1 t2 (Some ()) (barr_copy [11]) 0 sample_submit = Ok c"
    "cbs_Header c = CapellaHeader (Some h)"
    using sample_Prepare by blast
  then show ?thesis
    by (simp add: storeSubmission_def sample_config_def bind_h_def lift_h_def PutPayload_def sample_deps_def
        sample_bidExtended relay_AddBlock_def AddBlock_def sample_state_def NewRelay_def NewAuctioneer_def
        new_auction_def Let_def deref_def) blast
qed

lemma sample_SubmitBlock:
  "\<exists>s'. SubmitBlock sample_lib sample_config sample_deps sample_args sample_submit sample_state = (Ok (), s')"
proof -
  obtain m s' where "storeSubmission sample_lib sample_config sample_deps 768001 768002 id sample_bs sample_submit sample_state = (Ok m, s')"
    using sample_storeSubmission by blast
  then show ?thesis
    using sample_checkRegistration [of sample_config 0 0]
    by (simp add: SubmitBlock_def sample_args_def sample_verifyBlock bind_h_def lift_h_def sample_allow
        sample_validateBlock sample_verifySignature sample_verifyWithdrawals wait_validation_def Let_def)
qed

section \<open>A bid and a blinded block for slot 64\<close>

definition sample_bid :: bid where
  "sample_bid = CapellaBid
     \<lparr>bx_BuilderBid = \<lparr>bb_Header = Some (zero_capella_header\<lparr>eph_ParentHash := barr_copy [2], eph_BlockHash := barr_copy [2]\<rparr>),
                      bb_Value = barr_copy [5], bb_Pubkey = barr_copy [10]\<rparr>,
      bx_Proposer = barr_copy [3], bx_Slot = 64\<rparr>"

definition sample_request :: header_request where
  "sample_request = [''slot'' \<mapsto> ''64'', ''parent_hash'' \<mapsto> ''0x02'', ''pubkey'' \<mapsto> ''0x03'']"

definition sample_body :: capella_blinded_body where
  "sample_body =
     \<lparr>RandaoReveal = 0, Eth1Data = Some (LibObj [1]), Graffiti = 0, ProposerSlashings = None, AttesterSlashings = None,
      Attestations = None, Deposits = None, VoluntaryExits = None, SyncAggregate = Some (LibObj [2]),
      cbb_ExecutionPayloadHeader = Some (zero_capella_header\<lparr>eph_ParentHash := sample_parent, eph_BlockHash := barr_copy [2]\<rparr>),
      cbb_BLSToExecutionChanges = []\<rparr>"

definition sample_blinded :: blinded_block where
  "sample_blinded = CapellaBlinded
     \<lparr>SRaw = [],
      SMessage = \<lparr>bl_Slot = 64, bl_ProposerIndex = 17, bl_ParentRoot = 0, bl_StateRoot = 0, bl_Body = Some sample_body\<rparr>,
      SSignature = 0\<rparr>"

definition sample_block :: block_and_trace where
  "sample_block = CapellaBT
     \<lparr>cbt_Payload = \<lparr>vr_Version = ''capella'', vr_Data = sample_payload\<rparr>,
      cbt_Trace = \<lparr>sbt_Signature = 0, sbt_Message = sample_trace\<rparr>, cbt_ExecutionHeaderHash = barr_copy [9]\<rparr>"

text \<open>The relay with that block in its datastore and nothing in its cache.\<close>

definition sample_stored :: "sample_world relay_state" where
  "sample_stored = NewRelay
     (Map.empty, [\<lparr>pk_BlockHash = barr_copy [2], pk_Proposer = barr_copy [3], pk_Slot = 64\<rparr> \<mapsto> sample_block])"

lemma sample_ParseUint: "ParseUint ''64'' = Ok 64"
  by (simp add: ParseUint_def is_digit_def digit_val_def)

lemma sample_fork: "ms_ForkVersion sample_bs 64 = ForkCapella"
  by (simp add: ms_ForkVersion_def ms_Fork_def sample_bs_def load_def fork_Version_def IsCapella_def slot_Epoch_def
      SlotsPerEpoch_def)

lemma sample_header_walk:
  "\<exists>w. capella_header_walk (zero_capella_header\<lparr>eph_ParentHash := p, eph_BlockHash := h\<rparr>) = Ok w"
  by (simp add: capella_header_walk_def zero_capella_header_def bytes_field_def)

lemma sample_header_root:
  "capella_header_root sample_lib (zero_capella_header\<lparr>eph_ParentHash := p, eph_BlockHash := h\<rparr>) = Ok (barr_copy [9])"
  using sample_header_walk [where p = p and h = h]
  by (auto simp: capella_header_root_def HashWithDefaultHasher_def sample_lib_def)

lemma sample_signing_root: "blk_ComputeSigningRoot sample_lib sample_blinded d = Ok (barr_copy [9])"
proof -
  obtain w where "capella_header_walk (zero_capella_header\<lparr>eph_ParentHash := sample_parent, eph_BlockHash := barr_copy [2]\<rparr>) = Ok w"
    using sample_header_walk by blast
  then have "\<exists>w. capella_blinded_block_walk (lib_walk sample_lib)
      (SMessage \<lparr>SRaw = [], SMessage = \<lparr>bl_Slot = 64, bl_ProposerIndex = 17, bl_ParentRoot = 0, bl_StateRoot = 0,
         bl_Body = Some sample_body\<rparr>, SSignature = (0 :: signature)\<rparr>) = Ok w"
    by (simp add: capella_blinded_block_walk_def capella_blinded_body_walk_def sample_body_def walk_list_def nil_list_def
        sample_lib_def)
  then show ?thesis
    by (auto simp: sample_blinded_def sample_body_def ComputeSigningRoot_def HashWithDefaultHasher_def sample_lib_def)
qed

lemma sample_blinded_sel [simp]:
  "blk_Slot sample_blinded = 64" "blk_ProposerIndex sample_blinded = 17" "blk_BlockHash sample_blinded = barr_copy [2]"
  "blk_ToPayloadKey sample_blinded pk = Ok \<lparr>pk_BlockHash = barr_copy [2], pk_Proposer = pk, pk_Slot = 64\<rparr>"
  "blk_ExecutionHeaderHash sample_lib sample_blinded = Ok (barr_copy [9])"
  by (simp_all add: sample_blinded_def sample_body_def sample_header_root)

lemma sample_block_consistent: "block_consistent sample_lib sample_block"
proof -
  have "\<exists>h. capella_PayloadToPayloadHeader (TxRoot sample_lib) (hasher sample_lib) sample_payload = Ok h
      \<and> eph_ExtraData h = []"
    using sample_walk
    by (simp add: capella_PayloadToPayloadHeader_def sample_payload_def nil_list_def zero_capella_payload_def sample_lib_def)
  then obtain h where h: "capella_PayloadToPayloadHeader (TxRoot sample_lib) (hasher sample_lib) sample_payload = Ok h"
    "eph_ExtraData h = []"
    by blast
  have "capella_header_root sample_lib h = Ok (barr_copy [9])"
    using h(2) by (simp add: capella_header_root_def HashWithDefaultHasher_def capella_header_walk_def bytes_field_def sample_lib_def)
  with h(1) show ?thesis
    by (auto simp: sample_block_def)
qed

end
