(* ===== verification/RelaySubmit.thy ===== *)
theory RelaySubmit
  imports Samples
begin

text \<open>
  What \<open>SubmitBlock\<close> guarantees: which submissions are accepted, what an accepted submission leaves
  in the relay, that a rejected one leaves the auction and the published records alone, and the two
  ways around the checks that the code has.
\<close>

section \<open>Lemmas\<close>

lemma verifyBlock_OkD:
  assumes "verifyBlock L sbr bs bs' = Ok retried"
  shows "sr_Slot sbr \<noteq> 0" "sr_Timestamp sbr = GenesisTime (ms_Genesis bs) + sr_Slot sbr * 12"
    "ms_HeadSlot bs \<le> sr_Slot sbr" "sr_Slot sbr \<le> ms_HeadSlot bs + 1"
    "\<exists>r. Randao (sr_Slot sbr - 1) (sr_ParentHash sbr) (if retried then bs' else bs) = Ok r
       \<and> rs_Randao r \<noteq> [] \<and> rs_Randao r = hash_String L (sr_Random sbr)"
    "\<not> retried \<Longrightarrow> sr_BlockHash sbr = sr_TraceBlockHash sbr \<and> sr_ParentHash sbr = sr_TraceParentHash sbr
       \<and> (BigInt L (sr_Value sbr) \<noteq> 0 \<or> sr_NumTx sbr \<noteq> 0)"
  using assms
  by (auto simp: verifyBlock_def Let_def bind_res_Ok_iff NumberOfSlotsInState_def not_less split: if_splits)

lemma verifyWithdrawals_OkD:
  assumes "verifyWithdrawals L sbr bs bs' = Ok (root, retried)" and "sr_Withdrawals sbr = Some ws"
  shows "\<exists>st. Withdrawals (sr_Slot sbr - 1) (sr_ParentHash sbr) (if retried then bs' else bs) = Ok st
           \<and> HashWithdrawals_root (hasher L) (sr_Withdrawals sbr) = Ok (ws_Root st) \<and> ws_Root st \<noteq> 0"
  using assms
  by (auto simp: verifyWithdrawals_def res_simps split: if_splits)

lemma verifySignature_OkD:
  assumes "verifySignature L cfg D sbr = Ok ()" and "\<not> allow_listed cfg sbr"
  shows "\<exists>msg. sr_ComputeSigningRoot L sbr (BuilderSigningDomain cfg) = Ok msg
           \<and> ver_Enqueue D (sr_Signature sbr) (sr_BuilderPubkey sbr) msg = None"
  using assms by (auto simp: verifySignature_def res_simps split: option.splits)

lemma check_cached_keeps:
  "check_cached cfg D now rnd pk fee s = (r, s') \<Longrightarrow> \<exists>w. s' = s\<lparr>rs_world := w\<rparr>"
  by (auto simp: check_cached_def Let_def split: prod.splits option.splits if_splits)

lemma check_stored_keeps:
  "check_stored D now pk fee s = (r, s') \<Longrightarrow> \<exists>w. s' = s\<lparr>rs_world := w\<rparr>"
  by (auto simp: check_stored_def split: res.splits option.splits if_splits)
    (metis relay_state.surjective relay_state.update_convs(2))+

lemma checkRegistration_keeps:
  assumes "checkRegistration cfg D now rnd pk fee s = (r, s')"
  shows "\<exists>w. s' = s\<lparr>rs_world := w\<rparr>"
  using assms
  by (fastforce simp: checkRegistration_def bind_h_def lift_h_def split: prod.splits res.splits option.splits
      dest: check_cached_keeps check_stored_keeps)

text \<open>The registration an accepted fee recipient comes from: the cached or the stored one.\<close>

lemma checkRegistration_OkD:
  assumes "checkRegistration cfg D now rnd pk fee s = (Ok gasLimit, s')"
  shows "\<exists>reg msg. (reg = vce_Entry (the (fst (vc_Get D pk (rs_world s)))) \<and> fst (vc_Get D pk (rs_world s)) \<noteq> None
             \<or> (\<exists>w. vstore_GetRegistration D pk w = Ok reg))
           \<and> sreg_Message reg = Some msg \<and> reg_FeeRecipient msg = fee \<and> reg_GasLimit msg = gasLimit"
  using assms
  by (auto simp: checkRegistration_def check_cached_def check_stored_def res_simps Let_def
      split: prod.splits option.splits if_splits res.splits)

lemma PutPayload_Ok_iff:
  "PutPayload D key b s = (Ok u, s') \<longleftrightarrow>
     (\<exists>w. d_PutPayload D key b (rs_world s) = (None, w) \<and> s' = s\<lparr>rs_world := w\<rparr>)"
  by (auto simp: PutPayload_def split: prod.splits option.splits)

lemma relay_AddBlock_Ok_iff:
  "relay_AddBlock L iter bid s = (Ok r, s') \<longleftrightarrow>
     (\<exists>a. AddBlock (BigInt L) iter bid (rs_a s) = Ok (r, a) \<and> s' = s\<lparr>rs_a := a\<rparr>)"
  by (auto simp: relay_AddBlock_def split: res.splits)

lemma storeSubmission_OkD:
  assumes "storeSubmission L cfg D t1 t2 iter bs sbr s = (Ok newMax, s')"
  shows "\<exists>sk complete bid w a.
           rc_SecretKey cfg = Some sk
         \<and> PreparePayloadContents L t1 t2 (Some sk) (rc_PubKey cfg) (BuilderSigningDomain cfg) sbr = Ok complete
         \<and> d_PutPayload D (sr_ToPayloadKey sbr) (cbs_Payload complete) (rs_world s) = (None, w)
         \<and> bidExtended bs sbr (cbs_Header complete) = Ok bid
         \<and> AddBlock (BigInt L) iter bid (rs_a s) = Ok (newMax, a)
         \<and> s' = emit (EvPutBuilderBlockSubmission (cbs_Trace complete) newMax
                      # (if Distributed cfg then [EvPublishBuilderBid bid] else []))
                  (s\<lparr>rs_world := w, rs_a := a\<rparr>)"
proof (cases "rc_SecretKey cfg")
  case None
  then show ?thesis using assms by (simp add: storeSubmission_def lift_h_iff)
next
  case (Some sk)
  from assms obtain complete bid w a where
    "PreparePayloadContents L t1 t2 (Some sk) (rc_PubKey cfg) (BuilderSigningDomain cfg) sbr = Ok complete"
    "d_PutPayload D (sr_ToPayloadKey sbr) (cbs_Payload complete) (rs_world s) = (None, w)"
    "bidExtended bs sbr (cbs_Header complete) = Ok bid"
    "AddBlock (BigInt L) iter bid (rs_a s) = Ok (newMax, a)"
    "s' = emit (EvPutBuilderBlockSubmission (cbs_Trace complete) newMax
               # (if Distributed cfg then [EvPublishBuilderBid bid] else [])) (s\<lparr>rs_world := w, rs_a := a\<rparr>)"
    by (auto simp: storeSubmission_def Some res_simps PutPayload_Ok_iff relay_AddBlock_Ok_iff simp del: if_split)
  with Some show ?thesis by blast
qed

text \<open>A step that fails leaves the auction, the log and the last delivery alone.\<close>

definition same_core :: "'w relay_state \<Rightarrow> 'w relay_state \<Rightarrow> bool" where
  "same_core s s' \<longleftrightarrow> rs_a s' = rs_a s \<and> rs_log s' = rs_log s \<and> rs_lastDelivered s' = rs_lastDelivered s"

lemma same_core_refl [simp]: "same_core s s"
  by (simp add: same_core_def)

lemma same_core_world [simp]:
  "same_core s (s'\<lparr>rs_world := w\<rparr>) = same_core s s'"
  "same_core (s\<lparr>rs_world := w\<rparr>) s' = same_core s s'"
  by (simp_all add: same_core_def)

lemma AddBlock_not_Err: "AddBlock num iter bid a \<noteq> Err e"
proof -
  have "reassign num p sl xs mps \<noteq> Err e" for p sl xs mps
    by (induction xs arbitrary: mps)
      (auto simp: bind_res_Err_iff GetParentHash_not_Err split: option.splits if_splits)
  then show ?thesis
    by (auto simp: AddBlock_def Let_def bind_res_Err_iff GetParentHash_not_Err split: option.splits if_splits)
qed

lemma storeSubmission_fails:
  assumes "storeSubmission L cfg D t1 t2 iter bs sbr s = (r, s')" and "\<forall>x. r \<noteq> Ok x"
  shows "same_core s s'"
  using assms AddBlock_not_Err
  by (auto simp: storeSubmission_def bind_h_def lift_h_def PutPayload_def relay_AddBlock_def
      split: option.splits prod.splits res.splits)

lemma SubmitBlock_OkE:
  assumes "SubmitBlock L cfg D ar sbr s = (Ok (), s')"
  obtains bRetried gasLimit root wRetried newMax s1 s2 where
    "verifyBlock L sbr (sa_bs ar 0) (sa_bs ar 1) = Ok bRetried"
    "checkRegistration cfg D (sa_now ar) (sa_rnd ar) (sr_ProposerPubkey sbr) (sr_ProposerFeeRecipient sbr) s = (Ok gasLimit, s1)"
    "validateBlock L cfg D gasLimit sbr = Ok ()"
    "verifySignature L cfg D sbr = Ok ()"
    "verifyWithdrawals L sbr (sa_bs ar 2) (sa_bs ar 3) = Ok (root, wRetried)"
    "storeSubmission L cfg D (sa_t1 ar) (sa_t2 ar) (sa_iter ar) (sa_bs ar 4) sbr s1 = (Ok newMax, s2)"
    "s' = emit (if rc_warehouse cfg then [EvWarehouse ''SubmitBlockRequest'' (sr_Slot sbr) (sr_BlockHash sbr)] else []) s2"
  using assms
  by (auto simp: SubmitBlock_def res_simps Let_def wait_validation_def split: if_splits option.splits) 

section \<open>Properties\<close>

text \<open>
  C4: a submission is accepted only if it is for the head slot or the next one, carries the timestamp
  of that slot and the RANDAO value the beacon node announced for its parent, names the fee recipient
  registered by the proposer, has, if it has withdrawals, the withdrawals root announced for its
  parent, and, unless the builder is on the allow list, passed the verifier and the block validation.
\<close>

theorem SubmitBlock_accepts_only_valid:
  assumes "SubmitBlock L cfg D ar sbr s = (Ok (), s')"
  shows "sr_Slot sbr \<noteq> 0 \<and> ms_HeadSlot (sa_bs ar 0) \<le> sr_Slot sbr \<and> sr_Slot sbr \<le> ms_HeadSlot (sa_bs ar 0) + 1
       \<and> sr_Timestamp sbr = GenesisTime (ms_Genesis (sa_bs ar 0)) + sr_Slot sbr * 12
       \<and> (\<exists>i \<le> 1. \<exists>r. Randao (sr_Slot sbr - 1) (sr_ParentHash sbr) (sa_bs ar i) = Ok r
            \<and> rs_Randao r \<noteq> [] \<and> rs_Randao r = hash_String L (sr_Random sbr))
       \<and> (\<exists>reg msg. (reg = vce_Entry (the (fst (vc_Get D (sr_ProposerPubkey sbr) (rs_world s))))
                        \<and> fst (vc_Get D (sr_ProposerPubkey sbr) (rs_world s)) \<noteq> None
                      \<or> (\<exists>w. vstore_GetRegistration D (sr_ProposerPubkey sbr) w = Ok reg))
            \<and> sreg_Message reg = Some msg \<and> reg_FeeRecipient msg = sr_ProposerFeeRecipient sbr)
       \<and> (sr_Withdrawals sbr = None \<or> (\<exists>i \<in> {2, 3}. \<exists>st.
            Withdrawals (sr_Slot sbr - 1) (sr_ParentHash sbr) (sa_bs ar i) = Ok st
            \<and> HashWithdrawals_root (hasher L) (sr_Withdrawals sbr) = Ok (ws_Root st)))
       \<and> (allow_listed cfg sbr \<or> (\<exists>msg. sr_ComputeSigningRoot L sbr (BuilderSigningDomain cfg) = Ok msg
            \<and> ver_Enqueue D (sr_Signature sbr) (sr_BuilderPubkey sbr) msg = None))
       \<and> (allow_listed cfg sbr \<or> \<not> bvc_IsSet D \<or> (\<exists>gasLimit. fork_validate L D gasLimit sbr = Ok ()))"
proof -
  from assms obtain bRetried gasLimit root wRetried s1 where
    v: "verifyBlock L sbr (sa_bs ar 0) (sa_bs ar 1) = Ok bRetried"
    and c: "checkRegistration cfg D (sa_now ar) (sa_rnd ar) (sr_ProposerPubkey sbr) (sr_ProposerFeeRecipient sbr) s = (Ok gasLimit, s1)"
    and val: "validateBlock L cfg D gasLimit sbr = Ok ()" and sig: "verifySignature L cfg D sbr = Ok ()"
    and w: "verifyWithdrawals L sbr (sa_bs ar 2) (sa_bs ar 3) = Ok (root, wRetried)"
    by (rule SubmitBlock_OkE)
  note vD = verifyBlock_OkD [OF v]
  have "\<exists>i \<le> 1. \<exists>r. Randao (sr_Slot sbr - 1) (sr_ParentHash sbr) (sa_bs ar i) = Ok r
      \<and> rs_Randao r \<noteq> [] \<and> rs_Randao r = hash_String L (sr_Random sbr)"
    using vD(5) by (intro exI [of _ "if bRetried then 1 else 0"]) (auto split: if_splits)
  moreover have "sr_Withdrawals sbr = None \<or> (\<exists>i \<in> {2, 3}. \<exists>st.
      Withdrawals (sr_Slot sbr - 1) (sr_ParentHash sbr) (sa_bs ar i) = Ok st
      \<and> HashWithdrawals_root (hasher L) (sr_Withdrawals sbr) = Ok (ws_Root st))"
    using verifyWithdrawals_OkD [OF w] by (cases "sr_Withdrawals sbr"; cases wRetried) auto
  moreover have "allow_listed cfg sbr \<or> \<not> bvc_IsSet D \<or> (\<exists>gasLimit. fork_validate L D gasLimit sbr = Ok ())"
    using val by (auto simp: validateBlock_def split: if_splits)
  ultimately show ?thesis
    using vD(1-4) checkRegistration_OkD [OF c] verifySignature_OkD [OF sig] by blast
qed

theorem SubmitBlock_accepts_only_valid_witness:
  "(\<exists>s'. SubmitBlock sample_lib sample_config sample_deps sample_args sample_submit sample_state = (Ok (), s'))
   \<and> sr_Slot sample_submit \<le> ms_HeadSlot (sa_bs sample_args 0) + 1
   \<and> (\<exists>msg. sr_ComputeSigningRoot sample_lib sample_submit (BuilderSigningDomain sample_config) = Ok msg)"
proof -
  obtain s' where s': "SubmitBlock sample_lib sample_config sample_deps sample_args sample_submit sample_state = (Ok (), s')"
    using sample_SubmitBlock by blast
  from SubmitBlock_accepts_only_valid [OF s'] s' show ?thesis
    by (auto simp: allow_listed_def sample_config_def)
qed



text \<open>
  C7: a submission that is not accepted, whether it is rejected or panics, changes neither the auction
  nor anything published nor the record of the last delivery.
\<close>

theorem SubmitBlock_rejected_leaves_no_bid:
  assumes "SubmitBlock L cfg D ar sbr s = (r, s')" and "r \<noteq> Ok ()"
  shows "rs_a s' = rs_a s \<and> rs_log s' = rs_log s \<and> rs_lastDelivered s' = rs_lastDelivered s"
proof -
  have "same_core s s'"
  proof (cases "verifyBlock L sbr (sa_bs ar 0) (sa_bs ar 1)")
    case (Ok b)
    obtain r1 s1 where c: "checkRegistration cfg D (sa_now ar) (sa_rnd ar) (sr_ProposerPubkey sbr) (sr_ProposerFeeRecipient sbr) s = (r1, s1)"
      by fastforce
    obtain w where s1: "s1 = s\<lparr>rs_world := w\<rparr>"
      using checkRegistration_keeps [OF c] by blast
    obtain r2 s2 where st: "storeSubmission L cfg D (sa_t1 ar) (sa_t2 ar) (sa_iter ar) (sa_bs ar 4) sbr s1 = (r2, s2)"
      by fastforce
    show ?thesis
      using assms c st storeSubmission_fails [OF st]
      by (auto simp: SubmitBlock_def Ok bind_h_def lift_h_def Let_def s1 split: res.splits if_splits)
  qed (use assms in \<open>auto simp: SubmitBlock_def lift_h_iff\<close>)
  then show ?thesis
    by (simp add: same_core_def)
qed

theorem SubmitBlock_rejected_leaves_no_bid_witness:
  "\<exists>s'. SubmitBlock sample_lib (sample_config\<lparr>rc_SecretKey := None\<rparr>) sample_deps sample_args sample_submit sample_state
       = (Err ErrMissingSecretKey, s')
     \<and> rs_a s' = NewAuctioneer \<and> rs_log s' = []"
proof -
  have sub: "SubmitBlock sample_lib (sample_config\<lparr>rc_SecretKey := None\<rparr>) sample_deps sample_args sample_submit sample_state
      = (Err ErrMissingSecretKey, sample_state)"
    using sample_checkRegistration [of "sample_config\<lparr>rc_SecretKey := None\<rparr>" 0 0]
    by (simp add: SubmitBlock_def sample_args_def sample_verifyBlock bind_h_def lift_h_def storeSubmission_def
        sample_verifyWithdrawals sample_validateBlock sample_verifySignature wait_validation_def Let_def)
  from SubmitBlock_rejected_leaves_no_bid [OF sub] sub show ?thesis
    by (simp add: sample_state_def NewRelay_def)
qed

text \<open>
  when the RANDAO value is announced only while \<open>verifyBlock\<close> waits, the block is accepted at that
  point: the checks for a zero bid and for a trace that names another block or another parent than
  the payload are skipped, whatever the trace says.
\<close>

theorem verifyBlock_retry_skips_trace_checks:
  assumes "sr_Slot sbr \<noteq> 0" and "sr_Timestamp sbr = GenesisTime (ms_Genesis bs) + sr_Slot sbr * 12"
    and "ms_HeadSlot bs \<le> sr_Slot sbr" and "sr_Slot sbr \<le> ms_HeadSlot bs + 1"
    and "Randao (sr_Slot sbr - 1) (sr_ParentHash sbr) bs = Ok r" and "rs_Randao r = []"
    and "Randao (sr_Slot sbr - 1) (sr_ParentHash sbr) bs' = Ok r'"
    and "rs_Randao r' = hash_String L (sr_Random sbr)" and "rs_Randao r' \<noteq> []"
  shows "verifyBlock L sbr bs bs' = Ok True"
  using assms by (auto simp: verifyBlock_def Let_def NumberOfSlotsInState_def)

theorem verifyBlock_retry_skips_trace_checks_witness:
  "\<exists>sbr. verifyBlock sample_lib sbr (sample_bs\<lparr>ms_slots := [zero_atomic_state, new_atomic_state 63]\<rparr>) sample_bs = Ok True
      \<and> sr_BlockHash sbr \<noteq> sr_TraceBlockHash sbr"
proof -
  let ?sbr = "CapellaSubmit \<lparr>CapellaRaw = [], CapellaMessage = sample_trace\<lparr>bt_BlockHash := barr_copy [77]\<rparr>,
      CapellaExecutionPayload = sample_payload, CapellaSignature = 0\<rparr>"
  have "verifyBlock sample_lib ?sbr (sample_bs\<lparr>ms_slots := [zero_atomic_state, new_atomic_state 63]\<rparr>) sample_bs = Ok True"
    by (rule verifyBlock_retry_skips_trace_checks
        [where r = zero_randao_state and r' = "\<lparr>rs_Slot = 63, rs_ParentHash = sample_parent, rs_Randao = ''0x01''\<rparr>"])
      (simp_all add: sample_defs sr_Slot_def ms_Genesis_def ms_HeadSlot_def load_def Randao_def as_Randao_def
        new_atomic_state_def zero_randao_state_def)
  moreover have "sr_BlockHash ?sbr \<noteq> sr_TraceBlockHash ?sbr"
    by (simp add: sr_TraceBlockHash_def sample_payload_def)
  ultimately show ?thesis by blast
qed

lemma walk_all_nil_withdrawal: "None \<in> set xs \<Longrightarrow> walk_all withdrawal_ptr_walk xs = Panic"
  by (induction xs) (auto simp: withdrawal_ptr_walk_def deref_def split: option.splits)

text \<open>
  C39: a Capella submission whose list of at most 16 withdrawals contains a null entry panics in the
  validation goroutine, once it has passed the first checks: \<open>HashTreeRootWith\<close> dereferences the nil
  pointer.
\<close>

theorem SubmitBlock_nil_withdrawal_panics:
  assumes "EpWithdrawals (CapellaExecutionPayload t) = Some ws" and "None \<in> set ws" and "length ws \<le> 16"
    and "bvc_IsSet D" and "\<not> allow_listed cfg (CapellaSubmit t)"
    and "verifyBlock L (CapellaSubmit t) (sa_bs ar 0) (sa_bs ar 1) = Ok retried"
    and "checkRegistration cfg D (sa_now ar) (sa_rnd ar) (sr_ProposerPubkey (CapellaSubmit t))
           (sr_ProposerFeeRecipient (CapellaSubmit t)) s = (Ok gasLimit, s1)"
  shows "SubmitBlock L cfg D ar (CapellaSubmit t) s = (Panic, s1)"
proof -
  have "HashWithdrawals_root (hasher L) (Some ws) = Panic"
    using assms(2,3) by (simp add: HashWithdrawals_root_def HashWithDefaultHasher_def HashWithdrawals_walk_def
        walk_list_def nil_list_def walk_all_nil_withdrawal)
  then have "validateBlock L cfg D gasLimit (CapellaSubmit t) = Panic"
    using assms(1,4,5) by (simp add: validateBlock_def)
  then show ?thesis
    using assms(6,7) by (simp add: SubmitBlock_def bind_h_def lift_h_def)
qed

theorem SubmitBlock_nil_withdrawal_panics_witness:
  "SubmitBlock sample_lib sample_config sample_deps sample_args (CapellaSubmit
     \<lparr>CapellaRaw = [], CapellaMessage = sample_trace, CapellaExecutionPayload = sample_payload\<lparr>EpWithdrawals := Some [None]\<rparr>,
      CapellaSignature = 0\<rparr>) sample_state = (Panic, sample_state)"
  by (rule SubmitBlock_nil_withdrawal_panics [where ws = "[None]" and gasLimit = 30000000 and retried = False])
    (simp_all add: sample_deps_def allow_listed_def sample_args_def verifyBlock_def sample_defs sr_Slot_def Let_def
      ms_Genesis_def ms_HeadSlot_def load_def NumberOfSlotsInState_def Randao_def as_Randao_def sr_Value_def
      sr_TraceBlockHash_def sr_TraceParentHash_def hd_barr_list_copy checkRegistration_def check_cached_def
      check_stored_def bind_h_def sr_ProposerFeeRecipient_def)

end
