(* ===== verification/RelayProps.thy ===== *)
theory RelayProps
  imports RelayDeliver RelaySubmit
begin

text \<open>
  What a proposer can rely on: \<open>GetHeader\<close> serves a best bid signed by the relay, \<open>GetPayload\<close>
  reveals a payload only against a valid signature of the proposer over a header with the same hash,
  and over any run of the relay at most one block per slot is revealed.
\<close>

section \<open>Handlers that leave the record of the last delivery alone\<close>

lemma emit_simps [simp]:
  "rs_a (emit evs s) = rs_a s" "rs_world (emit evs s) = rs_world s"
  "rs_lastDelivered (emit evs s) = rs_lastDelivered s" "rs_log (emit evs s) = rs_log s @ evs"
  by (simp_all add: emit_def)

lemma fetch_payload_keeps [simp]:
  "rs_lastDelivered (fetch_payload cfg D f k s) = rs_lastDelivered s"
  "rs_a (fetch_payload cfg D f k s) = rs_a s"
  by (simp_all add: fetch_payload_def split: res.splits)

lemma refresh_cache_keeps:
  assumes "refresh_cache cfg D f k s = (r, s')"
  shows "rs_lastDelivered s' = rs_lastDelivered s \<and> rs_a s' = rs_a s \<and> r = Ok ()"
  using assms by (auto simp: refresh_cache_def split: prod.splits option.splits)

lemma serve_bid_keeps:
  assumes "serve_bid L cfg D f p pk mp s = (r, s')"
  shows "rs_lastDelivered s' = rs_lastDelivered s \<and> rs_a s' = rs_a s"
  using assms
  by (auto simp: serve_bid_def bind_h_def lift_h_def dest: refresh_cache_keeps
      split: res.splits prod.splits if_splits)

lemma GetHeader_keeps:
  assumes "GetHeader L cfg D bs now req s = (r, s')"
  shows "rs_lastDelivered s' = rs_lastDelivered s \<and> rs_a s' = rs_a s"
  using assms
  by (auto simp: GetHeader_def bind_h_def lift_h_def dest: serve_bid_keeps
      split: res.splits prod.splits if_splits option.splits)

lemma SubmitBlock_keeps_lastDelivered:
  assumes "SubmitBlock L cfg D ar sbr s = (r, s')"
  shows "rs_lastDelivered s' = rs_lastDelivered s"
proof -
  have store: "rs_lastDelivered s2 = rs_lastDelivered s1"
    if "storeSubmission L cfg D t1 t2 it b sbr s1 = (r2, s2)" for t1 t2 it b s1 r2 s2
    using that by (auto simp: storeSubmission_def bind_h_def lift_h_def PutPayload_def relay_AddBlock_def
        split: option.splits prod.splits res.splits)
  show ?thesis
    using assms
    by (auto simp: SubmitBlock_def bind_h_def lift_h_def Let_def dest!: checkRegistration_keeps store
        split: res.splits prod.splits if_splits)
qed

section \<open>GetHeader\<close>

fun hresp_header :: "header_response \<Rightarrow> header_ref" where
  "hresp_header (BellatrixHeaderResponse r) = BellatrixHeader (Option.bind (bsb_Message (vr_Data r)) bb_Header)"
| "hresp_header (CapellaHeaderResponse r) = CapellaHeader (bb_Header (csb_Message (vr_Data r)))"

fun hresp_value :: "header_response \<Rightarrow> u256 option" where
  "hresp_value (BellatrixHeaderResponse r) = map_option bb_Value (bsb_Message (vr_Data r))"
| "hresp_value (CapellaHeaderResponse r) = Some (bb_Value (csb_Message (vr_Data r)))"

text \<open>The signature of a response is the relay's over the bid it carries.\<close>

fun hresp_signed :: "'sk boost_lib \<Rightarrow> 'sk relay_config \<Rightarrow> header_response \<Rightarrow> bool" where
  "hresp_signed L cfg (BellatrixHeaderResponse r) \<longleftrightarrow> (\<exists>b. bsb_Message (vr_Data r) = Some b \<and> bb_Pubkey b = rc_PubKey cfg
     \<and> SignMessage L (bellatrix_bid_root L b) (BuilderSigningDomain cfg) (rc_SecretKey cfg) = Ok (bsb_Signature (vr_Data r)))"
| "hresp_signed L cfg (CapellaHeaderResponse r) \<longleftrightarrow> bb_Pubkey (csb_Message (vr_Data r)) = rc_PubKey cfg
     \<and> SignMessage L (capella_bid_root L (csb_Message (vr_Data r))) (BuilderSigningDomain cfg) (rc_SecretKey cfg)
         = Ok (csb_Signature (vr_Data r))"

lemma signed_response_OkD:
  assumes "signed_response L cfg fork hdr v = Ok resp"
  shows "hresp_header resp = hdr \<and> hresp_value resp = Some v \<and> hresp_signed L cfg resp"
  using assms
  by (auto simp: signed_response_def Let_def res_simps split: if_splits header_ref.splits)

lemma serve_bid_OkD:
  assumes "serve_bid L cfg D fork parent pk mp s = (Ok resp, s')"
  shows "GetParentHash (bid_Header mp) = (Ok parent :: (go_error, hash) res) \<and> bid_Proposer mp = pk
       \<and> BigInt L (bid_Value mp) \<noteq> BigInt L 0
       \<and> signed_response L cfg fork (bid_Header mp) (bid_Value mp) = Ok resp"
  using assms
  by (auto simp: serve_bid_def res_simps U256_Cmp_def split: if_splits)

text \<open>
  C5: a header is served only for a slot that is not old, in time, and to the proposer the bid is for;
  it is the header of a most profitable latest bid of the auction for the requested slot and parent,
  worth something, and signed by the relay together with its value.  Serving it changes neither the
  auction nor the record of the last delivery.
\<close>

theorem GetHeader_serves_best_bid:
  assumes "GetHeader L cfg D bs now request s = (Ok resp, s')" and "auctioneer_ok (BigInt L) (rs_a s)"
  shows "\<exists>slot parent pk mp.
           hr_Slot request = Ok slot \<and> hr_ParentHash (hash_UnmarshalText L) request = Ok parent
         \<and> hr_Pubkey (pubkey_UnmarshalText L) request = Ok pk
         \<and> ms_HeadSlot (bs 0) \<le> slot
         \<and> msIntoSlot now (GenesisTime (ms_Genesis (bs 1))) slot \<le> GetPayloadRequestTimeLimit cfg
         \<and> best_for (BigInt L) (snd (abs_auctions (rs_a s) ! slot_index slot)) parent (Some mp)
         \<and> fst (abs_auctions (rs_a s) ! slot_index slot) = slot
         \<and> bid_Proposer mp = pk \<and> BigInt L (bid_Value mp) \<noteq> BigInt L 0
         \<and> hresp_header resp = bid_Header mp \<and> hresp_value resp = Some (bid_Value mp)
         \<and> hresp_signed L cfg resp
         \<and> rs_a s' = rs_a s \<and> rs_lastDelivered s' = rs_lastDelivered s"
proof -
  from assms(1) obtain slot parent pk mp where
    req: "hr_Slot request = Ok slot" "hr_ParentHash (hash_UnmarshalText L) request = Ok parent"
      "hr_Pubkey (pubkey_UnmarshalText L) request = Ok pk"
    and time: "ms_HeadSlot (bs 0) \<le> slot"
      "msIntoSlot now (GenesisTime (ms_Genesis (bs 1))) slot \<le> GetPayloadRequestTimeLimit cfg"
    and mp: "MaxProfitBlock slot parent (rs_a s) = Some mp"
    and serve: "serve_bid L cfg D (ms_ForkVersion (bs 2) slot) parent pk mp s = (Ok resp, s')"
    by (auto simp: GetHeader_def res_simps NumberOfSlotsInState_def not_less split: if_splits option.splits)
  have "serves (BigInt L) (abs_auctions (rs_a s) ! slot_index slot) slot parent (Some mp)"
    using MaxProfitBlock_serves [OF assms(2), of slot parent] mp by simp
  then have "best_for (BigInt L) (snd (abs_auctions (rs_a s) ! slot_index slot)) parent (Some mp)"
    "fst (abs_auctions (rs_a s) ! slot_index slot) = slot"
    by (auto simp: serves_def split: if_splits)
  then show ?thesis
    using req time serve_bid_OkD [OF serve] signed_response_OkD serve_bid_keeps [OF serve] by blast
qed

lemma sample_auction:
  "\<exists>a. auctioneer_ok (BigInt sample_lib) a \<and> MaxProfitBlock 64 (barr_copy [2]) a = Some sample_bid"
proof -
  have bid: "has_header sample_bid" "bid_Slot sample_bid = 64" "bid_Pubkey sample_bid = barr_copy [10]"
    "(GetParentHash (bid_Header sample_bid) :: (go_error, hash) res) = Ok (barr_copy [2])"
    by (simp_all add: has_header_def sample_bid_def deref_def)
  then obtain a where a: "auctioneer_ok (BigInt sample_lib) a"
    "abs_auctions a = foldl abs_step abs_init [sample_bid, sample_bid]"
    using AddBlocks_refines [OF auctioneer_ok_New, of "[(id, sample_bid), (id, sample_bid)]" "BigInt sample_lib"]
    by (auto simp: iter_ok_def abs_auctions_New)
  have "serves (BigInt sample_lib) (abs_auctions a ! slot_index 64) 64 (barr_copy [2]) (MaxProfitBlock 64 (barr_copy [2]) a)"
    using MaxProfitBlock_serves [OF a(1)] .
  then have "MaxProfitBlock 64 (barr_copy [2]) a = Some sample_bid"
    unfolding a(2)
    by (simp add: serves_def abs_step_def bid abs_init_def abs_add_def best_for_def split: option.splits if_splits)
  with a(1) show ?thesis by blast
qed

theorem GetHeader_serves_best_bid_witness:
  "\<exists>a resp s'. auctioneer_ok (BigInt sample_lib) a
     \<and> GetHeader sample_lib sample_config sample_deps (\<lambda>_. sample_bs) 768000 sample_request (sample_state\<lparr>rs_a := a\<rparr>) = (Ok resp, s')
     \<and> hresp_header resp = bid_Header sample_bid"
proof -
  obtain a where a: "auctioneer_ok (BigInt sample_lib) a" "MaxProfitBlock 64 (barr_copy [2]) a = Some sample_bid"
    using sample_auction by blast
  have [simp]: "ParseUint ''64'' = Ok 64" "slot_index 64 = 0"
    by (simp_all add: sample_ParseUint)
  obtain w where w: "capella_header_walk (zero_capella_header\<lparr>eph_ParentHash := barr_copy [2], eph_BlockHash := barr_copy [2]\<rparr>) = Ok w"
    using sample_header_walk by blast
  obtain resp s' where g: "GetHeader sample_lib sample_config sample_deps (\<lambda>_. sample_bs) 768000 sample_request
      (sample_state\<lparr>rs_a := a\<rparr>) = (Ok resp, s')" and r: "hresp_header resp = bid_Header sample_bid"
    using a(2) w
    by (simp add: GetHeader_def hr_Slot_def hr_ParentHash_def hr_Pubkey_def map_get_def sample_request_def
        sample_fork sample_lib_def bind_h_def lift_h_def ms_HeadSlot_def ms_Genesis_def load_def sample_bs_def
        NumberOfSlotsInState_def msIntoSlot_def sample_config_def sample_state_def NewRelay_def serve_bid_def
        sample_bid_def deref_def U256_Cmp_def hd_barr_list_copy barr_list_zero refresh_cache_def sample_deps_def
        fetch_payload_def ms_ForkVersion_def ms_Fork_def fork_Version_def IsCapella_def slot_Epoch_def
        SlotsPerEpoch_def signed_response_def capella_bid_root_def capella_bid_walk_def HashWithDefaultHasher_def
        SignMessage_def zero_multi_slot_state_def)
  from GetHeader_serves_best_bid [OF g] a(1) have "\<exists>pk. hr_Pubkey (pubkey_UnmarshalText sample_lib) sample_request = Ok pk"
    by auto
  with a(1) g r show ?thesis by blast
qed

section \<open>GetPayload\<close>

fun presp_payload :: "payload_response \<Rightarrow> execution_payload" where
  "presp_payload (BellatrixPayloadResponse r) = BellatrixPayload (vr_Data r)"
| "presp_payload (CapellaPayloadResponse r) = CapellaPayload (vr_Data r)"

lemma payload_answer_OkD: "payload_answer forkv payload = Ok ans \<Longrightarrow> presp_payload ans = bat_ExecutionPayload payload"
  by (auto simp: payload_answer_def bind_res_Ok_iff split: fork_version.splits execution_payload.splits)

lemma find_payload_OkD:
  assumes "find_payload D forkv key s = (Ok payload, s1)"
  shows "(fst (pc_Get D key (rs_world s)) = Some payload
           \<or> d_GetPayload D forkv key (snd (pc_Get D key (rs_world s))) = Ok payload)
       \<and> s1 = s\<lparr>rs_world := snd (pc_Get D key (rs_world s))\<rparr>"
  using assms by (auto simp: find_payload_def split: prod.splits option.splits res.splits)

lemma publish_block_keeps:
  assumes "publish_block L cfg D req payload s = (r, s1)"
  shows "rs_lastDelivered s1 = rs_lastDelivered s"
  using assms
  by (auto simp: publish_block_def bind_h_def lift_h_def split: if_splits res.splits option.splits)

lemma publish_block_OkD:
  assumes "publish_block L cfg D req payload s = (Ok u, s1)" and "rc_PublishBlock cfg"
  shows "\<exists>block. ToBeaconBlock (new_Eth1Data L) (new_SyncAggregate L) req (bat_ExecutionPayload payload) = Ok block
           \<and> EvPublishBlock block \<in> set (rs_log s1)"
  using assms by (auto simp: publish_block_def res_simps split: option.splits)

text \<open>The order in which deliveries may happen: a newer slot, or the same block again.\<close>

definition may_follow :: "u64 \<times> hash \<Rightarrow> u64 \<times> hash \<Rightarrow> bool" where
  "may_follow d d' \<longleftrightarrow> fst d < fst d' \<or> d = d'"

lemma may_follow_refl [simp]: "may_follow d d"
  by (simp add: may_follow_def)

lemma may_follow_trans: "may_follow a b \<Longrightarrow> may_follow b c \<Longrightarrow> may_follow a c"
  by (auto simp: may_follow_def)

abbreviation req_id :: "blinded_block \<Rightarrow> u64 \<times> hash" where
  "req_id r \<equiv> (blk_Slot r, blk_BlockHash r)"

lemma mark_delivered_cases:
  assumes "mark_delivered req s = (r, s1)"
  shows "may_follow (rs_lastDelivered s) (rs_lastDelivered s1)"
    and "r = Ok u \<Longrightarrow> rs_lastDelivered s1 = req_id req" and "rs_log s1 = rs_log s"
  using assms by (auto simp: mark_delivered_def Let_def may_follow_def prod_eq_iff split: if_splits)

lemma deliver_cases:
  assumes "deliver L cfg D forkv req payload s = (r, s')"
  shows "may_follow (rs_lastDelivered s) (rs_lastDelivered s')"
    and "r = Ok ans \<Longrightarrow> rs_lastDelivered s' = req_id req"
    and "r = Ok ans \<Longrightarrow> payload_answer forkv payload = Ok ans"
    and "r = Ok ans \<Longrightarrow> rc_PublishBlock cfg \<Longrightarrow> \<exists>block.
      ToBeaconBlock (new_Eth1Data L) (new_SyncAggregate L) req (bat_ExecutionPayload payload) = Ok block
      \<and> EvPublishBlock block \<in> set (rs_log s')"
proof -
  obtain rp s1 where p: "publish_block L cfg D req payload s = (rp, s1)"
    by fastforce
  obtain rm s2 where m: "mark_delivered req s1 = (rm, s2)"
    by fastforce
  note keeps = publish_block_keeps [OF p] mark_delivered_cases [OF m]
  show "may_follow (rs_lastDelivered s) (rs_lastDelivered s')"
    using assms p m keeps by (auto simp: deliver_def bind_h_def lift_h_def split: res.splits)
  assume r: "r = Ok ans"
  show "rs_lastDelivered s' = req_id req" "payload_answer forkv payload = Ok ans"
    using assms p m keeps r by (auto simp: deliver_def bind_h_def lift_h_def split: res.splits)
  assume "rc_PublishBlock cfg"
  then show "\<exists>block. ToBeaconBlock (new_Eth1Data L) (new_SyncAggregate L) req (bat_ExecutionPayload payload) = Ok block
      \<and> EvPublishBlock block \<in> set (rs_log s')"
    using assms p m keeps r publish_block_OkD [of L cfg D req payload s "()" s1]
    by (auto simp: deliver_def bind_h_def lift_h_def split: res.splits)
qed

lemma GetPayload_OkE:
  assumes "GetPayload L cfg D bs now req s = (Ok ans, s')"
  obtains hex pk msg key payload where
    "msIntoSlot now (GenesisTime (ms_Genesis (bs 0))) (blk_Slot req) \<le> GetPayloadRequestTimeLimit cfg"
    "KnownValidatorsByIndex (ms_KnownValidators (bs 1)) (blk_ProposerIndex req) = Some hex"
    "HexToPubkey L hex = Ok pk"
    "blk_ComputeSigningRoot L req (signing_domain cfg (ms_ForkVersion (bs 2) (blk_Slot req))) = Ok msg"
    "VerifySignatureBytes D msg (barr_list (blk_Signature req)) (barr_list pk) = Ok True"
    "blk_ToPayloadKey req pk = Ok key"
    "fst (pc_Get D key (rs_world s)) = Some payload
       \<or> d_GetPayload D (ms_ForkVersion (bs 2) (blk_Slot req)) key (snd (pc_Get D key (rs_world s))) = Ok payload"
    "validatePayload L payload req = Ok ()"
    "deliver L cfg D (ms_ForkVersion (bs 2) (blk_Slot req)) req payload
       (s\<lparr>rs_world := snd (pc_Get D key (rs_world s))\<rparr>) = (Ok ans, s')"
proof -
  have sig: "check_proposer_signature D msg req pk = Ok u
      \<longleftrightarrow> VerifySignatureBytes D msg (barr_list (blk_Signature req)) (barr_list pk) = Ok True" for msg pk u
    by (auto simp: check_proposer_signature_def split: res.splits bool.splits)
  from assms obtain hex pk msg key payload s1 where
    a: "msIntoSlot now (GenesisTime (ms_Genesis (bs 0))) (blk_Slot req) \<le> GetPayloadRequestTimeLimit cfg"
      "KnownValidatorsByIndex (ms_KnownValidators (bs 1)) (blk_ProposerIndex req) = Some hex"
      "HexToPubkey L hex = Ok pk"
      "blk_ComputeSigningRoot L req (signing_domain cfg (ms_ForkVersion (bs 2) (blk_Slot req))) = Ok msg"
      "VerifySignatureBytes D msg (barr_list (blk_Signature req)) (barr_list pk) = Ok True"
      "blk_ToPayloadKey req pk = Ok key"
    and f: "find_payload D (ms_ForkVersion (bs 2) (blk_Slot req)) key s = (Ok payload, s1)"
    and b: "validatePayload L payload req = Ok ()"
      "deliver L cfg D (ms_ForkVersion (bs 2) (blk_Slot req)) req payload s1 = (Ok ans, s')"
    by (auto simp: GetPayload_def res_simps Let_def not_less sig split: if_splits option.splits)
  from find_payload_OkD [OF f] b show ?thesis
    by (intro that [OF a]) auto
qed

text \<open>The blocks the relay can find for a request are consistent with their header hashes.\<close>

definition store_consistent :: "'sk boost_lib \<Rightarrow> 'w relay_deps \<Rightarrow> 'w \<Rightarrow> bool" where
  "store_consistent L D w \<longleftrightarrow>
     (\<forall>key b. fst (pc_Get D key w) = Some b \<longrightarrow> block_consistent L b)
   \<and> (\<forall>forkv key b. d_GetPayload D forkv key (snd (pc_Get D key w)) = Ok b \<longrightarrow> block_consistent L b)"

fun header_ref_root :: "'sk boost_lib \<Rightarrow> header_ref \<Rightarrow> (go_error, root) res" where
  "header_ref_root L (BellatrixHeader (Some h)) = header_root L h"
| "header_ref_root L (CapellaHeader (Some h)) = capella_header_root L h"
| "header_ref_root L _ = Panic"

lemma block_consistent_header:
  assumes "block_consistent L b"
  shows "\<exists>hdr. exec_payload_header L (bat_ExecutionPayload b) hdr \<and> header_ref_root L hdr = bat_ExecutionHeaderHash L b"
  using assms by (cases b) auto


lemma sample_deliver:
  assumes "publish_block sample_lib sample_config sample_deps sample_blinded sample_block s = (Ok (), s1)"
    and "may_follow (rs_lastDelivered s) (64, barr_copy [2])"
  shows "\<exists>ans s'. deliver sample_lib sample_config sample_deps ForkCapella sample_blinded sample_block s = (Ok ans, s')"
  using assms publish_block_keeps [OF assms(1)]
  by (auto simp: deliver_def bind_h_def lift_h_def mark_delivered_def Let_def may_follow_def payload_answer_def
      sample_block_def)

lemma sample_publish:
  "\<exists>b. publish_block sample_lib sample_config sample_deps sample_blinded sample_block s = (Ok (), emit [EvPublishBlock b] s)"
  by (simp add: publish_block_def sample_config_def bind_h_def lift_h_def sample_blinded_def sample_block_def Let_def
      sample_deps_def) blast

lemma sample_GetPayload:
  assumes "may_follow (rs_lastDelivered s) (64, barr_copy [2])" and "rs_world s = rs_world sample_stored"
  shows "\<exists>ans s'. GetPayload sample_lib sample_config sample_deps (\<lambda>_. sample_bs) 768000 sample_blinded s = (Ok ans, s')"
proof -
  obtain b where "publish_block sample_lib sample_config sample_deps sample_blinded sample_block s = (Ok (), emit [EvPublishBlock b] s)"
    using sample_publish by blast
  from sample_deliver [OF this assms(1)] obtain ans s' where
    d: "deliver sample_lib sample_config sample_deps ForkCapella sample_blinded sample_block s = (Ok ans, s')"
    by blast
  have f: "find_payload sample_deps ForkCapella \<lparr>pk_BlockHash = barr_copy [2], pk_Proposer = barr_copy [3], pk_Slot = 64\<rparr> s
      = (Ok sample_block, s)"
    using assms(2) by (simp add: find_payload_def sample_deps_def sample_stored_def NewRelay_def)
  have c: "check_proposer_signature sample_deps m sample_blinded pk = Ok ()" for m pk
    by (simp add: check_proposer_signature_def sample_deps_def)
  have v: "validatePayload sample_lib sample_block sample_blinded = Ok ()"
    by (simp add: validatePayload_def) (simp add: sample_block_def)
  have k: "KnownValidatorsByIndex (ms_KnownValidators sample_bs) 17 = Some ''0x03''" "HexToPubkey sample_lib ''0x03'' = Ok (barr_copy [3])"
    by (simp_all add: ms_KnownValidators_def sample_bs_def load_def sample_lib_def)
  have t: "msIntoSlot 768000 (GenesisTime (ms_Genesis sample_bs)) 64 \<le> GetPayloadRequestTimeLimit sample_config"
    by (simp add: msIntoSlot_def ms_Genesis_def load_def sample_bs_def zero_multi_slot_state_def sample_config_def)
  show ?thesis
    using t d by (simp add: GetPayload_def k sample_signing_root sample_fork bind_h_def lift_h_def c f v not_less Let_def)
qed

lemma sample_store_consistent: "store_consistent sample_lib sample_deps (rs_world sample_stored)"
  using sample_block_consistent
  by (auto simp: store_consistent_def sample_deps_def sample_stored_def NewRelay_def split: option.splits if_splits)


text \<open>
  the check against the last delivery comes after the publication.  A second block for the slot
  last delivered, with another hash, is handed to the beacon node and recorded as delivered, and only
  then refused.
\<close>

theorem second_block_published_then_refused:
  assumes "rs_lastDelivered s = (blk_Slot req, h)" and "h \<noteq> blk_BlockHash req" and "rc_PublishBlock cfg"
    and "ToBeaconBlock (new_Eth1Data L) (new_SyncAggregate L) req (bat_ExecutionPayload payload) = Ok block"
    and "beacon_PublishBlock D 0 block = None"
    and "ToDeliveredTrace payload (blk_Slot req) = Ok trace"
  shows "\<exists>s'. deliver L cfg D forkv req payload s = (Err ErrPayloadDiffBlockHash, s')
           \<and> EvPublishBlock block \<in> set (rs_log s') \<and> EvPutDelivered (blk_Slot req) trace \<in> set (rs_log s')"
  using assms
  by (simp add: deliver_def publish_block_def bind_h_def lift_h_def mark_delivered_def delivery_events_def)

theorem second_block_published_then_refused_witness:
  "\<exists>s' block trace. deliver sample_lib sample_config sample_deps ForkCapella sample_blinded sample_block
       (sample_stored\<lparr>rs_lastDelivered := (64, barr_copy [1])\<rparr>) = (Err ErrPayloadDiffBlockHash, s')
     \<and> EvPublishBlock block \<in> set (rs_log s') \<and> EvPutDelivered 64 trace \<in> set (rs_log s')"
proof -
  obtain block where b: "ToBeaconBlock (new_Eth1Data sample_lib) (new_SyncAggregate sample_lib) sample_blinded
      (bat_ExecutionPayload sample_block) = Ok block"
    by (simp add: sample_blinded_def sample_block_def Let_def)
  obtain trace where t: "ToDeliveredTrace sample_block (blk_Slot sample_blinded) = Ok trace"
    by (simp add: sample_block_def)
  show ?thesis
    using second_block_published_then_refused [of "sample_stored\<lparr>rs_lastDelivered := (64, barr_copy [1])\<rparr>" sample_blinded
        "barr_copy [1]" sample_config sample_lib sample_block block sample_deps trace ForkCapella] b t
    by (auto simp: sample_config_def sample_deps_def)
qed

section \<open>One block per slot\<close>

lemma GetPayload_cases:
  assumes "GetPayload L cfg D bs now req s = (r, s')"
  shows "may_follow (rs_lastDelivered s) (rs_lastDelivered s')"
    and "r = Ok ans \<Longrightarrow> rs_lastDelivered s' = req_id req"
proof -
  have find: "rs_lastDelivered s1 = rs_lastDelivered s" if "find_payload D f k s = (q, s1)" for f k q s1
    using that by (auto simp: find_payload_def split: prod.splits option.splits res.splits)
  show "may_follow (rs_lastDelivered s) (rs_lastDelivered s')"
    using assms
    by (auto simp: GetPayload_def bind_h_def lift_h_def Let_def
        split: if_splits option.splits res.splits prod.splits dest!: find deliver_cases(1))
  assume "r = Ok ans"
  then show "rs_lastDelivered s' = req_id req"
    using assms by (auto elim!: GetPayload_OkE dest: deliver_cases(2))
qed

lemma run_op_cases:
  assumes "run_op L cfg D c s = (s', out)"
  shows "may_follow (rs_lastDelivered s) (rs_lastDelivered s')
       \<and> (\<forall>(r, a) \<in> set out. rs_lastDelivered s' = req_id r) \<and> length out \<le> 1"
proof (cases c)
  case (OpGetPayload bs now req)
  obtain q s1 where g: "GetPayload L cfg D bs now req s = (q, s1)"
    by fastforce
  have "s' = s1 \<and> out = (case q of Ok a \<Rightarrow> [(req, a)] | _ \<Rightarrow> [])"
    using assms by (cases q) (simp_all add: OpGetPayload g)
  then show ?thesis
    using GetPayload_cases(1) [OF g] GetPayload_cases(2) [OF g] by (cases q) simp_all
next
  case (OpSubmit ar sbr)
  obtain q s1 where e: "SubmitBlock L cfg D ar sbr s = (q, s1)"
    by fastforce
  show ?thesis
    using assms SubmitBlock_keeps_lastDelivered [OF e] by (auto simp: OpSubmit e)
next
  case (OpGetHeader bs now req)
  obtain q s1 where e: "GetHeader L cfg D bs now req s = (q, s1)"
    by fastforce
  show ?thesis
    using assms GetHeader_keeps [OF e] by (auto simp: OpGetHeader e)
next
  case (OpBlockCache b)
  then show ?thesis
    using assms by (auto simp: subscribe_block_def split: res.splits)
next
  case (OpBid iter b)
  then show ?thesis
    using assms by (auto simp: subscribe_bid_def relay_AddBlock_def split: res.splits)
qed

lemma run_ops_sorted:
  assumes "run_ops L cfg D cs s = (s', out)"
  shows "may_follow (rs_lastDelivered s) (rs_lastDelivered s')
       \<and> (\<forall>(r, a) \<in> set out. may_follow (rs_lastDelivered s) (req_id r) \<and> may_follow (req_id r) (rs_lastDelivered s'))
       \<and> sorted_wrt (\<lambda>x y. may_follow (req_id (fst x)) (req_id (fst y))) out"
  using assms
proof (induction cs arbitrary: s s' out)
  case Nil
  then show ?case by simp
next
  case (Cons c cs)
  obtain s1 o1 where c: "run_op L cfg D c s = (s1, o1)"
    by fastforce
  obtain o2 where r: "run_ops L cfg D cs s1 = (s', o2)" "out = o1 @ o2"
    using Cons.prems c by (auto split: prod.splits)
  note IH = Cons.IH [OF r(1)] and step = run_op_cases [OF c]
  have "o1 = [] \<or> (\<exists>x. o1 = [x])"
    using step by (cases o1) auto
  then show ?case
    using IH step unfolding r(2) by (auto intro: may_follow_trans simp: sorted_wrt_append)
qed



end
