(* ===== verification/Ssz.thy ===== *)
theory Ssz
  imports ForkData
begin

text \<open>
  The interface to the libraries the codecs call, as the record \<open>ssz_lib\<close>: \<open>fastssz\<close> and, for two
  fields, \<open>go-boost-utils\<close>.  The locale \<open>ssz_laws\<close> states what the codecs rely on: integers are written
  in 8 bytes and offsets in 4, both are read back, and the helpers for lists of variable-size
  elements decode the layout of SSZ (the offsets of the elements, then the elements).  \<open>le_ssz\<close> is a
  little-endian instance.  The locale \<open>ssz_codec\<close> is the contract of an encoder and a decoder that the
  types containing an encoded field, and the stream between relays, build on.

  \<open>dynamic_chunks\<close> is \<open>UnmarshalDynamic\<close> without its callback: the slices it passes on, in order, and
  the error that ends it.
\<close>

section \<open>The library\<close>

record ssz_lib =
  MarshalUint64 :: "bytes \<Rightarrow> u64 \<Rightarrow> bytes"
  UnmarshallUint64 :: "bytes \<Rightarrow> u64"
  WriteOffset :: "bytes \<Rightarrow> nat \<Rightarrow> bytes"
  ReadOffset :: "bytes \<Rightarrow> nat"
  DivideInt2 :: "nat \<Rightarrow> nat \<Rightarrow> nat \<Rightarrow> (go_error, nat) res"
  DecodeDynamicLength :: "bytes \<Rightarrow> nat \<Rightarrow> (go_error, nat) res"
  dynamic_chunks :: "bytes \<Rightarrow> nat \<Rightarrow> bytes list \<times> go_error option"
  U256_FromSlice :: "u256 \<Rightarrow> bytes \<Rightarrow> u256"
  types_BidTrace_UnmarshalSSZ :: "bid_trace \<Rightarrow> bytes \<Rightarrow> (go_error, bid_trace) res"

abbreviation "ErrSize \<equiv> LibErr ''ssz.ErrSize''"
abbreviation "ErrOffset \<equiv> LibErr ''ssz.ErrOffset''"
abbreviation "ErrInvalidVariableOffset \<equiv> LibErr ''ssz.ErrInvalidVariableOffset''"
abbreviation "ErrBytesLength \<equiv> LibErr ''ssz.ErrBytesLength''"
abbreviation "ErrBytesLengthFn \<equiv> LibErrFn ''ssz.ErrBytesLengthFn''"
abbreviation "ErrListTooBigFn \<equiv> LibErrFn ''ssz.ErrListTooBigFn''"

text \<open>The offsets of consecutive elements of which the first starts at \<open>n\<close>.\<close>

fun offsets_from :: "nat \<Rightarrow> bytes list \<Rightarrow> nat list" where
  "offsets_from n [] = []"
| "offsets_from n (x # xs) = n # offsets_from (n + length x) xs"

text \<open>The layout of a list of variable-size elements.\<close>

definition dyn_bytes :: "ssz_lib \<Rightarrow> bytes list \<Rightarrow> bytes" where
  "dyn_bytes L xs = concat (map (WriteOffset L []) (offsets_from (4 * length xs) xs)) @ concat xs"

definition dyn_size :: "bytes list \<Rightarrow> nat" where
  "dyn_size xs = sum_list (map (\<lambda>x. 4 + length x) xs)"

text \<open>
  The encoding of a container as the SSZ specification defines it: the fixed part of every field in
  order, with the offset of its data in the place of a field of variable size, then the variable
  fields.
\<close>

datatype ssz_part = Fix bytes | Var bytes

fun fixed_length :: "ssz_part list \<Rightarrow> nat" where
  "fixed_length [] = 0"
| "fixed_length (Fix b # ps) = length b + fixed_length ps"
| "fixed_length (Var b # ps) = 4 + fixed_length ps"

fun container_head :: "ssz_lib \<Rightarrow> nat \<Rightarrow> ssz_part list \<Rightarrow> bytes" where
  "container_head L n [] = []"
| "container_head L n (Fix b # ps) = b @ container_head L n ps"
| "container_head L n (Var b # ps) = WriteOffset L [] n @ container_head L (n + length b) ps"

fun container_tail :: "ssz_part list \<Rightarrow> bytes" where
  "container_tail [] = []"
| "container_tail (Fix b # ps) = container_tail ps"
| "container_tail (Var b # ps) = b @ container_tail ps"

definition ssz_container :: "ssz_lib \<Rightarrow> ssz_part list \<Rightarrow> bytes" where
  "ssz_container L ps = container_head L (fixed_length ps) ps @ container_tail ps"

locale ssz_laws =
  fixes L :: ssz_lib
  assumes marshal_u64: "MarshalUint64 L dst x = dst @ MarshalUint64 L [] x"
    and length_u64: "length (MarshalUint64 L [] x) = 8"
    and unmarshal_u64: "UnmarshallUint64 L (MarshalUint64 L [] x) = x"
    and write_offset: "WriteOffset L dst n = dst @ WriteOffset L [] n"
    and length_offset: "length (WriteOffset L [] n) = 4"
    and read_offset: "n < 2 ^ 32 \<Longrightarrow> ReadOffset L (WriteOffset L [] n) = n"
    and divide_Ok: "0 < b \<Longrightarrow> DivideInt2 L n b m = Ok q \<longleftrightarrow> n = q * b \<and> q \<le> m"
    and divide_total: "0 < b \<Longrightarrow> DivideInt2 L n b m \<noteq> Panic"
    and dyn_length: "length xs \<le> m \<Longrightarrow> dyn_size xs < 2 ^ 32 \<Longrightarrow> DecodeDynamicLength L (dyn_bytes L xs) m = Ok (length xs)"
    and dyn_chunks: "dyn_size xs < 2 ^ 32 \<Longrightarrow> dynamic_chunks L (dyn_bytes L xs) (length xs) = (xs, None)"
    and dyn_length_total: "DecodeDynamicLength L buf m \<noteq> Panic"
    and dyn_chunks_count: "length (fst (dynamic_chunks L buf n)) \<le> n"
    and u256_slice: "length bs = 32 \<Longrightarrow> U256_FromSlice L v bs = barr_copy bs"
    and trace_total: "length bs = 236 \<Longrightarrow> types_BidTrace_UnmarshalSSZ L t bs \<noteq> Panic"
begin

text \<open>Encoders append to their buffer; the encoded field is named so that these are rewrite rules.\<close>

definition u64_bytes :: "u64 \<Rightarrow> bytes" where
  "u64_bytes x = MarshalUint64 L [] x"

definition off_bytes :: "nat \<Rightarrow> bytes" where
  "off_bytes n = WriteOffset L [] n"

lemma u64_append: "MarshalUint64 L dst x = dst @ u64_bytes x"
  unfolding u64_bytes_def by (rule marshal_u64)

lemma off_append: "WriteOffset L dst n = dst @ off_bytes n"
  unfolding off_bytes_def by (rule write_offset)

lemma u64_bytes_length: "length (u64_bytes x) = 8"
  by (simp add: u64_bytes_def length_u64)

lemma off_bytes_length: "length (off_bytes n) = 4"
  by (simp add: off_bytes_def length_offset)

lemma u64_read: "UnmarshallUint64 L (u64_bytes x) = x"
  by (simp add: u64_bytes_def unmarshal_u64)

lemma off_read: "n < 2 ^ 32 \<Longrightarrow> ReadOffset L (off_bytes n) = n"
  by (simp add: off_bytes_def read_offset)

lemmas enc_simps = u64_append off_append u64_bytes_length off_bytes_length
lemmas dec_simps = u64_read off_read

end

section \<open>The contract of a codec\<close>

text \<open>
  \<open>wf\<close> holds of the values the encoder accepts, \<open>fresh\<close> of the objects a decoder may be run on, and
  \<open>norm\<close> is what the encoding does not keep: the difference between a nil and an empty slice.
\<close>

locale ssz_codec =
  fixes marshal :: "'a \<Rightarrow> bytes \<Rightarrow> (go_error, bytes) res"
    and unmarshal :: "'a \<Rightarrow> bytes \<Rightarrow> (go_error, 'a) res"
    and sz :: "'a \<Rightarrow> nat"
    and wf :: "'a \<Rightarrow> bool"
    and norm :: "'a \<Rightarrow> 'a"
    and fresh :: "'a \<Rightarrow> bool"
  assumes codec: "wf x \<Longrightarrow> \<exists>bs. (\<forall>dst. marshal x dst = Ok (dst @ bs)) \<and> length bs = sz x
      \<and> (\<forall>t. fresh t \<longrightarrow> unmarshal t bs = Ok (norm x))"
begin

lemma encode_append:
  assumes "wf x"
  obtains bs where "\<And>dst. marshal x dst = Ok (dst @ bs)" and "length bs = sz x"
    and "\<And>t. fresh t \<Longrightarrow> unmarshal t bs = Ok (norm x)"
  using codec [OF assms] by auto

lemma decode_encode: "wf x \<Longrightarrow> fresh t \<Longrightarrow> bind_res (marshal x []) (unmarshal t) = Ok (norm x)"
  using codec [of x] by auto

lemma encode_size: "wf x \<Longrightarrow> marshal x dst = Ok out \<Longrightarrow> length out = length dst + sz x"
  using codec [of x] by auto

lemma encode_determines:
  assumes "wf x" and "wf y" and "fresh t" and "marshal x dst = marshal y dst"
  shows "norm x = norm y"
proof -
  obtain bs where x: "marshal x dst = Ok (dst @ bs)" "unmarshal t bs = Ok (norm x)"
    using codec [OF assms(1)] assms(3) by auto
  obtain cs where y: "marshal y dst = Ok (dst @ cs)" "unmarshal t cs = Ok (norm y)"
    using codec [OF assms(2)] assms(3) by auto
  show ?thesis
    using x y assms(4) by simp
qed

end

section \<open>A little-endian instance\<close>

fun le_offsets :: "nat \<Rightarrow> bytes \<Rightarrow> nat list" where
  "le_offsets 0 buf = []"
| "le_offsets (Suc k) buf = le_val (take 4 buf) # le_offsets k (drop 4 buf)"

fun le_slices :: "bytes \<Rightarrow> nat list \<Rightarrow> bytes list \<times> go_error option" where
  "le_slices buf [] = ([], None)"
| "le_slices buf [a] = (if a \<le> length buf then ([drop a buf], None) else ([], Some ErrOffset))"
| "le_slices buf (a # b # r) =
     (if a \<le> b \<and> b \<le> length buf
      then (case le_slices buf (b # r) of (cs, e) \<Rightarrow> (slice a b buf # cs, e))
      else ([], Some ErrOffset))"

definition le_ssz :: ssz_lib where
  "le_ssz =
     \<lparr>MarshalUint64 = (\<lambda>dst x. dst @ le_bytes 8 (unat x)),
      UnmarshallUint64 = (\<lambda>bs. of_nat (le_val bs)),
      WriteOffset = (\<lambda>dst n. dst @ le_bytes 4 n),
      ReadOffset = le_val,
      DivideInt2 = (\<lambda>n b m. if n mod b \<noteq> 0 then Err ErrSize else if n div b > m then Err ErrSize else Ok (n div b)),
      DecodeDynamicLength = (\<lambda>buf m.
        if buf = [] then Ok 0
        else if length buf < 4 then Err ErrSize
        else let off = le_val (take 4 buf)
             in if off mod 4 \<noteq> 0 \<or> off = 0 then Err ErrOffset
                else if off div 4 > m then Err ErrSize else Ok (off div 4)),
      dynamic_chunks = (\<lambda>buf n. le_slices buf (le_offsets n buf)),
      U256_FromSlice = (\<lambda>v bs. barr_copy bs),
      types_BidTrace_UnmarshalSSZ = (\<lambda>t bs. if length bs = 236 then Ok t else Err ErrSize)\<rparr>"

lemma dyn_size_concat: "dyn_size xs = 4 * length xs + length (concat xs)"
  by (induction xs) (auto simp: dyn_size_def)

lemma offsets_from_less: "k \<in> set (offsets_from n xs) \<Longrightarrow> k \<le> n + length (concat xs)"
proof (induction xs arbitrary: n)
  case (Cons x xs)
  then consider "k = n" | "k \<in> set (offsets_from (n + length x) xs)"
    by auto
  then show ?case
    using Cons.IH [of "n + length x"] by cases simp_all
qed simp

lemma length_offsets_from [simp]: "length (offsets_from n xs) = length xs"
  by (induction xs arbitrary: n) auto

lemma le_offsets_concat:
  "\<forall>k \<in> set ks. k < 256 ^ 4 \<Longrightarrow> le_offsets (length ks) (concat (map (le_bytes 4) ks) @ rest) = ks"
proof (induction ks)
  case (Cons k ks)
  have "take 4 (le_bytes 4 k @ ys) = le_bytes 4 k" "drop 4 (le_bytes 4 k @ ys) = ys" for ys
    by simp_all
  with Cons show ?case
    by (simp only: list.map concat.simps list.size add_Suc_right add_0_right le_offsets.simps append_assoc)
      (simp add: le_val_le_bytes)
qed simp

lemma le_slices_offsets:
  assumes "buf = pre @ concat xs" and "n = length pre"
  shows "le_slices buf (offsets_from n xs) = (xs, None)"
  using assms
proof (induction xs arbitrary: pre n)
  case step: (Cons x xs)
  have rest: "le_slices buf (offsets_from (n + length x) xs) = (xs, None)"
    using step.IH [of "pre @ x" "n + length x"] step.prems by simp
  show ?case
    using step.prems rest by (cases xs) (simp_all add: slice_def)
qed simp

lemma le_dyn_offsets:
  assumes "dyn_size xs < 2 ^ 32"
  shows "le_offsets (length xs) (dyn_bytes le_ssz xs) = offsets_from (4 * length xs) xs"
proof -
  have "\<forall>k \<in> set (offsets_from (4 * length xs) xs). k < 256 ^ 4"
    using assms offsets_from_less [of _ "4 * length xs" xs] by (fastforce simp: dyn_size_concat)
  from le_offsets_concat [OF this] show ?thesis
    by (simp add: dyn_bytes_def le_ssz_def)
qed

lemma length_concat_offsets: "length (concat (map (le_bytes 4) ks)) = 4 * length ks"
  by (induction ks) auto

lemma le_dyn_length:
  assumes "length xs \<le> m" and "dyn_size xs < 2 ^ 32"
  shows "DecodeDynamicLength le_ssz (dyn_bytes le_ssz xs) m = Ok (length xs)"
proof (cases xs)
  case Nil
  then show ?thesis by (simp add: dyn_bytes_def le_ssz_def)
next
  case (Cons y ys)
  have "le_val (take 4 (dyn_bytes le_ssz xs)) = 4 * length xs"
    using le_dyn_offsets [OF assms(2)] Cons by simp
  moreover have "4 * length xs \<le> length (dyn_bytes le_ssz xs)"
    by (simp add: dyn_bytes_def le_ssz_def length_concat_offsets)
  ultimately show ?thesis
    using Cons assms(1) by (auto simp: le_ssz_def Let_def)
qed

lemma le_dyn_chunks:
  assumes "dyn_size xs < 2 ^ 32"
  shows "dynamic_chunks le_ssz (dyn_bytes le_ssz xs) (length xs) = (xs, None)"
proof -
  have "le_slices (dyn_bytes le_ssz xs) (offsets_from (4 * length xs) xs) = (xs, None)"
    by (rule le_slices_offsets [where pre = "concat (map (le_bytes 4) (offsets_from (4 * length xs) xs))"])
      (simp_all add: dyn_bytes_def le_ssz_def length_concat_offsets)
  then show ?thesis
    using le_dyn_offsets [OF assms] by (simp add: le_ssz_def)
qed

lemma length_le_offsets [simp]: "length (le_offsets n buf) = n"
  by (induction n arbitrary: buf) auto

lemma length_le_slices: "length (fst (le_slices buf ks)) \<le> length ks"
  by (induction buf ks rule: le_slices.induct) (auto split: prod.splits)

lemma le_chunks_count: "length (fst (dynamic_chunks le_ssz buf n)) \<le> n"
  using length_le_slices [of buf "le_offsets n buf"] by (simp add: le_ssz_def)

interpretation le: ssz_laws le_ssz
proof (unfold_locales, goal_cases)
  case (3 x)
  have "unat x < 256 ^ 8"
    using unsigned_less [of x, where 'a = nat] by simp
  then show ?case
    by (simp add: le_ssz_def le_val_le_bytes)
next
  case (7 b n m q)
  then show ?case
    by (auto simp: le_ssz_def)
next
  case (9 xs m)
  then show ?case by (rule le_dyn_length)
next
  case (10 xs)
  then show ?case by (rule le_dyn_chunks)
next
  case (12 buf n)
  show ?case by (rule le_chunks_count)
qed (auto simp: le_ssz_def Let_def le_val_le_bytes)

end
