(* ===== verification/CapellaSsz.thy ===== *)
theory CapellaSsz
  imports Ssz
begin

text \<open>
  The SSZ codecs of Capella (\<open>structs/forks/capella/capella.go\<close>) and of withdrawals
  (\<open>structs/withdrawals.go\<close>): builder bids and blocks with their payload and signed trace, which
  the stream carries between relays, and the decoder of block submissions.

  An encoder appends to its buffer.  A decoder runs on an object and overwrites it; a byte slice of
  the object is appended to, as in the source.  The object a failed decoder leaves behind is not
  modelled: every caller in the source drops it.  \<open>ssz_laws\<close> carries the proofs, and each type that
  is encoded and decoded is an instance of \<open>ssz_codec\<close>.
\<close>

section \<open>Withdrawals\<close>

definition Withdrawal_MarshalSSZTo :: "ssz_lib \<Rightarrow> withdrawal option \<Rightarrow> bytes \<Rightarrow> (go_error, bytes) res" where
  "Withdrawal_MarshalSSZTo L p buf =
     (case p of None \<Rightarrow> Panic
      | Some w \<Rightarrow>
          let buf = MarshalUint64 L buf (w_Index w);
              buf = MarshalUint64 L buf (w_ValidatorIndex w);
              buf = buf @ barr_list (w_Address w);
              buf = MarshalUint64 L buf (w_Amount w)
          in Ok buf)"

definition Withdrawal_UnmarshalSSZ :: "ssz_lib \<Rightarrow> withdrawal \<Rightarrow> bytes \<Rightarrow> (go_error, withdrawal) res" where
  "Withdrawal_UnmarshalSSZ L w buf =
     (if length buf \<noteq> 44 then Err ErrSize
      else bind_res (slice_res 0 8 buf) (\<lambda>index.
           bind_res (slice_res 8 16 buf) (\<lambda>validator.
           bind_res (slice_res 16 36 buf) (\<lambda>addr.
           bind_res (slice_res 36 44 buf) (\<lambda>amount.
             Ok (w\<lparr>w_Index := UnmarshallUint64 L index, w_ValidatorIndex := UnmarshallUint64 L validator,
                  w_Address := barr_copy addr, w_Amount := UnmarshallUint64 L amount\<rparr>))))))"

definition Withdrawal_SizeSSZ :: "withdrawal \<Rightarrow> nat" where
  "Withdrawal_SizeSSZ w = 44"

definition zero_withdrawal :: withdrawal where
  "zero_withdrawal = \<lparr>w_Index = 0, w_ValidatorIndex = 0, w_Address = 0, w_Amount = 0\<rparr>"

section \<open>Bid traces\<close>

definition BidTrace_MarshalSSZTo :: "ssz_lib \<Rightarrow> bid_trace \<Rightarrow> bytes \<Rightarrow> (go_error, bytes) res" where
  "BidTrace_MarshalSSZTo L t buf =
     (let buf = MarshalUint64 L buf (bt_Slot t);
          buf = buf @ barr_list (bt_ParentHash t);
          buf = buf @ barr_list (bt_BlockHash t);
          buf = buf @ barr_list (bt_BuilderPubkey t);
          buf = buf @ barr_list (bt_ProposerPubkey t);
          buf = buf @ barr_list (bt_ProposerFeeRecipient t);
          buf = MarshalUint64 L buf (bt_GasLimit t);
          buf = MarshalUint64 L buf (bt_GasUsed t);
          buf = buf @ barr_list (bt_Value t)
      in Ok buf)"

definition BidTrace_UnmarshalSSZ :: "ssz_lib \<Rightarrow> bid_trace \<Rightarrow> bytes \<Rightarrow> (go_error, bid_trace) res" where
  "BidTrace_UnmarshalSSZ L t buf =
     (if length buf < 236 then Err ErrSize
      else bind_res (slice_res 0 8 buf) (\<lambda>slot.
           bind_res (slice_res 8 40 buf) (\<lambda>parent.
           bind_res (slice_res 40 72 buf) (\<lambda>block.
           bind_res (slice_res 72 120 buf) (\<lambda>builder.
           bind_res (slice_res 120 168 buf) (\<lambda>proposer.
           bind_res (slice_res 168 188 buf) (\<lambda>fee_recipient.
           bind_res (slice_res 188 196 buf) (\<lambda>gas_limit.
           bind_res (slice_res 196 204 buf) (\<lambda>gas_used.
           bind_res (slice_res 204 236 buf) (\<lambda>val.
             Ok (t\<lparr>bt_Slot := UnmarshallUint64 L slot, bt_ParentHash := barr_copy parent,
                  bt_BlockHash := barr_copy block, bt_BuilderPubkey := barr_copy builder,
                  bt_ProposerPubkey := barr_copy proposer, bt_ProposerFeeRecipient := barr_copy fee_recipient,
                  bt_GasLimit := UnmarshallUint64 L gas_limit, bt_GasUsed := UnmarshallUint64 L gas_used,
                  bt_Value := barr_copy val\<rparr>)))))))))))"

definition BidTrace_SizeSSZ :: "bid_trace \<Rightarrow> nat" where
  "BidTrace_SizeSSZ t = 236"

definition SignedBidTrace_MarshalSSZTo :: "ssz_lib \<Rightarrow> signed_bid_trace \<Rightarrow> bytes \<Rightarrow> (go_error, bytes) res" where
  "SignedBidTrace_MarshalSSZTo L s buf =
     (let buf = buf @ barr_list (sbt_Signature s)
      in BidTrace_MarshalSSZTo L (sbt_Message s) buf)"

definition SignedBidTrace_UnmarshalSSZ :: "ssz_lib \<Rightarrow> signed_bid_trace \<Rightarrow> bytes \<Rightarrow> (go_error, signed_bid_trace) res" where
  "SignedBidTrace_UnmarshalSSZ L s buf =
     (if length buf < 332 then Err ErrSize
      else bind_res (slice_res 0 96 buf) (\<lambda>sig.
           bind_res (slice_res 96 332 buf) (\<lambda>msg.
           bind_res (BidTrace_UnmarshalSSZ L (sbt_Message s) msg) (\<lambda>t.
             Ok (s\<lparr>sbt_Signature := barr_copy sig, sbt_Message := t\<rparr>)))))"

definition SignedBidTrace_SizeSSZ :: "signed_bid_trace \<Rightarrow> nat" where
  "SignedBidTrace_SizeSSZ s = 332"

section \<open>Payload headers\<close>

definition Header_MarshalSSZTo :: "ssz_lib \<Rightarrow> capella_header \<Rightarrow> bytes \<Rightarrow> (go_error, bytes) res" where
  "Header_MarshalSSZTo L e buf =
     (let dst = buf;
          offset = 568;
          dst = dst @ barr_list (eph_ParentHash e);
          dst = dst @ barr_list (eph_FeeRecipient e);
          dst = dst @ barr_list (eph_StateRoot e);
          dst = dst @ barr_list (eph_ReceiptsRoot e);
          dst = dst @ barr_list (eph_LogsBloom e);
          dst = dst @ barr_list (eph_Random e);
          dst = MarshalUint64 L dst (eph_BlockNumber e);
          dst = MarshalUint64 L dst (eph_GasLimit e);
          dst = MarshalUint64 L dst (eph_GasUsed e);
          dst = MarshalUint64 L dst (eph_Timestamp e);
          dst = WriteOffset L dst offset;
          dst = dst @ barr_list (eph_BaseFeePerGas e);
          dst = dst @ barr_list (eph_BlockHash e);
          dst = dst @ barr_list (eph_TransactionsRoot e);
          dst = dst @ barr_list (eph_WithdrawalsRoot e)
      in if length (eph_ExtraData e) > 32
         then Err (ErrBytesLengthFn ''ExecutionPayloadHeader.ExtraData'' (length (eph_ExtraData e)) 32)
         else Ok (dst @ eph_ExtraData e))"

definition Header_UnmarshalSSZ :: "ssz_lib \<Rightarrow> capella_header \<Rightarrow> bytes \<Rightarrow> (go_error, capella_header) res" where
  "Header_UnmarshalSSZ L e buf =
     (let size = length buf in
      if size < 568 then Err ErrSize
      else bind_res (slice_res 0 32 buf) (\<lambda>parent.
           bind_res (slice_res 32 52 buf) (\<lambda>fee_recipient.
           bind_res (slice_res 52 84 buf) (\<lambda>state.
           bind_res (slice_res 84 116 buf) (\<lambda>receipts.
           bind_res (slice_res 116 372 buf) (\<lambda>logs.
           bind_res (slice_res 372 404 buf) (\<lambda>random.
           bind_res (slice_res 404 412 buf) (\<lambda>number.
           bind_res (slice_res 412 420 buf) (\<lambda>gas_limit.
           bind_res (slice_res 420 428 buf) (\<lambda>gas_used.
           bind_res (slice_res 428 436 buf) (\<lambda>timestamp.
           bind_res (slice_res 436 440 buf) (\<lambda>off10.
             let o10 = ReadOffset L off10 in
             if o10 > size then Err ErrOffset
             else if o10 < 568 then Err ErrInvalidVariableOffset
             else
           bind_res (slice_res 440 472 buf) (\<lambda>base_fee.
           bind_res (slice_res 472 504 buf) (\<lambda>block.
           bind_res (slice_res 504 536 buf) (\<lambda>txs.
           bind_res (slice_res 536 568 buf) (\<lambda>ws.
           bind_res (slice_res o10 (length buf) buf) (\<lambda>extra.
             if length extra > 32 then Err ErrBytesLength
             else Ok (e\<lparr>eph_ParentHash := barr_copy parent, eph_FeeRecipient := barr_copy fee_recipient,
                  eph_StateRoot := barr_copy state, eph_ReceiptsRoot := barr_copy receipts,
                  eph_LogsBloom := barr_copy logs, eph_Random := barr_copy random,
                  eph_BlockNumber := UnmarshallUint64 L number, eph_GasLimit := UnmarshallUint64 L gas_limit,
                  eph_GasUsed := UnmarshallUint64 L gas_used, eph_Timestamp := UnmarshallUint64 L timestamp,
                  eph_BaseFeePerGas := barr_copy base_fee, eph_BlockHash := barr_copy block,
                  eph_TransactionsRoot := barr_copy txs, eph_WithdrawalsRoot := barr_copy ws,
                  eph_ExtraData := eph_ExtraData e @ extra\<rparr>))))))))))))))))))"

definition Header_SizeSSZ :: "capella_header \<Rightarrow> nat" where
  "Header_SizeSSZ e = 568 + length (eph_ExtraData e)"

definition header_wf :: "capella_header \<Rightarrow> bool" where
  "header_wf e \<longleftrightarrow> length (eph_ExtraData e) \<le> 32"

definition header_fresh :: "capella_header \<Rightarrow> bool" where
  "header_fresh e \<longleftrightarrow> eph_ExtraData e = []"

section \<open>Builder bids\<close>

text \<open>
  Encoding and measuring a bid replace a nil header by a new one, so both are handlers on the bid.
  The value is written with its bytes reversed.
\<close>

definition ensure_header :: "capella_header builder_bid \<Rightarrow> capella_header builder_bid" where
  "ensure_header b = (if bb_Header b = None then b\<lparr>bb_Header := Some zero_capella_header\<rparr> else b)"

definition BuilderBid_MarshalSSZTo :: "ssz_lib \<Rightarrow> bytes \<Rightarrow> (go_error, capella_header builder_bid, bytes) handler" where
  "BuilderBid_MarshalSSZTo L buf b =
     (let dst = buf;
          offset = 84;
          dst = WriteOffset L dst offset;
          b = ensure_header b;
          dst = dst @ map (\<lambda>i. barr_list (bb_Value b) ! (31 - i)) [0..<32];
          dst = dst @ barr_list (bb_Pubkey b)
      in (case bb_Header b of None \<Rightarrow> Panic | Some h \<Rightarrow> Header_MarshalSSZTo L h dst, b))"

definition BuilderBid_UnmarshalSSZ :: "ssz_lib \<Rightarrow> capella_header builder_bid \<Rightarrow> bytes \<Rightarrow> (go_error, capella_header builder_bid) res" where
  "BuilderBid_UnmarshalSSZ L b buf =
     (let size = length buf in
      if size < 84 then Err ErrSize
      else bind_res (slice_res 0 4 buf) (\<lambda>off0.
             let o0 = ReadOffset L off0 in
             if o0 > size then Err ErrOffset
             else if o0 < 84 then Err ErrInvalidVariableOffset
             else
           let val = map (\<lambda>i. buf ! (35 - i)) [0..<32] in
           bind_res (slice_res 36 84 buf) (\<lambda>pubkey.
           bind_res (slice_res o0 (length buf) buf) (\<lambda>hdr.
           bind_res (Header_UnmarshalSSZ L (the_default zero_capella_header (bb_Header b)) hdr) (\<lambda>h.
             Ok (b\<lparr>bb_Header := Some h, bb_Value := U256_FromSlice L (bb_Value b) val,
                  bb_Pubkey := barr_copy pubkey\<rparr>))))))"

definition BuilderBid_SizeSSZ :: "capella_header builder_bid \<Rightarrow> nat \<times> capella_header builder_bid" where
  "BuilderBid_SizeSSZ b = (84 + Header_SizeSSZ (the_default zero_capella_header (bb_Header b)), ensure_header b)"

definition BuilderBidExtended_MarshalSSZTo ::
    "ssz_lib \<Rightarrow> bytes \<Rightarrow> (go_error, capella_header builder_bid_extended, bytes) handler" where
  "BuilderBidExtended_MarshalSSZTo L buf b =
     (let dst = buf;
          offset = 60;
          dst = WriteOffset L dst offset;
          dst = dst @ barr_list (bx_Proposer b);
          dst = MarshalUint64 L dst (bx_Slot b);
          (r, bid) = BuilderBid_MarshalSSZTo L dst (bx_BuilderBid b)
      in (r, b\<lparr>bx_BuilderBid := bid\<rparr>))"

definition BuilderBidExtended_UnmarshalSSZ ::
    "ssz_lib \<Rightarrow> capella_header builder_bid_extended \<Rightarrow> bytes \<Rightarrow> (go_error, capella_header builder_bid_extended) res" where
  "BuilderBidExtended_UnmarshalSSZ L b buf =
     (let size = length buf in
      if size < 60 then Err ErrSize
      else bind_res (slice_res 0 4 buf) (\<lambda>off0.
             let o0 = ReadOffset L off0 in
             if o0 > size then Err ErrOffset
             else if o0 < 60 then Err ErrInvalidVariableOffset
             else
           bind_res (slice_res 4 52 buf) (\<lambda>proposer.
           bind_res (slice_res 52 60 buf) (\<lambda>slot.
           bind_res (slice_res o0 (length buf) buf) (\<lambda>bid.
           bind_res (BuilderBid_UnmarshalSSZ L (bx_BuilderBid b) bid) (\<lambda>bb.
             Ok (b\<lparr>bx_Proposer := barr_copy proposer, bx_Slot := UnmarshallUint64 L slot,
                  bx_BuilderBid := bb\<rparr>)))))))"

definition BuilderBidExtended_SizeSSZ ::
    "capella_header builder_bid_extended \<Rightarrow> nat \<times> capella_header builder_bid_extended" where
  "BuilderBidExtended_SizeSSZ b =
     (let (n, bid) = BuilderBid_SizeSSZ (bx_BuilderBid b)
      in (60 + n, b\<lparr>bx_BuilderBid := bid\<rparr>))"

definition bid_wf :: "capella_header builder_bid_extended \<Rightarrow> bool" where
  "bid_wf b \<longleftrightarrow> header_wf (the_default zero_capella_header (bb_Header (bx_BuilderBid b)))"

definition bid_fresh :: "capella_header builder_bid_extended \<Rightarrow> bool" where
  "bid_fresh b \<longleftrightarrow> header_fresh (the_default zero_capella_header (bb_Header (bx_BuilderBid b)))"

definition norm_bid :: "capella_header builder_bid_extended \<Rightarrow> capella_header builder_bid_extended" where
  "norm_bid b = b\<lparr>bx_BuilderBid := ensure_header (bx_BuilderBid b)\<rparr>"

section \<open>Payloads\<close>

fun tx_offsets :: "ssz_lib \<Rightarrow> nat \<Rightarrow> bytes list \<Rightarrow> bytes \<Rightarrow> bytes" where
  "tx_offsets L offset [] dst = dst"
| "tx_offsets L offset (tx # txs) dst = tx_offsets L (offset + length tx) txs (WriteOffset L dst offset)"

fun tx_append :: "bytes list \<Rightarrow> bytes \<Rightarrow> (go_error, bytes) res" where
  "tx_append [] dst = Ok dst"
| "tx_append (tx # txs) dst =
     (if length tx > 1073741824
      then Err (ErrBytesLengthFn ''ExecutionPayload.Transactions[ii]'' (length tx) 1073741824)
      else tx_append txs (dst @ tx))"

fun marshal_withdrawals :: "ssz_lib \<Rightarrow> withdrawal option list \<Rightarrow> bytes \<Rightarrow> (go_error, bytes) res" where
  "marshal_withdrawals L [] dst = Ok dst"
| "marshal_withdrawals L (w # ws) dst = bind_res (Withdrawal_MarshalSSZTo L w dst) (marshal_withdrawals L ws)"

fun tx_size :: "bytes list \<Rightarrow> nat \<Rightarrow> nat" where
  "tx_size [] n = n"
| "tx_size (tx # txs) n = tx_size txs (n + 4 + length tx)"

definition Payload_MarshalSSZTo :: "ssz_lib \<Rightarrow> capella_payload \<Rightarrow> bytes \<Rightarrow> (go_error, bytes) res" where
  "Payload_MarshalSSZTo L e buf =
     (let extra = nil_list (EpExtraData e);
          txs = nil_list (EpTransactions e);
          ws = nil_list (EpWithdrawals e);
          dst = buf;
          offset = 512;
          dst = dst @ barr_list (EpParentHash e);
          dst = dst @ barr_list (EpFeeRecipient e);
          dst = dst @ barr_list (EpStateRoot e);
          dst = dst @ barr_list (EpReceiptsRoot e);
          dst = dst @ barr_list (EpLogsBloom e);
          dst = dst @ barr_list (EpRandom e);
          dst = MarshalUint64 L dst (EpBlockNumber e);
          dst = MarshalUint64 L dst (EpGasLimit e);
          dst = MarshalUint64 L dst (EpGasUsed e);
          dst = MarshalUint64 L dst (EpTimestamp e);
          dst = WriteOffset L dst offset;
          offset = offset + length extra;
          dst = dst @ barr_list (EpBaseFeePerGas e);
          dst = dst @ barr_list (EpBlockHash e);
          dst = WriteOffset L dst offset;
          offset = tx_size txs offset;
          dst = WriteOffset L dst offset
      in if length extra > 32
         then Err (ErrBytesLengthFn ''ExecutionPayload.ExtraData'' (length extra) 32)
         else let dst = dst @ extra in
         if length txs > 1048576
         then Err (ErrListTooBigFn ''ExecutionPayload.Transactions'' (length txs) 1048576)
         else let dst = tx_offsets L (4 * length txs) txs dst in
         bind_res (tx_append txs dst) (\<lambda>dst.
         if length ws > 16
         then Err (ErrListTooBigFn ''ExecutionPayload.Withdrawals'' (length ws) 16)
         else marshal_withdrawals L ws dst))"

text \<open>
  The callback of \<open>UnmarshalDynamic\<close> on the slices it is given, and the loop over the withdrawals
  from index \<open>ii\<close> on.
\<close>

fun fill_txs :: "bytes list \<Rightarrow> nat \<Rightarrow> bytes list \<Rightarrow> (go_error, bytes list) res" where
  "fill_txs txs indx [] = Ok txs"
| "fill_txs txs indx (buf # bufs) =
     (if length buf > 1073741824 then Err ErrBytesLength
      else if indx \<ge> length txs then Panic
      else fill_txs (txs[indx := txs ! indx @ buf]) (Suc indx) bufs)"

definition unmarshal_txs :: "ssz_lib \<Rightarrow> bytes \<Rightarrow> (go_error, bytes list) res" where
  "unmarshal_txs L buf =
     bind_res (DecodeDynamicLength L buf 1048576) (\<lambda>num.
       case dynamic_chunks L buf num of (bufs, err) \<Rightarrow>
         bind_res (fill_txs (replicate num []) 0 bufs) (\<lambda>txs.
           case err of None \<Rightarrow> Ok txs | Some e \<Rightarrow> Err e))"

fun unmarshal_withdrawals :: "ssz_lib \<Rightarrow> bytes \<Rightarrow> nat \<Rightarrow> nat \<Rightarrow> (go_error, withdrawal option list) res" where
  "unmarshal_withdrawals L buf ii 0 = Ok []"
| "unmarshal_withdrawals L buf ii (Suc n) =
     bind_res (slice_res (ii * 44) ((ii + 1) * 44) buf) (\<lambda>b.
     bind_res (Withdrawal_UnmarshalSSZ L zero_withdrawal b) (\<lambda>w.
     bind_res (unmarshal_withdrawals L buf (ii + 1) n) (\<lambda>ws.
       Ok (Some w # ws))))"

definition Payload_UnmarshalSSZ :: "ssz_lib \<Rightarrow> capella_payload \<Rightarrow> bytes \<Rightarrow> (go_error, capella_payload) res" where
  "Payload_UnmarshalSSZ L e buf =
     (let size = length buf in
      if size < 512 then Err ErrSize
      else bind_res (slice_res 0 32 buf) (\<lambda>parent.
           bind_res (slice_res 32 52 buf) (\<lambda>fee_recipient.
           bind_res (slice_res 52 84 buf) (\<lambda>state.
           bind_res (slice_res 84 116 buf) (\<lambda>receipts.
           bind_res (slice_res 116 372 buf) (\<lambda>logs.
           bind_res (slice_res 372 404 buf) (\<lambda>random.
           bind_res (slice_res 404 412 buf) (\<lambda>number.
           bind_res (slice_res 412 420 buf) (\<lambda>gas_limit.
           bind_res (slice_res 420 428 buf) (\<lambda>gas_used.
           bind_res (slice_res 428 436 buf) (\<lambda>timestamp.
           bind_res (slice_res 436 440 buf) (\<lambda>off10.
             let o10 = ReadOffset L off10 in
             if o10 > size then Err ErrOffset
             else if o10 < 512 then Err ErrInvalidVariableOffset
             else
           bind_res (slice_res 440 472 buf) (\<lambda>base_fee.
           bind_res (slice_res 472 504 buf) (\<lambda>block.
           bind_res (slice_res 504 508 buf) (\<lambda>off13.
             let o13 = ReadOffset L off13 in
             if o13 > size \<or> o10 > o13 then Err ErrOffset
             else
           bind_res (slice_res 508 512 buf) (\<lambda>off14.
             let o14 = ReadOffset L off14 in
             if o14 > size \<or> o13 > o14 then Err ErrOffset
             else
           bind_res (slice_res o10 o13 buf) (\<lambda>extra.
             if length extra > 32 then Err ErrBytesLength
             else
           bind_res (slice_res o13 o14 buf) (\<lambda>txbuf.
           bind_res (unmarshal_txs L txbuf) (\<lambda>txs.
           bind_res (slice_res o14 (length buf) buf) (\<lambda>wbuf.
           bind_res (DivideInt2 L (length wbuf) 44 16) (\<lambda>num.
           bind_res (unmarshal_withdrawals L wbuf 0 num) (\<lambda>ws.
             Ok (e\<lparr>EpParentHash := barr_copy parent, EpFeeRecipient := barr_copy fee_recipient,
                  EpStateRoot := barr_copy state, EpReceiptsRoot := barr_copy receipts,
                  EpLogsBloom := barr_copy logs, EpRandom := barr_copy random,
                  EpBlockNumber := UnmarshallUint64 L number, EpGasLimit := UnmarshallUint64 L gas_limit,
                  EpGasUsed := UnmarshallUint64 L gas_used, EpTimestamp := UnmarshallUint64 L timestamp,
                  EpBaseFeePerGas := barr_copy base_fee, EpBlockHash := barr_copy block,
                  EpExtraData := Some (nil_list (EpExtraData e) @ extra),
                  EpTransactions := Some txs, EpWithdrawals := Some ws\<rparr>)))))))))))))))))))))))"

definition Payload_SizeSSZ :: "capella_payload \<Rightarrow> nat" where
  "Payload_SizeSSZ e =
     (let size = 512;
          size = size + length (nil_list (EpExtraData e));
          size = tx_size (nil_list (EpTransactions e)) size
      in size + length (nil_list (EpWithdrawals e)) * 44)"

definition payload_wf :: "capella_payload \<Rightarrow> bool" where
  "payload_wf e \<longleftrightarrow> length (nil_list (EpExtraData e)) \<le> 32
     \<and> length (nil_list (EpTransactions e)) \<le> 1048576
     \<and> (\<forall>tx \<in> set (nil_list (EpTransactions e)). length tx \<le> 1073741824)
     \<and> length (nil_list (EpWithdrawals e)) \<le> 16
     \<and> None \<notin> set (nil_list (EpWithdrawals e))
     \<and> Payload_SizeSSZ e < 2 ^ 32"

definition payload_fresh :: "capella_payload \<Rightarrow> bool" where
  "payload_fresh e \<longleftrightarrow> nil_list (EpExtraData e) = []"

section \<open>Payload responses, blocks and submissions\<close>

definition PayloadResponse_MarshalSSZTo :: "ssz_lib \<Rightarrow> capella_payload versioned \<Rightarrow> bytes \<Rightarrow> (go_error, bytes) res" where
  "PayloadResponse_MarshalSSZTo L g buf =
     (let versionOffset = 4 + 4;
          buf = WriteOffset L buf versionOffset;
          dataOffset = versionOffset + length (vr_Version g);
          buf = WriteOffset L buf dataOffset;
          buf = buf @ string_bytes (vr_Version g)
      in Payload_MarshalSSZTo L (vr_Data g) buf)"

definition PayloadResponse_UnmarshalSSZ ::
    "ssz_lib \<Rightarrow> capella_payload versioned \<Rightarrow> bytes \<Rightarrow> (go_error, capella_payload versioned) res" where
  "PayloadResponse_UnmarshalSSZ L g buf =
     (let size = length buf in
      if size < 8 then Err ErrSize
      else bind_res (slice_res 0 4 buf) (\<lambda>off0.
             let versionOffset = ReadOffset L off0 in
             if versionOffset > size then Err ErrOffset
             else if versionOffset < 8 then Err ErrInvalidVariableOffset
             else
           bind_res (slice_res 4 8 buf) (\<lambda>off1.
             let dataOffset = ReadOffset L off1 in
             if dataOffset > size \<or> versionOffset > dataOffset then Err ErrOffset
             else
           bind_res (slice_res versionOffset dataOffset buf) (\<lambda>version.
           bind_res (slice_res dataOffset (length buf) buf) (\<lambda>data.
           bind_res (Payload_UnmarshalSSZ L (vr_Data g) data) (\<lambda>p.
             Ok (g\<lparr>vr_Version := bytes_string version, vr_Data := p\<rparr>)))))))"

definition PayloadResponse_SizeSSZ :: "capella_payload versioned \<Rightarrow> nat" where
  "PayloadResponse_SizeSSZ g = (let size = 4 + length (vr_Version g) in size + (4 + Payload_SizeSSZ (vr_Data g)))"

definition Block_MarshalSSZTo :: "ssz_lib \<Rightarrow> capella_block \<Rightarrow> bytes \<Rightarrow> (go_error, bytes) res" where
  "Block_MarshalSSZTo L b buf =
     (let payloadOffset = 4 + 332 + 32;
          buf = WriteOffset L buf payloadOffset in
      bind_res (map_err (wrap_msg ''failed to marshal trace'') (SignedBidTrace_MarshalSSZTo L (cbt_Trace b) buf)) (\<lambda>buf.
      let buf = buf @ barr_list (cbt_ExecutionHeaderHash b) in
      map_err (wrap_msg ''failed to marshal payload'') (PayloadResponse_MarshalSSZTo L (cbt_Payload b) buf)))"

definition Block_UnmarshalSSZ :: "ssz_lib \<Rightarrow> capella_block \<Rightarrow> bytes \<Rightarrow> (go_error, capella_block) res" where
  "Block_UnmarshalSSZ L b buf =
     (let size = length buf in
      if size < 368 then Err ErrSize
      else bind_res (slice_res 0 4 buf) (\<lambda>off0.
             let payloadOffset = ReadOffset L off0 in
             if payloadOffset > size then Err ErrOffset
             else if payloadOffset < 368 then Err ErrInvalidVariableOffset
             else
           bind_res (slice_res 4 336 buf) (\<lambda>tr.
           bind_res (map_err (wrap_msg ''failed to unmarshal trace message'')
                       (SignedBidTrace_UnmarshalSSZ L (cbt_Trace b) tr)) (\<lambda>trace.
           bind_res (slice_res 336 368 buf) (\<lambda>hash.
           bind_res (slice_res payloadOffset (length buf) buf) (\<lambda>pay.
           bind_res (map_err (wrap_msg ''failed to unmarshal payload data'')
                       (PayloadResponse_UnmarshalSSZ L (cbt_Payload b) pay)) (\<lambda>payload.
             Ok (b\<lparr>cbt_Trace := trace, cbt_ExecutionHeaderHash := barr_copy hash,
                  cbt_Payload := payload\<rparr>))))))))"

definition Block_SizeSSZ :: "capella_block \<Rightarrow> nat" where
  "Block_SizeSSZ b = 368 + PayloadResponse_SizeSSZ (cbt_Payload b)"

definition SubmitBlockRequest_UnmarshalSSZ :: "ssz_lib \<Rightarrow> capella_submit \<Rightarrow> bytes \<Rightarrow> (go_error, capella_submit) res" where
  "SubmitBlockRequest_UnmarshalSSZ L s buf =
     (let size = length buf in
      if size < 336 then Err ErrSize
      else bind_res (slice_res 0 236 buf) (\<lambda>msg.
           bind_res (types_BidTrace_UnmarshalSSZ L (CapellaMessage s) msg) (\<lambda>trace.
           bind_res (slice_res 236 240 buf) (\<lambda>off1.
             let o1 = ReadOffset L off1 in
             if o1 > size then Err ErrOffset
             else if o1 < 336 then Err ErrInvalidVariableOffset
             else
           bind_res (slice_res 240 336 buf) (\<lambda>sig.
           bind_res (slice_res o1 (length buf) buf) (\<lambda>pay.
           bind_res (Payload_UnmarshalSSZ L (CapellaExecutionPayload s) pay) (\<lambda>payload.
             Ok (s\<lparr>CapellaMessage := trace, CapellaSignature := barr_copy sig,
                  CapellaExecutionPayload := payload\<rparr>))))))))"

definition SubmitBlockRequest_SizeSSZ :: "capella_submit \<Rightarrow> nat" where
  "SubmitBlockRequest_SizeSSZ s = 336 + Payload_SizeSSZ (CapellaExecutionPayload s)"

definition response_wf :: "capella_payload versioned \<Rightarrow> bool" where
  "response_wf g \<longleftrightarrow> payload_wf (vr_Data g) \<and> length (vr_Version g) + 8 < 2 ^ 32"

definition block_wf :: "capella_block \<Rightarrow> bool" where
  "block_wf b \<longleftrightarrow> response_wf (cbt_Payload b)"

definition block_fresh :: "capella_block \<Rightarrow> bool" where
  "block_fresh b \<longleftrightarrow> payload_fresh (vr_Data (cbt_Payload b))"

definition norm_response :: "capella_payload versioned \<Rightarrow> capella_payload versioned" where
  "norm_response g = g\<lparr>vr_Data := norm_payload (vr_Data g)\<rparr>"

definition norm_block :: "capella_block \<Rightarrow> capella_block" where
  "norm_block b = b\<lparr>cbt_Payload := norm_response (cbt_Payload b)\<rparr>"

section \<open>Round trips\<close>

lemma reversed_array: "map (\<lambda>i. barr_list (v :: u256) ! (31 - i)) [0..<32] = rev (barr_list v)"
  by (rule nth_equalityI) (auto simp: rev_nth)

lemma reversed_slice: "36 \<le> length buf \<Longrightarrow> map (\<lambda>i. buf ! (35 - i)) [0..<32] = rev (slice 4 36 buf)"
  by (rule nth_equalityI) (auto simp: rev_nth slice_def)

lemma tx_size_eq: "tx_size txs n = n + dyn_size txs"
  by (induction txs arbitrary: n) (auto simp: dyn_size_def)

lemma tx_append_ok: "\<forall>tx \<in> set txs. length tx \<le> 1073741824 \<Longrightarrow> tx_append txs dst = Ok (dst @ concat txs)"
  by (induction txs arbitrary: dst) auto

lemma list_update_length_middle: "(xs @ y # ys)[length xs := z] = xs @ z # ys"
  by (simp add: list_update_append)

lemma fill_txs_ok:
  "\<forall>b \<in> set bufs. length b \<le> 1073741824 \<Longrightarrow>
   fill_txs (pre @ replicate (length bufs) []) (length pre) bufs = Ok (pre @ bufs)"
proof (induction bufs arbitrary: pre)
  case (Cons b bufs)
  then show ?case
    using Cons.IH [of "pre @ [b]"] by (simp add: nth_append list_update_append)
qed simp

context ssz_laws
begin

lemmas codec_simps = enc_simps dec_simps slice_simps slice_append_skip slice_append_fit Let_def

lemma withdrawal_codec:
  "\<exists>bs. (\<forall>dst. Withdrawal_MarshalSSZTo L (Some w) dst = Ok (dst @ bs)) \<and> length bs = Withdrawal_SizeSSZ w
     \<and> (\<forall>t. Withdrawal_UnmarshalSSZ L t bs = Ok w)"
  unfolding Withdrawal_MarshalSSZTo_def Withdrawal_UnmarshalSSZ_def Withdrawal_SizeSSZ_def
  by (simp add: codec_simps)

lemma trace_codec:
  "\<exists>bs. (\<forall>dst. BidTrace_MarshalSSZTo L x dst = Ok (dst @ bs)) \<and> length bs = BidTrace_SizeSSZ x
     \<and> (\<forall>t. BidTrace_UnmarshalSSZ L t bs = Ok x)"
  unfolding BidTrace_MarshalSSZTo_def BidTrace_UnmarshalSSZ_def BidTrace_SizeSSZ_def
  by (simp add: codec_simps)

lemma signed_trace_codec:
  "\<exists>bs. (\<forall>dst. SignedBidTrace_MarshalSSZTo L x dst = Ok (dst @ bs)) \<and> length bs = SignedBidTrace_SizeSSZ x
     \<and> (\<forall>t. SignedBidTrace_UnmarshalSSZ L t bs = Ok x)"
proof -
  obtain bs where "\<And>dst. BidTrace_MarshalSSZTo L (sbt_Message x) dst = Ok (dst @ bs)" "length bs = 236"
    "\<And>t. BidTrace_UnmarshalSSZ L t bs = Ok (sbt_Message x)"
    using trace_codec [of "sbt_Message x"] by (auto simp: BidTrace_SizeSSZ_def)
  then show ?thesis
    unfolding SignedBidTrace_MarshalSSZTo_def SignedBidTrace_UnmarshalSSZ_def SignedBidTrace_SizeSSZ_def
    by (simp add: codec_simps)
qed

lemma header_codec:
  assumes "header_wf x"
  shows "\<exists>bs. (\<forall>dst. Header_MarshalSSZTo L x dst = Ok (dst @ bs)) \<and> length bs = Header_SizeSSZ x
     \<and> (\<forall>t. header_fresh t \<longrightarrow> Header_UnmarshalSSZ L t bs = Ok x)"
  using assms
  unfolding Header_MarshalSSZTo_def Header_UnmarshalSSZ_def Header_SizeSSZ_def header_wf_def header_fresh_def
  by (simp add: codec_simps)

lemma builder_bid_codec:
  assumes "header_wf (the_default zero_capella_header (bb_Header x))"
  shows "\<exists>bs. (\<forall>dst. fst (BuilderBid_MarshalSSZTo L dst x) = Ok (dst @ bs)) \<and> length bs = fst (BuilderBid_SizeSSZ x)
     \<and> (\<forall>t. header_fresh (the_default zero_capella_header (bb_Header t)) \<longrightarrow>
            BuilderBid_UnmarshalSSZ L t bs = Ok (ensure_header x))"
proof -
  let ?h = "the_default zero_capella_header (bb_Header x)"
  obtain hb where hb: "\<And>dst. Header_MarshalSSZTo L ?h dst = Ok (dst @ hb)" "length hb = Header_SizeSSZ ?h"
    "\<And>t. header_fresh t \<Longrightarrow> Header_UnmarshalSSZ L t hb = Ok ?h"
    using header_codec [OF assms] by blast
  let ?bs = "off_bytes 84 @ rev (barr_list (bb_Value x)) @ barr_list (bb_Pubkey x) @ hb"
  have h: "bb_Header (ensure_header x) = Some ?h" "bb_Value (ensure_header x) = bb_Value x"
    "bb_Pubkey (ensure_header x) = bb_Pubkey x" "ensure_header x = x\<lparr>bb_Header := Some ?h\<rparr>"
    by (auto simp: ensure_header_def the_default_def)
  have enc: "fst (BuilderBid_MarshalSSZTo L dst x) = Ok (dst @ ?bs)" for dst
    using hb(1) by (simp add: BuilderBid_MarshalSSZTo_def codec_simps h reversed_array)
  have sz: "length ?bs = fst (BuilderBid_SizeSSZ x)"
    using hb(2) by (simp add: BuilderBid_SizeSSZ_def codec_simps)
  have "BuilderBid_UnmarshalSSZ L t ?bs = Ok (ensure_header x)"
    if "header_fresh (the_default zero_capella_header (bb_Header t))" for t
    using hb(3) [OF that]
    by (simp add: BuilderBid_UnmarshalSSZ_def codec_simps reversed_slice u256_slice h(4))
  with enc sz show ?thesis by blast
qed

lemma bid_codec:
  assumes "bid_wf x"
  shows "\<exists>bs. (\<forall>dst. fst (BuilderBidExtended_MarshalSSZTo L dst x) = Ok (dst @ bs))
     \<and> length bs = fst (BuilderBidExtended_SizeSSZ x)
     \<and> (\<forall>t. bid_fresh t \<longrightarrow> BuilderBidExtended_UnmarshalSSZ L t bs = Ok (norm_bid x))"
proof -
  obtain bb where bb: "\<And>dst. fst (BuilderBid_MarshalSSZTo L dst (bx_BuilderBid x)) = Ok (dst @ bb)"
    "length bb = fst (BuilderBid_SizeSSZ (bx_BuilderBid x))"
    "\<And>t. header_fresh (the_default zero_capella_header (bb_Header t)) \<Longrightarrow>
       BuilderBid_UnmarshalSSZ L t bb = Ok (ensure_header (bx_BuilderBid x))"
    using builder_bid_codec assms unfolding bid_wf_def by blast
  let ?bs = "off_bytes 60 @ barr_list (bx_Proposer x) @ u64_bytes (bx_Slot x) @ bb"
  have enc: "fst (BuilderBidExtended_MarshalSSZTo L dst x) = Ok (dst @ ?bs)" for dst
    using bb(1) by (simp add: BuilderBidExtended_MarshalSSZTo_def codec_simps split_beta)
  have sz: "length ?bs = fst (BuilderBidExtended_SizeSSZ x)"
    using bb(2) by (simp add: BuilderBidExtended_SizeSSZ_def codec_simps split_beta)
  have "BuilderBidExtended_UnmarshalSSZ L t ?bs = Ok (norm_bid x)" if "bid_fresh t" for t
    using bb(3) [OF that [unfolded bid_fresh_def]]
    by (simp add: BuilderBidExtended_UnmarshalSSZ_def codec_simps norm_bid_def)
  with enc sz show ?thesis by blast
qed

lemma tx_offsets_eq: "tx_offsets L n txs dst = dst @ concat (map off_bytes (offsets_from n txs))"
  by (induction txs arbitrary: n dst) (auto simp: off_append)

lemma dyn_bytes_eq: "dyn_bytes L txs = concat (map off_bytes (offsets_from (4 * length txs) txs)) @ concat txs"
  by (simp add: dyn_bytes_def off_bytes_def [abs_def])

lemma length_dyn_bytes: "length (dyn_bytes L txs) = dyn_size txs"
proof -
  have "length (concat (map off_bytes ks)) = 4 * length ks" for ks
    by (induction ks) (auto simp: off_bytes_length)
  then show ?thesis
    by (simp add: dyn_bytes_eq dyn_size_concat)
qed

lemma txs_decode:
  assumes "length txs \<le> 1048576" and "\<forall>tx \<in> set txs. length tx \<le> 1073741824" and "dyn_size txs < 2 ^ 32"
  shows "unmarshal_txs L (dyn_bytes L txs) = Ok txs"
  using assms fill_txs_ok [of txs "[]"]
  by (simp add: unmarshal_txs_def dyn_length dyn_chunks)

lemma withdrawals_codec:
  assumes "None \<notin> set ws"
  shows "\<exists>bs. (\<forall>dst. marshal_withdrawals L ws dst = Ok (dst @ bs)) \<and> length bs = 44 * length ws
     \<and> (\<forall>pre. length pre = 44 * ii \<longrightarrow> unmarshal_withdrawals L (pre @ bs) ii (length ws) = Ok ws)"
  using assms
proof (induction ws arbitrary: ii)
  case (Cons p ws)
  then obtain w where w: "p = Some w" by (cases p) auto
  obtain wb where wb: "\<And>dst. Withdrawal_MarshalSSZTo L (Some w) dst = Ok (dst @ wb)" "length wb = 44"
    "\<And>t. Withdrawal_UnmarshalSSZ L t wb = Ok w"
    using withdrawal_codec [of w] by (auto simp: Withdrawal_SizeSSZ_def)
  obtain bs where bs: "\<And>dst. marshal_withdrawals L ws dst = Ok (dst @ bs)" "length bs = 44 * length ws"
    "\<And>pre. length pre = 44 * Suc ii \<Longrightarrow> unmarshal_withdrawals L (pre @ bs) (Suc ii) (length ws) = Ok ws"
    using Cons.IH [of "Suc ii"] Cons.prems by auto
  have "unmarshal_withdrawals L (pre @ wb @ bs) ii (length (p # ws)) = Ok (p # ws)" if "length pre = 44 * ii" for pre
    using that wb bs(3) [of "pre @ wb"] w by (simp add: slice_res_def slice_def)
  then show ?case
    using w wb bs by (intro exI [of _ "wb @ bs"]) simp
qed auto

lemma payload_codec:
  assumes "payload_wf x"
  shows "\<exists>bs. (\<forall>dst. Payload_MarshalSSZTo L x dst = Ok (dst @ bs)) \<and> length bs = Payload_SizeSSZ x
     \<and> (\<forall>t. payload_fresh t \<longrightarrow> Payload_UnmarshalSSZ L t bs = Ok (norm_payload x))"
proof -
  let ?extra = "nil_list (EpExtraData x)" and ?txs = "nil_list (EpTransactions x)" and ?ws = "nil_list (EpWithdrawals x)"
  have wf: "length ?extra \<le> 32" "length ?txs \<le> 1048576" "\<forall>tx \<in> set ?txs. length tx \<le> 1073741824"
    "length ?ws \<le> 16" "None \<notin> set ?ws" "512 + length ?extra + dyn_size ?txs + length ?ws * 44 < 2 ^ 32"
    using assms by (auto simp: payload_wf_def Payload_SizeSSZ_def tx_size_eq Let_def)
  obtain wb where wb: "\<And>dst. marshal_withdrawals L ?ws dst = Ok (dst @ wb)" "length wb = 44 * length ?ws"
    "unmarshal_withdrawals L wb 0 (length ?ws) = Ok ?ws"
    using withdrawals_codec [OF wf(5), of 0] by auto
  have txs: "unmarshal_txs L (dyn_bytes L ?txs) = Ok ?txs"
    using txs_decode [OF wf(2,3)] wf(6) by simp
  have num: "DivideInt2 L (length wb) 44 16 = Ok (length ?ws)"
    using wb(2) wf(4) divide_Ok [of 44 "length wb" 16 "length ?ws"] by simp
  let ?o13 = "512 + length ?extra" and ?o14 = "512 + length ?extra + dyn_size ?txs"
  let ?bs = "barr_list (EpParentHash x) @ barr_list (EpFeeRecipient x) @ barr_list (EpStateRoot x) @
    barr_list (EpReceiptsRoot x) @ barr_list (EpLogsBloom x) @ barr_list (EpRandom x) @
    u64_bytes (EpBlockNumber x) @ u64_bytes (EpGasLimit x) @ u64_bytes (EpGasUsed x) @ u64_bytes (EpTimestamp x) @
    off_bytes 512 @ barr_list (EpBaseFeePerGas x) @ barr_list (EpBlockHash x) @ off_bytes ?o13 @ off_bytes ?o14 @
    ?extra @ dyn_bytes L ?txs @ wb"
  have enc: "Payload_MarshalSSZTo L x dst = Ok (dst @ ?bs)" for dst
    using wf(1-4) wb(1)
    by (simp add: Payload_MarshalSSZTo_def enc_simps Let_def tx_offsets_eq tx_append_ok tx_size_eq dyn_bytes_eq)
  have sz: "length ?bs = Payload_SizeSSZ x"
    using wb(2) by (simp add: Payload_SizeSSZ_def Let_def enc_simps length_dyn_bytes tx_size_eq)
  have "Payload_UnmarshalSSZ L t ?bs = Ok (norm_payload x)" if "payload_fresh t" for t
    using that wf(1,6) wb(3) txs num
    by (simp add: Payload_UnmarshalSSZ_def codec_simps length_dyn_bytes payload_fresh_def norm_payload_def)
  with enc sz show ?thesis by blast
qed

lemma response_codec:
  assumes "response_wf x"
  shows "\<exists>bs. (\<forall>dst. PayloadResponse_MarshalSSZTo L x dst = Ok (dst @ bs)) \<and> length bs = PayloadResponse_SizeSSZ x
     \<and> (\<forall>t. payload_fresh (vr_Data t) \<longrightarrow> PayloadResponse_UnmarshalSSZ L t bs = Ok (norm_response x))"
proof -
  obtain pb where pb: "\<And>dst. Payload_MarshalSSZTo L (vr_Data x) dst = Ok (dst @ pb)" "length pb = Payload_SizeSSZ (vr_Data x)"
    "\<And>t. payload_fresh t \<Longrightarrow> Payload_UnmarshalSSZ L t pb = Ok (norm_payload (vr_Data x))"
    using payload_codec [of "vr_Data x"] assms unfolding response_wf_def by blast
  let ?bs = "off_bytes 8 @ off_bytes (8 + length (vr_Version x)) @ string_bytes (vr_Version x) @ pb"
  have enc: "PayloadResponse_MarshalSSZTo L x dst = Ok (dst @ ?bs)" for dst
    using pb(1) by (simp add: PayloadResponse_MarshalSSZTo_def codec_simps)
  have sz: "length ?bs = PayloadResponse_SizeSSZ x"
    using pb(2) by (simp add: PayloadResponse_SizeSSZ_def codec_simps)
  have "PayloadResponse_UnmarshalSSZ L t ?bs = Ok (norm_response x)" if "payload_fresh (vr_Data t)" for t
    using pb(3) [OF that] assms
    by (simp add: PayloadResponse_UnmarshalSSZ_def codec_simps norm_response_def response_wf_def)
  with enc sz show ?thesis by blast
qed

lemma block_codec:
  assumes "block_wf x"
  shows "\<exists>bs. (\<forall>dst. Block_MarshalSSZTo L x dst = Ok (dst @ bs)) \<and> length bs = Block_SizeSSZ x
     \<and> (\<forall>t. block_fresh t \<longrightarrow> Block_UnmarshalSSZ L t bs = Ok (norm_block x))"
proof -
  obtain pb where pb: "\<And>dst. PayloadResponse_MarshalSSZTo L (cbt_Payload x) dst = Ok (dst @ pb)"
    "length pb = PayloadResponse_SizeSSZ (cbt_Payload x)"
    "\<And>t. payload_fresh (vr_Data t) \<Longrightarrow> PayloadResponse_UnmarshalSSZ L t pb = Ok (norm_response (cbt_Payload x))"
    using response_codec [of "cbt_Payload x"] assms unfolding block_wf_def by blast
  obtain tb where tb: "\<And>dst. SignedBidTrace_MarshalSSZTo L (cbt_Trace x) dst = Ok (dst @ tb)" "length tb = 332"
    "\<And>t. SignedBidTrace_UnmarshalSSZ L t tb = Ok (cbt_Trace x)"
    using signed_trace_codec [of "cbt_Trace x"] by (auto simp: SignedBidTrace_SizeSSZ_def)
  let ?bs = "off_bytes 368 @ tb @ barr_list (cbt_ExecutionHeaderHash x) @ pb"
  have enc: "Block_MarshalSSZTo L x dst = Ok (dst @ ?bs)" for dst
    using pb(1) tb(1) by (simp add: Block_MarshalSSZTo_def codec_simps)
  have sz: "length ?bs = Block_SizeSSZ x"
    using pb(2) tb(2) by (simp add: Block_SizeSSZ_def codec_simps)
  have "Block_UnmarshalSSZ L t ?bs = Ok (norm_block x)" if "block_fresh t" for t
    using pb(3) [OF that [unfolded block_fresh_def]] tb(2,3)
    by (simp add: Block_UnmarshalSSZ_def codec_simps norm_block_def)
  with enc sz show ?thesis by blast
qed

section \<open>Decoders on arbitrary input\<close>

lemma header_total: "Header_UnmarshalSSZ L t buf \<noteq> Panic"
  by (simp add: Header_UnmarshalSSZ_def Let_def res_simps slice_res_def not_less)

lemma bid_total: "BuilderBidExtended_UnmarshalSSZ L t buf \<noteq> Panic"
  by (simp add: BuilderBidExtended_UnmarshalSSZ_def BuilderBid_UnmarshalSSZ_def Let_def res_simps slice_res_def
      not_less header_total)

lemma withdrawal_total: "Withdrawal_UnmarshalSSZ L t buf \<noteq> Panic"
  by (simp add: Withdrawal_UnmarshalSSZ_def res_simps slice_res_def)

lemma withdrawals_total: "length buf = 44 * (ii + n) \<Longrightarrow> unmarshal_withdrawals L buf ii n \<noteq> Panic"
  by (induction n arbitrary: ii) (auto simp: res_simps slice_res_def withdrawal_total)

lemma fill_txs_total: "indx + length bufs \<le> length txs \<Longrightarrow> fill_txs txs indx bufs \<noteq> Panic"
  by (induction txs indx bufs rule: fill_txs.induct) auto

lemma txs_total: "unmarshal_txs L buf \<noteq> Panic"
proof -
  have "fill_txs (replicate n []) 0 bufs \<noteq> Panic" if "dynamic_chunks L buf n = (bufs, err)" for n bufs err
    using that dyn_chunks_count [of buf n] by (intro fill_txs_total) simp
  then show ?thesis
    by (auto simp: unmarshal_txs_def res_simps dyn_length_total split: prod.splits option.splits)
qed

lemma payload_total: "Payload_UnmarshalSSZ L t buf \<noteq> Panic"
proof -
  have "unmarshal_withdrawals L wbuf 0 n \<noteq> Panic" if "DivideInt2 L (length wbuf) 44 16 = Ok n" for wbuf n
    using that divide_Ok [of 44 "length wbuf" 16 n] by (intro withdrawals_total) simp
  then show ?thesis
    by (auto simp: Payload_UnmarshalSSZ_def Let_def res_simps slice_res_def not_less txs_total divide_total)
qed

lemma block_total: "Block_UnmarshalSSZ L t buf \<noteq> Panic"
  by (auto simp: Block_UnmarshalSSZ_def PayloadResponse_UnmarshalSSZ_def SignedBidTrace_UnmarshalSSZ_def
      BidTrace_UnmarshalSSZ_def Let_def res_simps slice_res_def not_less payload_total)

lemma submit_total: "SubmitBlockRequest_UnmarshalSSZ L t buf \<noteq> Panic"
  by (auto simp: SubmitBlockRequest_UnmarshalSSZ_def Let_def res_simps slice_res_def not_less payload_total trace_total)

text \<open>What a successful decoder guarantees of its result, whatever the bytes were.\<close>

lemma withdrawals_decoded: "unmarshal_withdrawals L buf ii n = Ok ws \<Longrightarrow> length ws = n \<and> None \<notin> set ws"
  by (induction n arbitrary: ii ws) (auto simp: res_simps)

lemma payload_decoded:
  assumes "Payload_UnmarshalSSZ L t buf = Ok e"
  shows "\<exists>extra txs ws. EpExtraData e = Some (nil_list (EpExtraData t) @ extra) \<and> length extra \<le> 32
     \<and> EpTransactions e = Some txs \<and> EpWithdrawals e = Some ws \<and> length ws \<le> 16 \<and> None \<notin> set ws"
proof -
  have "length ws \<le> 16 \<and> None \<notin> set ws"
    if "DivideInt2 L m 44 16 = Ok n" "unmarshal_withdrawals L wbuf 0 n = Ok ws" for m wbuf n ws
    using that divide_Ok [of 44 m 16 n] withdrawals_decoded [of wbuf 0 n ws] by auto
  with assms show ?thesis
    by (auto simp: Payload_UnmarshalSSZ_def Let_def res_simps slice_res_def not_less split: if_splits)
qed

end

section \<open>Instances of the contract\<close>

sublocale ssz_laws \<subseteq> hdr: ssz_codec "Header_MarshalSSZTo L" "Header_UnmarshalSSZ L" Header_SizeSSZ header_wf
    "\<lambda>h. h" header_fresh
  by unfold_locales (rule header_codec)

sublocale ssz_laws \<subseteq> bids: ssz_codec "\<lambda>b buf. fst (BuilderBidExtended_MarshalSSZTo L buf b)"
    "BuilderBidExtended_UnmarshalSSZ L" "\<lambda>b. fst (BuilderBidExtended_SizeSSZ b)" bid_wf norm_bid bid_fresh
  by unfold_locales (rule bid_codec)

sublocale ssz_laws \<subseteq> payloads: ssz_codec "Payload_MarshalSSZTo L" "Payload_UnmarshalSSZ L" Payload_SizeSSZ payload_wf
    norm_payload payload_fresh
  by unfold_locales (rule payload_codec)

sublocale ssz_laws \<subseteq> blocks: ssz_codec "Block_MarshalSSZTo L" "Block_UnmarshalSSZ L" Block_SizeSSZ block_wf
    norm_block block_fresh
  by unfold_locales (rule block_codec)

context ssz_laws
begin

lemmas block_roundtrip = blocks.codec
lemmas bid_roundtrip = bids.codec

text \<open>Encodings tell values apart up to the difference between nil and empty slices.\<close>

lemmas block_encoding_determines = blocks.encode_determines
lemmas payload_decode_encode = payloads.decode_encode

end

section \<open>Properties\<close>

text \<open>Concrete objects: a block with one transaction, no extra data and one withdrawal, and a bid without a header.\<close>

definition ssz_block :: capella_block where
  "ssz_block =
     \<lparr>cbt_Payload = \<lparr>vr_Version = ''capella'',
        vr_Data = zero_capella_payload\<lparr>EpTransactions := Some [[1, 2]], EpWithdrawals := Some [Some zero_withdrawal]\<rparr>\<rparr>,
      cbt_Trace = \<lparr>sbt_Signature = 0,
        sbt_Message = \<lparr>bt_Slot = 3, bt_ParentHash = 0, bt_BlockHash = 0, bt_BuilderPubkey = 0, bt_ProposerPubkey = 0,
          bt_ProposerFeeRecipient = 0, bt_GasLimit = 0, bt_GasUsed = 0, bt_Value = barr_copy [7]\<rparr>\<rparr>,
      cbt_ExecutionHeaderHash = 0\<rparr>"

definition ssz_bid :: "capella_header builder_bid_extended" where
  "ssz_bid = \<lparr>bx_BuilderBid = \<lparr>bb_Header = None, bb_Value = barr_copy [7], bb_Pubkey = 0\<rparr>, bx_Proposer = 0, bx_Slot = 3\<rparr>"

text \<open>
  C9: A block sent on the stream is the block that arrives.  A Capella block whose lists are within the
  limits of SSZ, with no nil withdrawal, encodes to exactly \<open>SizeSSZ\<close> bytes behind the buffer it is
  appended to, and decoding these bytes into an object without extra data gives the block again, with
  empty slices in the place of nil ones.
\<close>

theorem Block_ssz_roundtrip:
  assumes "ssz_laws L" and "block_wf x" and "block_fresh t"
  shows "\<exists>bs. Block_MarshalSSZTo L x buf = Ok (buf @ bs) \<and> length bs = Block_SizeSSZ x
    \<and> Block_UnmarshalSSZ L t bs = Ok (norm_block x)"
  using ssz_laws.block_roundtrip [OF assms(1,2)] assms(3) by blast

theorem Block_ssz_roundtrip_witness:
  "\<exists>bs. Block_MarshalSSZTo le_ssz ssz_block [] = Ok bs \<and> length bs = Block_SizeSSZ ssz_block
    \<and> Block_UnmarshalSSZ le_ssz (ssz_block\<lparr>cbt_Trace := \<lparr>sbt_Signature = 0, sbt_Message = sbt_Message (cbt_Trace ssz_block)\<rparr>\<rparr>) bs
      = Ok (norm_block ssz_block)"
proof -
  have "block_wf ssz_block"
    by (simp add: ssz_block_def block_wf_def response_wf_def payload_wf_def zero_capella_payload_def nil_list_def
        Payload_SizeSSZ_def)
  moreover have "block_fresh (ssz_block\<lparr>cbt_Trace := \<lparr>sbt_Signature = 0, sbt_Message = sbt_Message (cbt_Trace ssz_block)\<rparr>\<rparr>)"
    by (simp add: ssz_block_def block_fresh_def payload_fresh_def zero_capella_payload_def nil_list_def)
  ultimately show ?thesis
    using Block_ssz_roundtrip [OF le.ssz_laws_axioms, of ssz_block _ "[]"] by simp
qed

text \<open>
  A bid published on the stream is the bid that arrives: encoding it and decoding the bytes into
  an object without a header gives the bid, its value and slot included; a bid published without a
  header arrives with a zero header, and the published object itself is left with that header.
\<close>

theorem BuilderBid_ssz_roundtrip:
  assumes "ssz_laws L" and "bid_wf x" and "bid_fresh t"
  shows "\<exists>bs. BuilderBidExtended_MarshalSSZTo L buf x = (Ok (buf @ bs), norm_bid x)
    \<and> length bs = fst (BuilderBidExtended_SizeSSZ x)
    \<and> BuilderBidExtended_UnmarshalSSZ L t bs = Ok (norm_bid x)"
proof -
  have "snd (BuilderBidExtended_MarshalSSZTo L buf x) = norm_bid x"
    by (simp add: BuilderBidExtended_MarshalSSZTo_def BuilderBid_MarshalSSZTo_def Let_def norm_bid_def)
  then show ?thesis
    using ssz_laws.bid_roundtrip [OF assms(1,2)] assms(3) by (metis prod.collapse)
qed

theorem BuilderBid_ssz_roundtrip_witness:
  "\<exists>bs. BuilderBidExtended_MarshalSSZTo le_ssz [] ssz_bid = (Ok bs, norm_bid ssz_bid)
    \<and> BuilderBidExtended_UnmarshalSSZ le_ssz ssz_bid bs = Ok (norm_bid ssz_bid)"
proof -
  have "bid_wf ssz_bid" "bid_fresh ssz_bid"
    by (simp_all add: ssz_bid_def bid_wf_def bid_fresh_def header_wf_def header_fresh_def the_default_def
        zero_capella_header_def)
  then show ?thesis
    using BuilderBid_ssz_roundtrip [OF le.ssz_laws_axioms, of ssz_bid ssz_bid "[]"] by auto
qed

text \<open>
  C11: The decoders never panic: whatever bytes a builder submits or another relay sends,
  and whatever object they are decoded into, every slice the decoder takes is in range.
\<close>

theorem UnmarshalSSZ_never_panics:
  assumes "ssz_laws L"
  shows "SubmitBlockRequest_UnmarshalSSZ L s buf \<noteq> Panic \<and> Block_UnmarshalSSZ L b buf \<noteq> Panic
    \<and> BuilderBidExtended_UnmarshalSSZ L x buf \<noteq> Panic"
  using ssz_laws.submit_total [OF assms] ssz_laws.block_total [OF assms] ssz_laws.bid_total [OF assms] by simp

theorem UnmarshalSSZ_never_panics_witness:
  "BuilderBidExtended_UnmarshalSSZ le_ssz ssz_bid (replicate 60 0) \<noteq> Panic
   \<and> Block_UnmarshalSSZ le_ssz ssz_block (replicate 400 255) \<noteq> Panic"
  using UnmarshalSSZ_never_panics [OF le.ssz_laws_axioms] by blast

text \<open>
  A submission decoded from SSZ has no nil withdrawal and at most 16 of them, and its extra data
  is at most 32 bytes longer than that of the object it was decoded into; the transactions and the
  withdrawals are never nil slices.
\<close>

theorem SubmitBlockRequest_decoded_limits:
  assumes "ssz_laws L" and "SubmitBlockRequest_UnmarshalSSZ L s buf = Ok r"
  shows "\<exists>extra txs ws. EpExtraData (CapellaExecutionPayload r) = Some (nil_list (EpExtraData (CapellaExecutionPayload s)) @ extra)
    \<and> length extra \<le> 32 \<and> EpTransactions (CapellaExecutionPayload r) = Some txs
    \<and> EpWithdrawals (CapellaExecutionPayload r) = Some ws \<and> length ws \<le> 16 \<and> None \<notin> set ws"
proof -
  obtain pay where "Payload_UnmarshalSSZ L (CapellaExecutionPayload s) pay = Ok (CapellaExecutionPayload r)"
    using assms(2) by (auto simp: SubmitBlockRequest_UnmarshalSSZ_def Let_def res_simps split: if_splits)
  then show ?thesis
    by (rule ssz_laws.payload_decoded [OF assms(1)])
qed

definition ssz_submit :: capella_submit where
  "ssz_submit = \<lparr>CapellaRaw = [], CapellaMessage = sbt_Message (cbt_Trace ssz_block),
     CapellaExecutionPayload = zero_capella_payload, CapellaSignature = 0\<rparr>"

theorem SubmitBlockRequest_decoded_limits_witness:
  "\<exists>buf r ws. SubmitBlockRequest_UnmarshalSSZ le_ssz ssz_submit buf = Ok r
     \<and> EpWithdrawals (CapellaExecutionPayload r) = Some ws \<and> length ws \<le> 16 \<and> None \<notin> set ws"
proof -
  have "payload_wf zero_capella_payload" "payload_fresh zero_capella_payload"
    by (simp_all add: payload_wf_def payload_fresh_def zero_capella_payload_def nil_list_def Payload_SizeSSZ_def)
  then obtain bs p where p: "Payload_UnmarshalSSZ le_ssz zero_capella_payload bs = Ok p"
    using le.payload_codec by blast
  let ?buf = "replicate 236 0 @ le_bytes 4 336 @ replicate 96 0 @ bs"
  have "\<exists>r. SubmitBlockRequest_UnmarshalSSZ le_ssz ssz_submit ?buf = Ok r"
    using p by (simp add: SubmitBlockRequest_UnmarshalSSZ_def Let_def slice_simps slice_append_skip slice_append_fit
        le_ssz_def le_val_le_bytes ssz_submit_def)
  then show ?thesis
    using SubmitBlockRequest_decoded_limits [OF le.ssz_laws_axioms] by blast
qed

end
