(* ===== verification/BeaconSsz.thy ===== *)
theory BeaconSsz
  imports CapellaSsz
begin

text \<open>
  The SSZ encoders of the beacon blocks the relay publishes, in both forks
  (\<open>structs/forks/bellatrix/bellatrix.go\<close>, \<open>structs/forks/capella/capella.go\<close>), compared with the
  encoding of a container in the SSZ specification.

  The encoders of the objects of \<open>go-boost-utils\<close> are the record \<open>obj_lib\<close>; \<open>obj_laws\<close> says that each
  of them appends to its buffer, with the length its type has in SSZ.  A nil pointer in a block is
  replaced by a new object before it is encoded; \<open>or_new\<close> is that replacement.
\<close>

section \<open>The library\<close>

record obj_lib =
  new_Eth1Data :: lib_obj
  new_SyncAggregate :: lib_obj
  Eth1Data_MarshalSSZTo :: "lib_obj \<Rightarrow> bytes \<Rightarrow> (go_error, bytes) res"
  SyncAggregate_MarshalSSZTo :: "lib_obj \<Rightarrow> bytes \<Rightarrow> (go_error, bytes) res"
  ProposerSlashing_MarshalSSZTo :: "lib_obj \<Rightarrow> bytes \<Rightarrow> (go_error, bytes) res"
  AttesterSlashing_MarshalSSZTo :: "lib_obj \<Rightarrow> bytes \<Rightarrow> (go_error, bytes) res"
  AttesterSlashing_SizeSSZ :: "lib_obj \<Rightarrow> nat"
  Attestation_MarshalSSZTo :: "lib_obj \<Rightarrow> bytes \<Rightarrow> (go_error, bytes) res"
  Attestation_SizeSSZ :: "lib_obj \<Rightarrow> nat"
  Deposit_MarshalSSZTo :: "lib_obj \<Rightarrow> bytes \<Rightarrow> (go_error, bytes) res"
  VoluntaryExit_MarshalSSZTo :: "lib_obj \<Rightarrow> bytes \<Rightarrow> (go_error, bytes) res"

text \<open>The bytes an encoder appends.\<close>

definition encoded :: "('a \<Rightarrow> bytes \<Rightarrow> (go_error, bytes) res) \<Rightarrow> 'a \<Rightarrow> bytes" where
  "encoded m x = (case m x [] of Ok bs \<Rightarrow> bs | _ \<Rightarrow> [])"

definition appends :: "('a \<Rightarrow> bytes \<Rightarrow> (go_error, bytes) res) \<Rightarrow> ('a \<Rightarrow> nat) \<Rightarrow> bool" where
  "appends m sz \<longleftrightarrow> (\<forall>x dst out. m x dst = Ok out \<longrightarrow> out = dst @ encoded m x \<and> length (encoded m x) = sz x)"

locale obj_laws =
  fixes K :: obj_lib
  assumes eth1_appends: "appends (Eth1Data_MarshalSSZTo K) (\<lambda>_. 72)"
    and sync_appends: "appends (SyncAggregate_MarshalSSZTo K) (\<lambda>_. 160)"
    and proposer_appends: "appends (ProposerSlashing_MarshalSSZTo K) (\<lambda>_. 416)"
    and attester_appends: "appends (AttesterSlashing_MarshalSSZTo K) (AttesterSlashing_SizeSSZ K)"
    and attestation_appends: "appends (Attestation_MarshalSSZTo K) (Attestation_SizeSSZ K)"
    and deposit_appends: "appends (Deposit_MarshalSSZTo K) (\<lambda>_. 1240)"
    and exit_appends: "appends (VoluntaryExit_MarshalSSZTo K) (\<lambda>_. 112)"

section \<open>Changes of withdrawal credentials\<close>

definition BLSToExecutionChange_MarshalSSZTo :: "ssz_lib \<Rightarrow> bls_change \<Rightarrow> bytes \<Rightarrow> (go_error, bytes) res" where
  "BLSToExecutionChange_MarshalSSZTo L b buf =
     (let dst = buf;
          dst = MarshalUint64 L dst (bls_ValidatorIndex b);
          dst = dst @ barr_list (bls_FromBLSPubkey b);
          dst = dst @ barr_list (bls_ToExecutionAddress b)
      in Ok dst)"

definition BLSToExecutionChange_SizeSSZ :: "bls_change \<Rightarrow> nat" where
  "BLSToExecutionChange_SizeSSZ b = 76"

definition SignedBLSToExecutionChange_MarshalSSZTo ::
    "ssz_lib \<Rightarrow> signed_bls_change option \<Rightarrow> bytes \<Rightarrow> (go_error, bytes) res" where
  "SignedBLSToExecutionChange_MarshalSSZTo L p buf =
     (case p of None \<Rightarrow> Panic
      | Some s \<Rightarrow>
          bind_res (BLSToExecutionChange_MarshalSSZTo L (the_default zero_bls_change (sbls_Message s)) buf) (\<lambda>dst.
            Ok (dst @ barr_list (sbls_Signature s))))"

definition SignedBLSToExecutionChange_SizeSSZ :: "signed_bls_change \<Rightarrow> nat" where
  "SignedBLSToExecutionChange_SizeSSZ s = 172"

section \<open>Bodies of beacon blocks\<close>

text \<open>The loops over the elements of a list: the size of a list of variable-size elements, its offsets, its elements.\<close>

fun add_sizes :: "('a \<Rightarrow> nat) \<Rightarrow> 'a list \<Rightarrow> nat \<Rightarrow> nat" where
  "add_sizes sz [] offset = offset"
| "add_sizes sz (x # xs) offset = add_sizes sz xs (offset + 4 + sz x)"

fun write_offsets :: "ssz_lib \<Rightarrow> ('a \<Rightarrow> nat) \<Rightarrow> 'a list \<Rightarrow> nat \<Rightarrow> bytes \<Rightarrow> bytes" where
  "write_offsets L sz [] offset dst = dst"
| "write_offsets L sz (x # xs) offset dst = write_offsets L sz xs (offset + sz x) (WriteOffset L dst offset)"

fun marshal_list :: "('a \<Rightarrow> bytes \<Rightarrow> (go_error, bytes) res) \<Rightarrow> 'a list \<Rightarrow> bytes \<Rightarrow> (go_error, bytes) res" where
  "marshal_list m [] dst = Ok dst"
| "marshal_list m (x # xs) dst = bind_res (m x dst) (marshal_list m xs)"

text \<open>
  The part of \<open>MarshalSSZTo\<close> that both forks share: the fixed parts up to the offset of the payload,
  with the running offset, and the lists up to the voluntary exits.
\<close>

definition body_fixed :: "ssz_lib \<Rightarrow> obj_lib \<Rightarrow> 'x body_common_scheme \<Rightarrow> nat \<Rightarrow> bytes \<Rightarrow> (go_error, bytes \<times> nat) res" where
  "body_fixed L K b offset buf =
     (let dst = buf @ barr_list (RandaoReveal b) in
      bind_res (Eth1Data_MarshalSSZTo K (the_default (new_Eth1Data K) (Eth1Data b)) dst) (\<lambda>dst.
      let dst = dst @ barr_list (Graffiti b);
          dst = WriteOffset L dst offset;
          offset = offset + length (nil_list (ProposerSlashings b)) * 416;
          dst = WriteOffset L dst offset;
          offset = add_sizes (AttesterSlashing_SizeSSZ K) (nil_list (AttesterSlashings b)) offset;
          dst = WriteOffset L dst offset;
          offset = add_sizes (Attestation_SizeSSZ K) (nil_list (Attestations b)) offset;
          dst = WriteOffset L dst offset;
          offset = offset + length (nil_list (Deposits b)) * 1240;
          dst = WriteOffset L dst offset;
          offset = offset + length (nil_list (VoluntaryExits b)) * 112 in
      bind_res (SyncAggregate_MarshalSSZTo K (the_default (new_SyncAggregate K) (SyncAggregate b)) dst) (\<lambda>dst.
        Ok (WriteOffset L dst offset, offset))))"

definition marshal_limited ::
    "string \<Rightarrow> nat \<Rightarrow> ('a \<Rightarrow> bytes \<Rightarrow> (go_error, bytes) res) \<Rightarrow> 'a list \<Rightarrow> (bytes \<Rightarrow> bytes) \<Rightarrow> bytes \<Rightarrow> (go_error, bytes) res" where
  "marshal_limited name n m xs offsets dst =
     (if length xs > n then Err (ErrListTooBigFn name (length xs) n) else marshal_list m xs (offsets dst))"

definition body_lists :: "ssz_lib \<Rightarrow> obj_lib \<Rightarrow> 'x body_common_scheme \<Rightarrow> bytes \<Rightarrow> (go_error, bytes) res" where
  "body_lists L K b dst =
     bind_res (marshal_limited ''BeaconBlockBody.ProposerSlashings'' 16 (ProposerSlashing_MarshalSSZTo K)
       (nil_list (ProposerSlashings b)) (\<lambda>d. d) dst) (\<lambda>dst.
     bind_res (marshal_limited ''BeaconBlockBody.AttesterSlashings'' 2 (AttesterSlashing_MarshalSSZTo K)
       (nil_list (AttesterSlashings b))
       (write_offsets L (AttesterSlashing_SizeSSZ K) (nil_list (AttesterSlashings b)) (4 * length (nil_list (AttesterSlashings b)))) dst) (\<lambda>dst.
     bind_res (marshal_limited ''BeaconBlockBody.Attestations'' 128 (Attestation_MarshalSSZTo K)
       (nil_list (Attestations b))
       (write_offsets L (Attestation_SizeSSZ K) (nil_list (Attestations b)) (4 * length (nil_list (Attestations b)))) dst) (\<lambda>dst.
     bind_res (marshal_limited ''BeaconBlockBody.Deposits'' 16 (Deposit_MarshalSSZTo K)
       (nil_list (Deposits b)) (\<lambda>d. d) dst) (\<lambda>dst.
     marshal_limited ''BeaconBlockBody.VoluntaryExits'' 16 (VoluntaryExit_MarshalSSZTo K)
       (nil_list (VoluntaryExits b)) (\<lambda>d. d) dst))))"

definition body_size :: "obj_lib \<Rightarrow> 'x body_common_scheme \<Rightarrow> nat \<Rightarrow> nat" where
  "body_size K b n =
     (let size = n + length (nil_list (ProposerSlashings b)) * 416;
          size = add_sizes (AttesterSlashing_SizeSSZ K) (nil_list (AttesterSlashings b)) size;
          size = add_sizes (Attestation_SizeSSZ K) (nil_list (Attestations b)) size;
          size = size + length (nil_list (Deposits b)) * 1240
      in size + length (nil_list (VoluntaryExits b)) * 112)"

definition capella_body_MarshalSSZTo :: "ssz_lib \<Rightarrow> obj_lib \<Rightarrow> capella_body \<Rightarrow> bytes \<Rightarrow> (go_error, bytes) res" where
  "capella_body_MarshalSSZTo L K b buf =
     (let payload = the_default zero_capella_payload (cb_ExecutionPayload b) in
      bind_res (body_fixed L K b 388 buf) (\<lambda>(dst, offset).
      let offset = offset + Payload_SizeSSZ payload;
          dst = WriteOffset L dst offset in
      bind_res (body_lists L K b dst) (\<lambda>dst.
      bind_res (Payload_MarshalSSZTo L payload dst) (\<lambda>dst.
      marshal_limited ''BeaconBlockBody.BLSToExecutionChanges'' 16 (SignedBLSToExecutionChange_MarshalSSZTo L)
        (cb_BLSToExecutionChanges b) (\<lambda>d. d) dst))))"

definition capella_body_SizeSSZ :: "obj_lib \<Rightarrow> capella_body \<Rightarrow> nat" where
  "capella_body_SizeSSZ K b =
     body_size K b 388 + Payload_SizeSSZ (the_default zero_capella_payload (cb_ExecutionPayload b))
       + length (cb_BLSToExecutionChanges b) * 172"

section \<open>Bellatrix payloads and bodies\<close>

definition bellatrix_payload_MarshalSSZTo :: "ssz_lib \<Rightarrow> exec_payload \<Rightarrow> bytes \<Rightarrow> (go_error, bytes) res" where
  "bellatrix_payload_MarshalSSZTo L e buf =
     (let extra = nil_list (EpExtraData e);
          txs = nil_list (EpTransactions e);
          dst = buf;
          offset = 512;
          dst = dst @ barr_list (EpParentHash e);
          dst = dst @ barr_list (EpFeeRecipient e);
          dst = dst @ barr_list (EpStateRoot e);
          dst = dst @ barr_list (EpReceiptsRoot e);
          dst = dst @ barr_list (EpLogsBloom e);
          dst = dst @ barr_list (EpRandom e);
          dst = MarshalUint64 L dst (EpBlockNumber e);
          dst = MarshalUint64 L dst (EpGasLimit e);
          dst = MarshalUint64 L dst (EpGasUsed e);
          dst = MarshalUint64 L dst (EpTimestamp e);
          dst = WriteOffset L dst offset;
          offset = offset + length extra;
          dst = dst @ barr_list (EpBaseFeePerGas e);
          dst = dst @ barr_list (EpBlockHash e);
          dst = WriteOffset L dst offset
      in if length extra > 32
         then Err (ErrBytesLengthFn ''ExecutionPayload.ExtraData'' (length extra) 32)
         else let dst = dst @ extra in
         if length txs > 1048576
         then Err (ErrListTooBigFn ''ExecutionPayload.Transactions'' (length txs) 1048576)
         else let dst = tx_offsets L (4 * length txs) txs dst in
         tx_append txs dst)"

definition bellatrix_payload_SizeSSZ :: "exec_payload \<Rightarrow> nat" where
  "bellatrix_payload_SizeSSZ e = tx_size (nil_list (EpTransactions e)) (508 + length (nil_list (EpExtraData e)))"

definition zero_bellatrix_payload :: exec_payload where
  "zero_bellatrix_payload =
     \<lparr>EpParentHash = 0, EpFeeRecipient = 0, EpStateRoot = 0, EpReceiptsRoot = 0, EpLogsBloom = 0,
      EpRandom = 0, EpBlockNumber = 0, EpGasLimit = 0, EpGasUsed = 0, EpTimestamp = 0,
      EpExtraData = None, EpBaseFeePerGas = 0, EpBlockHash = 0, EpTransactions = None\<rparr>"

definition bellatrix_body_MarshalSSZTo :: "ssz_lib \<Rightarrow> obj_lib \<Rightarrow> bellatrix_body \<Rightarrow> bytes \<Rightarrow> (go_error, bytes) res" where
  "bellatrix_body_MarshalSSZTo L K b buf =
     bind_res (body_fixed L K b 384 buf) (\<lambda>(dst, offset).
     bind_res (body_lists L K b dst) (\<lambda>dst.
     bellatrix_payload_MarshalSSZTo L (the_default zero_bellatrix_payload (bb_ExecutionPayload b)) dst))"

definition bellatrix_body_SizeSSZ :: "obj_lib \<Rightarrow> bellatrix_body \<Rightarrow> nat" where
  "bellatrix_body_SizeSSZ K b =
     body_size K b 384 + bellatrix_payload_SizeSSZ (the_default zero_bellatrix_payload (bb_ExecutionPayload b))"

section \<open>Beacon blocks\<close>

text \<open>
  Both forks write the block and the signed block in the same way around the body; \<open>new(BeaconBlockBody)\<close>
  and the encoder and size of the body are arguments.
\<close>

definition BeaconBlock_MarshalSSZTo ::
    "ssz_lib \<Rightarrow> 'b \<Rightarrow> ('b \<Rightarrow> bytes \<Rightarrow> (go_error, bytes) res) \<Rightarrow> 'b beacon_block \<Rightarrow> bytes \<Rightarrow> (go_error, bytes) res" where
  "BeaconBlock_MarshalSSZTo L new_body m b buf =
     (let dst = buf;
          offset = 84;
          dst = MarshalUint64 L dst (bl_Slot b);
          dst = MarshalUint64 L dst (bl_ProposerIndex b);
          dst = dst @ barr_list (bl_ParentRoot b);
          dst = dst @ barr_list (bl_StateRoot b);
          dst = WriteOffset L dst offset
      in m (the_default new_body (bl_Body b)) dst)"

definition BeaconBlock_SizeSSZ :: "'b \<Rightarrow> ('b \<Rightarrow> nat) \<Rightarrow> 'b beacon_block \<Rightarrow> nat" where
  "BeaconBlock_SizeSSZ new_body sz b = 84 + sz (the_default new_body (bl_Body b))"

definition zero_beacon_block :: "'b beacon_block" where
  "zero_beacon_block = \<lparr>bl_Slot = 0, bl_ProposerIndex = 0, bl_ParentRoot = 0, bl_StateRoot = 0, bl_Body = None\<rparr>"

definition SignedBeaconBlock_MarshalSSZTo ::
    "ssz_lib \<Rightarrow> 'b \<Rightarrow> ('b \<Rightarrow> bytes \<Rightarrow> (go_error, bytes) res) \<Rightarrow> 'b signed_block \<Rightarrow> bytes \<Rightarrow> (go_error, bytes) res" where
  "SignedBeaconBlock_MarshalSSZTo L new_body m s buf =
     (let dst = buf;
          offset = 100;
          dst = WriteOffset L dst offset;
          dst = dst @ barr_list (sbl_Signature s)
      in BeaconBlock_MarshalSSZTo L new_body m (the_default zero_beacon_block (sbl_Message s)) dst)"

definition SignedBeaconBlock_SizeSSZ :: "'b \<Rightarrow> ('b \<Rightarrow> nat) \<Rightarrow> 'b signed_block \<Rightarrow> nat" where
  "SignedBeaconBlock_SizeSSZ new_body sz s =
     100 + BeaconBlock_SizeSSZ new_body sz (the_default zero_beacon_block (sbl_Message s))"

definition new_bellatrix_body :: bellatrix_body where
  "new_bellatrix_body = body_common.extend zero_body_common (bellatrix_body.fields None)"

definition new_capella_body :: capella_body where
  "new_capella_body = body_common.extend zero_body_common (capella_body.fields [] None)"

fun block_MarshalSSZTo :: "ssz_lib \<Rightarrow> obj_lib \<Rightarrow> signed_beacon_block \<Rightarrow> bytes \<Rightarrow> (go_error, bytes) res" where
  "block_MarshalSSZTo L K (BellatrixBeacon s) buf =
     SignedBeaconBlock_MarshalSSZTo L new_bellatrix_body (bellatrix_body_MarshalSSZTo L K) s buf"
| "block_MarshalSSZTo L K (CapellaBeacon s) buf =
     SignedBeaconBlock_MarshalSSZTo L new_capella_body (capella_body_MarshalSSZTo L K) s buf"

fun block_SizeSSZ :: "obj_lib \<Rightarrow> signed_beacon_block \<Rightarrow> nat" where
  "block_SizeSSZ K (BellatrixBeacon s) = SignedBeaconBlock_SizeSSZ new_bellatrix_body (bellatrix_body_SizeSSZ K) s"
| "block_SizeSSZ K (CapellaBeacon s) = SignedBeaconBlock_SizeSSZ new_capella_body (capella_body_SizeSSZ K) s"

section \<open>The specification\<close>

definition capella_payload_parts :: "ssz_lib \<Rightarrow> capella_payload \<Rightarrow> ssz_part list" where
  "capella_payload_parts L e =
     [Fix (barr_list (EpParentHash e)), Fix (barr_list (EpFeeRecipient e)), Fix (barr_list (EpStateRoot e)),
      Fix (barr_list (EpReceiptsRoot e)), Fix (barr_list (EpLogsBloom e)), Fix (barr_list (EpRandom e)),
      Fix (MarshalUint64 L [] (EpBlockNumber e)), Fix (MarshalUint64 L [] (EpGasLimit e)),
      Fix (MarshalUint64 L [] (EpGasUsed e)), Fix (MarshalUint64 L [] (EpTimestamp e)),
      Var (nil_list (EpExtraData e)), Fix (barr_list (EpBaseFeePerGas e)), Fix (barr_list (EpBlockHash e)),
      Var (dyn_bytes L (nil_list (EpTransactions e))),
      Var (concat (map (encoded (Withdrawal_MarshalSSZTo L)) (nil_list (EpWithdrawals e))))]"

definition capella_payload_spec :: "ssz_lib \<Rightarrow> capella_payload \<Rightarrow> bytes" where
  "capella_payload_spec L e = ssz_container L (capella_payload_parts L e)"

definition bellatrix_payload_spec :: "ssz_lib \<Rightarrow> exec_payload \<Rightarrow> bytes" where
  "bellatrix_payload_spec L e = ssz_container L
     [Fix (barr_list (EpParentHash e)), Fix (barr_list (EpFeeRecipient e)), Fix (barr_list (EpStateRoot e)),
      Fix (barr_list (EpReceiptsRoot e)), Fix (barr_list (EpLogsBloom e)), Fix (barr_list (EpRandom e)),
      Fix (MarshalUint64 L [] (EpBlockNumber e)), Fix (MarshalUint64 L [] (EpGasLimit e)),
      Fix (MarshalUint64 L [] (EpGasUsed e)), Fix (MarshalUint64 L [] (EpTimestamp e)),
      Var (nil_list (EpExtraData e)), Fix (barr_list (EpBaseFeePerGas e)), Fix (barr_list (EpBlockHash e)),
      Var (dyn_bytes L (nil_list (EpTransactions e)))]"

definition body_spec :: "ssz_lib \<Rightarrow> obj_lib \<Rightarrow> 'x body_common_scheme \<Rightarrow> ssz_part list" where
  "body_spec L K b =
     [Fix (barr_list (RandaoReveal b)),
      Fix (encoded (Eth1Data_MarshalSSZTo K) (the_default (new_Eth1Data K) (Eth1Data b))),
      Fix (barr_list (Graffiti b)),
      Var (concat (map (encoded (ProposerSlashing_MarshalSSZTo K)) (nil_list (ProposerSlashings b)))),
      Var (dyn_bytes L (map (encoded (AttesterSlashing_MarshalSSZTo K)) (nil_list (AttesterSlashings b)))),
      Var (dyn_bytes L (map (encoded (Attestation_MarshalSSZTo K)) (nil_list (Attestations b)))),
      Var (concat (map (encoded (Deposit_MarshalSSZTo K)) (nil_list (Deposits b)))),
      Var (concat (map (encoded (VoluntaryExit_MarshalSSZTo K)) (nil_list (VoluntaryExits b)))),
      Fix (encoded (SyncAggregate_MarshalSSZTo K) (the_default (new_SyncAggregate K) (SyncAggregate b)))]"

definition capella_body_spec :: "ssz_lib \<Rightarrow> obj_lib \<Rightarrow> capella_body \<Rightarrow> bytes" where
  "capella_body_spec L K b = ssz_container L (body_spec L K b @
     [Var (capella_payload_spec L (the_default zero_capella_payload (cb_ExecutionPayload b))),
      Var (concat (map (encoded (SignedBLSToExecutionChange_MarshalSSZTo L)) (cb_BLSToExecutionChanges b)))])"

definition beacon_block_spec :: "ssz_lib \<Rightarrow> 'b \<Rightarrow> ('b \<Rightarrow> bytes) \<Rightarrow> 'b beacon_block \<Rightarrow> bytes" where
  "beacon_block_spec L new_body body b = ssz_container L
     [Fix (MarshalUint64 L [] (bl_Slot b)), Fix (MarshalUint64 L [] (bl_ProposerIndex b)),
      Fix (barr_list (bl_ParentRoot b)), Fix (barr_list (bl_StateRoot b)), Var (body (the_default new_body (bl_Body b)))]"

definition signed_block_spec :: "ssz_lib \<Rightarrow> 'b \<Rightarrow> ('b \<Rightarrow> bytes) \<Rightarrow> 'b signed_block \<Rightarrow> bytes" where
  "signed_block_spec L new_body body s = ssz_container L
     [Var (beacon_block_spec L new_body body (the_default zero_beacon_block (sbl_Message s))),
      Fix (barr_list (sbl_Signature s))]"

section \<open>Lemmas\<close>

lemma appendsD:
  "appends m sz \<Longrightarrow> m x dst = Ok out \<Longrightarrow> out = dst @ encoded m x \<and> length (encoded m x) = sz x"
  by (auto simp: appends_def)

lemma marshal_list_appends:
  assumes "appends m sz" and "marshal_list m xs dst = Ok out"
  shows "out = dst @ concat (map (encoded m) xs) \<and> map length (map (encoded m) xs) = map sz xs"
  using assms(2)
proof (induction xs arbitrary: dst)
  case (Cons x xs)
  then obtain d where d: "m x dst = Ok d" "marshal_list m xs d = Ok out"
    by (auto simp: res_simps)
  from appendsD [OF assms(1) d(1)] Cons.IH [OF d(2)] show ?case by simp
qed simp

lemma marshal_limited_appends:
  assumes "appends m sz" and "marshal_limited name n m xs offsets dst = Ok out"
  shows "out = offsets dst @ concat (map (encoded m) xs) \<and> map length (map (encoded m) xs) = map sz xs"
  using assms(2) marshal_list_appends [OF assms(1)] by (auto simp: marshal_limited_def split: if_splits)

lemma add_sizes_dyn: "map length bs = map sz xs \<Longrightarrow> add_sizes sz xs n = n + dyn_size bs"
proof (induction xs arbitrary: bs n)
  case (Cons x xs)
  then show ?case by (cases bs) (auto simp: dyn_size_def)
qed (simp add: dyn_size_def)

lemma length_concat_const:
  "map length bs = map (\<lambda>_. k) xs \<Longrightarrow> length (concat bs) = length xs * k"
proof (induction xs arbitrary: bs)
  case (Cons x xs)
  then show ?case by (cases bs) auto
qed simp

lemma container_append:
  "container_head L n (ps @ qs) = container_head L n ps @ container_head L (n + length (container_tail ps)) qs"
  "container_tail (ps @ qs) = container_tail ps @ container_tail qs"
  "fixed_length (ps @ qs) = fixed_length ps + fixed_length qs"
  by (induction L n ps rule: container_head.induct) (auto simp: add.assoc)

lemma tx_append_Ok: "tx_append txs dst = Ok out \<Longrightarrow> out = dst @ concat txs"
  by (induction txs arbitrary: dst) (fastforce split: if_splits)+

locale block_laws = ssz_laws L + obj_laws K for L :: ssz_lib and K :: obj_lib
begin

lemma length_container: "length (ssz_container L ps) = fixed_length ps + length (container_tail ps)"
proof -
  have "length (container_head L n ps) = fixed_length ps" for n
    by (induction ps arbitrary: n rule: fixed_length.induct) (auto simp: enc_simps)
  then show ?thesis
    by (simp add: ssz_container_def)
qed

lemma write_offsets_eq:
  "map length bs = map sz xs \<Longrightarrow> write_offsets L sz xs n dst = dst @ concat (map off_bytes (offsets_from n bs))"
proof (induction xs arbitrary: bs n dst)
  case (Cons x xs)
  then show ?case by (cases bs) (auto simp: off_append)
qed simp

lemma marshal_dynamic:
  assumes "appends m sz" and "marshal_limited name n m xs (write_offsets L sz xs (4 * length xs)) dst = Ok out"
  shows "out = dst @ dyn_bytes L (map (encoded m) xs) \<and> map length (map (encoded m) xs) = map sz xs"
proof -
  note r = marshal_limited_appends [OF assms]
  then show ?thesis
    by (simp add: write_offsets_eq [OF conjunct2 [OF r]] dyn_bytes_eq)
qed

lemma bls_change_appends: "appends (SignedBLSToExecutionChange_MarshalSSZTo L) (\<lambda>_. 172)"
  by (auto simp: appends_def encoded_def SignedBLSToExecutionChange_MarshalSSZTo_def BLSToExecutionChange_MarshalSSZTo_def
      Let_def enc_simps split: option.splits)

lemma withdrawal_appends: "appends (Withdrawal_MarshalSSZTo L) (\<lambda>_. 44)"
  by (auto simp: appends_def encoded_def Withdrawal_MarshalSSZTo_def Let_def enc_simps split: option.splits)

lemma marshal_withdrawals_list: "marshal_withdrawals L ws dst = marshal_list (Withdrawal_MarshalSSZTo L) ws dst"
proof (induction ws arbitrary: dst)
  case (Cons w ws)
  then have "marshal_withdrawals L ws = marshal_list (Withdrawal_MarshalSSZTo L) ws"
    by auto
  then show ?case by simp
qed simp

lemma payload_follows_spec:
  assumes "Payload_MarshalSSZTo L e dst = Ok out"
  shows "out = dst @ capella_payload_spec L e \<and> length (capella_payload_spec L e) = Payload_SizeSSZ e"
proof -
  let ?txs = "nil_list (EpTransactions e)" and ?ws = "nil_list (EpWithdrawals e)"
  have "marshal_withdrawals L ?ws (dst @ container_head L 512 (capella_payload_parts L e)
      @ nil_list (EpExtraData e) @ dyn_bytes L ?txs) = Ok out"
    using assms length_dyn_bytes [of ?txs]
    by (auto simp: Payload_MarshalSSZTo_def Let_def res_simps tx_offsets_eq tx_size_eq enc_simps
        dyn_bytes_eq capella_payload_parts_def split: if_splits dest!: tx_append_Ok)
  note ws = marshal_list_appends [OF withdrawal_appends this [unfolded marshal_withdrawals_list]]
  have out: "out = dst @ capella_payload_spec L e"
    using ws by (simp add: capella_payload_spec_def ssz_container_def capella_payload_parts_def enc_simps)
  have "length (capella_payload_spec L e) = Payload_SizeSSZ e"
    unfolding capella_payload_spec_def length_container
    using length_concat_const [OF conjunct2 [OF ws]]
    by (simp add: capella_payload_parts_def enc_simps length_dyn_bytes Payload_SizeSSZ_def tx_size_eq Let_def)
  with out show ?thesis by blast
qed

text \<open>The lengths of the encoded lists of a body, as the size computation of the encoder assumes them.\<close>

definition body_lengths :: "'x body_common_scheme \<Rightarrow> bool" where
  "body_lengths b \<longleftrightarrow>
     length (concat (map (encoded (ProposerSlashing_MarshalSSZTo K)) (nil_list (ProposerSlashings b))))
       = length (nil_list (ProposerSlashings b)) * 416
   \<and> (\<forall>n. add_sizes (AttesterSlashing_SizeSSZ K) (nil_list (AttesterSlashings b)) n
       = n + dyn_size (map (encoded (AttesterSlashing_MarshalSSZTo K)) (nil_list (AttesterSlashings b))))
   \<and> (\<forall>n. add_sizes (Attestation_SizeSSZ K) (nil_list (Attestations b)) n
       = n + dyn_size (map (encoded (Attestation_MarshalSSZTo K)) (nil_list (Attestations b))))
   \<and> length (concat (map (encoded (Deposit_MarshalSSZTo K)) (nil_list (Deposits b))))
       = length (nil_list (Deposits b)) * 1240
   \<and> length (concat (map (encoded (VoluntaryExit_MarshalSSZTo K)) (nil_list (VoluntaryExits b))))
       = length (nil_list (VoluntaryExits b)) * 112"

lemma body_lists_eq:
  assumes "body_lists L K b dst = Ok out"
  shows "out = dst @ container_tail (body_spec L K b) \<and> body_lengths b"
proof -
  obtain d1 d2 d3 d4 where
    "marshal_limited ''BeaconBlockBody.ProposerSlashings'' 16 (ProposerSlashing_MarshalSSZTo K)
       (nil_list (ProposerSlashings b)) (\<lambda>d. d) dst = Ok d1"
    "marshal_limited ''BeaconBlockBody.AttesterSlashings'' 2 (AttesterSlashing_MarshalSSZTo K) (nil_list (AttesterSlashings b))
       (write_offsets L (AttesterSlashing_SizeSSZ K) (nil_list (AttesterSlashings b)) (4 * length (nil_list (AttesterSlashings b)))) d1 = Ok d2"
    "marshal_limited ''BeaconBlockBody.Attestations'' 128 (Attestation_MarshalSSZTo K) (nil_list (Attestations b))
       (write_offsets L (Attestation_SizeSSZ K) (nil_list (Attestations b)) (4 * length (nil_list (Attestations b)))) d2 = Ok d3"
    "marshal_limited ''BeaconBlockBody.Deposits'' 16 (Deposit_MarshalSSZTo K) (nil_list (Deposits b)) (\<lambda>d. d) d3 = Ok d4"
    "marshal_limited ''BeaconBlockBody.VoluntaryExits'' 16 (VoluntaryExit_MarshalSSZTo K) (nil_list (VoluntaryExits b)) (\<lambda>d. d) d4 = Ok out"
    using assms by (auto simp: body_lists_def res_simps)
  note parts = marshal_limited_appends [OF proposer_appends this(1)] marshal_dynamic [OF attester_appends this(2)]
    marshal_dynamic [OF attestation_appends this(3)] marshal_limited_appends [OF deposit_appends this(4)]
    marshal_limited_appends [OF exit_appends this(5)]
  then show ?thesis
    using add_sizes_dyn [OF conjunct2 [OF parts(2)]] add_sizes_dyn [OF conjunct2 [OF parts(3)]]
    by (simp add: body_spec_def body_lengths_def length_concat_const)
qed

lemma body_fixed_eq:
  assumes "body_fixed L K b n dst = Ok (out, off)" and "body_lengths b"
  shows "out = dst @ container_head L n (body_spec L K b) @ off_bytes off
    \<and> off = n + length (container_tail (body_spec L K b)) \<and> fixed_length (body_spec L K b) = 380"
  using assms
  by (auto simp: body_fixed_def Let_def res_simps enc_simps body_spec_def body_lengths_def length_dyn_bytes
      dest!: appendsD [OF eth1_appends] appendsD [OF sync_appends])

lemma body_size_eq: "body_lengths b \<Longrightarrow> body_size K b n = n + length (container_tail (body_spec L K b))"
  by (auto simp: body_size_def Let_def body_spec_def body_lengths_def length_dyn_bytes)

lemma capella_body_follows_spec:
  assumes "capella_body_MarshalSSZTo L K b dst = Ok out"
  shows "out = dst @ capella_body_spec L K b \<and> length (capella_body_spec L K b) = capella_body_SizeSSZ K b"
proof -
  let ?p = "the_default zero_capella_payload (cb_ExecutionPayload b)"
  let ?bls = "concat (map (encoded (SignedBLSToExecutionChange_MarshalSSZTo L)) (cb_BLSToExecutionChanges b))"
  obtain d1 off d2 d3 where d: "body_fixed L K b 388 dst = Ok (d1, off)"
    "body_lists L K b (WriteOffset L d1 (off + Payload_SizeSSZ ?p)) = Ok d2" "Payload_MarshalSSZTo L ?p d2 = Ok d3"
    "marshal_limited ''BeaconBlockBody.BLSToExecutionChanges'' 16 (SignedBLSToExecutionChange_MarshalSSZTo L)
        (cb_BLSToExecutionChanges b) (\<lambda>d. d) d3 = Ok out"
    using assms by (auto simp: capella_body_MarshalSSZTo_def Let_def res_simps)
  note lists = body_lists_eq [OF d(2)]
  note fixed = body_fixed_eq [OF d(1) conjunct2 [OF lists]]
  note pay = payload_follows_spec [OF d(3)]
  note bls = marshal_limited_appends [OF bls_change_appends d(4)]
  have "length ?bls = length (cb_BLSToExecutionChanges b) * 172"
    using length_concat_const bls by blast
  then show ?thesis
    using lists fixed pay bls body_size_eq [OF conjunct2 [OF lists], of 388]
    unfolding capella_body_spec_def length_container
    by (simp add: ssz_container_def container_append enc_simps capella_body_SizeSSZ_def off_bytes_def [symmetric])
qed

lemma signed_block_follows_spec:
  assumes "\<And>b dst out. m b dst = Ok out \<Longrightarrow> out = dst @ body b \<and> length (body b) = sz b"
    and "SignedBeaconBlock_MarshalSSZTo L nb m s dst = Ok out"
  shows "out = dst @ signed_block_spec L nb body s \<and> length (signed_block_spec L nb body s) = SignedBeaconBlock_SizeSSZ nb sz s"
  using assms(2)
  unfolding signed_block_spec_def beacon_block_spec_def SignedBeaconBlock_MarshalSSZTo_def BeaconBlock_MarshalSSZTo_def
    SignedBeaconBlock_SizeSSZ_def BeaconBlock_SizeSSZ_def length_container Let_def
  by (auto dest!: assms(1) simp: ssz_container_def enc_simps)

end

section \<open>Bellatrix payloads\<close>

context ssz_laws
begin

lemma bellatrix_payload_bytes:
  assumes "bellatrix_payload_MarshalSSZTo L e [] = Ok bs"
  shows "length bs = bellatrix_payload_SizeSSZ e
     \<and> slice 436 440 bs = off_bytes 512 \<and> slice 508 (508 + length (nil_list (EpExtraData e))) bs = nil_list (EpExtraData e)"
  using assms
  by (auto simp: bellatrix_payload_MarshalSSZTo_def Let_def res_simps enc_simps tx_offsets_eq
      bellatrix_payload_SizeSSZ_def tx_size_eq slice_append_skip slice_append_fit slice_simps
      length_dyn_bytes [unfolded dyn_bytes_eq length_append, symmetric]
      split: if_splits dest!: tx_append_Ok)

lemma bellatrix_spec_offset: "slice 436 440 (bellatrix_payload_spec L e) = off_bytes 508"
  by (simp add: bellatrix_payload_spec_def ssz_container_def enc_simps slice_append_skip slice_append_fit)

end

section \<open>An instance of the libraries\<close>

text \<open>Objects that carry their encoding: cut or filled up to the size of their type where SSZ fixes it.\<close>

fun marshal_fixed :: "nat \<Rightarrow> lib_obj \<Rightarrow> bytes \<Rightarrow> (go_error, bytes) res" where
  "marshal_fixed n (LibObj bs) dst = Ok (dst @ take n (bs @ replicate n 0))"

fun marshal_var :: "lib_obj \<Rightarrow> bytes \<Rightarrow> (go_error, bytes) res" where
  "marshal_var (LibObj bs) dst = Ok (dst @ bs)"

fun var_size :: "lib_obj \<Rightarrow> nat" where
  "var_size (LibObj bs) = length bs"

definition sample_objs :: obj_lib where
  "sample_objs =
     \<lparr>new_Eth1Data = LibObj [], new_SyncAggregate = LibObj [],
      Eth1Data_MarshalSSZTo = marshal_fixed 72, SyncAggregate_MarshalSSZTo = marshal_fixed 160,
      ProposerSlashing_MarshalSSZTo = marshal_fixed 416,
      AttesterSlashing_MarshalSSZTo = marshal_var, AttesterSlashing_SizeSSZ = var_size,
      Attestation_MarshalSSZTo = marshal_var, Attestation_SizeSSZ = var_size,
      Deposit_MarshalSSZTo = marshal_fixed 1240, VoluntaryExit_MarshalSSZTo = marshal_fixed 112\<rparr>"

lemma marshal_fixed_appends: "appends (marshal_fixed n) (\<lambda>_. n)"
  unfolding appends_def
proof (intro allI impI)
  fix x dst out
  assume "marshal_fixed n x dst = Ok out"
  then show "out = dst @ encoded (marshal_fixed n) x \<and> length (encoded (marshal_fixed n) x) = n"
    by (cases x) (simp add: encoded_def)
qed

lemma marshal_var_appends: "appends marshal_var var_size"
  unfolding appends_def
proof (intro allI impI)
  fix x dst out
  assume "marshal_var x dst = Ok out"
  then show "out = dst @ encoded marshal_var x \<and> length (encoded marshal_var x) = var_size x"
    by (cases x) (auto simp: encoded_def)
qed

interpretation le_blocks: block_laws le_ssz sample_objs
  by unfold_locales (simp_all add: sample_objs_def marshal_fixed_appends marshal_var_appends)

definition sample_signed_block :: "capella_body signed_block" where
  "sample_signed_block =
     \<lparr>sbl_Message = Some \<lparr>bl_Slot = 3, bl_ProposerIndex = 1, bl_ParentRoot = 0, bl_StateRoot = 0,
        bl_Body = Some (new_capella_body\<lparr>Attestations := Some [LibObj [1], LibObj [2, 3]],
          ProposerSlashings := Some [LibObj [9]], cb_BLSToExecutionChanges := [Some \<lparr>sbls_Message = None, sbls_Signature = 0\<rparr>]\<rparr>)\<rparr>,
      sbl_Signature = 0\<rparr>"

section \<open>Properties\<close>

text \<open>
  C10: The Capella block the relay publishes is encoded as the SSZ specification defines it: whenever
  \<open>SignedBeaconBlock.MarshalSSZTo\<close> succeeds, it has appended the container of the signed block, with
  the block, its body and the payload nested in it and every offset pointing at the data of its field,
  and the number of bytes is the \<open>SizeSSZ\<close> of the block.
\<close>

theorem Capella_block_follows_ssz:
  assumes "block_laws L K" and "block_MarshalSSZTo L K (CapellaBeacon s) buf = Ok out"
  shows "out = buf @ signed_block_spec L new_capella_body (capella_body_spec L K) s
    \<and> length out = length buf + block_SizeSSZ K (CapellaBeacon s)"
  using block_laws.signed_block_follows_spec [OF assms(1) block_laws.capella_body_follows_spec [OF assms(1)]] assms(2)
  by fastforce

theorem Capella_block_follows_ssz_witness:
  "\<exists>out. block_MarshalSSZTo le_ssz sample_objs (CapellaBeacon sample_signed_block) [] = Ok out
     \<and> out = signed_block_spec le_ssz new_capella_body (capella_body_spec le_ssz sample_objs) sample_signed_block"
proof -
  have "\<exists>out. block_MarshalSSZTo le_ssz sample_objs (CapellaBeacon sample_signed_block) [] = Ok out"
    by (simp add: sample_signed_block_def SignedBeaconBlock_MarshalSSZTo_def BeaconBlock_MarshalSSZTo_def Let_def
        the_default_def new_capella_body_def zero_body_common_def body_common.defs capella_body.defs
        capella_body_MarshalSSZTo_def body_fixed_def sample_objs_def body_lists_def marshal_limited_def nil_list_def
        Payload_MarshalSSZTo_def zero_capella_payload_def SignedBLSToExecutionChange_MarshalSSZTo_def
        BLSToExecutionChange_MarshalSSZTo_def)
  then show ?thesis
    using Capella_block_follows_ssz [OF le_blocks.block_laws_axioms] by force
qed

text \<open>
  The Bellatrix payload is not encoded as SSZ defines it.  The fixed part has 508 bytes and the
  extra data follows it directly, but the offset written for the extra data is 512, so that the
  encoding differs from the specified one for every payload.
\<close>

theorem Bellatrix_payload_offset_wrong:
  assumes "ssz_laws L" and "bellatrix_payload_MarshalSSZTo L e [] = Ok bs"
  shows "bs \<noteq> bellatrix_payload_spec L e \<and> ReadOffset L (slice 436 440 bs) = 512
    \<and> slice 508 (508 + length (nil_list (EpExtraData e))) bs = nil_list (EpExtraData e)"
proof -
  have bs: "slice 436 440 bs = WriteOffset L [] 512"
    "slice 508 (508 + length (nil_list (EpExtraData e))) bs = nil_list (EpExtraData e)"
    using ssz_laws.bellatrix_payload_bytes [OF assms] by (simp_all add: ssz_laws.off_bytes_def [OF assms(1)])
  moreover have "slice 436 440 (bellatrix_payload_spec L e) = WriteOffset L [] 508"
    using ssz_laws.bellatrix_spec_offset [OF assms(1)] by (simp add: ssz_laws.off_bytes_def [OF assms(1)])
  ultimately show ?thesis
    using ssz_laws.read_offset [OF assms(1), of 512] ssz_laws.read_offset [OF assms(1), of 508] by auto
qed

theorem Bellatrix_payload_offset_wrong_witness:
  "\<exists>bs. bellatrix_payload_MarshalSSZTo le_ssz (zero_bellatrix_payload\<lparr>EpExtraData := Some [1, 2]\<rparr>) [] = Ok bs
     \<and> ReadOffset le_ssz (slice 436 440 bs) = 512 \<and> slice 508 510 bs = [1, 2]"
proof -
  have "\<exists>bs. bellatrix_payload_MarshalSSZTo le_ssz (zero_bellatrix_payload\<lparr>EpExtraData := Some [1, 2]\<rparr>) [] = Ok bs"
    by (simp add: bellatrix_payload_MarshalSSZTo_def zero_bellatrix_payload_def nil_list_def Let_def)
  then show ?thesis
    using Bellatrix_payload_offset_wrong [OF le.ssz_laws_axioms] by (fastforce simp: nil_list_def)
qed

end
