(* ===== verification/BeaconClient.thy ===== *)
theory BeaconClient
  imports BeaconState
begin

text \<open>
  The HTTP client of a beacon node (\<open>beacon/client/client.go\<close>) and the client over several nodes
  (\<open>beacon/client/multi.go\<close>).

  The network is a function from requests to outcomes, and the JSON decoders are arguments: a decoder
  gets the body and the object to fill, and returns the object and an error.  The nodes of
  \<open>MultiBeaconClient\<close> are of any type; what they answer to a call is an argument of the call, and the
  order in which goroutines finish is an argument too.

  The lemmas show that the client over several nodes answers whenever one of them does, that its
  answers to \<open>SyncStatus\<close> and \<open>PublishBlock\<close> do not depend on which node is faster, which node is
  asked first after an answer, and that a node that answers with status 404 or above counts as one
  that has answered.
\<close>

section \<open>One node\<close>

record http_request =
  rq_Method :: string
  rq_URL :: string
  rq_Headers :: "(string \<times> string) list"
  rq_Body :: bytes

text \<open>The body of a response is read in full, which may fail.\<close>

datatype http_result =
  InvalidRequest go_error
| Refused go_error
| Response nat "go_error + bytes"

type_synonym 'a decoder = "bytes \<Rightarrow> 'a \<Rightarrow> 'a \<times> go_error option"

record beacon_http =
  beaconHost :: string
  beaconEndpoint :: string
  http_do :: "http_request \<Rightarrow> http_result"
  decode_error :: "bytes \<Rightarrow> go_error + string"
  encode_block :: "signed_beacon_block \<Rightarrow> go_error + bytes"

abbreviation "ErrHTTPErrorResponse \<equiv> ErrNew ''got an HTTP error response''"
abbreviation "ErrNodesUnavailable \<equiv> ErrNew ''beacon nodes are unavailable''"
abbreviation "ErrBlockPublish202 \<equiv> ErrNew ''the block failed validation, but was successfully broadcast anyway. It was not integrated into the beacon node's database''"

definition http_error :: "string \<Rightarrow> go_error" where
  "http_error msg = Wrap (error_text ErrHTTPErrorResponse @ '': '' @ msg) ErrHTTPErrorResponse"

definition queryBeacon :: "beacon_http \<Rightarrow> 'a decoder \<Rightarrow> string \<Rightarrow> string \<Rightarrow> 'a \<Rightarrow> 'a \<times> go_error option" where
  "queryBeacon C decode u meth dst =
     (case http_do C \<lparr>rq_Method = meth, rq_URL = u, rq_Headers = [(''accept'', ''application/json'')], rq_Body = []\<rparr> of
        InvalidRequest e \<Rightarrow> (dst, Some (wrap_msg (''invalid request for '' @ u) e))
      | Refused e \<Rightarrow> (dst, Some (wrap_msg (''client refused for '' @ u) e))
      | Response status (Inl e) \<Rightarrow> (dst, Some (wrap_msg (''could not read response body for '' @ u) e))
      | Response status (Inr body) \<Rightarrow>
          if status \<ge> 404 then (dst, None)
          else if status \<ge> 300 then
            (case decode_error C body of
               Inl e \<Rightarrow> (dst, Some (wrap_msg (''could not unmarshal error response from beacon node for '' @ u
                               @ '' from '' @ bytes_string body) e))
             | Inr msg \<Rightarrow> (dst, Some (http_error msg)))
          else (case decode body dst of
                  (dst', None) \<Rightarrow> (dst', None)
                | (dst', Some e) \<Rightarrow>
                    (dst', Some (wrap_msg (''could not unmarshal response for '' @ u @ '' from '' @ bytes_string body) e))))"

text \<open>A response object and an error; every caller drops the object when there is an error.\<close>

definition to_res :: "'a \<times> go_error option \<Rightarrow> (go_error, 'a) res" where
  "to_res r = (case snd r of None \<Rightarrow> Ok (fst r) | Some e \<Rightarrow> Err e)"

record duty =
  du_PubKey :: pubkey
  du_Slot :: u64

record sync_status =
  HeadSlot :: u64
  IsSyncing :: bool

record validator_entry =
  va_Index :: u64
  va_Pubkey :: string

record fork_entry =
  fe_CurrentVersion :: string
  fe_Epoch :: u64

definition client_GetProposerDuties :: "beacon_http \<Rightarrow> duty list decoder \<Rightarrow> epoch \<Rightarrow> (go_error, duty list) res" where
  "client_GetProposerDuties C decode epoch =
     to_res (queryBeacon C decode (beaconHost C @ ''/eth/v1/validator/duties/proposer/'' @ dec (unat epoch)) ''GET'' [])"

definition client_SyncStatus :: "beacon_http \<Rightarrow> sync_status decoder \<Rightarrow> (go_error, sync_status) res" where
  "client_SyncStatus C decode =
     to_res (queryBeacon C decode (beaconHost C @ ''/eth/v1/node/syncing'') ''GET'' \<lparr>HeadSlot = 0, IsSyncing = False\<rparr>)"

definition client_KnownValidators :: "beacon_http \<Rightarrow> validator_entry list decoder \<Rightarrow> slot \<Rightarrow> (go_error, validator_entry list) res" where
  "client_KnownValidators C decode headSlot =
     to_res (queryBeacon C decode (beaconHost C @ ''/eth/v1/beacon/states/'' @ dec (unat headSlot)
       @ ''/validators?status=active%2Cpending'') ''GET'' [])"

definition client_Genesis :: "beacon_http \<Rightarrow> genesis_info decoder \<Rightarrow> (go_error, genesis_info) res" where
  "client_Genesis C decode =
     to_res (queryBeacon C decode (beaconHost C @ ''/eth/v1/beacon/genesis'') ''GET''
       \<lparr>GenesisTime = 0, GenesisValidatorsRoot = [], GenesisForkVersion = []\<rparr>)"

definition client_GetWithdrawals :: "beacon_http \<Rightarrow> withdrawals decoder \<Rightarrow> slot \<Rightarrow> (go_error, withdrawals) res" where
  "client_GetWithdrawals C decode slot =
     to_res (queryBeacon C decode (beaconHost C @ ''/eth/v1/beacon/states/'' @ dec (unat slot) @ ''/withdrawals'') ''GET'' None)"

definition client_Randao :: "beacon_http \<Rightarrow> string decoder \<Rightarrow> slot \<Rightarrow> (go_error, string) res" where
  "client_Randao C decode slot =
     to_res (queryBeacon C decode (beaconHost C @ ''/eth/v1/beacon/states/'' @ dec (unat slot) @ ''/randao'') ''GET'' [])"

definition client_GetForkSchedule :: "beacon_http \<Rightarrow> fork_entry list decoder \<Rightarrow> (go_error, fork_entry list) res" where
  "client_GetForkSchedule C decode =
     to_res (queryBeacon C decode (beaconHost C @ ''/eth/v1/config/fork_schedule'') ''GET'' [])"

text \<open>Publishing: the answer of the node decides; its body is read only when it reports an error.\<close>

definition publish_answer :: "beacon_http \<Rightarrow> http_result \<Rightarrow> (go_error, unit) res" where
  "publish_answer C r =
     (case r of
        InvalidRequest e \<Rightarrow> Err (wrap_msg ''fail to publish block'' e)
      | Refused e \<Rightarrow> Err (wrap_msg ''fail to publish block'' e)
      | Response status body \<Rightarrow>
          if status = 202 then Err ErrBlockPublish202
          else if status \<ge> 300 then
            (case body of
               Inl e \<Rightarrow> Err (wrap_msg ''fail to read read error response body'' e)
             | Inr bs \<Rightarrow>
                 (case decode_error C bs of
                    Inl e \<Rightarrow> Err (wrap_msg ''fail to unmarshal error response'' e)
                  | Inr msg \<Rightarrow> Err (http_error msg)))
          else Ok ())"

fun ConsensusVersion :: "signed_beacon_block \<Rightarrow> string" where
  "ConsensusVersion (BellatrixBeacon b) = ''bellatrix''"
| "ConsensusVersion (CapellaBeacon b) = ''capella''"

definition client_PublishBlock :: "beacon_http \<Rightarrow> signed_beacon_block \<Rightarrow> (go_error, unit) res" where
  "client_PublishBlock C block =
     (case encode_block C block of
        Inl e \<Rightarrow> Err (wrap_msg ''fail to marshal block'' e)
      | Inr buff \<Rightarrow> publish_answer C (http_do C
          \<lparr>rq_Method = ''POST'', rq_URL = beaconEndpoint C @ ''/eth/v1/beacon/blocks'',
           rq_Headers = [(''Content-Type'', ''application/json'')], rq_Body = buff\<rparr>))"

definition client_PublishV2Block :: "beacon_http \<Rightarrow> signed_beacon_block \<Rightarrow> (go_error, unit) res" where
  "client_PublishV2Block C block =
     (case encode_block C block of
        Inl e \<Rightarrow> Err (wrap_msg ''fail to marshal block'' e)
      | Inr buff \<Rightarrow> publish_answer C (http_do C
          \<lparr>rq_Method = ''POST'',
           rq_URL = beaconEndpoint C @ ''/eth/v2/beacon/blocks?broadcast_validation=consensus_and_equivocation'',
           rq_Headers = [(''Eth-Consensus-Version'', ConsensusVersion block), (''Content-Type'', ''application/json'')],
           rq_Body = buff\<rparr>))"

section \<open>Several nodes\<close>

abbreviation "ErrBeaconNodeSyncing \<equiv> ErrNew ''beacon node is syncing''"
abbreviation "ErrWithdrawalsUnsupported \<equiv> ErrNew ''withdrawals are not supported''"

record 'n multi_client =
  mc_Clients :: "'n list"
  mc_PublishV2Clients :: "'n list"
  mc_bestBeaconIndex :: nat

definition NewMultiBeaconClient :: "'n list \<Rightarrow> 'n multi_client" where
  "NewMultiBeaconClient clients = \<lparr>mc_Clients = clients, mc_PublishV2Clients = [], mc_bestBeaconIndex = 0\<rparr>"

definition clientsByLastResponse :: "'n multi_client \<Rightarrow> (go_error, 'n list) res" where
  "clientsByLastResponse b =
     (let index = mc_bestBeaconIndex b; cs = mc_Clients b in
      if index = 0 then Ok cs
      else if index < length cs then Ok (cs[0 := cs ! index, index := cs ! 0])
      else Panic)"

text \<open>
  The loop of the calls that remember the node: the first node that answers and its place in the
  list, from place \<open>i\<close> on.
\<close>

fun first_answer :: "('n \<Rightarrow> (go_error, 'a) res) \<Rightarrow> nat \<Rightarrow> 'n list \<Rightarrow> (nat \<times> 'a) option" where
  "first_answer ask i [] = None"
| "first_answer ask i (c # cs) =
     (case ask c of
        Ok x \<Rightarrow> Some (i, x)
      | _ \<Rightarrow> first_answer ask (Suc i) cs)"

definition ask_and_remember :: "('n \<Rightarrow> (go_error, 'a) res) \<Rightarrow> (go_error, 'n multi_client, 'a) handler" where
  "ask_and_remember ask b =
     (case clientsByLastResponse b of
        Ok clients \<Rightarrow>
          (case first_answer ask 0 clients of
             Some (i, x) \<Rightarrow> (Ok x, b\<lparr>mc_bestBeaconIndex := i\<rparr>)
           | None \<Rightarrow> (Err ErrNodesUnavailable, b))
      | Err e \<Rightarrow> (Err e, b)
      | Panic \<Rightarrow> (Panic, b))"

definition multi_GetProposerDuties ::
    "('n \<Rightarrow> epoch \<Rightarrow> (go_error, duty list) res) \<Rightarrow> epoch \<Rightarrow> (go_error, 'n multi_client, duty list) handler" where
  "multi_GetProposerDuties node epoch = ask_and_remember (\<lambda>c. node c epoch)"

definition multi_KnownValidators ::
    "('n \<Rightarrow> slot \<Rightarrow> (go_error, validator_entry list) res) \<Rightarrow> slot \<Rightarrow> (go_error, 'n multi_client, validator_entry list) handler" where
  "multi_KnownValidators node headSlot = ask_and_remember (\<lambda>c. node c headSlot)"

text \<open>
  The loop of the other calls: the first answer, or the error of the last node.  Without nodes the
  error is nil and the zero value is returned.
\<close>

fun last_error :: "('n \<Rightarrow> (go_error, 'a) res) \<Rightarrow> (go_error, 'a) res \<Rightarrow> 'n list \<Rightarrow> (go_error, 'a) res" where
  "last_error ask r [] = r"
| "last_error ask r (c # cs) = (case ask c of Ok x \<Rightarrow> Ok x | Err e \<Rightarrow> last_error ask (Err e) cs | Panic \<Rightarrow> Panic)"

definition multi_Genesis :: "('n \<Rightarrow> (go_error, genesis_info) res) \<Rightarrow> 'n multi_client \<Rightarrow> (go_error, genesis_info) res" where
  "multi_Genesis node b = bind_res (clientsByLastResponse b)
     (last_error node (Ok \<lparr>GenesisTime = 0, GenesisValidatorsRoot = [], GenesisForkVersion = []\<rparr>))"

definition multi_Randao :: "('n \<Rightarrow> slot \<Rightarrow> (go_error, string) res) \<Rightarrow> slot \<Rightarrow> 'n multi_client \<Rightarrow> (go_error, string) res" where
  "multi_Randao node slot b = bind_res (clientsByLastResponse b) (last_error (\<lambda>c. node c slot) (Ok []))"

definition multi_GetForkSchedule ::
    "('n \<Rightarrow> (go_error, fork_entry list) res) \<Rightarrow> 'n multi_client \<Rightarrow> (go_error, fork_entry list option) res" where
  "multi_GetForkSchedule node b = bind_res (clientsByLastResponse b)
     (last_error (\<lambda>c. bind_res (node c) (\<lambda>x. Ok (Some x))) (Ok None))"

text \<open>
  \<open>GetWithdrawals\<close> stops at the first node that says the fork is too old, and reads the text of the
  last error; without nodes that error is nil and reading it panics.
\<close>

definition withdrawals_disabled :: "go_error \<Rightarrow> bool" where
  "withdrawals_disabled e \<longleftrightarrow> str_contains (error_text e) ''Withdrawals not enabled before capella''"

fun withdrawals_loop :: "('n \<Rightarrow> (go_error, withdrawals) res) \<Rightarrow> go_error option \<Rightarrow> 'n list \<Rightarrow> (go_error, withdrawals) res" where
  "withdrawals_loop ask err [] =
     (case err of None \<Rightarrow> Panic
      | Some e \<Rightarrow> Err (if withdrawals_disabled e then ErrWithdrawalsUnsupported else e))"
| "withdrawals_loop ask err (c # cs) =
     (case ask c of
        Ok w \<Rightarrow> Ok w
      | Err e \<Rightarrow> if withdrawals_disabled e then Err ErrWithdrawalsUnsupported else withdrawals_loop ask (Some e) cs
      | Panic \<Rightarrow> Panic)"

definition multi_GetWithdrawals ::
    "('n \<Rightarrow> slot \<Rightarrow> (go_error, withdrawals) res) \<Rightarrow> slot \<Rightarrow> 'n multi_client \<Rightarrow> (go_error, withdrawals) res" where
  "multi_GetWithdrawals node slot b = bind_res (clientsByLastResponse b) (withdrawals_loop (\<lambda>c. node c slot) None)"

text \<open>
  \<open>SyncStatus\<close> asks all nodes at once.  A goroutine whose node answers takes the mutex and runs
  \<open>sync_done\<close>; \<open>order\<close> lists the nodes in the order their goroutines take it.
\<close>

definition sync_done :: "(go_error, sync_status) res \<Rightarrow> sync_status option \<times> bool \<Rightarrow> sync_status option \<times> bool" where
  "sync_done r acc =
     (case r of
        Ok s \<Rightarrow>
          (case acc of (bestSyncStatus, foundSyncedNode) \<Rightarrow>
             if foundSyncedNode then acc
             else let best = (if bestSyncStatus = None then Some s else bestSyncStatus)
                  in if \<not> IsSyncing s then (Some s, True) else (best, foundSyncedNode))
      | _ \<Rightarrow> acc)"

definition multi_SyncStatus :: "('n \<Rightarrow> (go_error, sync_status) res) \<Rightarrow> 'n list \<Rightarrow> (go_error, sync_status) res" where
  "multi_SyncStatus node order =
     (case fold (\<lambda>c. sync_done (node c)) order (None, False) of
        (bestSyncStatus, foundSyncedNode) \<Rightarrow>
          if \<not> foundSyncedNode then Err ErrBeaconNodeSyncing
          else case bestSyncStatus of None \<Rightarrow> Err ErrNodesUnavailable | Some s \<Rightarrow> Ok s)"

text \<open>
  \<open>PublishBlock\<close> starts one goroutine per node and per endpoint and reads their answers in the order
  they arrive, until one is a success or all have failed.  \<open>None\<close> is the wait for an answer that has
  not arrived; \<open>n\<close> is the number of goroutines and \<open>r\<close> of the answers read.
\<close>

datatype arrival = Answer "(go_error, unit) res" | CtxDone go_error

fun collect :: "nat \<Rightarrow> nat \<Rightarrow> arrival list \<Rightarrow> (go_error, unit) res option" where
  "collect n r [] = None"
| "collect n r (CtxDone e # as) = Some (Err e)"
| "collect n r (Answer a # as) =
     (case a of
        Ok u \<Rightarrow> Some (Ok ())
      | Err e \<Rightarrow> if Suc r = n then Some (Err e) else collect n (Suc r) as
      | Panic \<Rightarrow> Some Panic)"

datatype 'n publish_to = V1 'n | V2 'n

definition publish_targets :: "'n multi_client \<Rightarrow> (go_error, 'n publish_to list) res" where
  "publish_targets b = bind_res (clientsByLastResponse b) (\<lambda>cs. Ok (map V1 cs @ map V2 (mc_PublishV2Clients b)))"

definition multi_PublishBlock :: "'n multi_client \<Rightarrow> arrival list \<Rightarrow> (go_error, unit) res option" where
  "multi_PublishBlock b arrivals =
     (case publish_targets b of
        Ok ts \<Rightarrow> collect (length ts) 0 arrivals
      | Err e \<Rightarrow> Some (Err e)
      | Panic \<Rightarrow> Some Panic)"

definition multi_Endpoint :: "('n \<Rightarrow> string) \<Rightarrow> 'n multi_client \<Rightarrow> (go_error, string) res" where
  "multi_Endpoint ep b = bind_res (clientsByLastResponse b) (\<lambda>cs. Ok (case cs of [] \<Rightarrow> [] | c # _ \<Rightarrow> ep c))"

section \<open>Lemmas\<close>

definition mc_ok :: "'n multi_client \<Rightarrow> bool" where
  "mc_ok b \<longleftrightarrow> mc_bestBeaconIndex b = 0 \<or> mc_bestBeaconIndex b < length (mc_Clients b)"

lemma clientsByLastResponse_ok:
  assumes "mc_ok b"
  shows "\<exists>cs. clientsByLastResponse b = Ok cs \<and> mset cs = mset (mc_Clients b)"
  using assms by (auto simp: mc_ok_def clientsByLastResponse_def Let_def intro!: mset_swap)

lemma first_answer_Some:
  "first_answer ask i cs = Some (j, x) \<Longrightarrow> i \<le> j \<and> j < i + length cs \<and> ask (cs ! (j - i)) = Ok x"
proof (induction cs arbitrary: i)
  case (Cons c cs)
  then show ?case
    by (cases "ask c") (auto simp: nth_Cons' Suc_diff_le dest: Cons.IH)
qed simp

lemma first_answer_None: "first_answer ask i cs = None \<longleftrightarrow> (\<forall>c \<in> set cs. \<forall>x. ask c \<noteq> Ok x)"
  by (induction cs arbitrary: i) (auto split: res.splits)

lemma sync_done_found [simp]: "sync_done r (b, True) = (b, True)"
  by (simp add: sync_done_def split: res.splits)

lemma fold_sync_found [simp]: "fold (\<lambda>c. sync_done (node c)) order (b, True) = (b, True)"
  by (induction order) simp_all

lemma sync_done_synced: "\<not> IsSyncing s \<Longrightarrow> sync_done (Ok s) (b, False) = (Some s, True)"
  by (simp add: sync_done_def)

lemma sync_done_syncing: "\<nexists>s. r = Ok s \<and> \<not> IsSyncing s \<Longrightarrow> \<exists>b'. sync_done r (b, False) = (b', False)"
  by (cases r) (auto simp: sync_done_def Let_def)

lemma fold_sync_done:
  "fold (\<lambda>c. sync_done (node c)) order (best, False) = (best', found') \<Longrightarrow>
   found' = (\<exists>c \<in> set order. \<exists>s. node c = Ok s \<and> \<not> IsSyncing s)
   \<and> (found' \<longrightarrow> (\<exists>c \<in> set order. \<exists>s. node c = Ok s \<and> \<not> IsSyncing s \<and> best' = Some s))"
proof (induction order arbitrary: best)
  case (Cons c order)
  show ?case
  proof (cases "\<exists>s. node c = Ok s \<and> \<not> IsSyncing s")
    case True
    then show ?thesis
      using Cons.prems by (auto simp: sync_done_synced)
  next
    case False
    then obtain b1 where "sync_done (node c) (best, False) = (b1, False)"
      using sync_done_syncing by blast
    with False Cons.prems Cons.IH [of b1] show ?thesis by auto
  qed
qed auto

lemma collect_all:
  assumes "r + length rs = n" and "rs \<noteq> []" and "Panic \<notin> set rs"
  shows "\<exists>a. collect n r (map Answer rs) = Some a \<and> a \<noteq> Panic \<and> (a = Ok () \<longleftrightarrow> Ok () \<in> set rs)
    \<and> (\<forall>e. a = Err e \<longrightarrow> Err e = last rs)"
  using assms
proof (induction rs arbitrary: r)
  case (Cons x rs)
  show ?case
  proof (cases x)
    case (Err e)
    show ?thesis
    proof (cases "rs = []")
      case False
      then obtain a where "collect n (Suc r) (map Answer rs) = Some a \<and> a \<noteq> Panic \<and> (a = Ok () \<longleftrightarrow> Ok () \<in> set rs)
        \<and> (\<forall>e. a = Err e \<longrightarrow> Err e = last rs)"
        using Cons.IH [of "Suc r"] Cons.prems by auto
      moreover have "Suc r \<noteq> n"
        using False Cons.prems(1) by (cases rs) auto
      ultimately show ?thesis
        using Err False by auto
    qed (use Err Cons.prems in auto)
  qed (use Cons.prems in auto)
qed simp

section \<open>Properties\<close>

text \<open>
  A call to several beacon nodes succeeds exactly when one of the nodes answers it, with the
  answer of such a node; the remembered index stays within the list of nodes, and the call does not
  panic.
\<close>

theorem multi_client_answers:
  assumes "mc_ok b" and "ask_and_remember ask b = (r, b')"
  shows "mc_ok b' \<and> mc_Clients b' = mc_Clients b \<and> r \<noteq> Panic
    \<and> ((\<exists>x. r = Ok x) \<longleftrightarrow> (\<exists>c \<in> set (mc_Clients b). \<exists>x. ask c = Ok x))
    \<and> (\<forall>x. r = Ok x \<longrightarrow> (\<exists>c \<in> set (mc_Clients b). ask c = Ok x))"
proof -
  obtain cs where cs: "clientsByLastResponse b = Ok cs" "mset cs = mset (mc_Clients b)"
    using clientsByLastResponse_ok [OF assms(1)] by blast
  note same = set_eq_if_mset_eq [OF cs(2)] mset_eq_length [OF cs(2)]
  show ?thesis
  proof (cases "first_answer ask 0 cs")
    case None
    then show ?thesis
      using assms cs(1) same first_answer_None [of ask 0 cs] by (auto simp: ask_and_remember_def)
  next
    case (Some p)
    obtain i x where "p = (i, x)" by fastforce
    with Some have i: "i < length cs" "ask (cs ! i) = Ok x"
      using first_answer_Some [of ask 0 cs i x] by auto
    have "r = Ok x" "b' = b\<lparr>mc_bestBeaconIndex := i\<rparr>"
      using assms(2) cs(1) Some \<open>p = (i, x)\<close> by (simp_all add: ask_and_remember_def)
    moreover have "\<exists>c \<in> set (mc_Clients b). ask c = Ok x"
      using i same(1) nth_mem [OF i(1)] by blast
    ultimately show ?thesis
      using i(1) same(2) by (auto simp: mc_ok_def)
  qed
qed

theorem multi_client_answers_witness:
  "ask_and_remember (\<lambda>c. if c = (2::nat) then Ok ''x'' else Err ErrNodesUnavailable) (NewMultiBeaconClient [1, 2])
     = (Ok ''x'', (NewMultiBeaconClient [1, 2])\<lparr>mc_bestBeaconIndex := 1\<rparr>)
   \<and> mc_ok ((NewMultiBeaconClient [1::nat, 2])\<lparr>mc_bestBeaconIndex := 1\<rparr>)"
proof -
  have "ask_and_remember (\<lambda>c. if c = (2::nat) then Ok ''x'' else Err ErrNodesUnavailable) (NewMultiBeaconClient [1, 2])
     = (Ok ''x'', (NewMultiBeaconClient [1, 2])\<lparr>mc_bestBeaconIndex := 1\<rparr>)"
    by (simp add: ask_and_remember_def clientsByLastResponse_def NewMultiBeaconClient_def)
  moreover have "mc_ok (NewMultiBeaconClient [1::nat, 2])"
    by (simp add: mc_ok_def NewMultiBeaconClient_def)
  ultimately show ?thesis
    using multi_client_answers [of "NewMultiBeaconClient [1::nat, 2]"] by blast
qed

text \<open>
  The node asked first after an answer is the node that answered only if the list was not
  reordered before, or neither of the two swapped nodes answered: the stored place is one of the
  reordered list.  In particular a remembered node that keeps answering is forgotten at every second
  call.
\<close>

theorem multi_client_forgets_best_node:
  assumes "mc_ok b" and "distinct (mc_Clients b)" and "clientsByLastResponse b = Ok cs"
    and "first_answer ask 0 cs = Some (i, x)"
  shows "\<exists>b' cs'. ask_and_remember ask b = (Ok x, b') \<and> clientsByLastResponse b' = Ok cs'
    \<and> (hd cs' = cs ! i \<longleftrightarrow> mc_bestBeaconIndex b = 0 \<or> i \<noteq> 0 \<and> i \<noteq> mc_bestBeaconIndex b)"
proof -
  let ?b' = "b\<lparr>mc_bestBeaconIndex := i\<rparr>" and ?k = "mc_bestBeaconIndex b" and ?C = "mc_Clients b"
  have run: "ask_and_remember ask b = (Ok x, ?b')"
    using assms(3,4) by (simp add: ask_and_remember_def)
  have cs: "cs = (if ?k = 0 then ?C else ?C[0 := ?C ! ?k, ?k := ?C ! 0])"
    using assms(1,3) by (auto simp: clientsByLastResponse_def Let_def mc_ok_def split: if_splits)
  have i: "i < length ?C"
    using first_answer_Some [OF assms(4)] cs by (auto split: if_splits)
  then have "?C \<noteq> []" by auto
  then have head: "clientsByLastResponse ?b' = Ok cs' \<Longrightarrow> hd cs' = ?C ! i" for cs'
    using i by (auto simp: clientsByLastResponse_def Let_def hd_conv_nth split: if_splits)
  have nth: "cs ! i = (if ?k = 0 then ?C ! i else if i = ?k then ?C ! 0 else if i = 0 then ?C ! ?k else ?C ! i)"
    using cs i by (auto simp: nth_list_update)
  have k: "?k < length ?C" "0 < length ?C"
    using assms(1) i by (auto simp: mc_ok_def)
  have "?C ! i = ?C ! 0 \<longleftrightarrow> i = 0" "?C ! i = ?C ! ?k \<longleftrightarrow> i = ?k" "?C ! 0 = ?C ! ?k \<longleftrightarrow> 0 = ?k"
    using k i assms(2) by (simp_all add: nth_eq_iff_index_eq)
  then have "?C ! i = cs ! i \<longleftrightarrow> ?k = 0 \<or> i \<noteq> 0 \<and> i \<noteq> ?k"
    unfolding nth by (cases "?k = 0"; cases "i = ?k"; cases "i = 0") simp_all
  moreover obtain cs' where "clientsByLastResponse ?b' = Ok cs'"
    using i clientsByLastResponse_ok [of ?b'] by (auto simp: mc_ok_def)
  ultimately show ?thesis
    using run head by metis
qed

theorem multi_client_forgets_best_node_witness:
  "\<exists>b' cs'. ask_and_remember (\<lambda>c. if c = (2::nat) then Ok () else Err ErrNodesUnavailable)
        ((NewMultiBeaconClient [1, 2])\<lparr>mc_bestBeaconIndex := 1\<rparr>) = (Ok (), b')
     \<and> clientsByLastResponse b' = Ok cs' \<and> hd cs' \<noteq> 2"
  using multi_client_forgets_best_node
    [of "(NewMultiBeaconClient [1::nat, 2])\<lparr>mc_bestBeaconIndex := 1\<rparr>" "[2, 1]"
        "\<lambda>c. if c = (2::nat) then Ok () else Err ErrNodesUnavailable" 0 "()"]
  by (auto simp: mc_ok_def NewMultiBeaconClient_def clientsByLastResponse_def)

text \<open>
  In whichever order the nodes answer, \<open>SyncStatus\<close> succeeds exactly when some node answers that it
  is not syncing, and returns the status of such a node; otherwise the error is always the one of a
  syncing node, also when no node has answered at all.
\<close>

theorem SyncStatus_any_order:
  assumes "mset order = mset clients"
  shows "(\<exists>s. multi_SyncStatus node order = Ok s) = (\<exists>c \<in> set clients. \<exists>s. node c = Ok s \<and> \<not> IsSyncing s)
    \<and> (\<forall>s. multi_SyncStatus node order = Ok s \<longrightarrow> (\<exists>c \<in> set clients. node c = Ok s \<and> \<not> IsSyncing s))
    \<and> (\<forall>e. multi_SyncStatus node order = Err e \<longrightarrow> e = ErrBeaconNodeSyncing)"
proof -
  obtain best found where f: "fold (\<lambda>c. sync_done (node c)) order (None, False) = (best, found)"
    by fastforce
  have "set order = set clients"
    using assms by (rule set_eq_if_mset_eq)
  then show ?thesis
    using fold_sync_done [OF f] f by (auto simp: multi_SyncStatus_def)
qed

theorem SyncStatus_any_order_witness:
  "multi_SyncStatus (\<lambda>c. if c = (1::nat) then Err ErrNodesUnavailable else Ok \<lparr>HeadSlot = 5, IsSyncing = c \<noteq> 2\<rparr>) [3, 2, 1]
     = Ok \<lparr>HeadSlot = 5, IsSyncing = False\<rparr>"
  using SyncStatus_any_order
    [of "[3, 2, 1]" "[1, 2, 3::nat]" "\<lambda>c. if c = (1::nat) then Err ErrNodesUnavailable else Ok \<lparr>HeadSlot = 5, IsSyncing = c \<noteq> 2\<rparr>"]
  by (auto split: if_splits)

text \<open>
  C36: \<open>PublishBlock\<close> returns once every node has answered, in whichever order the answers arrive; it
  reports success exactly when some node accepted the block, and otherwise the error that arrived
  last.
\<close>

theorem PublishBlock_returns:
  assumes "publish_targets b = Ok ts" and "ts \<noteq> []"
    and "mset answers = mset (map node ts)" and "\<And>t. node t \<noteq> Panic"
  shows "\<exists>a. multi_PublishBlock b (map Answer answers) = Some a
    \<and> (a = Ok () \<longleftrightarrow> (\<exists>t \<in> set ts. node t = Ok ())) \<and> (\<forall>e. a = Err e \<longrightarrow> Err e = last answers)"
proof -
  have set: "set answers = node ` set ts" and len: "length answers = length ts"
    using assms(3) by (metis set_eq_if_mset_eq list.set_map, metis mset_eq_length length_map)
  moreover have "answers \<noteq> []"
    using len assms(2) by auto
  moreover have "Panic \<notin> set answers"
    using set assms(4) by (metis imageE)
  ultimately obtain a where "collect (length ts) 0 (map Answer answers) = Some a" "a = Ok () \<longleftrightarrow> Ok () \<in> set answers"
    "\<forall>e. a = Err e \<longrightarrow> Err e = last answers"
    using collect_all [of 0 answers "length ts"] by auto
  moreover have "Ok () \<in> set answers \<longleftrightarrow> (\<exists>t \<in> set ts. node t = Ok ())"
    unfolding set image_iff by metis
  ultimately show ?thesis
    using assms(1) by (auto simp: multi_PublishBlock_def)
qed

theorem PublishBlock_returns_witness:
  "\<exists>a. multi_PublishBlock (NewMultiBeaconClient [1, 2::nat]) (map Answer [Err ErrBlockPublish202, Ok ()]) = Some a \<and> a = Ok ()"
proof -
  have "publish_targets (NewMultiBeaconClient [1, 2::nat]) = Ok [V1 1, V1 2]"
    by (simp add: publish_targets_def clientsByLastResponse_def NewMultiBeaconClient_def)
  then show ?thesis
    using PublishBlock_returns [of "NewMultiBeaconClient [1, 2::nat]" "[V1 1, V1 2]" "[Err ErrBlockPublish202, Ok ()]"
        "\<lambda>t. if t = V1 1 then Err ErrBlockPublish202 else Ok ()"]
    by auto
qed

end
