(* ===== verification/BeaconManager.thy ===== *)
theory BeaconManager
  imports HashWalk BeaconClient
begin

text \<open>
  The manager that keeps the beacon state up to date (\<open>beacon/manager.go\<close>): it waits for a synced
  node, loads genesis and fork schedule, and then handles the \<open>payload_attributes\<close> events of the nodes.

  What the client, the validator cache and the store answer during one event, the clock and the
  library functions are the record \<open>mgr_env\<close>.  The update of the known validators runs in a goroutine:
  \<open>processNewSlot\<close> leaves its slot in \<open>mg_tasks\<close>, and the update is a step of its own.  A loop that
  waits for the next event is a function of the list of inputs, with \<open>None\<close> for the wait.

  The lemmas show that the head slot never goes back, what the state holds after an event, that no
  event with a sensible slot makes the manager panic, and two ways in which a failing node leaves the
  state without the data of a slot.
\<close>

section \<open>Environment and state\<close>

record payload_attributes_event =
  pae_ProposalSlot :: u64
  pae_ParentBlockHash :: string
  pae_PrevRandao :: string
  pae_Withdrawals :: withdrawals

record mgr_env =
  env_GetProposerDuties :: "epoch \<Rightarrow> (go_error, duty list) res"
  env_KnownValidators :: "slot \<Rightarrow> (go_error, validator_entry list) res"
  env_vCache_Get :: "pubkey \<Rightarrow> signed_registration option"
  env_GetRegistration :: "pubkey \<Rightarrow> (go_error, signed_registration) res"
  env_UnmarshalText :: "string \<Rightarrow> (go_error, hash) res"
  env_NewPubkeyHex :: "string \<Rightarrow> pubkey_hex"
  env_hasher :: "walk list \<Rightarrow> (go_error, root) res"
  env_now :: int

record mgr_state =
  mg_state :: multi_slot_state
  mg_tasks :: "slot list"

record mgr_config =
  AltairForkVersion :: string
  BellatrixForkVersion :: string
  CapellaForkVersion :: string

abbreviation "ErrUnkownFork \<equiv> ErrNew ''beacon node fork is unknown''"

section \<open>Initialisation\<close>

text \<open>The polls of \<open>waitSynced\<close>: an answer, and the error of the context if it ends during the wait.\<close>

fun waitSynced :: "((go_error, sync_status) res \<times> go_error option) list \<Rightarrow> (go_error, sync_status) res option" where
  "waitSynced [] = None"
| "waitSynced ((r, done) # polls) =
     (let again = (case done of None \<Rightarrow> waitSynced polls | Some e \<Rightarrow> Some (Err e)) in
      case r of
        Err e \<Rightarrow> if \<not> errors_Is e ErrBeaconNodeSyncing then Some (Err e) else again
      | Ok st \<Rightarrow> if \<not> IsSyncing st then Some (Ok st) else again
      | Panic \<Rightarrow> Some Panic)"

fun fork_epochs :: "mgr_config \<Rightarrow> fork_entry list \<Rightarrow> fork_state \<Rightarrow> fork_state" where
  "fork_epochs cfg [] fs = fs"
| "fork_epochs cfg (f # forks) fs = fork_epochs cfg forks
     (if fe_CurrentVersion f = AltairForkVersion cfg then fs\<lparr>AltairEpoch := fe_Epoch f\<rparr>
      else if fe_CurrentVersion f = BellatrixForkVersion cfg then fs\<lparr>BellatrixEpoch := fe_Epoch f\<rparr>
      else if fe_CurrentVersion f = CapellaForkVersion cfg then fs\<lparr>CapellaEpoch := fe_Epoch f\<rparr>
      else fs)"

definition initForkEpoch ::
    "mgr_config \<Rightarrow> (go_error, fork_entry list option) res \<Rightarrow> (go_error, multi_slot_state, unit) handler" where
  "initForkEpoch cfg schedule s =
     (case schedule of
        Err e \<Rightarrow> (Err (wrap_msg ''failed to get fork'' e), s)
      | Ok (Some forks) \<Rightarrow> (Ok (), SetFork (fork_epochs cfg forks zero_fork_state) s)
      | _ \<Rightarrow> (Panic, s))"

section \<open>Duties and validators\<close>

definition getProposerDuties :: "mgr_env \<Rightarrow> slot \<Rightarrow> (go_error, duty list) res" where
  "getProposerDuties E headSlot =
     (let epoch = slot_Epoch headSlot in
      bind_res (map_err (wrap_msg ''current epoch: get proposer duties'') (env_GetProposerDuties E epoch)) (\<lambda>entries.
      bind_res (map_err (wrap_msg ''next epoch: get proposer duties'') (env_GetProposerDuties E (epoch + 1))) (\<lambda>nxt.
        Ok (entries @ nxt))))"

text \<open>The loop over the duties: a proposer without a registration is left out.\<close>

fun duty_entries :: "mgr_env \<Rightarrow> duty list \<Rightarrow> (go_error, validators_entry list) res" where
  "duty_entries E [] = Ok []"
| "duty_entries E (d # ds) =
     (case env_vCache_Get E (du_PubKey d) of
        Some reg \<Rightarrow> bind_res (duty_entries E ds) (\<lambda>es. Ok (\<lparr>ve_Slot = du_Slot d, ve_Entry = reg\<rparr> # es))
      | None \<Rightarrow>
          (case env_GetRegistration E (du_PubKey d) of
             Ok reg \<Rightarrow> bind_res (duty_entries E ds) (\<lambda>es. Ok (\<lparr>ve_Slot = du_Slot d, ve_Entry = reg\<rparr> # es))
           | Err e \<Rightarrow> duty_entries E ds
           | Panic \<Rightarrow> Panic))"

definition storeProposerDuties :: "mgr_env \<Rightarrow> slot \<Rightarrow> duty list \<Rightarrow> (go_error, multi_slot_state, unit) handler" where
  "storeProposerDuties E headSlot entries s =
     (case duty_entries E entries of
        Ok es \<Rightarrow> (Ok (), SetDuties \<lparr>CurrentSlot = headSlot, ProposerDutiesResponse = es\<rparr> s)
      | Err e \<Rightarrow> (Err e, s)
      | Panic \<Rightarrow> (Panic, s))"

definition known_of :: "(string \<Rightarrow> pubkey_hex) \<Rightarrow> validator_entry list \<Rightarrow> validators_state" where
  "known_of hex vs =
     fold (\<lambda>v st. \<lparr>KnownValidatorsByIndex = (KnownValidatorsByIndex st)(va_Index v \<mapsto> hex (va_Pubkey v)),
                   KnownValidators = (KnownValidators st)(hex (va_Pubkey v) \<mapsto> ())\<rparr>)
       vs \<lparr>KnownValidatorsByIndex = Map.empty, KnownValidators = Map.empty\<rparr>"

definition updateKnownValidators :: "mgr_env \<Rightarrow> slot \<Rightarrow> (go_error, multi_slot_state, unit) handler" where
  "updateKnownValidators E current s =
     (case env_KnownValidators E current of
        Ok vs \<Rightarrow> (Ok (), SetKnownValidators (env_now E) (known_of (env_NewPubkeyHex E) vs) s)
      | Err e \<Rightarrow> (Err e, s)
      | Panic \<Rightarrow> (Panic, s))"

section \<open>Events\<close>

definition updateWithdrawalsAndRandao ::
    "mgr_env \<Rightarrow> payload_attributes_event \<Rightarrow> hash \<Rightarrow> (go_error, multi_slot_state, unit) handler" where
  "updateWithdrawalsAndRandao E ev parentHash s =
     (let slot = pae_ProposalSlot ev - 1 in
      case map_err (wrap_msg ''failed to compute withdrawals root'') (HashWithdrawals_root (env_hasher E) (pae_Withdrawals ev)) of
        Err e \<Rightarrow> (Err e, s)
      | Panic \<Rightarrow> (Panic, s)
      | Ok root \<Rightarrow>
          (case SetWithdrawals \<lparr>ws_Slot = slot, ws_ParentHash = parentHash, ws_Root = root\<rparr> s of
             Ok s1 \<Rightarrow>
               (case SetRandao \<lparr>rs_Slot = slot, rs_ParentHash = parentHash, rs_Randao = pae_PrevRandao ev\<rparr> s1 of
                  Ok s2 \<Rightarrow> (Ok (), s2)
                | Err e \<Rightarrow> (Err e, s1)
                | Panic \<Rightarrow> (Panic, s1))
           | Err e \<Rightarrow> (Err e, s)
           | Panic \<Rightarrow> (Panic, s)))"

text \<open>A handler of the beacon state as a handler of the manager.\<close>

definition on_state :: "(go_error, multi_slot_state, 'a) handler \<Rightarrow> (go_error, mgr_state, 'a) handler" where
  "on_state h m = (case h (mg_state m) of (r, s) \<Rightarrow> (r, m\<lparr>mg_state := s\<rparr>))"

definition upd_state :: "(multi_slot_state \<Rightarrow> multi_slot_state) \<Rightarrow> mgr_state \<Rightarrow> mgr_state" where
  "upd_state f m = m\<lparr>mg_state := f (mg_state m)\<rparr>"

text \<open>The part of \<open>processNewSlot\<close> for a slot that is handled in full.\<close>

definition handle_slot :: "mgr_env \<Rightarrow> payload_attributes_event \<Rightarrow> slot \<Rightarrow> hash \<Rightarrow> (go_error, mgr_state, unit) handler" where
  "handle_slot E ev receivedSlot receivedParent m =
     (let s = mg_state m; fork = fork_Version (ms_Fork s) receivedSlot in
      if fork = ForkAltair then (Err (ErrNew (''unknown fork: '' @ dec 1)), m)
      else if fork = ForkBellatrix then (Err (ErrNew (''unknown fork: '' @ dec 2)), m)
      else
        let m = (if DurationPerEpoch div 2 < env_now E - KnownValidatorsUpdateTime s
                 then m\<lparr>mg_tasks := mg_tasks m @ [receivedSlot]\<rparr> else m);
            m = upd_state (SetParentBlockHash receivedParent) m
        in bind_h (lift_h (getProposerDuties E receivedSlot)) (\<lambda>entries.
           bind_h (on_state (storeProposerDuties E receivedSlot entries)) (\<lambda>_.
           if IsAltair (ms_Fork s) receivedSlot \<or> IsBellatrix (ms_Fork s) receivedSlot then lift_h (Ok ())
           else on_state (updateWithdrawalsAndRandao E ev receivedParent))) m)"

definition processNewSlot :: "mgr_env \<Rightarrow> payload_attributes_event \<Rightarrow> (go_error, mgr_state, unit) handler" where
  "processNewSlot E ev m =
     (let currParent = ms_ParentBlockHash (mg_state m);
          receivedSlot = pae_ProposalSlot ev - 1;
          ((currHead, isNewHighest), s) = SetHeadSlotIfHigher receivedSlot (mg_state m);
          m = m\<lparr>mg_state := s\<rparr>
      in case map_err (wrap_msg ''failed to unmarshal parentBlockHash'') (env_UnmarshalText E (pae_ParentBlockHash ev)) of
           Err e \<Rightarrow> (Err e, m)
         | Panic \<Rightarrow> (Panic, m)
         | Ok receivedParent \<Rightarrow>
             if \<not> isNewHighest \<and> receivedSlot < currHead then (Ok (), m)
             else if \<not> isNewHighest \<and> receivedSlot = currHead \<and> receivedParent = currParent then (Ok (), m)
             else if \<not> isNewHighest \<and> receivedSlot = currHead \<and> receivedParent \<noteq> currParent
                  \<and> \<not> (IsAltair (ms_Fork s) receivedSlot \<or> IsBellatrix (ms_Fork s) receivedSlot)
             then on_state (updateWithdrawalsAndRandao E ev receivedParent) m
             else handle_slot E ev receivedSlot receivedParent m)"

section \<open>Loops\<close>

datatype mgr_input =
  Event payload_attributes_event mgr_env
| Background nat mgr_env
| Done go_error

fun init_loop :: "mgr_input list \<Rightarrow> mgr_state \<Rightarrow> ((go_error, unit) res \<times> mgr_state) option" where
  "init_loop [] m = None"
| "init_loop (Done e # ins) m = Some (Err e, m)"
| "init_loop (Background n E # ins) m = init_loop ins m"
| "init_loop (Event ev E # ins) m =
     (let headSlot = pae_ProposalSlot ev - 1;
          m = upd_state (\<lambda>s. snd (SetHeadSlotIfHigher headSlot s)) m
      in case on_state (updateKnownValidators E headSlot) m of
           (Err e, m) \<Rightarrow> init_loop ins m
         | (Panic, m) \<Rightarrow> Some (Panic, m)
         | (Ok _, m) \<Rightarrow>
             Some (bind_h (lift_h (getProposerDuties E headSlot)) (\<lambda>entries.
                   bind_h (on_state (storeProposerDuties E headSlot entries)) (\<lambda>_.
                   bind_h (lift_h (map_err (wrap_msg ''failed to unmarshal parentBlockHash'')
                             (env_UnmarshalText E (pae_ParentBlockHash ev)))) (\<lambda>parent.
                   on_state (updateWithdrawalsAndRandao E ev parent)))) m))"

definition mgr_Init :: "mgr_config \<Rightarrow> ((go_error, sync_status) res \<times> go_error option) list \<Rightarrow> (go_error, genesis_info) res
    \<Rightarrow> (go_error, fork_entry list option) res \<Rightarrow> mgr_input list \<Rightarrow> mgr_state \<Rightarrow> ((go_error, unit) res \<times> mgr_state) option" where
  "mgr_Init cfg polls genesis schedule ins m =
     (case waitSynced polls of
        None \<Rightarrow> None
      | Some (Err e) \<Rightarrow> Some (Err e, m)
      | Some Panic \<Rightarrow> Some (Panic, m)
      | Some (Ok status) \<Rightarrow>
          (case genesis of
             Err e \<Rightarrow> Some (Err (wrap_msg ''fail to get genesis from beacon'' e), m)
           | Panic \<Rightarrow> Some (Panic, m)
           | Ok g \<Rightarrow>
               (case on_state (initForkEpoch cfg schedule) (upd_state (SetGenesis g) m) of
                  (Err e, m) \<Rightarrow> Some (Err (wrap_msg ''failed to set fork state'' e), m)
                | (Panic, m) \<Rightarrow> Some (Panic, m)
                | (Ok _, m) \<Rightarrow>
                    let fork = ms_Fork (mg_state m) in
                    if \<not> IsAltair fork (HeadSlot status) \<and> \<not> IsBellatrix fork (HeadSlot status)
                       \<and> \<not> IsCapella fork (HeadSlot status)
                    then Some (Err ErrUnkownFork, m)
                    else init_loop ins m)))"

text \<open>
  One turn of \<open>Run\<close>, or one of the goroutines it has started.  After an event the loop reads the
  RANDAO value and the withdrawals of the head for its log line; an error is only logged.
\<close>

fun run_step :: "mgr_input \<Rightarrow> mgr_state \<Rightarrow> (go_error, unit) res option \<times> mgr_state" where
  "run_step (Done e) m = (Some (Err e), m)"
| "run_step (Background n E) m =
     (if n < length (mg_tasks m)
      then let slot = mg_tasks m ! n;
               m = m\<lparr>mg_tasks := take n (mg_tasks m) @ drop (Suc n) (mg_tasks m)\<rparr>
           in case on_state (updateKnownValidators E slot) m of (r, m) \<Rightarrow> (if r = Panic then Some Panic else None, m)
      else (None, m))"
| "run_step (Event ev E) m =
     (if pae_ProposalSlot ev = 0 then (None, m)
      else case processNewSlot E ev m of
        (Panic, m) \<Rightarrow> (Some Panic, m)
      | (_, m) \<Rightarrow>
          let s = mg_state m; head = ms_HeadSlot s; parent = ms_ParentBlockHash s in
          if Randao head parent s = Panic \<or> Withdrawals head parent s = Panic then (Some Panic, m) else (None, m))"

fun mgr_Run :: "mgr_input list \<Rightarrow> mgr_state \<Rightarrow> (go_error, unit) res option \<times> mgr_state" where
  "mgr_Run [] m = (None, m)"
| "mgr_Run (i # ins) m =
     (case run_step i m of
        (Some r, m) \<Rightarrow> (Some r, m)
      | (None, m) \<Rightarrow> mgr_Run ins m)"

section \<open>Invariant\<close>

text \<open>What every step keeps: the invariant of the ring and the order of head slots.\<close>

definition keeps :: "multi_slot_state \<Rightarrow> multi_slot_state \<Rightarrow> bool" where
  "keeps s s' \<longleftrightarrow> (ms_ok s \<longrightarrow> ms_ok s') \<and> ms_HeadSlot s \<le> ms_HeadSlot s'"

lemma keeps_refl [simp]: "keeps s s"
  by (simp add: keeps_def)

lemma keeps_trans: "keeps s s' \<Longrightarrow> keeps s' s'' \<Longrightarrow> keeps s s''"
  by (auto simp: keeps_def)

lemma ms_ok_upd [simp]:
  "ms_ok (s\<lparr>ms_duties := d\<rparr>) = ms_ok s" "ms_ok (s\<lparr>ms_headSlot := h\<rparr>) = ms_ok s"
  "ms_ok (s\<lparr>ms_knownValidators := v\<rparr>) = ms_ok s" "ms_ok (s\<lparr>ms_validatorsUpdateTime := t\<rparr>) = ms_ok s"
  "ms_ok (s\<lparr>ms_parentBlockHash := p\<rparr>) = ms_ok s"
  by (simp_all add: ms_ok_def)

lemma keeps_SetHeadSlotIfHigher: "SetHeadSlotIfHigher slot s = (r, s') \<Longrightarrow> keeps s s'"
  by (auto simp: SetHeadSlotIfHigher_def keeps_def ms_HeadSlot_def load_def split: option.splits if_splits)

lemma keeps_simple:
  "keeps s (SetDuties d s)" "keeps s (SetKnownValidators t v s)" "keeps s (SetParentBlockHash p s)"
  by (simp_all add: keeps_def SetDuties_def SetKnownValidators_def SetParentBlockHash_def ms_HeadSlot_def)

lemma head_SetWithdrawals: "SetWithdrawals w s = Ok s' \<Longrightarrow> \<exists>l. s' = s\<lparr>ms_slots := l\<rparr>"
  by (auto simp: SetWithdrawals_ring split: if_splits)

lemma head_SetRandao: "SetRandao r s = Ok s' \<Longrightarrow> \<exists>l. s' = s\<lparr>ms_slots := l\<rparr>"
  by (auto simp: SetRandao_ring split: if_splits)

lemma keeps_ring:
  "SetWithdrawals w s = Ok s' \<Longrightarrow> keeps s s'"
  "SetRandao r s = Ok s' \<Longrightarrow> keeps s s'"
  using withdrawals_ring.put_inv [of s w s'] randao_ring.put_inv [of s r s']
  by (auto simp: keeps_def ms_HeadSlot_def dest: head_SetWithdrawals head_SetRandao)

lemma keeps_updateWithdrawalsAndRandao: "updateWithdrawalsAndRandao E ev p s = (r, s') \<Longrightarrow> keeps s s'"
  by (auto simp: updateWithdrawalsAndRandao_def Let_def split: res.splits
      intro: keeps_trans dest: keeps_ring)

lemma keeps_storeProposerDuties: "storeProposerDuties E h ds s = (r, s') \<Longrightarrow> keeps s s'"
  by (auto simp: storeProposerDuties_def keeps_simple split: res.splits)

lemma keeps_updateKnownValidators: "updateKnownValidators E h s = (r, s') \<Longrightarrow> keeps s s'"
  by (auto simp: updateKnownValidators_def keeps_simple split: res.splits)

definition keeping :: "(go_error, mgr_state, 'a) handler \<Rightarrow> bool" where
  "keeping h \<longleftrightarrow> (\<forall>m r m'. h m = (r, m') \<longrightarrow> keeps (mg_state m) (mg_state m'))"

lemma keepingD: "keeping h \<Longrightarrow> h m = (r, m') \<Longrightarrow> keeps (mg_state m) (mg_state m')"
  by (auto simp: keeping_def)

lemma keeping_on_state: "(\<And>s r s'. h s = (r, s') \<Longrightarrow> keeps s s') \<Longrightarrow> keeping (on_state h)"
  by (auto simp: keeping_def on_state_def split: prod.splits)

lemma keeping_lift: "keeping (lift_h r)"
  by (auto simp: keeping_def lift_h_def)

lemma keeping_bind: "keeping h \<Longrightarrow> (\<And>x. keeping (f x)) \<Longrightarrow> keeping (bind_h h f)"
  unfolding keeping_def bind_h_def by (fastforce split: prod.splits res.splits intro: keeps_trans)

lemma keeping_ops:
  "keeping (on_state (storeProposerDuties E h ds))"
  "keeping (on_state (updateWithdrawalsAndRandao E ev p))"
  "keeping (on_state (updateKnownValidators E h))"
  by (auto intro!: keeping_on_state elim: keeps_storeProposerDuties keeps_updateWithdrawalsAndRandao
      keeps_updateKnownValidators)

lemmas keeping_intros = keeping_bind keeping_lift keeping_ops

lemma keeps_handle_slot:
  assumes "handle_slot E ev slot p m = (r, m')"
  shows "keeps (mg_state m) (mg_state m')"
proof -
  let ?rest = "bind_h (lift_h (getProposerDuties E slot)) (\<lambda>entries.
           bind_h (on_state (storeProposerDuties E slot entries)) (\<lambda>_.
           if IsAltair (ms_Fork (mg_state m)) slot \<or> IsBellatrix (ms_Fork (mg_state m)) slot then lift_h (Ok ())
           else on_state (updateWithdrawalsAndRandao E ev p)))"
  have "keeping ?rest"
    by (auto intro!: keeping_intros)
  then have "?rest m1 = (r, m') \<Longrightarrow> mg_state m1 = SetParentBlockHash p (mg_state m) \<Longrightarrow> ?thesis" for m1
    using keeps_trans [OF keeps_simple(3)] by (metis keepingD)
  with assms show ?thesis
    unfolding handle_slot_def Let_def upd_state_def by (auto split: if_splits)
qed

lemma keeps_processNewSlot:
  assumes "processNewSlot E ev m = (r, m')"
  shows "keeps (mg_state m) (mg_state m')"
proof -
  obtain h s where s: "SetHeadSlotIfHigher (pae_ProposalSlot ev - 1) (mg_state m) = (h, s)" by fastforce
  have "keeps s (mg_state m')"
    using assms s keepingD [OF keeping_ops(2)] keeps_handle_slot
    by (fastforce simp: processNewSlot_def Let_def split: prod.splits res.splits if_splits)
  then show ?thesis
    using keeps_SetHeadSlotIfHigher [OF s] keeps_trans by blast
qed

lemma keeps_run_step: "run_step i m = (r, m') \<Longrightarrow> keeps (mg_state m) (mg_state m')"
  by (cases i) (auto simp: Let_def split: if_splits prod.splits res.splits
      dest!: keeps_processNewSlot keepingD [OF keeping_ops(3)])

lemma keeps_mgr_Run: "mgr_Run ins m = (r, m') \<Longrightarrow> keeps (mg_state m) (mg_state m')"
proof (induction ins arbitrary: m)
  case (Cons i ins)
  obtain r1 m1 where step: "run_step i m = (r1, m1)" by fastforce
  from Cons.prems step Cons.IH [of m1] show ?case
    by (cases r1) (auto intro: keeps_trans dest: keeps_run_step [OF step, THEN keeps_trans] keeps_run_step)
qed simp

section \<open>Effects of an event\<close>

lemma updateWithdrawalsAndRandao_stores:
  fixes ev :: payload_attributes_event
  defines "slot \<equiv> pae_ProposalSlot ev - 1"
  assumes ok: "ms_ok s" and slot: "slot \<noteq> 0"
    and root: "HashWithdrawals_root (env_hasher E) (pae_Withdrawals ev) = Ok root"
  shows "\<exists>s'. updateWithdrawalsAndRandao E ev p s = (Ok (), s') \<and> ms_ok s' \<and> (\<exists>l. s' = s\<lparr>ms_slots := l\<rparr>)
    \<and> Withdrawals slot p s' = Ok \<lparr>ws_Slot = slot, ws_ParentHash = p, ws_Root = root\<rparr>
    \<and> Randao slot p s' = Ok \<lparr>rs_Slot = slot, rs_ParentHash = p, rs_Randao = pae_PrevRandao ev\<rparr>
    \<and> (\<forall>t q. slot_index t \<noteq> slot_index slot \<longrightarrow> Withdrawals t q s' = Withdrawals t q s \<and> Randao t q s' = Randao t q s)"
proof -
  let ?w = "\<lparr>ws_Slot = slot, ws_ParentHash = p, ws_Root = root\<rparr>"
  let ?r = "\<lparr>rs_Slot = slot, rs_ParentHash = p, rs_Randao = pae_PrevRandao ev\<rparr>"
  obtain s1 where s1: "SetWithdrawals ?w s = Ok s1"
    using withdrawals_ring.put_returns [OF ok, of ?w] slot by auto
  have ok1: "ms_ok s1"
    using withdrawals_ring.put_inv [OF ok s1] .
  obtain s2 where s2: "SetRandao ?r s1 = Ok s2"
    using randao_ring.put_returns [OF ok1, of ?r] slot by auto
  have "updateWithdrawalsAndRandao E ev p s = (Ok (), s2)"
    using s1 s2 root by (simp add: updateWithdrawalsAndRandao_def Let_def slot_def)
  moreover have "Withdrawals t q s2 = (if t = slot \<and> q = p then Ok ?w else if t \<noteq> slot \<and> slot_index t = slot_index slot
      then Ok zero_withdrawals_state else Withdrawals t q s)" for t q
    using Withdrawals_SetRandao [OF ok1 s2, of t q] withdrawals_ring.get_put [OF ok s1, of t q] by auto
  moreover have "Randao t q s2 = (if t = slot \<and> q = p then Ok ?r else if t \<noteq> slot \<and> slot_index t = slot_index slot
      then Ok zero_randao_state else Randao t q s)" for t q
    using Randao_SetWithdrawals [OF ok s1, of t q] randao_ring.get_put [OF ok1 s2, of t q] by auto
  moreover have "ms_ok s2"
    using randao_ring.put_inv [OF ok1 s2] .
  moreover have "\<exists>l. s2 = s\<lparr>ms_slots := l\<rparr>"
    using head_SetWithdrawals [OF s1] head_SetRandao [OF s2] by auto
  ultimately show ?thesis by auto
qed

text \<open>The registration of a proposer: from the cache, or else from the store.\<close>

definition registration_of :: "mgr_env \<Rightarrow> pubkey \<Rightarrow> signed_registration option" where
  "registration_of E pk =
     (case env_vCache_Get E pk of
        Some reg \<Rightarrow> Some reg
      | None \<Rightarrow> (case env_GetRegistration E pk of Ok reg \<Rightarrow> Some reg | _ \<Rightarrow> None))"

definition registered_duties :: "mgr_env \<Rightarrow> duty list \<Rightarrow> validators_entry list" where
  "registered_duties E ds = List.map_filter
     (\<lambda>d. map_option (\<lambda>reg. \<lparr>ve_Slot = du_Slot d, ve_Entry = reg\<rparr>) (registration_of E (du_PubKey d))) ds"

lemma duty_entries_registered:
  assumes "\<And>pk. env_GetRegistration E pk \<noteq> Panic"
  shows "duty_entries E ds = Ok (registered_duties E ds)"
proof (induction ds)
  case (Cons d ds)
  then show ?case
    using assms [of "du_PubKey d"]
    by (auto simp: registered_duties_def registration_of_def List.map_filter_simps split: option.splits res.splits)
qed (simp add: registered_duties_def List.map_filter_simps)

text \<open>A slot above the head that is handled in full.\<close>

lemma processNewSlot_new_slot:
  assumes "ms_headSlot (mg_state m) = None \<or> ms_HeadSlot (mg_state m) < pae_ProposalSlot ev - 1"
    and "env_UnmarshalText E (pae_ParentBlockHash ev) = Ok p"
  shows "processNewSlot E ev m = handle_slot E ev (pae_ProposalSlot ev - 1) p
     (m\<lparr>mg_state := (mg_state m)\<lparr>ms_headSlot := Some (pae_ProposalSlot ev - 1)\<rparr>\<rparr>)"
  using assms
  by (auto simp: processNewSlot_def Let_def SetHeadSlotIfHigher_def ms_HeadSlot_def load_def split: option.splits)

lemma fork_Version_other:
  assumes "fork_Version fs slot \<noteq> ForkAltair" and "fork_Version fs slot \<noteq> ForkBellatrix"
    and "IsAltair fs slot \<or> IsBellatrix fs slot"
  shows "fork_Version fs slot = ForkCapella"
  using assms by (auto simp: fork_Version_def split: if_splits)

lemma slot_index_parity: "slot_index a = (if even a then 0 else 1)"
proof (cases "even a")
  case True
  then have "a mod 2 = 0"
    by (simp only: even_iff_mod_2_eq_zero)
  with True show ?thesis
    unfolding slot_index_def NumberOfSlotsInState_def by (simp only: if_True unat_0)
next
  case False
  then have "a mod 2 = 1"
    by (simp only: odd_iff_mod_2_eq_one)
  with False show ?thesis
    unfolding slot_index_def NumberOfSlotsInState_def by (simp only: if_False unat_1)
qed

lemma slot_index_pred: "slot_index (slot - 1) \<noteq> slot_index slot"
proof -
  have "even (slot - 1) \<longleftrightarrow> odd slot"
    by (metis diff_add_cancel even_plus_one_iff)
  then show ?thesis by (simp add: slot_index_parity)
qed

lemma not_old_fork: "\<not> IsAltair fs slot \<Longrightarrow> \<not> IsBellatrix fs slot \<Longrightarrow>
    fork_Version fs slot \<noteq> ForkAltair \<and> fork_Version fs slot \<noteq> ForkBellatrix"
  by (simp add: fork_Version_def)

section \<open>Absence of panics\<close>

definition env_ok :: "mgr_env \<Rightarrow> bool" where
  "env_ok E \<longleftrightarrow> (\<forall>e. env_GetProposerDuties E e \<noteq> Panic) \<and> (\<forall>s. env_KnownValidators E s \<noteq> Panic)
     \<and> (\<forall>pk. env_GetRegistration E pk \<noteq> Panic) \<and> (\<forall>t. env_UnmarshalText E t \<noteq> Panic) \<and> (\<forall>w. env_hasher E w \<noteq> Panic)"

fun input_ok :: "mgr_input \<Rightarrow> bool" where
  "input_ok (Event ev E) \<longleftrightarrow> env_ok E \<and> pae_ProposalSlot ev \<noteq> 1 \<and> None \<notin> set (nil_list (pae_Withdrawals ev))"
| "input_ok (Background n E) \<longleftrightarrow> env_ok E"
| "input_ok (Done e) \<longleftrightarrow> True"

lemma withdrawals_root_total:
  assumes "env_ok E" and "None \<notin> set (nil_list ws)"
  shows "HashWithdrawals_root (env_hasher E) ws \<noteq> Panic"
proof -
  have "None \<notin> set xs \<Longrightarrow> walk_all withdrawal_ptr_walk xs \<noteq> Panic" for xs
  proof (induction xs)
    case (Cons x xs)
    then show ?case by (cases x) (auto simp: res_simps withdrawal_ptr_walk_def deref_def)
  qed simp
  with assms show ?thesis
    by (auto simp: HashWithdrawals_root_def HashWithDefaultHasher_def HashWithdrawals_walk_def walk_list_def res_simps env_ok_def
        split: if_splits)
qed

lemma update_total:
  assumes "ms_ok s" and "env_ok E" and "pae_ProposalSlot ev \<noteq> 1" and "None \<notin> set (nil_list (pae_Withdrawals ev))"
  shows "fst (updateWithdrawalsAndRandao E ev p s) \<noteq> Panic"
proof (cases "HashWithdrawals_root (env_hasher E) (pae_Withdrawals ev)")
  case (Ok root)
  have "pae_ProposalSlot ev - 1 \<noteq> 0"
    using assms(3) by simp
  from updateWithdrawalsAndRandao_stores [OF assms(1) this Ok, of p] show ?thesis by auto
next
  case (Err e)
  then show ?thesis by (simp add: updateWithdrawalsAndRandao_def Let_def)
qed (use withdrawals_root_total [OF assms(2,4)] in auto)

lemma duties_total: "env_ok E \<Longrightarrow> getProposerDuties E slot \<noteq> Panic"
  by (auto simp: getProposerDuties_def Let_def res_simps env_ok_def)

lemma handle_slot_total:
  assumes "ms_ok (mg_state m)" and "env_ok E" and "pae_ProposalSlot ev \<noteq> 1"
    and "None \<notin> set (nil_list (pae_Withdrawals ev))"
  shows "fst (handle_slot E ev slot p m) \<noteq> Panic"
proof -
  have store: "\<exists>d. storeProposerDuties E slot ds s = (Ok (), SetDuties d s)" for ds s
    using duty_entries_registered [of E ds] assms(2) by (auto simp: storeProposerDuties_def env_ok_def)
  have upd: "fst (updateWithdrawalsAndRandao E ev p (SetDuties d (SetParentBlockHash p (mg_state m)))) \<noteq> Panic" for d
    using assms by (intro update_total) (simp_all add: SetDuties_def SetParentBlockHash_def)
  show ?thesis
  proof (cases "getProposerDuties E slot")
    case (Ok ds)
    obtain d where "storeProposerDuties E slot ds (SetParentBlockHash p (mg_state m))
        = (Ok (), SetDuties d (SetParentBlockHash p (mg_state m)))"
      using store by blast
    then show ?thesis
      using Ok upd [of d]
      by (auto simp: handle_slot_def Let_def bind_h_def lift_h_def on_state_def upd_state_def split: prod.splits)
  qed (use duties_total [OF assms(2)] in \<open>auto simp: handle_slot_def Let_def bind_h_def lift_h_def\<close>)
qed

lemma processNewSlot_total:
  assumes "ms_ok (mg_state m)" and "input_ok (Event ev E)"
  shows "fst (processNewSlot E ev m) \<noteq> Panic"
proof -
  obtain h n s where s: "SetHeadSlotIfHigher (pae_ProposalSlot ev - 1) (mg_state m) = ((h, n), s)"
    by (metis surj_pair)
  have "ms_ok s"
    using keeps_SetHeadSlotIfHigher [OF s] assms(1) by (simp add: keeps_def)
  then have "fst (on_state (updateWithdrawalsAndRandao E ev p) (m\<lparr>mg_state := s\<rparr>)) \<noteq> Panic"
    and "fst (handle_slot E ev slot p (m\<lparr>mg_state := s\<rparr>)) \<noteq> Panic" for p slot
    using update_total [of s E ev p] handle_slot_total [of "m\<lparr>mg_state := s\<rparr>" E ev slot p] assms(2)
    by (auto simp: on_state_def split: prod.splits)
  moreover have "env_UnmarshalText E t \<noteq> Panic" for t
    using assms(2) by (simp add: env_ok_def)
  ultimately show ?thesis
    using s by (auto simp: processNewSlot_def Let_def res_simps split: res.splits)
qed

lemma processNewSlot_head:
  assumes "processNewSlot E ev m = (r, m')"
  shows "pae_ProposalSlot ev - 1 \<le> ms_HeadSlot (mg_state m')"
proof -
  obtain h n s where s: "SetHeadSlotIfHigher (pae_ProposalSlot ev - 1) (mg_state m) = ((h, n), s)"
    by (metis surj_pair)
  have "keeps s (mg_state m')"
    using assms s keepingD [OF keeping_ops(2)] keeps_handle_slot
    by (fastforce simp: processNewSlot_def Let_def split: prod.splits res.splits if_splits)
  moreover have "pae_ProposalSlot ev - 1 \<le> ms_HeadSlot s"
    using s by (auto simp: SetHeadSlotIfHigher_def ms_HeadSlot_def load_def split: option.splits if_splits)
  ultimately show ?thesis
    by (auto simp: keeps_def)
qed

lemma lookup_total: "ms_ok s \<Longrightarrow> slot \<noteq> 0 \<Longrightarrow> Randao slot p s \<noteq> Panic \<and> Withdrawals slot p s \<noteq> Panic"
  by (simp add: Randao_ring Withdrawals_ring ring_at_ok)

lemma run_step_total:
  assumes "ms_ok (mg_state m)" and "input_ok i"
  shows "fst (run_step i m) \<noteq> Some Panic"
proof (cases i)
  case (Event ev E)
  obtain r m' where p: "processNewSlot E ev m = (r, m')" by fastforce
  have "ms_ok (mg_state m')"
    using keeps_processNewSlot [OF p] assms(1) by (simp add: keeps_def)
  moreover have "ms_HeadSlot (mg_state m') \<noteq> 0" if "pae_ProposalSlot ev \<noteq> 0"
    using processNewSlot_head [OF p] assms(2) Event by auto
  moreover have "r \<noteq> Panic"
    using processNewSlot_total [OF assms(1)] assms(2) p Event by fastforce
  ultimately show ?thesis
    using p lookup_total [of "mg_state m'"] Event by (cases r) (auto simp: Let_def)
qed (use assms in \<open>auto simp: Let_def on_state_def updateKnownValidators_def env_ok_def split: res.splits prod.splits if_splits\<close>)

lemma mgr_Run_total:
  assumes "ms_ok (mg_state m)" and "\<forall>i \<in> set ins. input_ok i"
  shows "fst (mgr_Run ins m) \<noteq> Some Panic"
  using assms
proof (induction ins arbitrary: m)
  case (Cons i ins)
  obtain r m1 where step: "run_step i m = (r, m1)" by fastforce
  have "ms_ok (mg_state m1)"
    using keeps_run_step [OF step] Cons.prems(1) by (simp add: keeps_def)
  then show ?case
    using step Cons.IH [of m1] Cons.prems run_step_total [OF Cons.prems(1), of i] by (cases r) auto
qed simp

section \<open>Initialisation completes\<close>

lemma waitSynced_skip:
  assumes "\<forall>p \<in> set pre. p = (Err ErrBeaconNodeSyncing, None)" and "\<not> IsSyncing st"
  shows "waitSynced (pre @ (Ok st, d) # rest) = Some (Ok st)"
  using assms by (induction pre) auto

lemma init_loop_skip:
  assumes "\<forall>i \<in> set pre. \<exists>ev E e. i = Event ev E \<and> env_KnownValidators E (pae_ProposalSlot ev - 1) = Err e"
  shows "\<exists>m'. init_loop (pre @ ins) m = init_loop ins m' \<and> ms_genesis (mg_state m') = ms_genesis (mg_state m)
     \<and> ms_fork (mg_state m') = ms_fork (mg_state m) \<and> (ms_ok (mg_state m) \<longrightarrow> ms_ok (mg_state m'))"
  using assms
proof (induction pre arbitrary: m)
  case (Cons i pre)
  then obtain ev E e where i: "i = Event ev E" "env_KnownValidators E (pae_ProposalSlot ev - 1) = Err e"
    by auto
  let ?m = "upd_state (\<lambda>s. snd (SetHeadSlotIfHigher (pae_ProposalSlot ev - 1) s)) m"
  have same: "ms_genesis (mg_state ?m) = ms_genesis (mg_state m)" "ms_fork (mg_state ?m) = ms_fork (mg_state m)"
    "ms_ok (mg_state ?m) = ms_ok (mg_state m)"
    by (auto simp: upd_state_def SetHeadSlotIfHigher_def split: option.splits)
  have "init_loop ((i # pre) @ ins) m = init_loop (pre @ ins) ?m"
    using i by (simp add: Let_def on_state_def updateKnownValidators_def)
  with Cons.IH [of ?m] Cons.prems same show ?case by auto
qed auto

definition init_loaded :: "genesis_info \<Rightarrow> fork_state \<Rightarrow> mgr_state \<Rightarrow> bool" where
  "init_loaded g fs m \<longleftrightarrow> ms_Genesis (mg_state m) = g \<and> ms_Fork (mg_state m) = fs"

section \<open>Properties\<close>

text \<open>A concrete environment, event and state for the examples: slot 65 of epoch 2, with Capella from epoch 1.\<close>

definition sample_env :: mgr_env where
  "sample_env =
     \<lparr>env_GetProposerDuties = (\<lambda>e. Ok [\<lparr>du_PubKey = barr_copy [1], du_Slot = 66\<rparr>]),
      env_KnownValidators = (\<lambda>s. Ok []), env_vCache_Get = (\<lambda>pk. None),
      env_GetRegistration = (\<lambda>pk. Err (ErrNew ''not found'')),
      env_UnmarshalText = (\<lambda>t. Ok (barr_copy [5])), env_NewPubkeyHex = ToLower,
      env_hasher = (\<lambda>w. Ok (barr_copy [9])), env_now = 0\<rparr>"

definition sample_event :: payload_attributes_event where
  "sample_event = \<lparr>pae_ProposalSlot = 66, pae_ParentBlockHash = ''0x05'', pae_PrevRandao = ''0xaa'', pae_Withdrawals = Some []\<rparr>"

definition sample_mgr :: mgr_state where
  "sample_mgr = \<lparr>mg_state = zero_multi_slot_state
     \<lparr>ms_fork := Some \<lparr>AltairEpoch = 0, BellatrixEpoch = 0, CapellaEpoch = 1\<rparr>\<rparr>, mg_tasks = []\<rparr>"

lemma sample_root: "HashWithdrawals_root (env_hasher sample_env) (pae_Withdrawals sample_event) = Ok (barr_copy [9])"
  by (simp add: HashWithdrawals_root_def HashWithDefaultHasher_def HashWithdrawals_walk_def walk_list_def nil_list_def
      sample_env_def sample_event_def)

lemma sample_mgr_ok: "ms_ok (mg_state sample_mgr)" "ms_HeadSlot (mg_state sample_mgr) = 0"
  "\<not> IsAltair (ms_Fork (mg_state sample_mgr)) 65" "\<not> IsBellatrix (ms_Fork (mg_state sample_mgr)) 65"
  using ms_ok_zero
  by (simp_all add: sample_mgr_def ms_ok_def ms_HeadSlot_def ms_Fork_def load_def zero_multi_slot_state_def
      IsAltair_def IsBellatrix_def)

lemma sample_event_sel [simp]: "pae_ProposalSlot sample_event = 66" "pae_PrevRandao sample_event = ''0xaa''"
  by (simp_all add: sample_event_def)

lemma sample_env_sel [simp]:
  "env_GetProposerDuties sample_env e = Ok [\<lparr>du_PubKey = barr_copy [1], du_Slot = 66\<rparr>]"
  "env_KnownValidators sample_env slot = Ok []" "env_UnmarshalText sample_env t = Ok (barr_copy [5])"
  "env_GetRegistration sample_env pk = Err (ErrNew ''not found'')" "env_now sample_env = 0"
  by (simp_all add: sample_env_def)

lemma sample_input_ok: "input_ok (Event sample_event sample_env)"
  by (simp add: env_ok_def sample_env_def sample_event_def nil_list_def)

text \<open>
  C14: Whatever the nodes send and whenever the background updates run, the head slot never goes back,
  the ring of slots stays well-formed, and a lookup of withdrawals or of a RANDAO value returns either
  nothing or a value that was stored for that slot and parent.
\<close>

theorem mgr_Run_invariant:
  assumes "ms_ok (mg_state m)" and "mgr_Run ins m = (r, m')"
  shows "ms_ok (mg_state m') \<and> ms_HeadSlot (mg_state m) \<le> ms_HeadSlot (mg_state m')
    \<and> (\<forall>slot p w. Withdrawals slot p (mg_state m') = Ok w \<longrightarrow>
          w = zero_withdrawals_state \<or> ws_Slot w = slot \<and> ws_ParentHash w = p)
    \<and> (\<forall>slot p w. Randao slot p (mg_state m') = Ok w \<longrightarrow>
          w = zero_randao_state \<or> rs_Slot w = slot \<and> rs_ParentHash w = p)"
proof -
  have "ms_ok (mg_state m')" "ms_HeadSlot (mg_state m) \<le> ms_HeadSlot (mg_state m')"
    using keeps_mgr_Run [OF assms(2)] assms(1) by (simp_all add: keeps_def)
  then show ?thesis
    using withdrawals_ring.get_own randao_ring.get_own by blast
qed

theorem mgr_Run_invariant_witness:
  "ms_ok (mg_state (snd (mgr_Run [Event sample_event sample_env, Background 0 sample_env] sample_mgr)))
     \<and> ms_HeadSlot (mg_state sample_mgr)
         \<le> ms_HeadSlot (mg_state (snd (mgr_Run [Event sample_event sample_env, Background 0 sample_env] sample_mgr)))"
  using mgr_Run_invariant [OF sample_mgr_ok(1) surjective_pairing] by blast

text \<open>
  C13: After an event for a new slot of Capella is processed, the state has the slot and its parent as
  head, the withdrawals root and the RANDAO value of the event under that slot and parent, and the
  duties of this and the next epoch for which a registration is known, in order; the withdrawals and
  RANDAO values of the slot before are still there.
\<close>

theorem processNewSlot_stores_slot:
  fixes E :: mgr_env and ev :: payload_attributes_event
  defines "slot \<equiv> pae_ProposalSlot ev - 1"
  assumes "ms_ok (mg_state m)" and "ms_HeadSlot (mg_state m) < slot"
    and "\<not> IsAltair (ms_Fork (mg_state m)) slot" and "\<not> IsBellatrix (ms_Fork (mg_state m)) slot"
    and "env_UnmarshalText E (pae_ParentBlockHash ev) = Ok p"
    and "env_GetProposerDuties E (slot_Epoch slot) = Ok ds" and "env_GetProposerDuties E (slot_Epoch slot + 1) = Ok ds'"
    and "\<And>pk. env_GetRegistration E pk \<noteq> Panic"
    and "HashWithdrawals_root (env_hasher E) (pae_Withdrawals ev) = Ok root"
  shows "\<exists>m'. processNewSlot E ev m = (Ok (), m') \<and> ms_HeadSlot (mg_state m') = slot
    \<and> ms_ParentBlockHash (mg_state m') = p
    \<and> Withdrawals slot p (mg_state m') = Ok \<lparr>ws_Slot = slot, ws_ParentHash = p, ws_Root = root\<rparr>
    \<and> Randao slot p (mg_state m') = Ok \<lparr>rs_Slot = slot, rs_ParentHash = p, rs_Randao = pae_PrevRandao ev\<rparr>
    \<and> ms_Duties (mg_state m') = \<lparr>CurrentSlot = slot, ProposerDutiesResponse = registered_duties E (ds @ ds')\<rparr>
    \<and> (\<forall>q. Withdrawals (slot - 1) q (mg_state m') = Withdrawals (slot - 1) q (mg_state m)
         \<and> Randao (slot - 1) q (mg_state m') = Randao (slot - 1) q (mg_state m))"
proof -
  let ?s = "SetDuties \<lparr>CurrentSlot = slot, ProposerDutiesResponse = registered_duties E (ds @ ds')\<rparr>
    (SetParentBlockHash p ((mg_state m)\<lparr>ms_headSlot := Some slot\<rparr>))"
  have slot: "pae_ProposalSlot ev - 1 \<noteq> 0"
    using assms(3) by (auto simp: slot_def)
  have "ms_ok ?s"
    using assms(2) by (simp add: SetDuties_def SetParentBlockHash_def)
  from updateWithdrawalsAndRandao_stores [OF this slot assms(10), of p]
  obtain s' l where s': "updateWithdrawalsAndRandao E ev p ?s = (Ok (), s')" "s' = ?s\<lparr>ms_slots := l\<rparr>"
    "Withdrawals slot p s' = Ok \<lparr>ws_Slot = slot, ws_ParentHash = p, ws_Root = root\<rparr>"
    "Randao slot p s' = Ok \<lparr>rs_Slot = slot, rs_ParentHash = p, rs_Randao = pae_PrevRandao ev\<rparr>"
    "\<And>t q. slot_index t \<noteq> slot_index slot \<Longrightarrow> Withdrawals t q s' = Withdrawals t q ?s \<and> Randao t q s' = Randao t q ?s"
    by (auto simp: slot_def)
  have old: "Withdrawals t q ?s = Withdrawals t q (mg_state m)" "Randao t q ?s = Randao t q (mg_state m)" for t q
    by (simp_all add: Withdrawals_def Randao_def SetDuties_def SetParentBlockHash_def)
  have fork: "ms_Fork ((mg_state m)\<lparr>ms_headSlot := h\<rparr>) = ms_Fork (mg_state m)" for h
    by (simp add: ms_Fork_def)
  have "\<exists>m'. processNewSlot E ev m = (Ok (), m') \<and> mg_state m' = s'"
    using processNewSlot_new_slot [of m ev E p] assms(3-9) s'(1) not_old_fork [OF assms(4,5)]
    by (auto simp: slot_def handle_slot_def Let_def fork getProposerDuties_def bind_h_def lift_h_def on_state_def upd_state_def
        storeProposerDuties_def duty_entries_registered)
  moreover have "ms_HeadSlot s' = slot" "ms_ParentBlockHash s' = p"
    "ms_Duties s' = \<lparr>CurrentSlot = slot, ProposerDutiesResponse = registered_duties E (ds @ ds')\<rparr>"
    using s'(2) by (simp_all add: ms_HeadSlot_def ms_ParentBlockHash_def ms_Duties_def SetDuties_def SetParentBlockHash_def load_def)
  ultimately show ?thesis
    using s'(3-5) old slot_index_pred [of slot] by metis
qed

theorem processNewSlot_stores_slot_witness:
  "\<exists>m'. processNewSlot sample_env sample_event sample_mgr = (Ok (), m')
     \<and> Withdrawals 65 (barr_copy [5]) (mg_state m') = Ok \<lparr>ws_Slot = 65, ws_ParentHash = barr_copy [5], ws_Root = barr_copy [9]\<rparr>
     \<and> Randao 65 (barr_copy [5]) (mg_state m') = Ok \<lparr>rs_Slot = 65, rs_ParentHash = barr_copy [5], rs_Randao = ''0xaa''\<rparr>"
  using processNewSlot_stores_slot [of sample_mgr sample_event sample_env "barr_copy [5]", OF sample_mgr_ok(1) _ _ _ _ _ _ _ sample_root]
    sample_mgr_ok
  by auto

text \<open>
  The manager retries nothing.  If the duties cannot be fetched for a new slot, the event fails
  after the head slot and the parent hash were stored; the same event from another node is then taken
  for a duplicate, and the withdrawals and the RANDAO value of the slot are never stored.
\<close>

theorem failed_slot_is_not_retried:
  fixes E E' :: mgr_env and ev :: payload_attributes_event
  defines "slot \<equiv> pae_ProposalSlot ev - 1"
  assumes "ms_HeadSlot (mg_state m) < slot"
    and "\<not> IsAltair (ms_Fork (mg_state m)) slot" and "\<not> IsBellatrix (ms_Fork (mg_state m)) slot"
    and "env_UnmarshalText E (pae_ParentBlockHash ev) = Ok p" and "env_UnmarshalText E' (pae_ParentBlockHash ev) = Ok p"
    and "env_GetProposerDuties E (slot_Epoch slot) = Err e"
  shows "\<exists>m' e'. processNewSlot E ev m = (Err e', m') \<and> processNewSlot E' ev m' = (Ok (), m')
    \<and> ms_HeadSlot (mg_state m') = slot \<and> Withdrawals slot p (mg_state m') = Withdrawals slot p (mg_state m)
    \<and> Randao slot p (mg_state m') = Randao slot p (mg_state m)"
proof -
  let ?s = "SetParentBlockHash p ((mg_state m)\<lparr>ms_headSlot := Some slot\<rparr>)"
  have fork: "ms_Fork ((mg_state m)\<lparr>ms_headSlot := h\<rparr>) = ms_Fork (mg_state m)" for h
    by (simp add: ms_Fork_def)
  obtain m' e' where m': "processNewSlot E ev m = (Err e', m')" "mg_state m' = ?s"
    using processNewSlot_new_slot [of m ev E p] assms(2-5,7) not_old_fork [OF assms(3,4)]
    by (auto simp: slot_def handle_slot_def Let_def fork getProposerDuties_def bind_h_def lift_h_def upd_state_def)
  have "processNewSlot E' ev m' = (Ok (), m')"
    using m'(2) assms(6)
    by (simp add: slot_def processNewSlot_def Let_def SetHeadSlotIfHigher_def SetParentBlockHash_def ms_ParentBlockHash_def load_def)
  moreover have "ms_HeadSlot ?s = slot" "Withdrawals slot p ?s = Withdrawals slot p (mg_state m)"
    "Randao slot p ?s = Randao slot p (mg_state m)"
    by (simp_all add: ms_HeadSlot_def SetParentBlockHash_def load_def Withdrawals_def Randao_def)
  ultimately show ?thesis
    using m' by metis
qed

theorem failed_slot_is_not_retried_witness:
  "\<exists>m' e'. processNewSlot (sample_env\<lparr>env_GetProposerDuties := \<lambda>e. Err ErrNodesUnavailable\<rparr>) sample_event sample_mgr = (Err e', m')
     \<and> processNewSlot sample_env sample_event m' = (Ok (), m')
     \<and> Withdrawals 65 (barr_copy [5]) (mg_state m') = Ok zero_withdrawals_state"
proof -
  have "Withdrawals 65 (barr_copy [5]) (mg_state sample_mgr) = Ok zero_withdrawals_state"
    by (simp add: Withdrawals_def sample_mgr_def zero_multi_slot_state_def zero_atomic_state_def slot_index_parity)
  then show ?thesis
    using failed_slot_is_not_retried [of sample_mgr sample_event "sample_env\<lparr>env_GetProposerDuties := \<lambda>e. Err ErrNodesUnavailable\<rparr>"
        "barr_copy [5]" sample_env ErrNodesUnavailable] sample_mgr_ok
    by (auto simp: sample_env_def)
qed

text \<open>
  C15: The manager does not panic: if no event carries a nil withdrawal or proposal slot 1, and the
  client, the store and the libraries do not panic themselves, then no sequence of events and
  background updates ends the loop with a panic.
\<close>

theorem mgr_Run_never_panics:
  assumes "ms_ok (mg_state m)" and "\<forall>i \<in> set ins. input_ok i" and "mgr_Run ins m = (r, m')"
  shows "r \<noteq> Some Panic"
  using mgr_Run_total [OF assms(1,2)] assms(3) by auto

theorem mgr_Run_never_panics_witness:
  "fst (mgr_Run [Event sample_event sample_env, Event (sample_event\<lparr>pae_ProposalSlot := 0\<rparr>) sample_env] sample_mgr)
     \<noteq> Some Panic"
  using mgr_Run_never_panics [OF sample_mgr_ok(1) _ surjective_pairing,
      of "[Event sample_event sample_env, Event (sample_event\<lparr>pae_ProposalSlot := 0\<rparr>) sample_env]"]
    sample_input_ok
  by (auto simp: sample_event_def)

text \<open>
  An error status clears what the relay knows.  When the beacon node answers the query for the
  validators with status 404 or above, for example 503, the update succeeds: afterwards no validator
  is known, and the time of the update is the current time, so that the next attempt is half an epoch
  away.
\<close>

theorem error_status_clears_validators:
  assumes "http_do C \<lparr>rq_Method = ''GET'', rq_URL = beaconHost C @ ''/eth/v1/beacon/states/'' @ dec (unat slot)
       @ ''/validators?status=active%2Cpending'', rq_Headers = [(''accept'', ''application/json'')], rq_Body = []\<rparr>
     = Response status (Inr body)"
    and "404 \<le> status" and "env_KnownValidators E slot = client_KnownValidators C decode slot"
  shows "\<exists>s'. updateKnownValidators E slot s = (Ok (), s')
    \<and> ms_KnownValidators s' = \<lparr>KnownValidatorsByIndex = Map.empty, KnownValidators = Map.empty\<rparr>
    \<and> KnownValidatorsUpdateTime s' = env_now E"
  using assms
  by (simp add: updateKnownValidators_def client_KnownValidators_def queryBeacon_def to_res_def known_of_def
      SetKnownValidators_def ms_KnownValidators_def KnownValidatorsUpdateTime_def load_def)

definition sample_http :: beacon_http where
  "sample_http = \<lparr>beaconHost = ''http://b'', beaconEndpoint = ''http://b'', http_do = (\<lambda>q. Response 503 (Inr [])),
     decode_error = (\<lambda>b. Inr []), encode_block = (\<lambda>b. Inr [])\<rparr>"

theorem error_status_clears_validators_witness:
  "\<exists>s'. updateKnownValidators (sample_env\<lparr>env_KnownValidators := client_KnownValidators sample_http (\<lambda>b d. (d, None))\<rparr>) 65
       (SetKnownValidators (- 1) \<lparr>KnownValidatorsByIndex = [1 \<mapsto> ''a''], KnownValidators = [''a'' \<mapsto> ()]\<rparr> zero_multi_slot_state) = (Ok (), s')
     \<and> KnownValidators (ms_KnownValidators s') ''a'' = None"
  using error_status_clears_validators [of sample_http 65 503 "[]"
      "sample_env\<lparr>env_KnownValidators := client_KnownValidators sample_http (\<lambda>b d. (d, None))\<rparr>" "\<lambda>b d. (d, None)"
      "SetKnownValidators (- 1) \<lparr>KnownValidatorsByIndex = [1 \<mapsto> ''a''], KnownValidators = [''a'' \<mapsto> ()]\<rparr> zero_multi_slot_state"]
  by (auto simp: sample_http_def)

text \<open>
  C16: The initialisation completes: once a poll reports a synced node after any number of polls that
  report syncing, and an event arrives for which all queries succeed after any number of events for
  which the validators could not be fetched, \<open>Init\<close> returns without error, with genesis, fork epochs
  and the withdrawals root and RANDAO value of that event stored.
\<close>

theorem Init_completes:
  fixes ev :: payload_attributes_event
  defines "slot \<equiv> pae_ProposalSlot ev - 1"
  assumes "ms_ok (mg_state m)"
    and "\<forall>p \<in> set pre. p = (Err ErrBeaconNodeSyncing, None)" and "\<not> IsSyncing st"
    and "fork_Version (fork_epochs cfg forks zero_fork_state) (HeadSlot st) \<noteq> ForkUnknown"
    and "\<forall>i \<in> set skipped. \<exists>ev E e. i = Event ev E \<and> env_KnownValidators E (pae_ProposalSlot ev - 1) = Err e"
    and "slot \<noteq> 0" and "env_KnownValidators E slot = Ok vs"
    and "env_GetProposerDuties E (slot_Epoch slot) = Ok ds" and "env_GetProposerDuties E (slot_Epoch slot + 1) = Ok ds'"
    and "\<And>pk. env_GetRegistration E pk \<noteq> Panic"
    and "env_UnmarshalText E (pae_ParentBlockHash ev) = Ok p"
    and "HashWithdrawals_root (env_hasher E) (pae_Withdrawals ev) = Ok root"
  shows "\<exists>m'. mgr_Init cfg (pre @ (Ok st, d) # polls) (Ok g) (Ok (Some forks)) (skipped @ Event ev E # ins) m = Some (Ok (), m')
    \<and> init_loaded g (fork_epochs cfg forks zero_fork_state) m'
    \<and> Withdrawals slot p (mg_state m') = Ok \<lparr>ws_Slot = slot, ws_ParentHash = p, ws_Root = root\<rparr>
    \<and> Randao slot p (mg_state m') = Ok \<lparr>rs_Slot = slot, rs_ParentHash = p, rs_Randao = pae_PrevRandao ev\<rparr>"
proof -
  let ?fs = "fork_epochs cfg forks zero_fork_state"
  let ?m0 = "m\<lparr>mg_state := SetFork ?fs (SetGenesis g (mg_state m))\<rparr>"
  have init: "mgr_Init cfg (pre @ (Ok st, d) # polls) (Ok g) (Ok (Some forks)) (skipped @ Event ev E # ins) m
      = init_loop (skipped @ Event ev E # ins) ?m0"
    using assms(5) waitSynced_skip [OF assms(3,4)]
    by (auto simp: mgr_Init_def on_state_def upd_state_def initForkEpoch_def SetFork_def ms_Fork_def load_def fork_Version_def
        split: if_splits)
  obtain m1 where m1: "init_loop (skipped @ Event ev E # ins) ?m0 = init_loop (Event ev E # ins) m1"
    "ms_genesis (mg_state m1) = Some g" "ms_fork (mg_state m1) = Some ?fs" "ms_ok (mg_state m1)"
    using init_loop_skip [OF assms(6), of "Event ev E # ins" ?m0] assms(2)
    by (auto simp: SetFork_def SetGenesis_def ms_ok_def)
  let ?s1 = "SetDuties \<lparr>CurrentSlot = slot, ProposerDutiesResponse = registered_duties E (ds @ ds')\<rparr>
    (SetKnownValidators (env_now E) (known_of (env_NewPubkeyHex E) vs) (snd (SetHeadSlotIfHigher slot (mg_state m1))))"
  have head: "\<exists>h. snd (SetHeadSlotIfHigher slot (mg_state m1)) = (mg_state m1)\<lparr>ms_headSlot := h\<rparr>"
    by (cases "mg_state m1") (auto simp: SetHeadSlotIfHigher_def split: option.splits)
  have "ms_ok ?s1"
    using head m1(4) by (auto simp: SetDuties_def SetKnownValidators_def)
  from updateWithdrawalsAndRandao_stores [OF this assms(7) [unfolded slot_def] assms(13), of p]
  obtain s' l where s': "updateWithdrawalsAndRandao E ev p ?s1 = (Ok (), s')" "s' = ?s1\<lparr>ms_slots := l\<rparr>"
    "Withdrawals slot p s' = Ok \<lparr>ws_Slot = slot, ws_ParentHash = p, ws_Root = root\<rparr>"
    "Randao slot p s' = Ok \<lparr>rs_Slot = slot, rs_ParentHash = p, rs_Randao = pae_PrevRandao ev\<rparr>"
    by (auto simp: slot_def)
  have "\<exists>m'. init_loop (Event ev E # ins) m1 = Some (Ok (), m') \<and> mg_state m' = s'"
    using assms(8-12) s'(1)
    by (auto simp: slot_def Let_def upd_state_def on_state_def updateKnownValidators_def getProposerDuties_def bind_h_def lift_h_def
        storeProposerDuties_def duty_entries_registered)
  moreover have "ms_Genesis s' = g" "ms_Fork s' = ?fs"
    using s'(2) head m1(2,3) by (auto simp: ms_Genesis_def ms_Fork_def SetDuties_def SetKnownValidators_def load_def)
  ultimately show ?thesis
    using init m1(1) s'(3,4) by (auto simp: init_loaded_def)
qed

theorem Init_completes_witness:
  "\<exists>m'. mgr_Init \<lparr>AltairForkVersion = ''a'', BellatrixForkVersion = ''b'', CapellaForkVersion = ''c''\<rparr>
        [(Err ErrBeaconNodeSyncing, None), (Ok \<lparr>HeadSlot = 64, IsSyncing = False\<rparr>, None)]
        (Ok \<lparr>GenesisTime = 7, GenesisValidatorsRoot = [], GenesisForkVersion = []\<rparr>)
        (Ok (Some [\<lparr>fe_CurrentVersion = ''c'', fe_Epoch = 1\<rparr>])) [Event sample_event sample_env] sample_mgr = Some (Ok (), m')
     \<and> Withdrawals 65 (barr_copy [5]) (mg_state m') = Ok \<lparr>ws_Slot = 65, ws_ParentHash = barr_copy [5], ws_Root = barr_copy [9]\<rparr>"
  using Init_completes [where m = sample_mgr and pre = "[(Err ErrBeaconNodeSyncing, None)]" and d = None and polls = "[]"
      and st = "\<lparr>HeadSlot = 64, IsSyncing = False\<rparr>" and forks = "[\<lparr>fe_CurrentVersion = ''c'', fe_Epoch = 1\<rparr>]"
      and cfg = "\<lparr>AltairForkVersion = ''a'', BellatrixForkVersion = ''b'', CapellaForkVersion = ''c''\<rparr>"
      and g = "\<lparr>GenesisTime = 7, GenesisValidatorsRoot = [], GenesisForkVersion = []\<rparr>"
      and skipped = "[]" and ev = sample_event and E = sample_env and ins = "[]" and p = "barr_copy [5]"
      and root = "barr_copy [9]" and vs = "[]" and ds = "[\<lparr>du_PubKey = barr_copy [1], du_Slot = 66\<rparr>]"
      and ds' = "[\<lparr>du_PubKey = barr_copy [1], du_Slot = 66\<rparr>]"]
    sample_mgr_ok(1) sample_root
  by (auto simp: fork_Version_def IsCapella_def zero_fork_state_def slot_Epoch_def SlotsPerEpoch_def)


end
