(* ===== verification/RegistrationStore.thy ===== *)
theory RegistrationStore
  imports Samples
begin

text \<open>
  Where validator registrations are kept: the database of \<open>src/datastore/validator/badger\<close> and the
  store manager of \<open>src/validators/storemanager.go\<close>, which writes to it and to a cache in memory.
  The key-value database, the JSON codec and the texts of public keys are the record \<open>reg_db\<close>, the
  cache of the manager is the record \<open>validator_cache\<close>.

  The database keeps, besides a registration, its timestamp under a key of its own, and ignores older
  registrations.  The locale \<open>registration_store\<close> is the contract of \<open>ValidatorStore\<close> that the
  manager relies on; the database is shown to satisfy it.  Entries do not expire in the model: what is
  said of the database holds until their time to live is over.  A store request is its list of
  registrations; the time that \<open>StoreReqItem\<close> has beside them is never read.
\<close>

section \<open>The database of registrations\<close>

record 'w reg_db =
  db_Get :: "string \<Rightarrow> 'w \<Rightarrow> (go_error, bytes) res"
  db_PutWithTTL :: "string \<Rightarrow> bytes \<Rightarrow> int \<Rightarrow> 'w \<Rightarrow> go_error option \<times> 'w"
  ds_NewKey :: "string \<Rightarrow> string"
  ds_ErrNotFound :: go_error
  pubkey_String :: "pubkey \<Rightarrow> string"
  reg_Marshal :: "signed_registration \<Rightarrow> (go_error, bytes) res"
  reg_Unmarshal :: "bytes \<Rightarrow> (go_error, signed_registration) res"

definition RegistrationKey :: "'w reg_db \<Rightarrow> pubkey \<Rightarrow> string" where
  "RegistrationKey K pk = ds_NewKey K (''registration-'' @ pubkey_String K pk)"

definition RegistrationTimeKey :: "'w reg_db \<Rightarrow> pubkey \<Rightarrow> string" where
  "RegistrationTimeKey K pk = ds_NewKey K (''reg-t-'' @ pubkey_String K pk)"

definition datastore_ErrNotFound :: go_error where
  "datastore_ErrNotFound = ErrNew ''not found''"

text \<open>The registration is stored already, or a newer one, if its time is below the stored time.\<close>

definition have_newer :: "'w reg_db \<Rightarrow> pubkey \<Rightarrow> u64 \<Rightarrow> 'w \<Rightarrow> bool" where
  "have_newer K pk ts w =
     (case db_Get K (RegistrationTimeKey K pk) w of
        Ok time \<Rightarrow> length time = 8 \<and> ts < of_nat (le_val time)
      | _ \<Rightarrow> False)"

definition PutNewerRegistration ::
  "'w reg_db \<Rightarrow> int \<Rightarrow> pubkey \<Rightarrow> signed_registration \<Rightarrow> (go_error, 'w, unit) handler" where
  "PutNewerRegistration K ttl pk registration w =
     (case reg_Marshal K registration of
        Err e \<Rightarrow> (Err e, w)
      | Panic \<Rightarrow> (Panic, w)
      | Ok data \<Rightarrow>
          (case sreg_Message registration of
             None \<Rightarrow> (Panic, w)
           | Some msg \<Rightarrow>
               if have_newer K pk (reg_Timestamp msg) w then (Ok (), w)
               else
                 (case db_PutWithTTL K (RegistrationTimeKey K pk) (le_bytes 8 (unat (reg_Timestamp msg))) ttl w of
                    (Some e, w') \<Rightarrow> (Err e, w')
                  | (None, w') \<Rightarrow>
                      (case db_PutWithTTL K (RegistrationKey K pk) data ttl w' of
                         (Some e, w'') \<Rightarrow> (Err e, w'')
                       | (None, w'') \<Rightarrow> (Ok (), w'')))))"

definition GetRegistration :: "'w reg_db \<Rightarrow> pubkey \<Rightarrow> 'w \<Rightarrow> (go_error, signed_registration) res" where
  "GetRegistration K pk w =
     (case db_Get K (RegistrationKey K pk) w of
        Err e \<Rightarrow> Err (if e = ds_ErrNotFound K then datastore_ErrNotFound else e)
      | Panic \<Rightarrow> Panic
      | Ok data \<Rightarrow> reg_Unmarshal K data)"

section \<open>The store manager\<close>

record 'c validator_cache =
  cache_Add :: "pubkey \<Rightarrow> validator_cache_entry \<Rightarrow> 'c \<Rightarrow> 'c"
  cache_Get :: "pubkey \<Rightarrow> 'c \<Rightarrow> validator_cache_entry option \<times> 'c"

record ('c, 'w) store_manager =
  RegistrationCache :: 'c
  sm_store :: 'w
  StoreCh :: "signed_registration list list"
  sm_isClosed :: bool

text \<open>
  \<open>Check\<close> at the time \<open>now\<close> (nanoseconds), with the random number \<open>rnd\<close> that \<open>rand.Intn\<close> returns; it
  panics on a lifetime that is not positive.
\<close>

definition Check ::
  "'c validator_cache \<Rightarrow> int \<Rightarrow> int \<Rightarrow> int \<Rightarrow> registration_message option \<Rightarrow> (go_error, 'c, bool) handler" where
  "Check V writeTTLSeconds now rnd rvg c =
     (case rvg of
        None \<Rightarrow> (Panic, c)
      | Some m \<Rightarrow>
          (case cache_Get V (reg_Pubkey m) c of
             (None, c') \<Rightarrow> (Ok False, c')
           | (Some v, c') \<Rightarrow>
               if writeTTLSeconds \<le> 0 then (Panic, c')
               else if now - vce_Time v > (writeTTLSeconds + rnd - writeTTLSeconds * 5 div 100) * 10 ^ 9 then (Ok False, c')
               else
                 (case sreg_Message (vce_Entry v) of
                    None \<Rightarrow> (Panic, c')
                  | Some e \<Rightarrow> (Ok (reg_FeeRecipient e = reg_FeeRecipient m \<and> reg_GasLimit e = reg_GasLimit m), c'))))"

definition SendStore :: "signed_registration list \<Rightarrow> ('c, 'w) store_manager \<Rightarrow> ('c, 'w) store_manager" where
  "SendStore request m = (if sm_isClosed m then m else m\<lparr>StoreCh := StoreCh m @ [request]\<rparr>)"

definition sm_Close :: "('c, 'w) store_manager \<Rightarrow> (go_error, unit) res \<times> ('c, 'w) store_manager" where
  "sm_Close m = (if sm_isClosed m then (Panic, m) else (Ok (), m\<lparr>sm_isClosed := True\<rparr>))"

text \<open>
  \<open>storeRegistration\<close>: each item is put into the store, then into the cache with the time \<open>now\<close> of
  its turn; the first error ends the request.
\<close>

fun storeRegistration ::
  "'c validator_cache \<Rightarrow> (pubkey \<Rightarrow> signed_registration \<Rightarrow> (go_error, 'w, unit) handler) \<Rightarrow> (nat \<Rightarrow> int) \<Rightarrow>
     signed_registration list \<Rightarrow> (go_error, ('c, 'w) store_manager, unit) handler" where
  "storeRegistration V putNewer now [] m = (Ok (), m)"
| "storeRegistration V putNewer now (p # ps) m =
     (case sreg_Message p of
        None \<Rightarrow> (Panic, m)
      | Some msg \<Rightarrow>
          (case putNewer (reg_Pubkey msg) p (sm_store m) of
             (Ok _, w) \<Rightarrow>
               storeRegistration V putNewer (\<lambda>i. now (Suc i)) ps
                 (m\<lparr>sm_store := w,
                    RegistrationCache := cache_Add V (reg_Pubkey msg) \<lparr>vce_Time = now 0, vce_Entry = p\<rparr> (RegistrationCache m)\<rparr>)
           | (Err e, w) \<Rightarrow> (Err e, m\<lparr>sm_store := w\<rparr>)
           | (Panic, w) \<Rightarrow> (Panic, m\<lparr>sm_store := w\<rparr>)))"

text \<open>A worker takes the oldest request; an error is logged and the worker goes on.\<close>

definition ParallelStore_step ::
  "'c validator_cache \<Rightarrow> (pubkey \<Rightarrow> signed_registration \<Rightarrow> (go_error, 'w, unit) handler) \<Rightarrow> (nat \<Rightarrow> int) \<Rightarrow>
     ('c, 'w) store_manager \<Rightarrow> (go_error, unit) res \<times> ('c, 'w) store_manager" where
  "ParallelStore_step V putNewer now m =
     (case StoreCh m of
        [] \<Rightarrow> (Ok (), m)
      | request # rest \<Rightarrow>
          (case storeRegistration V putNewer now request (m\<lparr>StoreCh := rest\<rparr>) of
             (Panic, m') \<Rightarrow> (Panic, m')
           | (_, m') \<Rightarrow> (Ok (), m')))"

section \<open>What the manager relies on\<close>

text \<open>
  The contract of a store of registrations.  \<open>time_of\<close> is the time the store holds for a key: a put
  of an older registration succeeds and changes nothing, any other successful put replaces the
  registration, and no put touches the registration of another key.
\<close>

locale registration_store =
  fixes put :: "pubkey \<Rightarrow> signed_registration \<Rightarrow> (go_error, 'w, unit) handler"
    and get :: "pubkey \<Rightarrow> 'w \<Rightarrow> (go_error, signed_registration) res"
    and time_of :: "pubkey \<Rightarrow> 'w \<Rightarrow> u64 option"
  assumes put_new: "\<lbrakk>put pk r w = (Ok (), w'); sreg_Message r = Some m; \<forall>t. time_of pk w = Some t \<longrightarrow> t \<le> reg_Timestamp m\<rbrakk>
      \<Longrightarrow> get pk w' = Ok r \<and> time_of pk w' = Some (reg_Timestamp m)"
    and put_old: "\<lbrakk>put pk r w = (Ok (), w'); sreg_Message r = Some m; time_of pk w = Some t; reg_Timestamp m < t\<rbrakk>
      \<Longrightarrow> get pk w' = get pk w \<and> time_of pk w' = Some t"
    and put_other: "\<lbrakk>put pk r w = (x, w'); pk' \<noteq> pk\<rbrakk> \<Longrightarrow> get pk' w' = get pk' w \<and> time_of pk' w' = time_of pk' w"
begin

text \<open>The registration held under a key is one for that key, with the time held for it.\<close>

definition timed :: "'w \<Rightarrow> bool" where
  "timed w \<longleftrightarrow> (\<forall>pk t. time_of pk w = Some t \<longrightarrow>
     (\<exists>r m. get pk w = Ok r \<and> sreg_Message r = Some m \<and> reg_Pubkey m = pk \<and> reg_Timestamp m = t))"

lemma put_cases:
  assumes "put pk r w = (Ok (), w')" "sreg_Message r = Some m"
  obtains "get pk w' = Ok r" "time_of pk w' = Some (reg_Timestamp m)" "\<forall>t. time_of pk w = Some t \<longrightarrow> t \<le> reg_Timestamp m"
  | t where "get pk w' = get pk w" "time_of pk w' = Some t" "time_of pk w = Some t" "reg_Timestamp m < t"
  using put_new [OF assms] put_old [OF assms] by (meson not_le)

lemma put_timed:
  assumes "put (reg_Pubkey m) r w = (Ok (), w')" "sreg_Message r = Some m" "timed w"
  shows "timed w'"
  unfolding timed_def
proof (intro allI impI)
  fix pk t
  assume t: "time_of pk w' = Some t"
  show "\<exists>r m. get pk w' = Ok r \<and> sreg_Message r = Some m \<and> reg_Pubkey m = pk \<and> reg_Timestamp m = t"
  proof (cases "pk = reg_Pubkey m")
    case True
    from assms(1,2) show ?thesis
      by (cases rule: put_cases) (use t True assms(2,3) in \<open>auto simp: timed_def\<close>)
  next
    case False
    then show ?thesis
      using put_other [OF assms(1)] t assms(3) by (simp add: timed_def)
  qed
qed

lemma put_later:
  assumes "put pk r w = (Ok (), w')" "sreg_Message r = Some m"
  shows "(\<exists>t'. time_of pk w' = Some t' \<and> reg_Timestamp m \<le> t')
     \<and> (time_of pk' w = Some t \<longrightarrow> (\<exists>t'. time_of pk' w' = Some t' \<and> t \<le> t'))"
proof (cases "pk' = pk")
  case True
  from assms show ?thesis
    by (cases rule: put_cases) (use True in auto)
next
  case False
  from assms show ?thesis
    by (cases rule: put_cases) (use False put_other [OF assms(1)] in auto)
qed

lemma put_origin:
  assumes "put pk r w = (Ok (), w')" "sreg_Message r = Some m"
  shows "get pk' w' = get pk' w \<or> get pk' w' = Ok r"
  using put_other [OF assms(1)] put_new [OF assms] put_old [OF assms] by (metis not_le)

lemma storeRegistration_keeps:
  assumes "storeRegistration V put now rs s = (Ok (), s')" "timed (sm_store s)"
  shows "timed (sm_store s')
    \<and> (\<forall>pk t. time_of pk (sm_store s) = Some t \<longrightarrow> (\<exists>t'. time_of pk (sm_store s') = Some t' \<and> t \<le> t'))
    \<and> (\<forall>r m. r \<in> set rs \<longrightarrow> sreg_Message r = Some m \<longrightarrow>
          (\<exists>t'. time_of (reg_Pubkey m) (sm_store s') = Some t' \<and> reg_Timestamp m \<le> t'))
    \<and> (\<forall>pk. get pk (sm_store s') = get pk (sm_store s) \<or> (\<exists>r \<in> set rs. get pk (sm_store s') = Ok r))"
  using assms
proof (induction rs arbitrary: s now)
  case Nil
  then show ?case by auto
next
  case (Cons p ps)
  from Cons.prems(1) obtain msg w where p: "sreg_Message p = Some msg"
    and w: "put (reg_Pubkey msg) p (sm_store s) = (Ok (), w)"
    and rest: "storeRegistration V put (\<lambda>i. now (Suc i)) ps
        (s\<lparr>sm_store := w, RegistrationCache :=
             cache_Add V (reg_Pubkey msg) \<lparr>vce_Time = now 0, vce_Entry = p\<rparr> (RegistrationCache s)\<rparr>) = (Ok (), s')"
    by (auto split: option.splits prod.splits res.splits)
  note later = put_later [OF w p]
  note IH = Cons.IH [OF rest, simplified, OF put_timed [OF w p Cons.prems(2)]]
  have step: "\<exists>t'. time_of pk (sm_store s') = Some t' \<and> t \<le> t'" if "time_of pk w = Some t" for pk t
    using that IH by blast
  have "\<exists>t'. time_of (reg_Pubkey m) (sm_store s') = Some t' \<and> reg_Timestamp m \<le> t'"
    if "r \<in> set (p # ps)" "sreg_Message r = Some m" for r m
  proof (cases "r = p")
    case True
    with that p have "m = msg" by simp
    with later step show ?thesis by (meson order_trans)
  next
    case False
    with that IH show ?thesis by simp
  qed
  moreover have "\<exists>t'. time_of pk (sm_store s') = Some t' \<and> t \<le> t'" if "time_of pk (sm_store s) = Some t" for pk t
    using later [of pk t] that step by (meson order_trans)
  moreover have "get pk (sm_store s') = get pk (sm_store s) \<or> (\<exists>r \<in> set (p # ps). get pk (sm_store s') = Ok r)" for pk
    using IH put_origin [OF w p, of pk] by (metis list.set_intros)
  ultimately show ?case
    using IH by (intro conjI) (blast+)
qed

lemma storeRegistration_newest:
  assumes "storeRegistration V put now rs s = (Ok (), s')" "timed (sm_store s)"
    and "\<forall>pk. time_of pk (sm_store s) = None" "\<forall>pk r. get pk (sm_store s) \<noteq> Ok r"
    and "r \<in> set rs" "sreg_Message r = Some m"
  shows "\<exists>r' m'. get (reg_Pubkey m) (sm_store s') = Ok r' \<and> r' \<in> set rs \<and> sreg_Message r' = Some m'
           \<and> reg_Pubkey m' = reg_Pubkey m \<and> reg_Timestamp m \<le> reg_Timestamp m'"
proof -
  note k = storeRegistration_keeps [OF assms(1,2)]
  from k assms(5,6) obtain t where t: "time_of (reg_Pubkey m) (sm_store s') = Some t" "reg_Timestamp m \<le> t"
    by blast
  with k obtain r' m' where r': "get (reg_Pubkey m) (sm_store s') = Ok r'" "sreg_Message r' = Some m'"
    "reg_Pubkey m' = reg_Pubkey m" "reg_Timestamp m' = t"
    unfolding timed_def by blast
  moreover have "r' \<in> set rs"
    using k r'(1) assms(4) by (metis res.inject(1))
  ultimately show ?thesis
    using t(2) by blast
qed

end

section \<open>The database satisfies the contract\<close>

definition stored_time :: "'w reg_db \<Rightarrow> pubkey \<Rightarrow> 'w \<Rightarrow> u64 option" where
  "stored_time K pk w =
     (case db_Get K (RegistrationTimeKey K pk) w of
        Ok time \<Rightarrow> if length time = 8 then Some (of_nat (le_val time)) else None
      | _ \<Rightarrow> None)"

lemma time_text: "of_nat (le_val (le_bytes 8 (unat (t :: u64)))) = t"
proof -
  have "unat t < 256 ^ 8"
    using unsigned_less [of t] by simp
  then show ?thesis
    by (simp add: le_val_le_bytes)
qed

lemma le_bytes_nonempty: "le_bytes 8 n \<noteq> []"
  using length_le_bytes [of 8 n] by fastforce

lemma have_newer_iff: "have_newer K pk ts w \<longleftrightarrow> (\<exists>t. stored_time K pk w = Some t \<and> ts < t)"
  by (auto simp: have_newer_def stored_time_def split: res.splits)

text \<open>
  What the libraries promise: a value put is the value read, a put concerns one key and has no effect
  when it fails, a text without a slash becomes a key by a leading slash, the texts of public keys have
  no slash and are different for different keys, and decoding inverts encoding.
\<close>

locale reg_db_laws =
  fixes K :: "'w reg_db" and ttl :: int
  assumes get_put: "db_PutWithTTL K k v ttl w = (None, w') \<Longrightarrow> db_Get K k w' = Ok v"
    and get_other: "\<lbrakk>db_PutWithTTL K k v ttl w = (None, w'); k' \<noteq> k\<rbrakk> \<Longrightarrow> db_Get K k' w' = db_Get K k' w"
    and put_failed: "db_PutWithTTL K k v ttl w = (Some e, w') \<Longrightarrow> db_Get K k' w' = db_Get K k' w"
    and key_text: "CHR ''/'' \<notin> set s \<Longrightarrow> ds_NewKey K s = CHR ''/'' # s"
    and pubkey_text: "CHR ''/'' \<notin> set (pubkey_String K pk)"
    and pubkey_text_inj: "pubkey_String K p = pubkey_String K q \<Longrightarrow> p = q"
    and reg_codec: "reg_Marshal K r = Ok d \<Longrightarrow> reg_Unmarshal K d = Ok r"
begin

lemma keys_differ [simp]:
  "RegistrationKey K p \<noteq> RegistrationTimeKey K q"
  "RegistrationTimeKey K p \<noteq> RegistrationKey K q"
  "RegistrationKey K p = RegistrationKey K q \<longleftrightarrow> p = q"
  "RegistrationTimeKey K p = RegistrationTimeKey K q \<longleftrightarrow> p = q"
  using pubkey_text [of p] pubkey_text [of q] pubkey_text_inj
  by (auto simp: RegistrationKey_def RegistrationTimeKey_def key_text)

lemma PutNewer_Ok:
  assumes "PutNewerRegistration K ttl pk r w = (Ok (), w')" "sreg_Message r = Some m"
    "\<not> have_newer K pk (reg_Timestamp m) w"
  shows "GetRegistration K pk w' = Ok r \<and> stored_time K pk w' = Some (reg_Timestamp m)"
proof -
  from assms obtain d w1 where d: "reg_Marshal K r = Ok d"
    and 1: "db_PutWithTTL K (RegistrationTimeKey K pk) (le_bytes 8 (unat (reg_Timestamp m))) ttl w = (None, w1)"
    and 2: "db_PutWithTTL K (RegistrationKey K pk) d ttl w1 = (None, w')"
    by (auto simp: PutNewerRegistration_def split: res.splits prod.splits option.splits)
  have "db_Get K (RegistrationTimeKey K pk) w' = Ok (le_bytes 8 (unat (reg_Timestamp m)))"
    using get_other [OF 2] get_put [OF 1] by simp
  then show ?thesis
    using get_put [OF 2] reg_codec [OF d] by (simp add: GetRegistration_def stored_time_def time_text)
qed

lemma PutNewer_other:
  assumes "PutNewerRegistration K ttl pk r w = (x, w')" "k \<noteq> RegistrationKey K pk" "k \<noteq> RegistrationTimeKey K pk"
  shows "db_Get K k w' = db_Get K k w"
  using assms by (auto simp: PutNewerRegistration_def get_other put_failed
      split: res.splits prod.splits option.splits if_splits)

end

sublocale reg_db_laws \<subseteq> registers: registration_store "PutNewerRegistration K ttl" "GetRegistration K" "stored_time K"
proof (unfold_locales, goal_cases)
  case (1 pk r w w' m)
  then show ?case
    by (intro PutNewer_Ok) (auto simp: have_newer_iff not_less)
next
  case (2 pk r w w' m t)
  then have "have_newer K pk (reg_Timestamp m) w"
    by (auto simp: have_newer_iff)
  with 2 show ?case
    by (auto simp: PutNewerRegistration_def split: res.splits)
next
  case (3 pk r w x w' pk')
  then show ?case
    using PutNewer_other [OF 3(1)] by (simp add: GetRegistration_def stored_time_def)
qed

context reg_db_laws
begin

lemmas store_newest = registers.storeRegistration_newest
lemmas timed_store_def = registers.timed_def

lemma store_old_keeps:
  assumes "PutNewerRegistration K ttl pk r w = (Ok (), w')" "sreg_Message r = Some m"
    "stored_time K pk w = Some t" "reg_Timestamp m < t"
  shows "GetRegistration K pk w' = GetRegistration K pk w"
  using registers.put_old [OF assms] by simp

end

section \<open>A database in memory\<close>

text \<open>
  Keys and values in a map, registrations as their fields one after the other, and public keys in
  hexadecimal.
\<close>

definition hex_text :: "pubkey \<Rightarrow> string" where
  "hex_text pk = ''0x'' @ EncodeToString (barr_list pk)"

definition reg_bytes :: "signed_registration \<Rightarrow> bytes" where
  "reg_bytes r = barr_list (sreg_Signature r) @
     (case sreg_Message r of None \<Rightarrow> []
      | Some m \<Rightarrow> barr_list (reg_FeeRecipient m) @ le_bytes 8 (unat (reg_GasLimit m))
                  @ le_bytes 8 (unat (reg_Timestamp m)) @ barr_list (reg_Pubkey m))"

definition reg_of_bytes :: "bytes \<Rightarrow> signed_registration" where
  "reg_of_bytes bs =
     \<lparr>sreg_Message =
        (if length bs = 96 then None
         else Some \<lparr>reg_FeeRecipient = barr_copy (slice 96 116 bs), reg_GasLimit = of_nat (le_val (slice 116 124 bs)),
                    reg_Timestamp = of_nat (le_val (slice 124 132 bs)), reg_Pubkey = barr_copy (slice 132 180 bs)\<rparr>),
      sreg_Signature = barr_copy (take 96 bs)\<rparr>"

definition mem_db :: "(string \<Rightarrow> bytes option) reg_db" where
  "mem_db =
     \<lparr>db_Get = (\<lambda>k w. case w k of None \<Rightarrow> Err (ErrNew ''datastore: key not found'') | Some v \<Rightarrow> Ok v),
      db_PutWithTTL = (\<lambda>k v t w. (None, w(k \<mapsto> v))),
      ds_NewKey = (\<lambda>s. CHR ''/'' # s), ds_ErrNotFound = ErrNew ''datastore: key not found'',
      pubkey_String = hex_text, reg_Marshal = (\<lambda>r. Ok (reg_bytes r)), reg_Unmarshal = (\<lambda>bs. Ok (reg_of_bytes bs))\<rparr>"

lemma hex_text_inj: "hex_text p = hex_text q \<Longrightarrow> p = q"
  by (simp add: hex_text_def EncodeToString_inj barr_eq_iff)

lemma hex_text_no_slash: "CHR ''/'' \<notin> set (hex_text pk)"
  using EncodeToString_chars [of "CHR ''/''" "barr_list pk"] by (auto simp: hex_text_def)

lemma reg_of_bytes_bytes: "reg_of_bytes (reg_bytes r) = r"
  by (cases r) (simp add: reg_of_bytes_def reg_bytes_def slice_def time_text le_bytes_nonempty split: option.splits)

interpretation mem: reg_db_laws mem_db ttl
  by unfold_locales
    (auto simp: mem_db_def hex_text_no_slash reg_of_bytes_bytes split: option.splits dest: hex_text_inj)

section \<open>Properties\<close>

definition sample_reg :: "byte \<Rightarrow> u64 \<Rightarrow> signed_registration" where
  "sample_reg fee ts =
     \<lparr>sreg_Message = Some \<lparr>reg_FeeRecipient = barr_copy [fee], reg_GasLimit = 30, reg_Timestamp = ts, reg_Pubkey = barr_copy [7]\<rparr>,
      sreg_Signature = barr_copy [8]\<rparr>"

definition sample_cache :: "(pubkey \<Rightarrow> validator_cache_entry option) validator_cache" where
  "sample_cache = \<lparr>cache_Add = (\<lambda>k e c. c(k \<mapsto> e)), cache_Get = (\<lambda>k c. (c k, c))\<rparr>"

definition sample_manager :: "(pubkey \<Rightarrow> validator_cache_entry option, string \<Rightarrow> bytes option) store_manager" where
  "sample_manager = \<lparr>RegistrationCache = Map.empty, sm_store = Map.empty, StoreCh = [], sm_isClosed = False\<rparr>"

lemma sample_reg_Message [simp]:
  "sreg_Message (sample_reg fee ts) =
     Some \<lparr>reg_FeeRecipient = barr_copy [fee], reg_GasLimit = 30, reg_Timestamp = ts, reg_Pubkey = barr_copy [7]\<rparr>"
  by (simp add: sample_reg_def)

lemma sample_put:
  "PutNewerRegistration mem_db ttl pk (sample_reg fee ts) w =
     (Ok (), if have_newer mem_db pk ts w then w
             else w(RegistrationTimeKey mem_db pk \<mapsto> le_bytes 8 (unat ts), RegistrationKey mem_db pk \<mapsto> reg_bytes (sample_reg fee ts)))"
  by (simp add: PutNewerRegistration_def mem_db_def)

lemma sample_store:
  "fst (storeRegistration sample_cache (PutNewerRegistration mem_db ttl) now [sample_reg a t, sample_reg b u] sample_manager) = Ok ()"
  by (simp add: sample_put)

definition sample_registered :: "(pubkey \<Rightarrow> validator_cache_entry option, string \<Rightarrow> bytes option) store_manager" where
  "sample_registered = snd (storeRegistration sample_cache (PutNewerRegistration mem_db 9) (\<lambda>_. 0) [sample_reg 1 5] sample_manager)"

definition sample_replayed :: "(pubkey \<Rightarrow> validator_cache_entry option, string \<Rightarrow> bytes option) store_manager" where
  "sample_replayed = snd (storeRegistration sample_cache (PutNewerRegistration mem_db 9) (\<lambda>_. 1) [sample_reg 2 3] sample_registered)"

lemma mem_Get: "db_Get mem_db k w = (case w k of None \<Rightarrow> Err (ErrNew ''datastore: key not found'') | Some v \<Rightarrow> Ok v)"
  by (simp add: mem_db_def)

lemma sample_registered_store:
  "sm_store sample_registered =
     [RegistrationTimeKey mem_db (barr_copy [7]) \<mapsto> le_bytes 8 (unat (5 :: u64)), RegistrationKey mem_db (barr_copy [7]) \<mapsto> reg_bytes (sample_reg 1 5)]"
  by (simp add: sample_registered_def sample_put sample_manager_def have_newer_def mem_Get)

lemma sample_registered_time: "stored_time mem_db (barr_copy [7]) (sm_store sample_registered) = Some 5"
  unfolding stored_time_def sample_registered_store mem_Get using mem.keys_differ time_text [of 5] by simp

lemma sample_registered_get: "GetRegistration mem_db (barr_copy [7]) (sm_store sample_registered) = Ok (sample_reg 1 5)"
  unfolding GetRegistration_def sample_registered_store mem_Get
  by (simp add: mem_db_def reg_of_bytes_bytes)

text \<open>
  C19: The store keeps the newest registration.  Once a request that starts from an empty store has been
  stored without error, the registration read for a validator in it is one of the request for that
  validator, and none of the request for that validator has a later timestamp; in whatever order they
  were put.
\<close>

theorem storeRegistration_keeps_newest:
  assumes "reg_db_laws K ttl" and "\<forall>k. db_Get K k (sm_store s) = Err (ds_ErrNotFound K)"
    and "storeRegistration V (PutNewerRegistration K ttl) now rs s = (Ok (), s')"
    and "r \<in> set rs" and "sreg_Message r = Some m"
  shows "\<exists>r' m'. GetRegistration K (reg_Pubkey m) (sm_store s') = Ok r' \<and> r' \<in> set rs \<and> sreg_Message r' = Some m'
           \<and> reg_Pubkey m' = reg_Pubkey m
           \<and> (\<forall>q n. q \<in> set rs \<longrightarrow> sreg_Message q = Some n \<longrightarrow> reg_Pubkey n = reg_Pubkey m \<longrightarrow> reg_Timestamp n \<le> reg_Timestamp m')"
proof -
  have none: "stored_time K pk (sm_store s) = None" "GetRegistration K pk (sm_store s) \<noteq> Ok x" for pk x
    using assms(2) by (simp_all add: stored_time_def GetRegistration_def)
  have newest: "\<exists>r' m'. GetRegistration K (reg_Pubkey n) (sm_store s') = Ok r' \<and> r' \<in> set rs \<and> sreg_Message r' = Some m'
      \<and> reg_Pubkey m' = reg_Pubkey n \<and> reg_Timestamp n \<le> reg_Timestamp m'"
    if "q \<in> set rs" "sreg_Message q = Some n" for q n
    using reg_db_laws.store_newest [OF assms(1) assms(3) _ _ _ that] none
    by (simp add: reg_db_laws.timed_store_def [OF assms(1)])
  from newest [OF assms(4,5)] obtain r' m' where r': "GetRegistration K (reg_Pubkey m) (sm_store s') = Ok r'"
    "r' \<in> set rs" "sreg_Message r' = Some m'" "reg_Pubkey m' = reg_Pubkey m"
    by blast
  have "reg_Timestamp n \<le> reg_Timestamp m'"
    if "q \<in> set rs" "sreg_Message q = Some n" "reg_Pubkey n = reg_Pubkey m" for q n
    using newest [OF that(1,2)] r' that(3) by auto
  with r' show ?thesis
    by blast
qed

theorem storeRegistration_keeps_newest_witness:
  "\<exists>r' m'. GetRegistration mem_db (barr_copy [7])
       (sm_store (snd (storeRegistration sample_cache (PutNewerRegistration mem_db 9) (\<lambda>_. 0) [sample_reg 1 5, sample_reg 2 3] sample_manager))) = Ok r'
     \<and> sreg_Message r' = Some m' \<and> 5 \<le> reg_Timestamp m'"
proof -
  let ?m = "\<lparr>reg_FeeRecipient = barr_copy [1], reg_GasLimit = 30, reg_Timestamp = 5, reg_Pubkey = barr_copy [7]\<rparr>"
  have 1: "sreg_Message (sample_reg 1 5) = Some ?m"
    by (simp add: sample_reg_def)
  have 2: "\<forall>k. db_Get mem_db k (sm_store sample_manager) = Err (ds_ErrNotFound mem_db)"
    by (simp add: sample_manager_def mem_db_def)
  have 3: "storeRegistration sample_cache (PutNewerRegistration mem_db 9) (\<lambda>_. 0) [sample_reg 1 5, sample_reg 2 3] sample_manager
      = (Ok (), snd (storeRegistration sample_cache (PutNewerRegistration mem_db 9) (\<lambda>_. 0) [sample_reg 1 5, sample_reg 2 3] sample_manager))"
    using sample_store by (metis prod.collapse)
  have 4: "sample_reg 1 5 \<in> set [sample_reg 1 5, sample_reg 2 3]"
    by simp
  show ?thesis
    using storeRegistration_keeps_newest [OF mem.reg_db_laws_axioms 2 3 4 1] 1 4 by (metis registration_message.select_convs(3,4))
qed

text \<open>
  A replayed registration changes what the relay accepts.  When a registration older than the
  stored one is stored again, the store ignores it but the cache takes it.  The relay asks the cache
  first, so it then accepts blocks that pay the fee recipient of the old registration, with the gas
  limit of the old registration.
\<close>

theorem old_registration_replaces_cached:
  assumes "reg_db_laws K ttl" and "\<And>pk e c. fst (cache_Get V pk (cache_Add V pk e c)) = Some e"
    and "sreg_Message old = Some m" and "stored_time K (reg_Pubkey m) (sm_store s) = Some t" and "reg_Timestamp m < t"
    and "storeRegistration V (PutNewerRegistration K ttl) now [old] s = (Ok (), s')"
    and "fst (vc_Get D (reg_Pubkey m) (rs_world rs)) = fst (cache_Get V (reg_Pubkey m) (RegistrationCache s'))"
    and "0 < RegistrationCacheTTL cfg"
  shows "GetRegistration K (reg_Pubkey m) (sm_store s') = GetRegistration K (reg_Pubkey m) (sm_store s)
       \<and> fst (checkRegistration cfg D now' rnd (reg_Pubkey m) (reg_FeeRecipient m) rs) = Ok (reg_GasLimit m)"
proof -
  from assms(3,6) obtain w where w: "PutNewerRegistration K ttl (reg_Pubkey m) old (sm_store s) = (Ok (), w)"
    and s': "s' = s\<lparr>sm_store := w,
      RegistrationCache := cache_Add V (reg_Pubkey m) \<lparr>vce_Time = now 0, vce_Entry = old\<rparr> (RegistrationCache s)\<rparr>"
    by (auto split: prod.splits res.splits)
  have "fst (vc_Get D (reg_Pubkey m) (rs_world rs)) = Some \<lparr>vce_Time = now 0, vce_Entry = old\<rparr>"
    using assms(2,7) by (simp add: s')
  then have "fst (checkRegistration cfg D now' rnd (reg_Pubkey m) (reg_FeeRecipient m) rs) = Ok (reg_GasLimit m)"
    using assms(3,8)
    by (auto simp: checkRegistration_def check_cached_def bind_h_def lift_h_def Let_def split: prod.splits)
  then show ?thesis
    using reg_db_laws.store_old_keeps [OF assms(1) w assms(3,4,5)] by (simp add: s')
qed

theorem old_registration_replaces_cached_witness:
  "GetRegistration mem_db (barr_copy [7]) (sm_store sample_replayed) = Ok (sample_reg 1 5)
    \<and> fst (checkRegistration sample_config (sample_deps\<lparr>vc_Get := (\<lambda>k w. (RegistrationCache sample_replayed k, w))\<rparr>) 2 0
            (barr_copy [7]) (barr_copy [2]) sample_state) = Ok 30"
proof -
  let ?m = "\<lparr>reg_FeeRecipient = barr_copy [2], reg_GasLimit = 30, reg_Timestamp = 3, reg_Pubkey = barr_copy [7]\<rparr>"
  have "storeRegistration sample_cache (PutNewerRegistration mem_db 9) (\<lambda>_. 1) [sample_reg 2 3] sample_registered = (Ok (), sample_replayed)"
    by (simp add: sample_replayed_def sample_put)
  moreover have "fst (vc_Get (sample_deps\<lparr>vc_Get := (\<lambda>k w. (RegistrationCache sample_replayed k, w))\<rparr>) (reg_Pubkey ?m) (rs_world sample_state))
      = fst (cache_Get sample_cache (reg_Pubkey ?m) (RegistrationCache sample_replayed))"
    by (simp add: sample_cache_def)
  ultimately show ?thesis
    using old_registration_replaces_cached [where K = mem_db and ttl = 9 and V = sample_cache and old = "sample_reg 2 3" and m = ?m
        and t = 5 and s = sample_registered and s' = sample_replayed and now = "\<lambda>_. 1" and cfg = sample_config and rs = sample_state
        and now' = 2 and rnd = 0 and D = "sample_deps\<lparr>vc_Get := (\<lambda>k w. (RegistrationCache sample_replayed k, w))\<rparr>"]
    by (simp add: mem.reg_db_laws_axioms sample_registered_time sample_registered_get sample_cache_def sample_config_def)
qed

end
