(* ===== verification/Verify.thy ===== *)
theory Verify
  imports GoStd
begin

text \<open>
  The verification service of \<open>src/verify\<close>: the checks around the BLS library (\<open>process.go\<close>), the
  response shared by the requests of one call (\<open>StoreResp\<close> of \<open>verify.go\<close>) and the worker and
  \<open>Enqueue\<close> of \<open>manager.go\<close>.  The BLS library is the record \<open>bls_lib\<close>.  A worker's effect on a response
  is one call of \<open>Send\<close>, which takes the response's lock, so the orders in which workers serve
  requests are the orders of a list of requests.

  The lemmas show that \<open>VerifySignatureBytes\<close> never panics, that a response is closed exactly when
  its last request has been answered or one has failed, and that its verdict does not depend on the
  order of the answers.  They also show what \<open>Enqueue\<close> makes of that verdict.
\<close>

section \<open>Signatures\<close>

text \<open>
  \<open>bls_panic\<close> is the error that the deferred handler makes of a panic of the library.
\<close>

record ('g1, 'g2) bls_lib =
  g1_Unmarshal :: "bytes \<Rightarrow> (go_error, 'g1) res"
  g2_Unmarshal :: "bytes \<Rightarrow> (go_error, 'g2) res"
  HashToG2 :: "bytes \<Rightarrow> bytes \<Rightarrow> (go_error, 'g2) res"
  g1_Neg :: "'g1 \<Rightarrow> 'g1"
  g1One :: 'g1
  PairingCheck :: "'g1 list \<Rightarrow> 'g2 list \<Rightarrow> (go_error, bool) res"
  bls_panic :: go_error

definition dst :: bytes where
  "dst = string_bytes ''BLS_SIG_BLS12381G2_XMD:SHA-256_SSWU_RO_POP_''"

definition PublicKeyLength :: nat where
  "PublicKeyLength = 48"

definition SignatureLength :: nat where
  "SignatureLength = 96"

definition ErrInvalidPubkeyLength :: go_error where
  "ErrInvalidPubkeyLength = ErrNew ''invalid public key length''"

definition ErrInvalidSignatureLength :: go_error where
  "ErrInvalidSignatureLength = ErrNew ''invalid signature length''"

definition PublicKeyFromBytes :: "('g1, 'g2) bls_lib \<Rightarrow> bytes \<Rightarrow> (go_error, 'g1) res" where
  "PublicKeyFromBytes B pkBytes =
     (if length pkBytes \<noteq> PublicKeyLength then Err ErrInvalidPubkeyLength else g1_Unmarshal B pkBytes)"

definition SignatureFromBytes :: "('g1, 'g2) bls_lib \<Rightarrow> bytes \<Rightarrow> (go_error, 'g2) res" where
  "SignatureFromBytes B sigBytes =
     (if length sigBytes \<noteq> SignatureLength then Err ErrInvalidSignatureLength else g2_Unmarshal B sigBytes)"

definition VerifySignature :: "('g1, 'g2) bls_lib \<Rightarrow> 'g2 \<Rightarrow> 'g1 \<Rightarrow> bytes \<Rightarrow> (go_error, bool) res" where
  "VerifySignature B sg pk msg =
     bind_res (HashToG2 B msg dst) (\<lambda>Q. PairingCheck B [pk, g1_Neg B (g1One B)] [Q, sg])"

definition recovered :: "('g1, 'g2) bls_lib \<Rightarrow> (go_error, bool) res \<Rightarrow> (go_error, bool) res" where
  "recovered B r = (case r of Panic \<Rightarrow> Err (bls_panic B) | _ \<Rightarrow> r)"

definition bls_VerifySignatureBytes ::
  "('g1, 'g2) bls_lib \<Rightarrow> root \<Rightarrow> bytes \<Rightarrow> bytes \<Rightarrow> (go_error, bool) res" where
  "bls_VerifySignatureBytes B msg sigBytes pkBytes =
     recovered B
       (bind_res (PublicKeyFromBytes B pkBytes) (\<lambda>pk.
        bind_res (SignatureFromBytes B sigBytes) (\<lambda>sg.
        VerifySignature B sg pk (barr_list msg))))"

section \<open>Responses\<close>

text \<open>
  A channel of errors: the values sent and not yet received, and whether it is closed.  A receive
  takes the oldest value; on a closed and empty channel it gives nil at once; otherwise it blocks.
\<close>

record err_chan =
  ch_buf :: "go_error option list"
  ch_closed :: bool

definition chan_recv :: "err_chan \<Rightarrow> go_error option option" where
  "chan_recv c = (case ch_buf c of v # vs \<Rightarrow> Some v | [] \<Rightarrow> if ch_closed c then Some None else None)"

record verify_resp =
  resp_ID :: int
  resp_Err :: "go_error option"

record store_resp =
  nonErrors :: "int list"
  numAll :: int
  isClosed :: bool
  sr_err :: "go_error option"
  sr_done :: err_chan

definition NewRespC :: "nat \<Rightarrow> store_resp" where
  "NewRespC n = \<lparr>nonErrors = [], numAll = int n, isClosed = False, sr_err = None,
                 sr_done = \<lparr>ch_buf = [], ch_closed = False\<rparr>\<rparr>"

definition sr_close :: "store_resp \<Rightarrow> store_resp" where
  "sr_close s = (if isClosed s then s else s\<lparr>isClosed := True, sr_done := (sr_done s)\<lparr>ch_closed := True\<rparr>\<rparr>)"

definition sr_Send :: "verify_resp \<Rightarrow> store_resp \<Rightarrow> store_resp" where
  "sr_Send r s =
     (if isClosed s then s
      else case resp_Err r of
        Some e \<Rightarrow> sr_close (s\<lparr>sr_err := Some e\<rparr>)
      | None \<Rightarrow>
          let s' = s\<lparr>nonErrors := nonErrors s @ [resp_ID r]\<rparr>
          in if numAll s' = int (length (nonErrors s')) then sr_close s' else s')"

definition sr_Close :: "go_error option \<Rightarrow> store_resp \<Rightarrow> store_resp" where
  "sr_Close e s = sr_close (case e of Some e' \<Rightarrow> s\<lparr>sr_err := Some e'\<rparr> | None \<Rightarrow> s)"

definition sr_SkipOne :: "store_resp \<Rightarrow> store_resp" where
  "sr_SkipOne s =
     (if isClosed s then s
      else let s' = s\<lparr>numAll := numAll s - 1\<rparr>
           in if numAll s' = int (length (nonErrors s')) then sr_close s' else s')"

section \<open>Workers\<close>

record verify_request =
  rq_Signature :: signature
  rq_Pubkey :: pubkey
  rq_Msg :: root
  rq_ID :: int

definition verify_ErrInvalidSignature :: go_error where
  "verify_ErrInvalidSignature = ErrNew ''invalid signature''"

definition verifyUnit :: "('g1, 'g2) bls_lib \<Rightarrow> int \<Rightarrow> root \<Rightarrow> signature \<Rightarrow> pubkey \<Rightarrow> (go_error, verify_resp) res" where
  "verifyUnit B i msg sg pk =
     (case bls_VerifySignatureBytes B msg (barr_list sg) (barr_list pk) of
        Ok ok \<Rightarrow> Ok \<lparr>resp_ID = i, resp_Err = (if ok then None else Some verify_ErrInvalidSignature)\<rparr>
      | Err e \<Rightarrow> Ok \<lparr>resp_ID = i, resp_Err = Some e\<rparr>
      | Panic \<Rightarrow> Panic)"

text \<open>A panic in the check is caught by the worker, and the response stays as it is.\<close>

definition verifyCheck :: "('g1, 'g2) bls_lib \<Rightarrow> verify_request \<Rightarrow> store_resp \<Rightarrow> store_resp" where
  "verifyCheck B v s =
     (if isClosed s then s
      else case verifyUnit B (rq_ID v) (rq_Msg v) (rq_Signature v) (rq_Pubkey v) of
        Ok r \<Rightarrow> sr_Send r s
      | _ \<Rightarrow> s)"

text \<open>
  \<open>Enqueue\<close>: the request is answered by a worker, and the caller wakes up either on the response's
  channel or because its context ended with the error \<open>e\<close>.  The result is the error returned
  (\<open>None\<close> while the caller is still waiting) and the response.
\<close>

datatype wake = Answered | Cancelled go_error

definition Enqueue ::
  "('g1, 'g2) bls_lib \<Rightarrow> wake \<Rightarrow> signature \<Rightarrow> pubkey \<Rightarrow> root \<Rightarrow> go_error option option \<times> store_resp" where
  "Enqueue B w sg pk msg =
     (let respChA = NewRespC 1;
          v = \<lparr>rq_Signature = sg, rq_Pubkey = pk, rq_Msg = msg, rq_ID = 0\<rparr>
      in case w of
           Answered \<Rightarrow> (let r = verifyCheck B v respChA in (chan_recv (sr_done r), r))
         | Cancelled e \<Rightarrow> (Some (Some e), sr_Close (Some e) respChA))"

section \<open>Lemmas\<close>

text \<open>The verdict on a request: the error a worker reports for it.\<close>

definition verdict :: "('g1, 'g2) bls_lib \<Rightarrow> verify_request \<Rightarrow> go_error option" where
  "verdict B v =
     (case bls_VerifySignatureBytes B (rq_Msg v) (barr_list (rq_Signature v)) (barr_list (rq_Pubkey v)) of
        Ok ok \<Rightarrow> if ok then None else Some verify_ErrInvalidSignature
      | Err e \<Rightarrow> Some e
      | Panic \<Rightarrow> None)"

lemma VerifySignatureBytes_not_Panic [simp]: "bls_VerifySignatureBytes B msg sg pk \<noteq> Panic"
  by (auto simp: bls_VerifySignatureBytes_def recovered_def split: res.splits)

lemma verdict_None_iff:
  "verdict B v = None
     \<longleftrightarrow> bls_VerifySignatureBytes B (rq_Msg v) (barr_list (rq_Signature v)) (barr_list (rq_Pubkey v)) = Ok True"
  by (simp add: verdict_def split: res.splits)

text \<open>The check that a worker makes before the lock decides nothing: \<open>Send\<close> repeats it.\<close>

lemma verifyCheck_Send: "verifyCheck B v s = sr_Send \<lparr>resp_ID = rq_ID v, resp_Err = verdict B v\<rparr> s"
  by (auto simp: verifyCheck_def verifyUnit_def verdict_def sr_Send_def split: res.splits)

text \<open>Well-formed responses: the channel is closed with the flag, nothing was sent on it, and a
  response that is still open has an answer outstanding and no error.\<close>

definition resp_ok :: "store_resp \<Rightarrow> bool" where
  "resp_ok s \<longleftrightarrow> ch_buf (sr_done s) = [] \<and> ch_closed (sr_done s) = isClosed s
     \<and> (\<not> isClosed s \<longrightarrow> sr_err s = None)
     \<and> (isClosed s \<longrightarrow> sr_err s = None \<longrightarrow> numAll s = int (length (nonErrors s)))"

lemma resp_ok_New: "resp_ok (NewRespC n)"
  by (simp add: resp_ok_def NewRespC_def)

lemma resp_ok_Send: "resp_ok s \<Longrightarrow> resp_ok (sr_Send r s)"
  by (auto simp: resp_ok_def sr_Send_def sr_close_def Let_def split: option.splits)

lemma resp_ok_SkipOne: "resp_ok s \<Longrightarrow> resp_ok (sr_SkipOne s)"
  by (auto simp: resp_ok_def sr_SkipOne_def sr_close_def Let_def)

lemma resp_ok_Close: "resp_ok s \<Longrightarrow> resp_ok (sr_Close (Some e) s)"
  by (auto simp: resp_ok_def sr_Close_def sr_close_def)

lemma resp_ok_recv: "resp_ok s \<Longrightarrow> chan_recv (sr_done s) = (if isClosed s then Some None else None)"
  by (simp add: resp_ok_def chan_recv_def)

lemmas resp_oks = resp_ok_New resp_ok_Send resp_ok_SkipOne resp_ok_Close

lemma closed_Send [simp]: "isClosed s \<Longrightarrow> sr_Send r s = s"
  by (simp add: sr_Send_def)

lemma closed_verifyCheck [simp]: "isClosed s \<Longrightarrow> verifyCheck B v s = s"
  by (simp add: verifyCheck_def)

lemma closed_fold_verifyCheck: "isClosed s \<Longrightarrow> fold (verifyCheck B) vs s = s"
  by (induction vs) simp_all

lemma verifyCheck_open:
  assumes "\<not> isClosed s"
  shows "verifyCheck B v s =
     (case verdict B v of
        Some e \<Rightarrow> s\<lparr>sr_err := Some e, isClosed := True, sr_done := (sr_done s)\<lparr>ch_closed := True\<rparr>\<rparr>
      | None \<Rightarrow> let s' = s\<lparr>nonErrors := nonErrors s @ [rq_ID v]\<rparr>
          in if numAll s = int (length (nonErrors s) + 1) then sr_close s' else s')"
  using assms by (auto simp: verifyCheck_Send sr_Send_def sr_close_def Let_def split: option.splits)

lemma fold_verifyCheck:
  assumes "\<not> isClosed s" "numAll s = int (length (nonErrors s) + length vs)" "vs \<noteq> []" "sr_err s = None"
  shows "isClosed (fold (verifyCheck B) vs s)
       \<and> (sr_err (fold (verifyCheck B) vs s) = None \<longleftrightarrow> (\<forall>v \<in> set vs. verdict B v = None))
       \<and> (sr_err (fold (verifyCheck B) vs s) = None
            \<longrightarrow> nonErrors (fold (verifyCheck B) vs s) = nonErrors s @ map rq_ID vs)"
  using assms
proof (induction vs arbitrary: s)
  case Nil
  then show ?case by simp
next
  case (Cons v vs)
  show ?case
  proof (cases "verdict B v")
    case (Some e)
    then show ?thesis
      using Cons.prems by (simp add: verifyCheck_open closed_fold_verifyCheck)
  next
    case None
    show ?thesis
    proof (cases "vs = []")
      case True
      then show ?thesis
        using Cons.prems None by (simp add: verifyCheck_open sr_close_def Let_def)
    next
      case False
      then have "verifyCheck B v s = s\<lparr>nonErrors := nonErrors s @ [rq_ID v]\<rparr>"
        using Cons.prems None by (simp add: verifyCheck_open Let_def)
      then show ?thesis
        using Cons.IH [of "s\<lparr>nonErrors := nonErrors s @ [rq_ID v]\<rparr>"] Cons.prems False None by simp
    qed
  qed
qed

section \<open>Properties\<close>

text \<open>
  A library for examples: keys and signatures are their bytes, and a signature belongs to a key if
  both start with the same byte.
\<close>

definition sample_bls :: "(bytes, bytes) bls_lib" where
  "sample_bls =
     \<lparr>g1_Unmarshal = Ok, g2_Unmarshal = Ok, HashToG2 = (\<lambda>m d. Ok m), g1_Neg = (\<lambda>x. x), g1One = [],
      PairingCheck = (\<lambda>ps qs. Ok (hd (ps ! 0) = hd (qs ! 1))), bls_panic = ErrNew ''panic''\<rparr>"

definition sample_verify :: "byte \<Rightarrow> byte \<Rightarrow> int \<Rightarrow> verify_request" where
  "sample_verify a b i = \<lparr>rq_Signature = barr_copy [a], rq_Pubkey = barr_copy [b], rq_Msg = 0, rq_ID = i\<rparr>"

lemma sample_bls_verify:
  "bls_VerifySignatureBytes sample_bls msg (barr_list (barr_copy [a] :: signature)) (barr_list (barr_copy [b] :: pubkey))
     = Ok (b = a)"
  by (simp add: bls_VerifySignatureBytes_def recovered_def PublicKeyFromBytes_def SignatureFromBytes_def
      VerifySignature_def PublicKeyLength_def SignatureLength_def sample_bls_def hd_barr_list_copy)

text \<open>
  C20: Signature verification in parallel.  When all the requests of a response have been served, in
  any order by any number of workers, the response is closed; it has no error if and only if every
  signature is valid, and then its successful indexes are those of all the requests, each once.
\<close>

theorem StoreResp_verdict_any_order:
  assumes "vs \<noteq> []" "mset vs' = mset vs"
  shows "isClosed (fold (verifyCheck B) vs' (NewRespC (length vs)))
       \<and> (sr_err (fold (verifyCheck B) vs' (NewRespC (length vs))) = None
            \<longleftrightarrow> (\<forall>v \<in> set vs. bls_VerifySignatureBytes B (rq_Msg v) (barr_list (rq_Signature v)) (barr_list (rq_Pubkey v)) = Ok True))
       \<and> (sr_err (fold (verifyCheck B) vs' (NewRespC (length vs))) = None
            \<longrightarrow> mset (nonErrors (fold (verifyCheck B) vs' (NewRespC (length vs)))) = image_mset rq_ID (mset vs))"
proof -
  note same = mset_eq_setD [OF assms(2)] mset_eq_length [OF assms(2)]
  have "vs' \<noteq> []"
    using assms by auto
  moreover have "\<not> isClosed (NewRespC (length vs))" "sr_err (NewRespC (length vs)) = None"
    "nonErrors (NewRespC (length vs)) = []" "numAll (NewRespC (length vs)) = int (length vs)"
    by (simp_all add: NewRespC_def)
  ultimately show ?thesis
    using fold_verifyCheck [of "NewRespC (length vs)" vs' B] assms(2)
    by (simp add: same verdict_None_iff)
qed

theorem StoreResp_verdict_any_order_witness:
  "sr_err (fold (verifyCheck sample_bls) [sample_verify 2 2 1, sample_verify 1 1 0] (NewRespC 2)) = None
     \<and> sr_err (fold (verifyCheck sample_bls) [sample_verify 2 3 1, sample_verify 1 1 0] (NewRespC 2)) \<noteq> None"
  using StoreResp_verdict_any_order
    [where B = sample_bls and vs = "[sample_verify 1 1 0, sample_verify 2 2 1]" and vs' = "[sample_verify 2 2 1, sample_verify 1 1 0]"]
    StoreResp_verdict_any_order
    [where B = sample_bls and vs = "[sample_verify 1 1 0, sample_verify 2 3 1]" and vs' = "[sample_verify 2 3 1, sample_verify 1 1 0]"]
  by (simp add: sample_verify_def sample_bls_verify numeral_2_eq_2)

text \<open>
  C37: \<open>Enqueue\<close> loses the verdict.  The worker's error is kept in the response, but \<open>Enqueue\<close>
  returns what it receives from the response's channel, which is closed and never written to.  So it
  returns nil for every signature, whatever the worker found.
\<close>

theorem Enqueue_loses_verdict:
  "fst (Enqueue B Answered sg pk msg) = Some None
     \<and> sr_err (snd (Enqueue B Answered sg pk msg))
         = verdict B \<lparr>rq_Signature = sg, rq_Pubkey = pk, rq_Msg = msg, rq_ID = 0\<rparr>"
  by (simp add: Enqueue_def Let_def verifyCheck_open NewRespC_def sr_close_def chan_recv_def split: option.splits)

end
