(* ===== verification/Validators.thy ===== *)
theory Validators
  imports RegistrationStore Verify
begin

text \<open>
  Registration of validators, \<open>src/validators/validators.go\<close>.  \<open>RegisterValidator\<close> sends the
  registrations that the cache does not know to the verification workers and waits on their common
  response, so it is a machine whose steps interleave: iterations of its loop (\<open>send_one\<close>), answers of
  workers, the end of the wait, and the end of the request's context.

  What the loop sees in its i-th iteration, the time, the random number of the cache check, the cache
  and the known validators, is the i-th of the views of a call.  The queue holds the requests of the
  call that no worker has answered yet; workers may answer them in any order.

  The invariant counts: while nothing has failed, every registration that was passed is known to the
  cache, successfully verified or in the queue, exactly once.
\<close>

section \<open>The loop\<close>

record reg_lib =
  rl_ComputeSigningRoot :: "registration_message \<Rightarrow> domain \<Rightarrow> (go_error, root) res"
  rl_pubkey_String :: "pubkey \<Rightarrow> string"
  rl_PubkeyHex :: "pubkey \<Rightarrow> pubkey_hex"

record 'c reg_view =
  rv_now :: int
  rv_rnd :: int
  rv_cache :: 'c
  rv_beacon :: multi_slot_state

record 'c reg_call =
  call_payload :: "signed_registration list"
  call_view :: "nat \<Rightarrow> 'c reg_view"
  call_domain :: domain
  call_ttl :: int

definition verifyOther :: "reg_lib \<Rightarrow> int \<Rightarrow> multi_slot_state \<Rightarrow> registration_message \<Rightarrow> (go_error, unit) res" where
  "verifyOther R now beacon m =
     (if reg_Timestamp m > of_int ((now + 10 * 10 ^ 9) div 10 ^ 9)
      then Err (ErrNew (''request too far in future for '' @ rl_pubkey_String R (reg_Pubkey m)))
      else if KnownValidators (ms_KnownValidators beacon) (rl_PubkeyHex R (reg_Pubkey m)) = None
      then Err (ErrNew (rl_pubkey_String R (reg_Pubkey m) @ '' not a known validator''))
      else Ok ())"

datatype reg_phase =
  Sending
| Waiting
| Returned "go_error option" "signed_registration list"
| Crashed

record reg_state =
  rg_phase :: reg_phase
  rg_i :: nat
  rg_queue :: "verify_request multiset"
  rg_resp :: store_resp

definition reg_start :: "'c reg_call \<Rightarrow> reg_state" where
  "reg_start c = \<lparr>rg_phase = Sending, rg_i = 0, rg_queue = {#}, rg_resp = NewRespC (length (call_payload c))\<rparr>"

definition reg_check :: "'c validator_cache \<Rightarrow> 'c reg_call \<Rightarrow> nat \<Rightarrow> (go_error, bool) res" where
  "reg_check V c i =
     (let v = call_view c i
      in fst (Check V (call_ttl c) (rv_now v) (rv_rnd v) (sreg_Message (call_payload c ! i)) (rv_cache v)))"

definition reg_break :: "go_error \<Rightarrow> reg_state \<Rightarrow> reg_state" where
  "reg_break e s = s\<lparr>rg_phase := Waiting, rg_resp := sr_Close (Some e) (rg_resp s)\<rparr>"

text \<open>One iteration of the loop over the payload; \<open>break\<close> leaves the loop and goes on to the wait.\<close>

definition send_one :: "'c validator_cache \<Rightarrow> reg_lib \<Rightarrow> 'c reg_call \<Rightarrow> reg_state \<Rightarrow> reg_state" where
  "send_one V R c s =
     (let i = rg_i s; p = call_payload c ! i; v = call_view c i
      in case reg_check V c i of
           Ok True \<Rightarrow> s\<lparr>rg_i := Suc i, rg_resp := sr_SkipOne (rg_resp s)\<rparr>
         | Ok False \<Rightarrow>
             (case sreg_Message p of
                None \<Rightarrow> s\<lparr>rg_phase := Crashed\<rparr>
              | Some m \<Rightarrow>
                  (case verifyOther R (rv_now v) (rv_beacon v) m of
                     Ok _ \<Rightarrow>
                       (case rl_ComputeSigningRoot R m (call_domain c) of
                          Ok msg \<Rightarrow>
                            s\<lparr>rg_i := Suc i,
                              rg_queue := add_mset \<lparr>rq_Signature = sreg_Signature p, rq_Pubkey = reg_Pubkey m,
                                                    rq_Msg = msg, rq_ID = int i\<rparr> (rg_queue s)\<rparr>
                        | Err _ \<Rightarrow> reg_break (ErrNew ''invalid signature'') s
                        | Panic \<Rightarrow> s\<lparr>rg_phase := Crashed\<rparr>)
                   | Err e \<Rightarrow> reg_break e s
                   | Panic \<Rightarrow> s\<lparr>rg_phase := Crashed\<rparr>))
         | _ \<Rightarrow> s\<lparr>rg_phase := Crashed\<rparr>)"

text \<open>The registrations of the successful indexes, in the order of the answers.\<close>

definition store_request :: "'c reg_call \<Rightarrow> store_resp \<Rightarrow> signed_registration list" where
  "store_request c r = map (\<lambda>k. call_payload c ! nat k) (nonErrors r)"

text \<open>The registered proposers of the current and the next epoch, as the manager stored them.\<close>

definition GetValidators :: "multi_slot_state \<Rightarrow> validators_entry list" where
  "GetValidators beacon = ProposerDutiesResponse (ms_Duties beacon)"

section \<open>Steps\<close>

text \<open>
  The steps of a call, and the step taken when its context ends.  \<open>Returned e items\<close> is the error the
  call returns and the registrations it sent to the store manager before.
\<close>

inductive reg_step ::
  "'c validator_cache \<Rightarrow> ('g1, 'g2) bls_lib \<Rightarrow> reg_lib \<Rightarrow> 'c reg_call \<Rightarrow> reg_state \<Rightarrow> reg_state \<Rightarrow> bool"
  for V :: "'c validator_cache" and B :: "('g1, 'g2) bls_lib" and R :: reg_lib and c :: "'c reg_call" where
  send: "\<lbrakk>rg_phase s = Sending; rg_i s < length (call_payload c)\<rbrakk> \<Longrightarrow> reg_step V B R c s (send_one V R c s)"
| sent: "\<lbrakk>rg_phase s = Sending; rg_i s = length (call_payload c)\<rbrakk> \<Longrightarrow> reg_step V B R c s (s\<lparr>rg_phase := Waiting\<rparr>)"
| work: "q \<in># rg_queue s \<Longrightarrow>
    reg_step V B R c s (s\<lparr>rg_queue := rg_queue s - {#q#}, rg_resp := verifyCheck B q (rg_resp s)\<rparr>)"
| finish: "\<lbrakk>rg_phase s = Waiting; chan_recv (sr_done (rg_resp s)) = Some v\<rbrakk> \<Longrightarrow>
    reg_step V B R c s (s\<lparr>rg_phase := Returned (sr_err (rg_resp s)) (store_request c (rg_resp s))\<rparr>)"

inductive reg_cancel :: "go_error \<Rightarrow> reg_state \<Rightarrow> reg_state \<Rightarrow> bool" where
  "rg_phase s = Sending \<or> rg_phase s = Waiting \<Longrightarrow>
    reg_cancel e s (s\<lparr>rg_phase := Returned (Some e) [], rg_resp := sr_Close (Some e) (rg_resp s)\<rparr>)"

inductive reg_reach ::
  "'c validator_cache \<Rightarrow> ('g1, 'g2) bls_lib \<Rightarrow> reg_lib \<Rightarrow> 'c reg_call \<Rightarrow> reg_state \<Rightarrow> bool"
  for V :: "'c validator_cache" and B :: "('g1, 'g2) bls_lib" and R :: reg_lib and c :: "'c reg_call" where
  start: "reg_reach V B R c (reg_start c)"
| step: "\<lbrakk>reg_reach V B R c s; reg_step V B R c s s'\<rbrakk> \<Longrightarrow> reg_reach V B R c s'"
| cancel: "\<lbrakk>reg_reach V B R c s; reg_cancel e s s'\<rbrakk> \<Longrightarrow> reg_reach V B R c s'"

inductive_cases reg_stepE: "reg_step V B R c s s'"
inductive_cases reg_cancelE: "reg_cancel e s s'"

section \<open>The invariant\<close>

definition reg_hits :: "'c validator_cache \<Rightarrow> 'c reg_call \<Rightarrow> nat \<Rightarrow> int list" where
  "reg_hits V c i = map int (filter (\<lambda>j. reg_check V c j = Ok True) [0..<i])"

text \<open>The request that the loop makes of the j-th registration, when it makes one.\<close>

definition reg_requests :: "'c validator_cache \<Rightarrow> reg_lib \<Rightarrow> 'c reg_call \<Rightarrow> nat \<Rightarrow> verify_request \<Rightarrow> bool" where
  "reg_requests V R c j q \<longleftrightarrow>
     reg_check V c j = Ok False
     \<and> (\<exists>m. sreg_Message (call_payload c ! j) = Some m
          \<and> verifyOther R (rv_now (call_view c j)) (rv_beacon (call_view c j)) m = Ok ()
          \<and> rl_ComputeSigningRoot R m (call_domain c) = Ok (rq_Msg q)
          \<and> rq_Pubkey q = reg_Pubkey m \<and> rq_Signature q = sreg_Signature (call_payload c ! j) \<and> rq_ID q = int j)"

text \<open>The part of the invariant about the position \<open>i\<close> of the loop, the queue and the response.\<close>

definition call_inv ::
  "'c validator_cache \<Rightarrow> ('g1, 'g2) bls_lib \<Rightarrow> reg_lib \<Rightarrow> 'c reg_call \<Rightarrow> nat \<Rightarrow> verify_request multiset \<Rightarrow> store_resp \<Rightarrow> bool" where
  "call_inv V B R c i Q r \<longleftrightarrow>
     resp_ok r \<and> i \<le> length (call_payload c)
     \<and> (\<forall>q. q \<in># Q \<longrightarrow> (\<exists>j < i. reg_requests V R c j q))
     \<and> (\<forall>k \<in> set (nonErrors r). \<exists>j < i. \<exists>q. k = int j \<and> reg_requests V R c j q \<and> verdict B q = None)
     \<and> (sr_err r = None \<longrightarrow>
          mset (nonErrors r) + image_mset rq_ID Q + mset (reg_hits V c i) = mset (map int [0..<i]))
     \<and> (\<not> isClosed r \<longrightarrow> numAll r = int (length (call_payload c)) - int (length (reg_hits V c i))
          \<and> (call_payload c \<noteq> [] \<longrightarrow> int (length (nonErrors r)) < numAll r))
     \<and> (isClosed r \<longrightarrow> sr_err r = None \<longrightarrow> i = length (call_payload c) \<and> Q = {#})"

definition reg_inv :: "'c validator_cache \<Rightarrow> ('g1, 'g2) bls_lib \<Rightarrow> reg_lib \<Rightarrow> 'c reg_call \<Rightarrow> reg_state \<Rightarrow> bool" where
  "reg_inv V B R c s \<longleftrightarrow>
     call_inv V B R c (rg_i s) (rg_queue s) (rg_resp s)
     \<and> (rg_phase s = Waiting \<longrightarrow> isClosed (rg_resp s) \<or> rg_i s = length (call_payload c))
     \<and> (\<forall>e items. rg_phase s = Returned e items \<longrightarrow> isClosed (rg_resp s)
          \<and> (e = sr_err (rg_resp s) \<and> items = store_request c (rg_resp s) \<or> e \<noteq> None \<and> items = []))"

lemma reg_hits_Suc: "reg_hits V c (Suc i) = reg_hits V c i @ (if reg_check V c i = Ok True then [int i] else [])"
  by (simp add: reg_hits_def)

lemma reg_hits_le: "length (reg_hits V c i) \<le> i"
  by (simp add: reg_hits_def) (metis length_filter_le length_upt minus_nat.diff_0)

lemma resp_closed_SkipOne [simp]: "isClosed r \<Longrightarrow> sr_SkipOne r = r"
  by (simp add: sr_SkipOne_def)

lemma closed_Close: "isClosed (sr_Close e r)"
  by (simp add: sr_Close_def sr_close_def)

text \<open>While nothing has failed, the counts add up to the position of the loop.\<close>

lemma call_inv_sizes:
  assumes "call_inv V B R c i Q r" "sr_err r = None"
  shows "length (nonErrors r) + size Q + length (reg_hits V c i) = i"
proof -
  have "size (mset (nonErrors r) + image_mset rq_ID Q + mset (reg_hits V c i)) = size (mset (map int [0..<i]))"
    using assms by (simp add: call_inv_def)
  then show ?thesis
    by simp
qed

lemma call_inv_less:
  assumes "call_inv V B R c i Q r" "i < length (call_payload c)"
  shows "\<not> isClosed r \<and> sr_err r = None \<or> isClosed r \<and> sr_err r \<noteq> None"
  using assms by (auto simp: call_inv_def resp_ok_def)

lemma call_inv_start: "call_inv V B R c 0 {#} (NewRespC (length (call_payload c)))"
  by (simp add: call_inv_def resp_ok_def reg_hits_def NewRespC_def)

lemma call_inv_mono:
  assumes "call_inv V B R c i Q r" "isClosed r" "sr_err r \<noteq> None" "i < length (call_payload c)"
    and "\<forall>q. q \<in># Q' \<longrightarrow> (\<exists>j < Suc i. reg_requests V R c j q)"
  shows "call_inv V B R c (Suc i) Q' r"
proof -
  have "\<forall>k \<in> set (nonErrors r). \<exists>j < Suc i. \<exists>q. k = int j \<and> reg_requests V R c j q \<and> verdict B q = None"
    using assms(1) unfolding call_inv_def by (meson less_Suc_eq)
  moreover obtain e where "sr_err r = Some e"
    using assms(3) by auto
  ultimately show ?thesis
    using assms by (simp add: call_inv_def)
qed

lemma call_inv_older:
  assumes "call_inv V B R c i Q r"
  shows "q \<in># Q \<Longrightarrow> \<exists>j < Suc i. reg_requests V R c j q"
    "k \<in> set (nonErrors r) \<Longrightarrow> \<exists>j < Suc i. \<exists>q. k = int j \<and> reg_requests V R c j q \<and> verdict B q = None"
  using assms unfolding call_inv_def by (meson less_Suc_eq)+

lemma call_inv_skip:
  assumes inv: "call_inv V B R c i Q r" and i: "i < length (call_payload c)" and hit: "reg_check V c i = Ok True"
  shows "call_inv V B R c (Suc i) Q (sr_SkipOne r)"
proof (cases "isClosed r")
  case True
  then show ?thesis
    using call_inv_mono [OF inv True] call_inv_less [OF inv i] call_inv_older [OF inv] i by simp
next
  case False
  then have err: "sr_err r = None"
    using call_inv_less [OF inv i] by simp
  note sizes = call_inv_sizes [OF inv err]
  have num: "numAll r = int (length (call_payload c)) - int (length (reg_hits V c i))" "int (length (nonErrors r)) < numAll r"
    using inv False i by (auto simp: call_inv_def)
  have eq: "mset (nonErrors r) + image_mset rq_ID Q + mset (reg_hits V c i) = mset (map int [0..<i])"
    using inv err by (simp add: call_inv_def)
  have closing: "Suc i = length (call_payload c) \<and> Q = {#}" if "numAll r - 1 = int (length (nonErrors r))"
  proof -
    have "length (call_payload c) + size Q = Suc i"
      using that sizes num by linarith
    with i have "Suc i = length (call_payload c) \<and> size Q = 0" by linarith
    then show ?thesis by simp
  qed
  have "resp_ok (sr_SkipOne r)"
    using inv by (simp add: call_inv_def resp_ok_SkipOne)
  moreover have "sr_err (sr_SkipOne r) = None" "nonErrors (sr_SkipOne r) = nonErrors r" "numAll (sr_SkipOne r) = numAll r - 1"
    "isClosed (sr_SkipOne r) \<longleftrightarrow> numAll r - 1 = int (length (nonErrors r))"
    using False err by (auto simp: sr_SkipOne_def sr_close_def Let_def)
  ultimately show ?thesis
    using call_inv_older [OF inv] eq num i closing
    unfolding call_inv_def by (simp add: reg_hits_Suc hit)
qed

lemma call_inv_queue:
  assumes inv: "call_inv V B R c i Q r" and i: "i < length (call_payload c)" and q: "reg_requests V R c i q"
  shows "call_inv V B R c (Suc i) (add_mset q Q) r"
proof -
  have older: "\<exists>j < Suc i. reg_requests V R c j x" if "x \<in># add_mset q Q" for x
    using that q call_inv_older(1) [OF inv, of x] by auto
  show ?thesis
proof (cases "isClosed r")
  case True
  then have "sr_err r \<noteq> None"
    using call_inv_less [OF inv i] by simp
  then show ?thesis
    using older by (intro call_inv_mono [OF inv True _ i]) simp_all
next
  case False
  then have err: "sr_err r = None"
    using call_inv_less [OF inv i] by simp
  have miss: "reg_check V c i = Ok False" and ID: "rq_ID q = int i"
    using q by (auto simp: reg_requests_def)
  have "mset (nonErrors r) + image_mset rq_ID (add_mset q Q) + mset (reg_hits V c (Suc i)) = mset (map int [0..<Suc i])"
    using inv err by (simp add: call_inv_def reg_hits_Suc miss ID)
  moreover have "numAll r = int (length (call_payload c)) - int (length (reg_hits V c (Suc i)))" "int (length (nonErrors r)) < numAll r"
    using inv False i by (auto simp: call_inv_def reg_hits_Suc miss)
  ultimately show ?thesis
    using inv False i older call_inv_older(2) [OF inv] by (simp add: call_inv_def)
qed
qed

lemma Close_error: "sr_err (sr_Close (Some e) r) = Some e" "nonErrors (sr_Close (Some e) r) = nonErrors r"
  by (simp_all add: sr_Close_def sr_close_def)

lemma call_inv_break: "call_inv V B R c i Q r \<Longrightarrow> call_inv V B R c i Q (sr_Close (Some e) r)"
  unfolding call_inv_def by (simp add: resp_ok_Close closed_Close Close_error)

lemma call_inv_work:
  assumes inv: "call_inv V B R c i Q r" and q: "q \<in># Q"
  shows "call_inv V B R c i (Q - {#q#}) (verifyCheck B q r)"
proof (cases "isClosed r")
  case True
  then show ?thesis
    using inv q by (auto simp: call_inv_def dest: in_diffD)
next
  case False
  have ok: "resp_ok (verifyCheck B q r)"
    using inv by (simp add: verifyCheck_Send resp_ok_Send call_inv_def)
  have err: "sr_err r = None"
    using inv False by (simp add: call_inv_def resp_ok_def)
  obtain j where j: "j < i" "reg_requests V R c j q"
    using inv q by (auto simp: call_inv_def)
  have older: "\<exists>j < i. reg_requests V R c j x" if "x \<in># Q - {#q#}" for x
    using inv that by (auto simp: call_inv_def dest: in_diffD)
  have i: "i \<le> length (call_payload c)"
    using inv by (simp add: call_inv_def)
  show ?thesis
  proof (cases "verdict B q")
    case (Some e)
    then show ?thesis
      using ok older i inv False by (simp add: call_inv_def verifyCheck_open)
  next
    case None
    obtain Q' where Q: "Q = add_mset q Q'"
      using q by (metis multi_member_split)
    have num: "numAll r = int (length (call_payload c)) - int (length (reg_hits V c i))"
      "call_payload c \<noteq> [] \<longrightarrow> int (length (nonErrors r)) < numAll r"
      using inv False by (auto simp: call_inv_def)
    have "i = length (call_payload c) \<and> Q' = {#}" if "numAll r = int (length (nonErrors r)) + 1"
    proof -
      have "length (call_payload c) + size Q' = i"
        using that call_inv_sizes [OF inv err] num(1) by (simp add: Q)
      with i have "i = length (call_payload c) \<and> size Q' = 0" by linarith
      then show ?thesis by simp
    qed
    moreover have "rq_ID q = int j"
      using j by (auto simp: reg_requests_def)
    moreover have "mset (nonErrors r) + image_mset rq_ID Q + mset (reg_hits V c i) = mset (map int [0..<i])"
      "\<forall>k \<in> set (nonErrors r). \<exists>j < i. \<exists>q. k = int j \<and> reg_requests V R c j q \<and> verdict B q = None"
      using inv err by (simp_all add: call_inv_def)
    moreover have "sr_err (verifyCheck B q r) = None" "nonErrors (verifyCheck B q r) = nonErrors r @ [rq_ID q]"
      "numAll (verifyCheck B q r) = numAll r" "isClosed (verifyCheck B q r) \<longleftrightarrow> numAll r = int (length (nonErrors r)) + 1"
      using False None err by (auto simp: verifyCheck_open sr_close_def Let_def)
    ultimately show ?thesis
      using ok older i num j None unfolding call_inv_def by (auto simp: Q)
  qed
qed

section \<open>Reachable states\<close>

text \<open>What one iteration of the loop can do.\<close>

lemma send_one_cases:
  obtains (hit) "reg_check V c (rg_i s) = Ok True" "send_one V R c s = s\<lparr>rg_i := Suc (rg_i s), rg_resp := sr_SkipOne (rg_resp s)\<rparr>"
  | (queue) q where "reg_requests V R c (rg_i s) q" "send_one V R c s = s\<lparr>rg_i := Suc (rg_i s), rg_queue := add_mset q (rg_queue s)\<rparr>"
  | (refuse) e where "send_one V R c s = reg_break e s"
  | (crash) "send_one V R c s = s\<lparr>rg_phase := Crashed\<rparr>"
proof (cases "reg_check V c (rg_i s)")
  case (Ok h)
  show thesis
  proof (cases h)
    case True
    with Ok show ?thesis by (intro hit) (simp_all add: send_one_def Let_def)
  next
    case False
    let ?v = "call_view c (rg_i s)"
    show ?thesis
    proof (cases "sreg_Message (call_payload c ! rg_i s)")
      case None
      with Ok False show ?thesis by (intro crash) (simp add: send_one_def Let_def)
    next
      case (Some m)
      note m = this
      show ?thesis
      proof (cases "verifyOther R (rv_now ?v) (rv_beacon ?v) m")
        case (Ok u)
        note other = this
        let ?q = "\<lambda>msg. \<lparr>rq_Signature = sreg_Signature (call_payload c ! rg_i s), rq_Pubkey = reg_Pubkey m,
                   rq_Msg = msg, rq_ID = int (rg_i s)\<rparr>"
        show ?thesis
          by (cases "rl_ComputeSigningRoot R m (call_domain c)")
            (use \<open>reg_check V c (rg_i s) = Ok h\<close> False m other queue [of "?q _"] refuse crash in
              \<open>simp_all add: send_one_def Let_def reg_requests_def\<close>)
      qed (use \<open>reg_check V c (rg_i s) = Ok h\<close> False m refuse crash in \<open>simp_all add: send_one_def Let_def\<close>)
    qed
  qed
qed (use crash in \<open>simp_all add: send_one_def Let_def\<close>)

lemma reg_inv_send:
  assumes inv: "reg_inv V B R c s" and s: "rg_phase s = Sending" "rg_i s < length (call_payload c)"
  shows "reg_inv V B R c (send_one V R c s)"
proof -
  have call: "call_inv V B R c (rg_i s) (rg_queue s) (rg_resp s)"
    using inv by (simp add: reg_inv_def)
  show ?thesis
  proof (cases rule: send_one_cases [of V c s R])
    case hit
    then show ?thesis
      using call_inv_skip [OF call s(2) hit(1)] s by (simp add: reg_inv_def)
  next
    case (queue q)
    then show ?thesis
      using call_inv_queue [OF call s(2) queue(1)] s by (simp add: reg_inv_def)
  next
    case (refuse e)
    then show ?thesis
      using call_inv_break [OF call, of e] by (simp add: reg_inv_def reg_break_def closed_Close)
  next
    case crash
    then show ?thesis
      using call by (simp add: reg_inv_def)
  qed
qed

lemma reg_inv_step:
  assumes "reg_step V B R c s s'" "reg_inv V B R c s"
  shows "reg_inv V B R c s'"
  using assms
proof (induction rule: reg_step.induct)
  case (send s)
  then show ?case by (intro reg_inv_send)
next
  case (work q s)
  have "isClosed (verifyCheck B q (rg_resp s))" if "isClosed (rg_resp s)"
    using that by simp
  with work call_inv_work [of V B R c "rg_i s" "rg_queue s" "rg_resp s" q] show ?case
    by (auto simp: reg_inv_def)
next
  case (finish s v)
  then have "isClosed (rg_resp s)"
    using resp_ok_recv [of "rg_resp s"] by (auto simp: reg_inv_def call_inv_def split: if_splits)
  with finish show ?case
    by (simp add: reg_inv_def)
qed (simp add: reg_inv_def)

lemma reg_inv_reach: "reg_reach V B R c s \<Longrightarrow> reg_inv V B R c s"
proof (induction rule: reg_reach.induct)
  case start
  then show ?case
    by (simp add: reg_inv_def reg_start_def call_inv_start)
next
  case (step s s')
  then show ?case by (blast intro: reg_inv_step)
next
  case (cancel s e s')
  from cancel.hyps(2) have s': "s' = s\<lparr>rg_phase := Returned (Some e) [], rg_resp := sr_Close (Some e) (rg_resp s)\<rparr>"
    by (rule reg_cancelE)
  have "call_inv V B R c (rg_i s) (rg_queue s) (sr_Close (Some e) (rg_resp s))"
    using cancel.IH by (intro call_inv_break) (simp add: reg_inv_def)
  then show ?case
    by (simp add: reg_inv_def s' closed_Close)
qed

section \<open>Progress\<close>

definition reg_measure :: "'c reg_call \<Rightarrow> reg_state \<Rightarrow> nat" where
  "reg_measure c s = 2 * (length (call_payload c) - rg_i s) + size (rg_queue s)
     + (case rg_phase s of Sending \<Rightarrow> 2 | Waiting \<Rightarrow> 1 | _ \<Rightarrow> 0)"

lemma reg_step_decreases: "reg_step V B R c s s' \<Longrightarrow> reg_measure c s' < reg_measure c s"
proof (induction rule: reg_step.induct)
  case (send s)
  then show ?case
    by (cases rule: send_one_cases [of V c s R]) (simp_all add: reg_measure_def reg_break_def)
next
  case (work q s)
  then obtain Q where "rg_queue s = add_mset q Q"
    by (metis multi_member_split)
  then show ?case
    by (simp add: reg_measure_def)
qed (simp_all add: reg_measure_def)

lemma reg_steps_bound: "(reg_step V B R c ^^ k) s s' \<Longrightarrow> k + reg_measure c s' \<le> reg_measure c s"
proof (induction k arbitrary: s')
  case (Suc k)
  then obtain t where "(reg_step V B R c ^^ k) s t" "reg_step V B R c t s'"
    by auto
  then show ?case
    using Suc.IH [of t] reg_step_decreases [of V B R c t s'] by linarith
qed simp

lemma reg_steps_reach: "(reg_step V B R c ^^ k) (reg_start c) s \<Longrightarrow> reg_reach V B R c s"
  by (induction k arbitrary: s) (auto intro: reg_reach.intros)

lemma reg_stuck:
  assumes inv: "reg_inv V B R c s" and "call_payload c \<noteq> []" and stuck: "\<not> (\<exists>s'. reg_step V B R c s s')"
  shows "(\<exists>e items. rg_phase s = Returned e items) \<or> rg_phase s = Crashed"
proof (cases "rg_phase s")
  case Sending
  have "rg_i s \<le> length (call_payload c)"
    using inv by (simp add: reg_inv_def call_inv_def)
  then show ?thesis
    using reg_step.send [OF Sending] reg_step.sent [OF Sending] stuck by (metis nat_less_le)
next
  case Waiting
  have call: "call_inv V B R c (rg_i s) (rg_queue s) (rg_resp s)"
    using inv by (simp add: reg_inv_def)
  then have ok: "resp_ok (rg_resp s)"
    by (simp add: call_inv_def)
  have open_resp: "\<not> isClosed (rg_resp s)"
    using reg_step.finish [OF Waiting] stuck resp_ok_recv [OF ok] by fastforce
  then have i: "rg_i s = length (call_payload c)" and err: "sr_err (rg_resp s) = None"
    using inv Waiting ok by (simp_all add: reg_inv_def resp_ok_def)
  have "rg_queue s = {#}"
    using reg_step.work stuck by (metis multiset_nonemptyE)
  then have "length (nonErrors (rg_resp s)) + length (reg_hits V c (rg_i s)) = length (call_payload c)"
    using call_inv_sizes [OF call err] i by simp
  moreover have "int (length (nonErrors (rg_resp s))) < int (length (call_payload c)) - int (length (reg_hits V c (rg_i s)))"
    using call open_resp assms(2) by (auto simp: call_inv_def)
  ultimately show ?thesis
    by linarith
qed auto

text \<open>With an empty payload nothing ever closes the response: the call waits until its context ends.\<close>

lemma empty_payload_waits:
  assumes "(reg_step V B R c ^^ k) (reg_start c) s" "call_payload c = []"
  shows "(rg_phase s = Sending \<or> rg_phase s = Waiting) \<and> rg_queue s = {#} \<and> rg_resp s = NewRespC 0"
  using assms(1)
proof (induction k arbitrary: s)
  case 0
  then show ?case
    using assms(2) by (auto simp: reg_start_def)
next
  case (Suc k)
  then obtain t where "(reg_step V B R c ^^ k) (reg_start c) t" "reg_step V B R c t s"
    by auto
  then show ?case
    using Suc.IH [of t] assms(2) by (auto elim!: reg_stepE simp: chan_recv_def NewRespC_def)
qed

section \<open>An example\<close>

definition sample_reg_lib :: reg_lib where
  "sample_reg_lib = \<lparr>rl_ComputeSigningRoot = (\<lambda>m d. Ok 0), rl_pubkey_String = hex_text, rl_PubkeyHex = hex_text\<rparr>"

definition sample_call :: "(pubkey \<Rightarrow> validator_cache_entry option) reg_call" where
  "sample_call =
     \<lparr>call_payload = [(sample_reg 1 5)\<lparr>sreg_Signature := barr_copy [7]\<rparr>],
      call_view = (\<lambda>i. \<lparr>rv_now = 0, rv_rnd = 0, rv_cache = Map.empty,
         rv_beacon = zero_multi_slot_state\<lparr>ms_knownValidators :=
           Some \<lparr>KnownValidatorsByIndex = Map.empty, KnownValidators = [hex_text (barr_copy [7]) \<mapsto> ()]\<rparr>\<rparr>\<rparr>),
      call_domain = 0, call_ttl = 10\<rparr>"

definition sample_request_of_call :: verify_request where
  "sample_request_of_call = \<lparr>rq_Signature = barr_copy [7], rq_Pubkey = barr_copy [7], rq_Msg = 0, rq_ID = 0\<rparr>"

text \<open>The example after the loop, after the answer, and after the call has returned.\<close>

definition sample_sent :: reg_state where
  "sample_sent = \<lparr>rg_phase = Waiting, rg_i = 1, rg_queue = {#sample_request_of_call#}, rg_resp = NewRespC 1\<rparr>"

definition sample_answered :: reg_state where
  "sample_answered = \<lparr>rg_phase = Waiting, rg_i = 1, rg_queue = {#}, rg_resp = verifyCheck sample_bls sample_request_of_call (NewRespC 1)\<rparr>"

definition sample_returned :: reg_state where
  "sample_returned = sample_answered\<lparr>rg_phase := Returned None (call_payload sample_call)\<rparr>"

lemma sample_response:
  "verifyCheck sample_bls sample_request_of_call (NewRespC 1) =
     \<lparr>nonErrors = [0], numAll = 1, isClosed = True, sr_err = None, sr_done = \<lparr>ch_buf = [], ch_closed = True\<rparr>\<rparr>"
  by (simp add: verifyCheck_open verdict_def sample_request_of_call_def sample_bls_verify sr_close_def NewRespC_def)

lemma sample_check: "reg_check sample_cache sample_call 0 = Ok False"
  by (simp add: reg_check_def sample_call_def Check_def sample_cache_def)

lemma sample_send:
  "send_one sample_cache sample_reg_lib sample_call (reg_start sample_call)
     = \<lparr>rg_phase = Sending, rg_i = 1, rg_queue = {#sample_request_of_call#}, rg_resp = NewRespC 1\<rparr>"
proof -
  have "rg_i (reg_start sample_call) = 0"
    by (simp add: reg_start_def)
  then show ?thesis
    by (simp add: send_one_def sample_check)
      (simp add: sample_call_def verifyOther_def sample_reg_lib_def reg_start_def
        sample_request_of_call_def ms_KnownValidators_def load_def)
qed

lemma sample_steps: "(reg_step sample_cache sample_bls sample_reg_lib sample_call ^^ 4) (reg_start sample_call) sample_returned"
proof -
  let ?step = "reg_step sample_cache sample_bls sample_reg_lib sample_call"
  let ?s = "\<lparr>rg_phase = Sending, rg_i = 1, rg_queue = {#sample_request_of_call#}, rg_resp = NewRespC 1\<rparr>"
  have len: "length (call_payload sample_call) = 1"
    by (simp add: sample_call_def)
  have 1: "?step (reg_start sample_call) ?s"
    using reg_step.send [of "reg_start sample_call" sample_call sample_cache sample_bls sample_reg_lib] len
    unfolding sample_send by (simp add: reg_start_def)
  have 2: "?step ?s sample_sent"
    using reg_step.sent [of ?s sample_call sample_cache sample_bls sample_reg_lib] len by (simp add: sample_sent_def)
  have 3: "?step sample_sent sample_answered"
    using reg_step.work [of sample_request_of_call sample_sent sample_cache sample_bls sample_reg_lib sample_call]
    by (simp add: sample_sent_def sample_answered_def)
  have 4: "?step sample_answered sample_returned"
    using reg_step.finish [of sample_answered None sample_cache sample_bls sample_reg_lib sample_call]
    by (simp add: sample_answered_def sample_returned_def sample_response [unfolded One_nat_def] chan_recv_def store_request_def sample_call_def)
  show ?thesis
    using 1 2 3 4 by (auto simp: numeral_eq_Suc)
qed

section \<open>Properties\<close>

text \<open>
  C17: Only valid registrations are stored.  However the loop and the workers interleave, when
  \<open>RegisterValidator\<close> returns, each registration it sent to the store manager is one of the payload
  that is not in the cache, is not from the future, belongs to a validator known at the time and has
  a valid signature of that validator.  If it returns without error, then every registration of the
  payload was sent to the store manager, or was in the cache.
\<close>

theorem RegisterValidator_stores_only_valid:
  assumes "reg_reach V B R c s" and "rg_phase s = Returned e items"
  shows "(\<forall>r. r \<in> set items \<longrightarrow> (\<exists>i < length (call_payload c). r = call_payload c ! i \<and> reg_check V c i = Ok False
            \<and> (\<exists>m msg. sreg_Message r = Some m
                 \<and> verifyOther R (rv_now (call_view c i)) (rv_beacon (call_view c i)) m = Ok ()
                 \<and> rl_ComputeSigningRoot R m (call_domain c) = Ok msg
                 \<and> bls_VerifySignatureBytes B msg (barr_list (sreg_Signature r)) (barr_list (reg_Pubkey m)) = Ok True)))
       \<and> (e = None \<longrightarrow> (\<forall>i < length (call_payload c). reg_check V c i = Ok True \<or> call_payload c ! i \<in> set items))"
proof -
  have inv: "call_inv V B R c (rg_i s) (rg_queue s) (rg_resp s)" and closed: "isClosed (rg_resp s)"
    and items: "e = sr_err (rg_resp s) \<and> items = store_request c (rg_resp s) \<or> e \<noteq> None \<and> items = []"
    using reg_inv_reach [OF assms(1)] assms(2) by (auto simp: reg_inv_def)
  have "\<exists>i < length (call_payload c). r = call_payload c ! i \<and> (\<exists>q. reg_requests V R c i q \<and> verdict B q = None)"
    if r: "r \<in> set items" for r
  proof -
    from items r obtain k where "k \<in> set (nonErrors (rg_resp s))" "r = call_payload c ! nat k"
      by (auto simp: store_request_def)
    moreover from this(1) inv obtain j q where "j < rg_i s" "k = int j" "reg_requests V R c j q" "verdict B q = None"
      unfolding call_inv_def by blast
    moreover have "rg_i s \<le> length (call_payload c)"
      using inv by (simp add: call_inv_def)
    ultimately show ?thesis
      by (intro exI [of _ j]) auto
  qed
  moreover have "reg_check V c i = Ok True \<or> call_payload c ! i \<in> set items"
    if e: "e = None" and i: "i < length (call_payload c)" for i
  proof -
    have "mset (nonErrors (rg_resp s)) + mset (reg_hits V c (length (call_payload c))) = mset (map int [0..<length (call_payload c)])"
      using inv items e closed by (auto simp: call_inv_def)
    then have "set (nonErrors (rg_resp s)) \<union> set (reg_hits V c (length (call_payload c))) = int ` {0..<length (call_payload c)}"
      by (metis set_mset_mset set_mset_union set_map set_upt)
    then have "int i \<in> set (nonErrors (rg_resp s)) \<or> int i \<in> set (reg_hits V c (length (call_payload c)))"
      using i by auto
    then show ?thesis
    proof
      assume "int i \<in> set (nonErrors (rg_resp s))"
      then have "call_payload c ! nat (int i) \<in> set items"
        using items e unfolding store_request_def by (metis image_eqI set_map)
      then show ?thesis
        by simp
    qed (auto simp: reg_hits_def)
  qed
  ultimately show ?thesis
    unfolding reg_requests_def verdict_None_iff by metis
qed

theorem RegisterValidator_stores_only_valid_witness:
  "reg_reach sample_cache sample_bls sample_reg_lib sample_call sample_returned
     \<and> rg_phase sample_returned = Returned None (call_payload sample_call)
     \<and> bls_VerifySignatureBytes sample_bls 0 (barr_list (sreg_Signature (call_payload sample_call ! 0)))
         (barr_list (barr_copy [7] :: pubkey)) = Ok True"
  using RegisterValidator_stores_only_valid [OF reg_steps_reach [OF sample_steps], of None "call_payload sample_call"]
    reg_steps_reach [OF sample_steps]
  by (simp add: sample_returned_def sample_call_def sample_reg_lib_def)

text \<open>
  C18: Registration ends.  With a payload that is not empty, \<open>RegisterValidator\<close> and the workers
  together take at most two steps for each registration and two more, in whatever order, and when no
  step is left the call has returned, or has panicked on the payload; no timeout is needed for that.
\<close>

theorem RegisterValidator_returns:
  assumes "call_payload c \<noteq> []" and "(reg_step V B R c ^^ k) (reg_start c) s"
  shows "k \<le> 2 * length (call_payload c) + 2
       \<and> ((\<exists>s'. reg_step V B R c s s') \<or> (\<exists>e items. rg_phase s = Returned e items) \<or> rg_phase s = Crashed)"
  using reg_steps_bound [OF assms(2)] reg_stuck [OF reg_inv_reach [OF reg_steps_reach [OF assms(2)]] assms(1)]
  by (auto simp: reg_measure_def reg_start_def)

theorem RegisterValidator_returns_witness:
  "(reg_step sample_cache sample_bls sample_reg_lib sample_call ^^ 4) (reg_start sample_call) sample_returned
     \<and> \<not> (\<exists>s'. reg_step sample_cache sample_bls sample_reg_lib sample_call sample_returned s')
     \<and> (\<exists>e items. rg_phase sample_returned = Returned e items)"
proof -
  have "\<not> (\<exists>s'. reg_step sample_cache sample_bls sample_reg_lib sample_call sample_returned s')"
    by (auto elim!: reg_stepE simp: sample_returned_def sample_answered_def)
  then show ?thesis
    using RegisterValidator_returns [OF _ sample_steps] sample_steps
    by (auto simp: sample_call_def sample_returned_def)
qed

end
