(* ===== verification/Stream.thy ===== *)
theory Stream
  imports CapellaSsz Samples
begin

text \<open>
  The stream between relays: messages and their encoding (\<open>src/stream/transport/transport.go\<close>), the
  Redis topic and its subscription (\<open>src/stream/transport/redis/redis.go\<close>), and the client that publishes
  bids and blocks and hands received ones to the relay (\<open>src/stream/stream.go\<close>).

  The JSON codec and \<open>ssz.MarshalSSZ\<close> are the record \<open>stream_lib\<close>; the SSZ codecs are those of
  \<open>CapellaSsz\<close>.  What Redis delivers to a subscription is a list of receive results.  The locale
  \<open>topic\<close> is the contract between the sender and the handler of one kind of object; it is shown once
  that a subscriber then receives exactly what the other relays publish, in order, and applied to bids
  and to blocks.
\<close>

section \<open>Variable-length integers\<close>

text \<open>\<open>binary.PutUvarint\<close> and \<open>binary.Uvarint\<close> of \<open>encoding/binary\<close>.\<close>

fun PutUvarint :: "nat \<Rightarrow> bytes" where
  "PutUvarint x = (if x < 128 then [of_nat x] else of_nat (x mod 128 + 128) # PutUvarint (x div 128))"

declare PutUvarint.simps [simp del]

fun uvarint_loop :: "nat \<Rightarrow> nat \<Rightarrow> nat \<Rightarrow> bytes \<Rightarrow> nat \<times> int" where
  "uvarint_loop i s x [] = (0, 0)"
| "uvarint_loop i s x (b # bs) =
     (if i = 10 then (0, - (int i + 1))
      else if unat b < 128 then
        (if i = 9 \<and> unat b > 1 then (0, - (int i + 1)) else (x + unat b * 2 ^ s, int i + 1))
      else uvarint_loop (Suc i) (s + 7) (x + (unat b mod 128) * 2 ^ s) bs)"

definition Uvarint :: "bytes \<Rightarrow> nat \<times> int" where
  "Uvarint bs = uvarint_loop 0 0 0 bs"

section \<open>Messages\<close>

definition Unknown :: u64 where "Unknown = 0"

definition AltairJson :: u64 where "AltairJson = 1"

definition BellatrixJson :: u64 where "BellatrixJson = 2"

definition CapellaJson :: u64 where "CapellaJson = 3"

definition CapellaSSZ :: u64 where "CapellaSSZ = 4"

lemmas format_defs = Unknown_def AltairJson_def BellatrixJson_def CapellaJson_def CapellaSSZ_def

type_synonym uuid = "16 barr"

record message =
  msg_Source :: uuid
  msg_ForkEncoding :: u64
  msg_Payload :: bytes

record stream_lib =
  json_Message :: "message \<Rightarrow> (go_error, bytes) res"
  parse_Message :: "bytes \<Rightarrow> (go_error, message) res"
  json_bid :: "bid \<Rightarrow> (go_error, bytes) res"
  parse_bellatrix_bid :: "bytes \<Rightarrow> (go_error, exec_header builder_bid_extended) res"
  parse_capella_bid :: "bytes \<Rightarrow> (go_error, capella_header builder_bid_extended) res"
  json_block :: "block_and_trace \<Rightarrow> (go_error, bytes) res"
  parse_bellatrix_block :: "bytes \<Rightarrow> (go_error, bellatrix_block) res"
  parse_capella_block :: "bytes \<Rightarrow> (go_error, capella_block) res"
  MarshalSSZ_bid :: "capella_header builder_bid_extended \<Rightarrow> (go_error, bytes) res"
  MarshalSSZ_block :: "capella_block \<Rightarrow> (go_error, bytes) res"

definition ErrDecodeVarint :: go_error where
  "ErrDecodeVarint = ErrNew ''error decoding varint value''"

definition Encode :: "stream_lib \<Rightarrow> message \<Rightarrow> (go_error, bytes) res" where
  "Encode S m = bind_res (json_Message S m) (\<lambda>rawItem. Ok (PutUvarint (unat CapellaJson) @ rawItem))"

definition Decode :: "stream_lib \<Rightarrow> bytes \<Rightarrow> (go_error, message) res" where
  "Decode S b =
     (case Uvarint b of
        (varint, n) \<Rightarrow>
          if n \<le> 0 then Err ErrDecodeVarint
          else if of_nat varint = BellatrixJson \<or> of_nat varint = CapellaJson
          then bind_res (slice_res (nat n) (length b) b) (parse_Message S)
          else Err (ErrNew (''invalid fork version: '' @ dec varint)))"

section \<open>Topics\<close>

text \<open>
  \<open>Publish\<close> on the topic of the node \<open>local\<close>.  \<open>redis\<close> is the answer of the server to a message; the
  second component of the result is what was handed to it.
\<close>

definition topic_Publish ::
  "stream_lib \<Rightarrow> uuid \<Rightarrow> (bytes \<Rightarrow> go_error option) \<Rightarrow> message \<Rightarrow> (go_error, unit) res \<times> bytes list" where
  "topic_Publish S local redis m =
     (case Encode S (m\<lparr>msg_Source := local\<rparr>) of
        Ok b \<Rightarrow> ((case redis b of None \<Rightarrow> Ok () | Some e \<Rightarrow> Err e), [b])
      | Err e \<Rightarrow> (Err (wrap_msg ''marshal json'' e), [])
      | Panic \<Rightarrow> (Panic, []))"

text \<open>
  What \<open>ReceiveMessage\<close> returns: a message, an error that ends the subscription, or another error, after
  which the subscription waits and tries again unless its context ends in the meantime.
\<close>

datatype receive =
  Received bytes
| ReceiveFatal go_error
| ReceiveError
| ReceiveErrorDone go_error

text \<open>\<open>Next\<close> returns the first message of another node, with the receive results left; \<open>None\<close> while it waits.\<close>

fun Next :: "stream_lib \<Rightarrow> uuid \<Rightarrow> receive list \<Rightarrow> ((go_error, message) res \<times> receive list) option" where
  "Next S local [] = None"
| "Next S local (ReceiveFatal e # rs) = Some (Err e, rs)"
| "Next S local (ReceiveErrorDone e # rs) = Some (Err e, rs)"
| "Next S local (ReceiveError # rs) = Next S local rs"
| "Next S local (Received b # rs) =
     (case Decode S b of
        Ok msg \<Rightarrow> if msg_Source msg \<noteq> local then Some (Ok msg, rs) else Next S local rs
      | Err e \<Rightarrow> Next S local rs
      | Panic \<Rightarrow> Some (Panic, rs))"

lemma Next_shorter: "Next S local rs = Some (r, rest) \<Longrightarrow> length rest < length rs"
  by (induction S local rs rule: Next.induct) (auto split: res.splits if_splits)

text \<open>The loop of \<open>subscribe\<close>: the objects it hands on, until the subscription ends or waits.\<close>

definition context_Canceled :: go_error where
  "context_Canceled = LibErr ''context canceled''"

function subscribe :: "stream_lib \<Rightarrow> uuid \<Rightarrow> (message \<Rightarrow> (go_error, 'a) res) \<Rightarrow> receive list \<Rightarrow> 'a list" where
  "subscribe S local handle rs =
     (case Next S local rs of
        Some (Ok msg, rest) \<Rightarrow>
          (case handle msg of
             Ok x \<Rightarrow> x # subscribe S local handle rest
           | Err e \<Rightarrow> if e = context_Canceled then [] else subscribe S local handle rest
           | Panic \<Rightarrow> [])
      | _ \<Rightarrow> [])"
  by pat_completeness auto
termination
  by (relation "measure (\<lambda>(S, local, handle, rs). length rs)") (auto dest: Next_shorter)

declare subscribe.simps [simp del]

section \<open>The client\<close>

definition toBidFormat :: "fork_version \<Rightarrow> u64" where
  "toBidFormat fork =
     (case fork of ForkAltair \<Rightarrow> AltairJson | ForkBellatrix \<Rightarrow> BellatrixJson | ForkCapella \<Rightarrow> CapellaSSZ | ForkUnknown \<Rightarrow> Unknown)"

definition toBlockCacheFormat :: "fork_version \<Rightarrow> u64" where
  "toBlockCacheFormat fork =
     (case fork of ForkAltair \<Rightarrow> AltairJson | ForkBellatrix \<Rightarrow> BellatrixJson | ForkCapella \<Rightarrow> CapellaSSZ | ForkUnknown \<Rightarrow> Unknown)"

definition ErrNoEncoderSSZ :: go_error where
  "ErrNoEncoderSSZ = ErrNew ''unable to cast to SSZ encoder''"

text \<open>\<open>encode\<close>; of the objects sent, those of Capella implement \<open>EncoderSSZ\<close>.\<close>

definition encode_raw ::
  "((go_error, bytes) res) option \<Rightarrow> (go_error, bytes) res \<Rightarrow> u64 \<Rightarrow> (go_error, message) res" where
  "encode_raw ssz json fvf =
     bind_res (if fvf = CapellaSSZ then (case ssz of None \<Rightarrow> Err ErrNoEncoderSSZ | Some r \<Rightarrow> r) else json)
       (\<lambda>rawData. Ok \<lparr>msg_Source = 0, msg_ForkEncoding = fvf, msg_Payload = rawData\<rparr>)"

fun bid_MarshalSSZ :: "stream_lib \<Rightarrow> bid \<Rightarrow> ((go_error, bytes) res) option" where
  "bid_MarshalSSZ S (CapellaBid b) = Some (MarshalSSZ_bid S b)"
| "bid_MarshalSSZ S (BellatrixBid b) = None"

fun block_MarshalSSZ :: "stream_lib \<Rightarrow> block_and_trace \<Rightarrow> ((go_error, bytes) res) option" where
  "block_MarshalSSZ S (CapellaBT b) = Some (MarshalSSZ_block S b)"
| "block_MarshalSSZ S (BellatrixBT b) = None"

definition encode_bid :: "stream_lib \<Rightarrow> multi_slot_state \<Rightarrow> bid \<Rightarrow> (go_error, message) res" where
  "encode_bid S st bid = encode_raw (bid_MarshalSSZ S bid) (json_bid S bid) (toBidFormat (ms_ForkVersion st (bid_Slot bid)))"

definition encode_block :: "stream_lib \<Rightarrow> multi_slot_state \<Rightarrow> block_and_trace \<Rightarrow> (go_error, message) res" where
  "encode_block S st block =
     bind_res (bat_Slot block) (\<lambda>slot.
       encode_raw (block_MarshalSSZ S block) (json_block S block) (toBlockCacheFormat (ms_ForkVersion st slot)))"

text \<open>The common part of the two publishers, with the texts of their errors.\<close>

definition publish ::
  "string \<Rightarrow> string \<Rightarrow> stream_lib \<Rightarrow> uuid \<Rightarrow> (bytes \<Rightarrow> go_error option) \<Rightarrow> (go_error, message) res
     \<Rightarrow> (go_error, unit) res \<times> bytes list" where
  "publish encode_text publish_text S local redis enc =
     (case enc of
        Err e \<Rightarrow> (Err (wrap_msg encode_text e), [])
      | Panic \<Rightarrow> (Panic, [])
      | Ok msg \<Rightarrow> (case topic_Publish S local redis msg of (r, out) \<Rightarrow> (map_err (wrap_msg publish_text) r, out)))"

definition PublishBuilderBid ::
  "stream_lib \<Rightarrow> multi_slot_state \<Rightarrow> uuid \<Rightarrow> (bytes \<Rightarrow> go_error option) \<Rightarrow> bid \<Rightarrow> (go_error, unit) res \<times> bytes list" where
  "PublishBuilderBid S st local redis bid =
     publish ''fail to encode encode and stream block'' ''fail to encode encode and stream block'' S local redis (encode_bid S st bid)"

definition PublishBlockCache ::
  "stream_lib \<Rightarrow> multi_slot_state \<Rightarrow> uuid \<Rightarrow> (bytes \<Rightarrow> go_error option) \<Rightarrow> block_and_trace
     \<Rightarrow> (go_error, unit) res \<times> bytes list" where
  "PublishBlockCache S st local redis block =
     publish ''fail to encode cache block'' ''fail to publish cache block'' S local redis (encode_block S st block)"

text \<open>The zero values that received objects are decoded into.\<close>

definition zero_capella_bid :: "capella_header builder_bid_extended" where
  "zero_capella_bid = \<lparr>bx_BuilderBid = \<lparr>bb_Header = None, bb_Value = 0, bb_Pubkey = 0\<rparr>, bx_Proposer = 0, bx_Slot = 0\<rparr>"

definition zero_capella_block :: capella_block where
  "zero_capella_block =
     \<lparr>cbt_Payload = \<lparr>vr_Version = [], vr_Data = zero_capella_payload\<rparr>,
      cbt_Trace = \<lparr>sbt_Signature = 0,
        sbt_Message = \<lparr>bt_Slot = 0, bt_ParentHash = 0, bt_BlockHash = 0, bt_BuilderPubkey = 0, bt_ProposerPubkey = 0,
          bt_ProposerFeeRecipient = 0, bt_GasLimit = 0, bt_GasUsed = 0, bt_Value = 0\<rparr>\<rparr>,
      cbt_ExecutionHeaderHash = 0\<rparr>"

definition unknown_fork_encoding :: "u64 \<Rightarrow> go_error" where
  "unknown_fork_encoding f = ErrNew (''unknown fork encoding: '' @ dec (unat f))"

definition handleBid :: "ssz_lib \<Rightarrow> stream_lib \<Rightarrow> message \<Rightarrow> (go_error, bid) res" where
  "handleBid L S msg =
     (let forkEncoding = msg_ForkEncoding msg
      in if forkEncoding = BellatrixJson then bind_res (parse_bellatrix_bid S (msg_Payload msg)) (\<lambda>b. Ok (BellatrixBid b))
         else if forkEncoding = CapellaJson then bind_res (parse_capella_bid S (msg_Payload msg)) (\<lambda>b. Ok (CapellaBid b))
         else if forkEncoding = CapellaSSZ
         then bind_res (BuilderBidExtended_UnmarshalSSZ L zero_capella_bid (msg_Payload msg)) (\<lambda>b. Ok (CapellaBid b))
         else Err (unknown_fork_encoding forkEncoding))"

definition handleCache :: "ssz_lib \<Rightarrow> stream_lib \<Rightarrow> message \<Rightarrow> (go_error, block_and_trace) res" where
  "handleCache L S msg =
     (let forkEncoding = msg_ForkEncoding msg
      in if forkEncoding = BellatrixJson then bind_res (parse_bellatrix_block S (msg_Payload msg)) (\<lambda>b. Ok (BellatrixBT b))
         else if forkEncoding = CapellaJson then bind_res (parse_capella_block S (msg_Payload msg)) (\<lambda>b. Ok (CapellaBT b))
         else if forkEncoding = CapellaSSZ
         then bind_res (Block_UnmarshalSSZ L zero_capella_block (msg_Payload msg)) (\<lambda>b. Ok (CapellaBT b))
         else Err (unknown_fork_encoding forkEncoding))"

section \<open>Lemmas on the encoding\<close>

lemma uvarint_loop_Put:
  "\<lbrakk>i \<le> 9; x < 2 ^ (64 - 7 * i)\<rbrakk> \<Longrightarrow>
   uvarint_loop i (7 * i) acc (PutUvarint x @ rest) = (acc + x * 2 ^ (7 * i), int (i + length (PutUvarint x)))"
proof (induction x arbitrary: i acc rule: PutUvarint.induct)
  case (1 x)
  show ?case
  proof (cases "x < 128")
    case True
    moreover from this have "unat (of_nat x :: byte) = x"
      by (simp add: unat_of_nat)
    moreover have "x \<le> 1" if "i = 9"
      using "1.prems"(2) that by simp
    ultimately show ?thesis
      using "1.prems"(1) by (auto simp: PutUvarint.simps [of x])
  next
    case False
    have i: "i \<noteq> 9"
      using False "1.prems"(2) by auto
    then have "64 - 7 * i = 7 + (64 - 7 * Suc i)"
      using "1.prems"(1) by simp
    then have "x < 2 ^ (7 + (64 - 7 * Suc i))"
      using "1.prems"(2) by (simp only:)
    then have "x < 2 ^ 7 * 2 ^ (64 - 7 * Suc i)"
      by (simp only: power_add)
    then have small: "x div 128 < 2 ^ (64 - 7 * Suc i)"
      by (simp add: less_mult_imp_div_less mult.commute)
    have b: "unat (of_nat (x mod 128 + 128) :: byte) = x mod 128 + 128"
      by (simp only: unat_of_nat) simp
    have "(x mod 128) * 2 ^ (7 * i) + (x div 128) * 2 ^ (7 * Suc i) = (x mod 128 + x div 128 * 2 ^ 7) * 2 ^ (7 * i)"
      by (simp only: mult_Suc_right power_add distrib_right mult.assoc)
    also have "x mod 128 + x div 128 * 2 ^ 7 = x"
      by simp
    finally have sum: "(x mod 128) * 2 ^ (7 * i) + (x div 128) * 2 ^ (7 * Suc i) = x * 2 ^ (7 * i)" .
    have "uvarint_loop i (7 * i) acc (PutUvarint x @ rest)
        = uvarint_loop (Suc i) (7 * Suc i) (acc + (x mod 128) * 2 ^ (7 * i)) (PutUvarint (x div 128) @ rest)"
      using False i "1.prems"(1) b by (simp add: PutUvarint.simps [of x] add.commute)
    also have "\<dots> = (acc + x * 2 ^ (7 * i), int (i + length (PutUvarint x)))"
      using "1.IH" [OF False, of "Suc i" "acc + (x mod 128) * 2 ^ (7 * i)"] i "1.prems"(1) small sum False
      by (simp add: PutUvarint.simps [of x])
    finally show ?thesis .
  qed
qed

lemma Uvarint_PutUvarint: "x < 2 ^ 64 \<Longrightarrow> Uvarint (PutUvarint x @ rest) = (x, int (length (PutUvarint x)))"
  using uvarint_loop_Put [of 0 x 0 rest] by (simp add: Uvarint_def)

lemma PutUvarint_nonempty: "PutUvarint x \<noteq> []"
  by (subst PutUvarint.simps) simp

lemma Decode_Encode:
  assumes "Encode S m = Ok b" and "\<And>raw. json_Message S m = Ok raw \<Longrightarrow> parse_Message S raw = Ok m"
  shows "Decode S b = Ok m"
proof -
  from assms(1) obtain raw where raw: "json_Message S m = Ok raw" "b = PutUvarint 3 @ raw"
    by (auto simp: Encode_def bind_res_Ok_iff CapellaJson_def)
  have "Uvarint b = (3, int (length (PutUvarint 3)))"
    by (simp add: raw(2) Uvarint_PutUvarint)
  then show ?thesis
    using assms(2) [OF raw(1)] PutUvarint_nonempty [of 3]
    by (simp add: Decode_def CapellaJson_def raw(2) slice_res_def slice_def)
qed

section \<open>Topics deliver what is published\<close>

text \<open>
  A topic: \<open>enc\<close> makes the message for an object, \<open>handle\<close> decodes a message, and for the objects that
  are \<open>good\<close> the handler finds the object again, in the form \<open>norm\<close>, whoever the source is.
\<close>

locale topic =
  fixes S :: stream_lib and enc :: "'a \<Rightarrow> (go_error, message) res" and handle :: "message \<Rightarrow> (go_error, 'a) res"
    and good :: "'a \<Rightarrow> bool" and norm :: "'a \<Rightarrow> 'a"
  assumes message_codec: "json_Message S m = Ok raw \<Longrightarrow> parse_Message S raw = Ok m"
    and handle_enc: "\<lbrakk>good x; enc x = Ok m\<rbrakk> \<Longrightarrow> handle (m\<lparr>msg_Source := n\<rparr>) = Ok (norm x)"
begin

lemma published:
  assumes "good x" and "publish t1 t2 S src redis (enc x) = (r, [raw])"
  shows "\<exists>m. Decode S raw = Ok m \<and> msg_Source m = src \<and> handle m = Ok (norm x)"
proof -
  from assms(2) obtain m where m: "enc x = Ok m" "Encode S (m\<lparr>msg_Source := src\<rparr>) = Ok raw"
    by (auto simp: publish_def topic_Publish_def split: res.splits prod.splits)
  then show ?thesis
    using Decode_Encode [OF m(2) message_codec] handle_enc [OF assms(1) m(1), of src] by simp
qed

text \<open>One more message: it is delivered, unless it is the subscriber's own.\<close>

lemma subscribe_one:
  assumes "good x" and "publish t1 t2 S src redis (enc x) = (r, [raw])"
  shows "subscribe S local handle (Received raw # rs)
           = (if src = local then [] else [norm x]) @ subscribe S local handle rs"
proof -
  from published [OF assms] obtain m where m: "Decode S raw = Ok m" "msg_Source m = src" "handle m = Ok (norm x)"
    by blast
  show ?thesis
  proof (cases "src = local")
    case True
    then have "Next S local (Received raw # rs) = Next S local rs"
      using m by simp
    then show ?thesis
      using True by (subst (1 2) subscribe.simps) simp
  next
    case False
    then show ?thesis
      using m by (subst subscribe.simps) simp
  qed
qed

lemma subscribe_all:
  assumes "list_all2 (\<lambda>(src, x) raw. good x \<and> (\<exists>r. publish t1 t2 S src redis (enc x) = (r, [raw]))) items raws"
  shows "subscribe S local handle (map Received raws) = map (norm \<circ> snd) (filter (\<lambda>(src, x). src \<noteq> local) items)"
  using assms
proof (induction rule: list_all2_induct)
  case Nil
  then show ?case by (subst subscribe.simps) simp
next
  case (Cons it items raw raws)
  then show ?case
    using subscribe_one [of "snd it" t1 t2 "fst it" redis _ raw local "map Received raws"]
    by (auto simp: case_prod_beta)
qed

end

section \<open>Bids and blocks\<close>

text \<open>
  The objects a relay publishes: of the fork of their slot, and within the limits of SSZ where that is
  the format.  They arrive unchanged, but for a header or empty slices that SSZ puts in the place of nil.
\<close>

fun sendable_bid :: "multi_slot_state \<Rightarrow> bid \<Rightarrow> bool" where
  "sendable_bid st (CapellaBid b) \<longleftrightarrow> ms_ForkVersion st (bx_Slot b) = ForkCapella \<and> bid_wf b"
| "sendable_bid st (BellatrixBid b) \<longleftrightarrow> ms_ForkVersion st (bx_Slot b) = ForkBellatrix"

fun sendable_block :: "multi_slot_state \<Rightarrow> block_and_trace \<Rightarrow> bool" where
  "sendable_block st (CapellaBT b) \<longleftrightarrow>
     ms_ForkVersion st (bt_Slot (sbt_Message (cbt_Trace b))) = ForkCapella \<and> block_wf b"
| "sendable_block st (BellatrixBT b) \<longleftrightarrow>
     (case bellatrix_trace b of None \<Rightarrow> False | Some t \<Rightarrow> ms_ForkVersion st (bt_Slot t) = ForkBellatrix)"

fun arriving_bid :: "bid \<Rightarrow> bid" where
  "arriving_bid (CapellaBid b) = CapellaBid (norm_bid b)"
| "arriving_bid (BellatrixBid b) = BellatrixBid b"

fun arriving_block :: "block_and_trace \<Rightarrow> block_and_trace" where
  "arriving_block (CapellaBT b) = CapellaBT (norm_block b)"
| "arriving_block (BellatrixBT b) = BellatrixBT b"

text \<open>
  What the libraries promise: JSON decodes what it encoded, and \<open>ssz.MarshalSSZ\<close> is the object's own
  encoder on an empty buffer.
\<close>

locale stream_laws = ssz_laws L for L :: ssz_lib +
  fixes S :: stream_lib and st :: multi_slot_state
  assumes json_message: "json_Message S m = Ok raw \<Longrightarrow> parse_Message S raw = Ok m"
    and json_bellatrix_bid: "json_bid S (BellatrixBid b) = Ok raw \<Longrightarrow> parse_bellatrix_bid S raw = Ok b"
    and json_bellatrix_block: "json_block S (BellatrixBT t) = Ok raw \<Longrightarrow> parse_bellatrix_block S raw = Ok t"
    and marshal_bid: "MarshalSSZ_bid S c = fst (BuilderBidExtended_MarshalSSZTo L [] c)"
    and marshal_block: "MarshalSSZ_block S d = Block_MarshalSSZTo L d []"
begin

lemma bid_arrives:
  assumes "sendable_bid st x" and "encode_bid S st x = Ok m"
  shows "handleBid L S (m\<lparr>msg_Source := n\<rparr>) = Ok (arriving_bid x)"
proof (cases x)
  case (CapellaBid b)
  have fresh: "bid_fresh zero_capella_bid"
    by (simp add: bid_fresh_def zero_capella_bid_def the_default_def header_fresh_def zero_capella_header_def)
  obtain bs where "fst (BuilderBidExtended_MarshalSSZTo L [] b) = Ok bs"
    "BuilderBidExtended_UnmarshalSSZ L zero_capella_bid bs = Ok (norm_bid b)"
    using bid_roundtrip [of b] assms(1) fresh by (auto simp: CapellaBid)
  then show ?thesis
    using assms by (auto simp: CapellaBid encode_bid_def encode_raw_def toBidFormat_def marshal_bid handleBid_def format_defs)
next
  case (BellatrixBid b)
  then show ?thesis
    using assms json_bellatrix_bid [of b]
    by (auto simp: encode_bid_def encode_raw_def toBidFormat_def handleBid_def format_defs bind_res_Ok_iff)
qed

lemma block_arrives:
  assumes "sendable_block st x" and "encode_block S st x = Ok m"
  shows "handleCache L S (m\<lparr>msg_Source := n\<rparr>) = Ok (arriving_block x)"
proof (cases x)
  case (CapellaBT b)
  have fresh: "block_fresh zero_capella_block"
    by (simp add: block_fresh_def zero_capella_block_def payload_fresh_def zero_capella_payload_def nil_list_def)
  obtain bs where "Block_MarshalSSZTo L b [] = Ok bs" "Block_UnmarshalSSZ L zero_capella_block bs = Ok (norm_block b)"
    using block_roundtrip [of b] assms(1) fresh by (auto simp: CapellaBT)
  then show ?thesis
    using assms
    by (auto simp: CapellaBT encode_block_def encode_raw_def toBlockCacheFormat_def marshal_block handleCache_def format_defs)
next
  case (BellatrixBT b)
  then show ?thesis
    using assms json_bellatrix_block [of b]
    by (auto simp: encode_block_def encode_raw_def toBlockCacheFormat_def handleCache_def format_defs deref_def bind_res_Ok_iff
        split: option.splits)
qed

end

sublocale stream_laws \<subseteq> bid_topic: topic S "encode_bid S st" "handleBid L S" "sendable_bid st" arriving_bid
  by unfold_locales (blast intro: json_message bid_arrives)+

sublocale stream_laws \<subseteq> block_topic: topic S "encode_block S st" "handleCache L S" "sendable_block st" arriving_block
  by unfold_locales (blast intro: json_message block_arrives)+

context stream_laws
begin

lemmas bids_delivered = bid_topic.subscribe_all
lemmas blocks_delivered = block_topic.subscribe_all

end

section \<open>An instance\<close>

text \<open>
  Messages as their fields one after the other, and Bellatrix bids as Capella bids without withdrawals
  in SSZ.  The instance has no encoding for Bellatrix blocks.
\<close>

definition to_capella :: "exec_header builder_bid_extended \<Rightarrow> capella_header builder_bid_extended" where
  "to_capella b =
     \<lparr>bx_BuilderBid =
        \<lparr>bb_Header = map_option (\<lambda>h. exec_header.extend h (capella_header.fields 0)) (bb_Header (bx_BuilderBid b)),
         bb_Value = bb_Value (bx_BuilderBid b), bb_Pubkey = bb_Pubkey (bx_BuilderBid b)\<rparr>,
      bx_Proposer = bx_Proposer b, bx_Slot = bx_Slot b\<rparr>"

definition of_capella :: "capella_header builder_bid_extended \<Rightarrow> exec_header builder_bid_extended" where
  "of_capella b =
     \<lparr>bx_BuilderBid =
        \<lparr>bb_Header = map_option exec_header.truncate (bb_Header (bx_BuilderBid b)),
         bb_Value = bb_Value (bx_BuilderBid b), bb_Pubkey = bb_Pubkey (bx_BuilderBid b)\<rparr>,
      bx_Proposer = bx_Proposer b, bx_Slot = bx_Slot b\<rparr>"

definition plain_bid :: "bid \<Rightarrow> (go_error, bytes) res" where
  "plain_bid x =
     (case x of
        CapellaBid b \<Rightarrow> fst (BuilderBidExtended_MarshalSSZTo le_ssz [] b)
      | BellatrixBid b \<Rightarrow>
          if bb_Header (bx_BuilderBid b) \<noteq> None \<and> bid_wf (to_capella b)
          then fst (BuilderBidExtended_MarshalSSZTo le_ssz [] (to_capella b)) else Err (ErrNew ''no header''))"

definition plain_stream :: stream_lib where
  "plain_stream =
     \<lparr>json_Message = (\<lambda>m. Ok (barr_list (msg_Source m) @ le_bytes 8 (unat (msg_ForkEncoding m)) @ msg_Payload m)),
      parse_Message = (\<lambda>bs. Ok \<lparr>msg_Source = barr_copy (take 16 bs), msg_ForkEncoding = of_nat (le_val (slice 16 24 bs)),
                                msg_Payload = drop 24 bs\<rparr>),
      json_bid = plain_bid,
      parse_bellatrix_bid = (\<lambda>bs. bind_res (BuilderBidExtended_UnmarshalSSZ le_ssz zero_capella_bid bs) (\<lambda>b. Ok (of_capella b))),
      parse_capella_bid = BuilderBidExtended_UnmarshalSSZ le_ssz zero_capella_bid,
      json_block = (\<lambda>x. Err (ErrNew ''unsupported'')),
      parse_bellatrix_block = (\<lambda>bs. Err (ErrNew ''unsupported'')),
      parse_capella_block = Block_UnmarshalSSZ le_ssz zero_capella_block,
      MarshalSSZ_bid = (\<lambda>b. fst (BuilderBidExtended_MarshalSSZTo le_ssz [] b)),
      MarshalSSZ_block = (\<lambda>b. Block_MarshalSSZTo le_ssz b [])\<rparr>"

lemma of_to_capella:
  "bb_Header (bx_BuilderBid b) \<noteq> None \<Longrightarrow> of_capella (norm_bid (to_capella b)) = b"
  by (cases b; cases "bx_BuilderBid b")
    (auto simp: of_capella_def to_capella_def norm_bid_def ensure_header_def exec_header.defs capella_header.defs)

lemma zero_bid_fresh: "bid_fresh zero_capella_bid"
  by (simp add: bid_fresh_def zero_capella_bid_def the_default_def header_fresh_def zero_capella_header_def)

lemma plain_bellatrix_bid:
  assumes "plain_bid (BellatrixBid b) = Ok raw"
  shows "bind_res (BuilderBidExtended_UnmarshalSSZ le_ssz zero_capella_bid raw) (\<lambda>b. Ok (of_capella b)) = Ok b"
proof -
  have b: "bb_Header (bx_BuilderBid b) \<noteq> None" "bid_wf (to_capella b)"
    using assms by (auto simp: plain_bid_def split: if_splits)
  then have raw: "fst (BuilderBidExtended_MarshalSSZTo le_ssz [] (to_capella b)) = Ok raw"
    using assms by (simp add: plain_bid_def)
  have "BuilderBidExtended_UnmarshalSSZ le_ssz zero_capella_bid raw = Ok (norm_bid (to_capella b))"
    using le.bid_roundtrip [OF b(2)] raw zero_bid_fresh by auto
  then show ?thesis
    by (simp add: of_to_capella [OF b(1)])
qed

lemma plain_message: "json_Message plain_stream m = Ok raw \<Longrightarrow> parse_Message plain_stream raw = Ok m"
proof -
  have "of_nat (le_val (le_bytes 8 (unat t))) = t" for t :: u64
  proof -
    have "unat t < 256 ^ 8"
      using unsigned_less [of t] by simp
    then show ?thesis
      by (simp add: le_val_le_bytes)
  qed
  then show "json_Message plain_stream m = Ok raw \<Longrightarrow> parse_Message plain_stream raw = Ok m"
    by (auto simp: plain_stream_def slice_def)
qed

interpretation plain: stream_laws le_ssz plain_stream st for st
  by unfold_locales
    (simp_all add: plain_message, simp_all add: plain_stream_def plain_bellatrix_bid)

section \<open>Properties\<close>

definition sample_relay :: "byte \<Rightarrow> uuid" where
  "sample_relay k = barr_copy [k]"

lemma sample_relays_differ: "sample_relay 1 \<noteq> sample_relay 2"
  by (simp add: sample_relay_def barr_copy_single_eq)

definition sample_sent_bid :: "capella_header builder_bid_extended" where
  "sample_sent_bid = ssz_bid\<lparr>bx_Slot := 64\<rparr>"

definition sample_raw :: "byte \<Rightarrow> bytes" where
  "sample_raw k = hd (snd (PublishBuilderBid plain_stream sample_bs (sample_relay k) (\<lambda>_. None) (CapellaBid sample_sent_bid)))"

lemma sample_sendable: "sendable_bid sample_bs (CapellaBid sample_sent_bid)"
  by (simp add: sample_sent_bid_def ssz_bid_def sample_fork bid_wf_def the_default_def header_wf_def zero_capella_header_def)

lemma sample_raw:
  "snd (PublishBuilderBid plain_stream sample_bs (sample_relay k) (\<lambda>_. None) (CapellaBid sample_sent_bid)) = [sample_raw k]"
proof -
  obtain bs where "fst (BuilderBidExtended_MarshalSSZTo le_ssz [] sample_sent_bid) = Ok bs"
    using le.bid_roundtrip [of sample_sent_bid] sample_sendable by auto
  then show ?thesis
    using sample_sendable
    by (simp add: sample_raw_def PublishBuilderBid_def publish_def encode_bid_def encode_raw_def toBidFormat_def
        topic_Publish_def Encode_def plain_stream_def)
qed



end
