(* ===== verification/Datastore.thy ===== *)
theory Datastore
  imports CapellaSsz Samples
begin

text \<open>
  The Badger database and the payload store over it, \<open>src/datastore/datastore.go\<close>.

  The database is the record \<open>badger_db\<close>: lookups, transactions (a list of entries that is committed as a
  whole), and iteration over the entries in the order of their keys; the JSON codec and the texts of
  hashes and public keys are in the record too.  Entries do not expire in the model.  The locale
  \<open>badger_laws\<close> says what these libraries promise; it is met by a database in memory.
\<close>

section \<open>The database\<close>

record 'w badger_db =
  bg_Get :: "string \<Rightarrow> 'w \<Rightarrow> (go_error, bytes) res"
  bg_SetEntry :: "string \<Rightarrow> bytes \<Rightarrow> go_error option"
  bg_Commit :: "(string \<times> bytes) list \<Rightarrow> 'w \<Rightarrow> go_error option \<times> 'w"
  bg_PutWithTTL :: "string \<Rightarrow> bytes \<Rightarrow> int \<Rightarrow> 'w \<Rightarrow> go_error option \<times> 'w"
  bg_items :: "'w \<Rightarrow> (string \<times> (go_error, bytes) res) list"
  bg_NewKey :: "string \<Rightarrow> string"
  bg_ErrNotFound :: go_error
  bg_hash_String :: "hash \<Rightarrow> string"
  bg_pubkey_String :: "pubkey \<Rightarrow> string"
  trace_Marshal :: "bid_trace_with_timestamp \<Rightarrow> (go_error, bytes) res"
  trace_Unmarshal :: "bytes \<Rightarrow> (go_error, bid_trace_with_timestamp) res"
  block_Marshal :: "block_and_trace \<Rightarrow> (go_error, bytes) res"
  bellatrix_Unmarshal :: "bytes \<Rightarrow> (go_error, bellatrix_block) res"
  capella_Unmarshal :: "bytes \<Rightarrow> (go_error, capella_block) res"

text \<open>A transaction: every entry is set, then all are committed; a failure leaves the database as it is.\<close>

definition transaction :: "'w badger_db \<Rightarrow> (string \<times> bytes) list \<Rightarrow> (go_error, 'w, unit) handler" where
  "transaction G entries w =
     (case find (\<lambda>e. e \<noteq> None) (map (\<lambda>(k, v). bg_SetEntry G k v) entries) of
        Some (Some e) \<Rightarrow> (Err e, w)
      | _ \<Rightarrow> (case bg_Commit G entries w of (Some e, w') \<Rightarrow> (Err e, w') | (None, w') \<Rightarrow> (Ok (), w')))"

text \<open>
  \<open>it.Seek(prefix); it.ValidForPrefix(prefix); it.Next()\<close>: the entries from the first key that is not
  below the prefix on, as long as they have the prefix, so those with the prefix.
\<close>

definition prefix_items :: "'w badger_db \<Rightarrow> string \<Rightarrow> 'w \<Rightarrow> (string \<times> (go_error, bytes) res) list" where
  "prefix_items G p w = filter (\<lambda>(k, v). has_prefix k p) (bg_items G w)"

section \<open>Payloads\<close>

definition PayloadKeyKey :: "'w badger_db \<Rightarrow> payload_key \<Rightarrow> string" where
  "PayloadKeyKey G key =
     bg_NewKey G (''payload-'' @ bg_hash_String G (pk_BlockHash key) @ ''-'' @ bg_pubkey_String G (pk_Proposer key)
                  @ ''-'' @ dec (unat (pk_Slot key)))"

definition store_PutPayload ::
  "'w badger_db \<Rightarrow> int \<Rightarrow> payload_key \<Rightarrow> block_and_trace \<Rightarrow> (go_error, 'w, unit) handler" where
  "store_PutPayload G ttl key payload w =
     (case block_Marshal G payload of
        Err e \<Rightarrow> (Err e, w)
      | Panic \<Rightarrow> (Panic, w)
      | Ok data \<Rightarrow>
          (case bg_PutWithTTL G (PayloadKeyKey G key) data ttl w of
             (Some e, w') \<Rightarrow> (Err e, w')
           | (None, w') \<Rightarrow> (Ok (), w')))"

definition store_GetPayload :: "'w badger_db \<Rightarrow> fork_version \<Rightarrow> payload_key \<Rightarrow> 'w \<Rightarrow> (go_error, block_and_trace) res" where
  "store_GetPayload G fork key w =
     bind_res (bg_Get G (PayloadKeyKey G key) w) (\<lambda>data.
       case fork of
         ForkBellatrix \<Rightarrow> bind_res (bellatrix_Unmarshal G data) (\<lambda>b. Ok (BellatrixBT b))
       | ForkCapella \<Rightarrow> bind_res (capella_Unmarshal G data) (\<lambda>b. Ok (CapellaBT b))
       | _ \<Rightarrow> Err (ErrNew ''unknown fork''))"

definition raw_suffix :: "'w badger_db \<Rightarrow> payload_key \<Rightarrow> string" where
  "raw_suffix G key =
     (if pk_BlockHash key \<noteq> 0 \<and> pk_Proposer key \<noteq> 0
      then bg_hash_String G (pk_BlockHash key) @ ''-'' @ bg_pubkey_String G (pk_Proposer key) @ ''-'' @ dec (unat (pk_Slot key))
      else if pk_Proposer key \<noteq> 0 then bg_pubkey_String G (pk_Proposer key) @ ''-'' @ dec (unat (pk_Slot key))
      else dec (unat (pk_Slot key)))"

fun collect_raw :: "string \<Rightarrow> (string \<times> (go_error, bytes) res) list \<Rightarrow> (go_error, bytes list) res" where
  "collect_raw suffix [] = Ok []"
| "collect_raw suffix ((k, v) # items) =
     (if \<not> has_suffix k suffix then collect_raw suffix items
      else bind_res v (\<lambda>c. bind_res (collect_raw suffix items) (\<lambda>output.
        Ok ([string_bytes k, string_bytes ''  '', c, [10]] @ output))))"

definition GetSlotRawPayload :: "'w badger_db \<Rightarrow> payload_key \<Rightarrow> 'w \<Rightarrow> (go_error, bytes list) res" where
  "GetSlotRawPayload G key w =
     (if pk_Slot key = 0 then Err (ErrNew ''wrong slot number'')
      else collect_raw (raw_suffix G key) (prefix_items G ''/payload-'' w))"

section \<open>What the libraries promise\<close>

text \<open>Parts of a key, joined by slashes.\<close>

fun join :: "string list \<Rightarrow> string" where
  "join [] = []"
| "join [p] = p"
| "join (p # q # ps) = p @ ''/'' @ join (q # ps)"

definition key_part :: "string \<Rightarrow> bool" where
  "key_part p \<longleftrightarrow> p \<noteq> [] \<and> CHR ''/'' \<notin> set p \<and> CHR ''.'' \<notin> set p"

text \<open>
  A commit writes its entries together, later ones over earlier ones, and a put writes one; iteration
  visits what can be looked up.  A key made of proper parts is the text with a leading slash, also when
  it has one already.  The texts of hashes and public keys are hexadecimal, of fixed length and different
  for different values.  Decoding inverts encoding.
\<close>

locale badger_laws =
  fixes G :: "'w badger_db"
  assumes commit_get: "bg_Commit G es w = (None, w') \<Longrightarrow>
      bg_Get G k w' = (case map_of (rev es) k of Some v \<Rightarrow> Ok v | None \<Rightarrow> bg_Get G k w)"
    and put_get: "bg_PutWithTTL G k v ttl w = (None, w') \<Longrightarrow> bg_Get G k' w' = (if k' = k then Ok v else bg_Get G k' w)"
    and items_iff: "(k, r) \<in> set (bg_items G w) \<longleftrightarrow> (\<exists>v. r = Ok v \<and> bg_Get G k w = Ok v)"
    and key_text: "\<lbrakk>ps \<noteq> []; \<forall>p \<in> set ps. key_part p\<rbrakk> \<Longrightarrow>
      bg_NewKey G (join ps) = ''/'' @ join ps \<and> bg_NewKey G (''/'' @ join ps) = ''/'' @ join ps"
    and hash_text: "length (bg_hash_String G h) = 66" "set (bg_hash_String G h) \<subseteq> set ''0123456789abcdefx''"
    and pubkey_text: "length (bg_pubkey_String G pk) = 98" "set (bg_pubkey_String G pk) \<subseteq> set ''0123456789abcdefx''"
    and hash_text_inj: "bg_hash_String G h = bg_hash_String G h' \<Longrightarrow> h = h'"
    and pubkey_text_inj: "bg_pubkey_String G pk = bg_pubkey_String G pk' \<Longrightarrow> pk = pk'"
    and trace_codec: "trace_Marshal G t = Ok d \<Longrightarrow> trace_Unmarshal G d = Ok t"
    and bellatrix_codec: "block_Marshal G (BellatrixBT b) = Ok d \<Longrightarrow> bellatrix_Unmarshal G d = Ok b"
    and capella_codec: "block_Marshal G (CapellaBT c) = Ok d \<Longrightarrow> capella_Unmarshal G d = Ok c"
begin

lemma part_hash: "key_part (bg_hash_String G h)"
  using hash_text [of h] by (auto simp: key_part_def)

lemma part_pubkey: "key_part (bg_pubkey_String G pk)"
  using pubkey_text [of pk] by (auto simp: key_part_def)

end

lemma part_dec: "key_part (dec n)"
  using dec_digits [of n] by (auto simp: key_part_def is_digit_def)

lemma part_append: "\<lbrakk>key_part p; CHR ''/'' \<notin> set q; CHR ''.'' \<notin> set q\<rbrakk> \<Longrightarrow> key_part (q @ p)"
  by (auto simp: key_part_def)

lemma part_append2: "\<lbrakk>key_part p; key_part q\<rbrakk> \<Longrightarrow> key_part (p @ q)"
  by (auto simp: key_part_def)

context badger_laws
begin

text \<open>Keys of one part.\<close>

lemma NewKey_part: "key_part p \<Longrightarrow> bg_NewKey G p = CHR ''/'' # p" "key_part p \<Longrightarrow> bg_NewKey G (CHR ''/'' # p) = CHR ''/'' # p"
  using key_text [of "[p]"] by simp_all

lemma transaction_get:
  assumes "transaction G es w = (Ok (), w')"
  shows "bg_Get G k w' = (case map_of (rev es) k of Some v \<Rightarrow> Ok v | None \<Rightarrow> bg_Get G k w)"
proof -
  have "bg_Commit G es w = (None, w')"
    using assms by (auto simp: transaction_def split: option.splits prod.splits)
  then show ?thesis
    by (rule commit_get)
qed

lemma prefix_items_iff: "(k, r) \<in> set (prefix_items G p w) \<longleftrightarrow> has_prefix k p \<and> (\<exists>v. r = Ok v \<and> bg_Get G k w = Ok v)"
  by (auto simp: prefix_items_def items_iff)

lemma PayloadKey_text:
  "PayloadKeyKey G key =
     ''/payload-'' @ bg_hash_String G (pk_BlockHash key) @ ''-'' @ bg_pubkey_String G (pk_Proposer key) @ ''-'' @ dec (unat (pk_Slot key))"
proof -
  have "key_part (''payload-'' @ bg_hash_String G (pk_BlockHash key) @ ''-'' @ bg_pubkey_String G (pk_Proposer key)
      @ ''-'' @ dec (unat (pk_Slot key)))"
    using part_hash part_pubkey part_dec by (auto simp: key_part_def)
  then show ?thesis
    by (simp add: PayloadKeyKey_def NewKey_part)
qed

lemma PayloadKey_inj: "PayloadKeyKey G key = PayloadKeyKey G key' \<longleftrightarrow> key = key'"
proof
  assume "PayloadKeyKey G key = PayloadKeyKey G key'"
  then have "bg_hash_String G (pk_BlockHash key) = bg_hash_String G (pk_BlockHash key')"
    "bg_pubkey_String G (pk_Proposer key) = bg_pubkey_String G (pk_Proposer key')"
    "dec (unat (pk_Slot key)) = dec (unat (pk_Slot key'))"
    using hash_text(1) pubkey_text(1) by (auto simp: PayloadKey_text)
  then show "key = key'"
    using hash_text_inj pubkey_text_inj dec_inj by (cases key; cases key') auto
qed simp

end

section \<open>A database in memory\<close>

text \<open>
  Keys and values in a list; traces as their fields one after the other; Capella blocks in SSZ, without
  nil slices.  There is no encoding for Bellatrix blocks.
\<close>

definition trace_bytes :: "bid_trace_with_timestamp \<Rightarrow> bytes" where
  "trace_bytes t =
     barr_list (bt_ParentHash t) @ barr_list (bt_BlockHash t) @ barr_list (bt_Value t)
     @ barr_list (bt_BuilderPubkey t) @ barr_list (bt_ProposerPubkey t) @ barr_list (bt_ProposerFeeRecipient t)
     @ concat (map (\<lambda>n. le_bytes 8 (unat n))
         [bt_Slot t, bt_GasLimit t, bt_GasUsed t, bte_BlockNumber t, bte_NumTx t, btt_Timestamp t, btt_TimestampMs t])"

definition u64_at :: "nat \<Rightarrow> bytes \<Rightarrow> u64" where
  "u64_at i bs = of_nat (le_val (slice i (i + 8) bs))"

definition trace_of_bytes :: "bytes \<Rightarrow> bid_trace_with_timestamp" where
  "trace_of_bytes bs =
     \<lparr>bt_Slot = u64_at 212 bs, bt_ParentHash = barr_copy (slice 0 32 bs), bt_BlockHash = barr_copy (slice 32 64 bs),
      bt_BuilderPubkey = barr_copy (slice 96 144 bs), bt_ProposerPubkey = barr_copy (slice 144 192 bs),
      bt_ProposerFeeRecipient = barr_copy (slice 192 212 bs), bt_GasLimit = u64_at 220 bs, bt_GasUsed = u64_at 228 bs,
      bt_Value = barr_copy (slice 64 96 bs), bte_BlockNumber = u64_at 236 bs, bte_NumTx = u64_at 244 bs,
      btt_Timestamp = u64_at 252 bs, btt_TimestampMs = u64_at 260 bs\<rparr>"

definition mem_block :: "block_and_trace \<Rightarrow> (go_error, bytes) res" where
  "mem_block x =
     (case x of
        CapellaBT b \<Rightarrow> if block_wf b \<and> norm_block b = b then Block_MarshalSSZTo le_ssz b [] else Err (ErrNew ''unsupported'')
      | BellatrixBT b \<Rightarrow> Err (ErrNew ''unsupported''))"

definition empty_block :: capella_block where
  "empty_block =
     \<lparr>cbt_Payload = \<lparr>vr_Version = [], vr_Data = zero_capella_payload\<rparr>,
      cbt_Trace = \<lparr>sbt_Signature = 0,
        sbt_Message = \<lparr>bt_Slot = 0, bt_ParentHash = 0, bt_BlockHash = 0, bt_BuilderPubkey = 0, bt_ProposerPubkey = 0,
          bt_ProposerFeeRecipient = 0, bt_GasLimit = 0, bt_GasUsed = 0, bt_Value = 0\<rparr>\<rparr>,
      cbt_ExecutionHeaderHash = 0\<rparr>"

definition mem_badger :: "(string \<times> bytes) list badger_db" where
  "mem_badger =
     \<lparr>bg_Get = (\<lambda>k w. case map_of w k of None \<Rightarrow> Err (ErrNew ''datastore: key not found'') | Some v \<Rightarrow> Ok v),
      bg_SetEntry = (\<lambda>k v. None),
      bg_Commit = (\<lambda>es w. (None, fold (\<lambda>(k, v). AList.update k v) es w)),
      bg_PutWithTTL = (\<lambda>k v t w. (None, AList.update k v w)),
      bg_items = (\<lambda>w. map (\<lambda>k. (k, Ok (the (map_of w k)))) (remdups (map fst w))),
      bg_NewKey = (\<lambda>s. if has_prefix s ''/'' then s else CHR ''/'' # s),
      bg_ErrNotFound = ErrNew ''datastore: key not found'',
      bg_hash_String = (\<lambda>h. ''0x'' @ EncodeToString (barr_list h)),
      bg_pubkey_String = (\<lambda>pk. ''0x'' @ EncodeToString (barr_list pk)),
      trace_Marshal = (\<lambda>t. Ok (trace_bytes t)), trace_Unmarshal = (\<lambda>bs. Ok (trace_of_bytes bs)),
      block_Marshal = mem_block,
      bellatrix_Unmarshal = (\<lambda>bs. Err (ErrNew ''unsupported'')),
      capella_Unmarshal = Block_UnmarshalSSZ le_ssz empty_block\<rparr>"

lemma u64_text: "of_nat (le_val (le_bytes 8 (unat (t :: u64)))) = t"
proof -
  have "unat t < 256 ^ 8"
    using unsigned_less [of t] by simp
  then show ?thesis
    by (simp add: le_val_le_bytes)
qed

lemma trace_of_bytes_bytes: "trace_of_bytes (trace_bytes t) = t"
  by (cases t) (simp add: trace_of_bytes_def trace_bytes_def u64_at_def slice_def u64_text)

lemma mem_block_codec: "mem_block (CapellaBT b) = Ok d \<Longrightarrow> Block_UnmarshalSSZ le_ssz empty_block d = Ok b"
proof -
  assume d: "mem_block (CapellaBT b) = Ok d"
  then have b: "block_wf b" "norm_block b = b" "Block_MarshalSSZTo le_ssz b [] = Ok d"
    by (auto simp: mem_block_def split: if_splits)
  have "block_fresh empty_block"
    by (simp add: block_fresh_def empty_block_def payload_fresh_def zero_capella_payload_def nil_list_def)
  then show ?thesis
    using le.block_roundtrip [OF b(1)] b(2,3) by auto
qed

lemma map_of_fold_update:
  "map_of (fold (\<lambda>(k, v). AList.update k v) es w) k = (case map_of (rev es) k of Some v \<Rightarrow> Some v | None \<Rightarrow> map_of w k)"
proof (induction es arbitrary: w)
  case (Cons e es)
  then show ?case
    by (cases e) (auto simp: map_of_AList_update map_add_def split: option.splits)
qed simp

lemma join_no_slash: "\<lbrakk>ps \<noteq> []; \<forall>p \<in> set ps. key_part p\<rbrakk> \<Longrightarrow> hd (join ps) \<noteq> CHR ''/''"
  by (induction ps rule: join.induct) (auto simp: key_part_def dest: hd_in_set)

lemma hex_text_chars: "set (''0x'' @ EncodeToString bs) \<subseteq> set ''0123456789abcdefx''"
proof -
  have "set (EncodeToString bs) \<subseteq> set ''0123456789abcdef''"
    by (rule subsetI) (rule EncodeToString_chars)
  moreover have "set ''0x'' \<subseteq> set ''0123456789abcdefx''" "set ''0123456789abcdef'' \<subseteq> set ''0123456789abcdefx''"
    by simp_all
  ultimately show ?thesis
    unfolding set_append by (meson Un_least order_trans)
qed

lemma barr_hex_inj: "''0x'' @ EncodeToString (barr_list x) = ''0x'' @ EncodeToString (barr_list y) \<Longrightarrow> x = y"
  by (simp add: barr_eq_iff EncodeToString_inj)

interpretation memory: badger_laws mem_badger
proof (unfold_locales, goal_cases)
  case (1 es w w' k)
  then show ?case
    by (auto simp: mem_badger_def map_of_fold_update split: option.splits)
next
  case (2 k v ttl w w' k')
  then show ?case
    by (auto simp: mem_badger_def)
next
  case (3 k r w)
  have "(k, r) \<in> set (bg_items mem_badger w) \<longleftrightarrow> k \<in> fst ` set w \<and> r = Ok (the (map_of w k))"
    by (auto simp: mem_badger_def simp del: map_of_eq_None_iff)
  moreover have "k \<in> fst ` set w \<longleftrightarrow> map_of w k \<noteq> None"
    by (simp add: map_of_eq_None_iff)
  ultimately show ?case
    by (cases "map_of w k") (simp_all add: mem_badger_def del: map_of_eq_None_iff)
next
  case (4 ps)
  then show ?case
    using join_no_slash [of ps] by (cases "join ps") (simp_all add: mem_badger_def has_prefix_def)
next
  case (6 h)
  show ?case
    by (simp only: mem_badger_def badger_db.simps hex_text_chars)
next
  case (8 h)
  show ?case
    by (simp only: mem_badger_def badger_db.simps hex_text_chars)
next
  case (9 h h')
  then show ?case
    unfolding mem_badger_def badger_db.simps by (rule barr_hex_inj)
next
  case (10 h h')
  then show ?case
    unfolding mem_badger_def badger_db.simps by (rule barr_hex_inj)
next
  case (13 c d)
  then show ?case
    unfolding mem_badger_def badger_db.simps by (rule mem_block_codec)
qed (auto simp: mem_badger_def length_EncodeToString trace_of_bytes_bytes mem_block_def)

section \<open>The payload store\<close>

definition block_fork :: "block_and_trace \<Rightarrow> fork_version" where
  "block_fork b = (case b of BellatrixBT _ \<Rightarrow> ForkBellatrix | CapellaBT _ \<Rightarrow> ForkCapella)"

context badger_laws
begin

lemma PutPayload_get:
  assumes "store_PutPayload G ttl key payload w = (Ok (), w')"
  obtains data where "block_Marshal G payload = Ok data"
    and "\<And>k. bg_Get G k w' = (if k = PayloadKeyKey G key then Ok data else bg_Get G k w)"
  using assms put_get by (auto simp: store_PutPayload_def split: res.splits option.splits prod.splits)

lemma PutPayload_GetPayload:
  assumes "store_PutPayload G ttl key payload w = (Ok (), w')"
  shows "store_GetPayload G (block_fork payload) key w' = Ok payload"
    and "key' \<noteq> key \<Longrightarrow> store_GetPayload G fork key' w' = store_GetPayload G fork key' w"
proof -
  obtain data where d: "block_Marshal G payload = Ok data"
    "\<And>k. bg_Get G k w' = (if k = PayloadKeyKey G key then Ok data else bg_Get G k w)"
    using PutPayload_get [OF assms] by blast
  then show "store_GetPayload G (block_fork payload) key w' = Ok payload"
    by (cases payload) (simp_all add: store_GetPayload_def block_fork_def bellatrix_codec capella_codec)
  show "key' \<noteq> key \<Longrightarrow> store_GetPayload G fork key' w' = store_GetPayload G fork key' w"
    by (simp add: store_GetPayload_def d PayloadKey_inj)
qed

end

lemma has_suffix_longer: "has_suffix s p \<Longrightarrow> has_suffix (q @ s) p"
  by (auto simp: has_suffix_def)

lemma collect_raw_in:
  assumes "\<forall>i \<in> set items. \<exists>v. snd i = Ok v" and "(k, Ok c) \<in> set items" and "has_suffix k suffix"
  shows "\<exists>output. collect_raw suffix items = Ok output \<and> c \<in> set output"
  using assms
proof (induction suffix items rule: collect_raw.induct)
  case (2 suffix k' v items)
  have "\<exists>output. collect_raw suffix items = Ok output"
    using 2(3) by (induction items) auto
  then show ?case
    using 2 by (cases "(k, Ok c) \<in> set items") auto
qed simp

context badger_laws
begin

text \<open>
  A query for a slot alone asks for keys that end in its number, so it also prints the payloads of the
  slots whose numbers end in it, of slot 15 for slot 5.
\<close>

lemma raw_payloads_of_other_slots:
  assumes "store_PutPayload G ttl key payload w = (Ok (), w')" and "s \<noteq> 0"
    and "has_suffix (dec (unat (pk_Slot key))) (dec (unat s))"
  shows "\<exists>output data. GetSlotRawPayload G \<lparr>pk_BlockHash = 0, pk_Proposer = 0, pk_Slot = s\<rparr> w' = Ok output
    \<and> block_Marshal G payload = Ok data \<and> data \<in> set output"
proof -
  obtain data where d: "block_Marshal G payload = Ok data" "bg_Get G (PayloadKeyKey G key) w' = Ok data"
    using PutPayload_get [OF assms(1)] by (metis (full_types))
  have "(PayloadKeyKey G key, Ok data) \<in> set (prefix_items G ''/payload-'' w')"
    by (simp add: prefix_items_iff d) (simp add: PayloadKey_text has_prefix_def)
  moreover have "\<forall>i \<in> set (prefix_items G ''/payload-'' w'). \<exists>v. snd i = Ok v"
    using prefix_items_iff by fastforce
  moreover have "has_suffix (PayloadKeyKey G key) (dec (unat s))"
    unfolding PayloadKey_text by (intro has_suffix_longer assms(3))
  ultimately show ?thesis
    using collect_raw_in d(1) assms(2) by (simp add: GetSlotRawPayload_def raw_suffix_def)
qed

end


definition sample_key :: payload_key where
  "sample_key = \<lparr>pk_BlockHash = barr_copy [2], pk_Proposer = barr_copy [3], pk_Slot = 3\<rparr>"

definition kept_block :: capella_block where
  "kept_block = norm_block ssz_block"

lemma kept_block_stored: "\<exists>w. store_PutPayload mem_badger 5 sample_key (CapellaBT kept_block) [] = (Ok (), w)"
proof -
  have "block_wf kept_block" "norm_block kept_block = kept_block"
    by (simp_all add: kept_block_def norm_block_def norm_response_def norm_payload_def ssz_block_def zero_capella_payload_def
        nil_list_def block_wf_def response_wf_def payload_wf_def Payload_SizeSSZ_def)
  then have "\<exists>bs. mem_block (CapellaBT kept_block) = Ok bs"
    using le.block_roundtrip [of kept_block] by (auto simp: mem_block_def)
  then show ?thesis
    by (auto simp: store_PutPayload_def mem_badger_def)
qed


end
