(* ===== verification/Evidence.thy ===== *)
theory Evidence
  imports Datastore
begin

text \<open>
  The store of evidence, which answers the data API: \<open>src/datastore/evidence/badger\<close>.  What it writes to
  its client is the list of traces that is encoded as JSON.  Slots are 64-bit words, so the loops that
  walk back from the head slot are written with the arithmetic of the source and shown to terminate.
\<close>

section \<open>Submissions\<close>

definition HeaderContentPrefix :: string where
  "HeaderContentPrefix = ''hc''"

definition HeaderKeyContent :: "'w badger_db \<Rightarrow> u64 \<Rightarrow> string \<Rightarrow> string \<Rightarrow> string" where
  "HeaderKeyContent G slot blockHash builderHash =
     bg_NewKey G (HeaderContentPrefix @ ''/'' @ dec (unat slot) @ ''/'' @ blockHash @ ''/'' @ builderHash)"

definition HeaderHashKey :: "'w badger_db \<Rightarrow> hash \<Rightarrow> string" where
  "HeaderHashKey G bh = bg_NewKey G (''header-hash-'' @ bg_hash_String G bh)"

definition HeaderNumKey :: "'w badger_db \<Rightarrow> u64 \<Rightarrow> string" where
  "HeaderNumKey G bn = bg_NewKey G (''header-num-'' @ dec (unat bn))"

definition PutBuilderBlockSubmission :: "'w badger_db \<Rightarrow> bid_trace_with_timestamp \<Rightarrow> (go_error, 'w, unit) handler" where
  "PutBuilderBlockSubmission G bid w =
     (case trace_Marshal G bid of
        Err e \<Rightarrow> (Err e, w)
      | Panic \<Rightarrow> (Panic, w)
      | Ok data \<Rightarrow>
          let slot = le_bytes 8 (unat (bt_Slot bid))
          in transaction G
               [(HeaderKeyContent G (bt_Slot bid) (bg_hash_String G (bt_BlockHash bid)) (bg_pubkey_String G (bt_BuilderPubkey bid)), data),
                (HeaderHashKey G (bt_BlockHash bid), slot),
                (HeaderNumKey G (bte_BlockNumber bid), slot)] w)"

text \<open>\<open>binary.LittleEndian.Uint64\<close> panics on fewer than eight bytes.\<close>

definition Uint64 :: "bytes \<Rightarrow> (go_error, u64) res" where
  "Uint64 bs = (if length bs < 8 then Panic else Ok (of_nat (le_val (take 8 bs))))"

fun decode_items :: "'w badger_db \<Rightarrow> (string \<times> (go_error, bytes) res) list \<Rightarrow> (go_error, bid_trace_with_timestamp list) res" where
  "decode_items G [] = Ok []"
| "decode_items G ((k, v) # items) =
     bind_res v (\<lambda>c. bind_res (trace_Unmarshal G c) (\<lambda>b. bind_res (decode_items G items) (\<lambda>el. Ok (b # el))))"

definition header_prefix :: "string \<Rightarrow> string \<Rightarrow> string" where
  "header_prefix slot blockhash =
     (if blockhash \<noteq> [] then ''/'' @ HeaderContentPrefix @ ''/'' @ slot @ ''/'' @ blockhash
      else ''/'' @ HeaderContentPrefix @ ''/'' @ slot)"

definition getHeadersRange :: "'w badger_db \<Rightarrow> 'w \<Rightarrow> string \<Rightarrow> string \<Rightarrow> (go_error, bid_trace_with_timestamp list) res" where
  "getHeadersRange G w slot blockhash = decode_items G (prefix_items G (header_prefix slot blockhash) w)"

definition getHeadersByBlockNum :: "'w badger_db \<Rightarrow> 'w \<Rightarrow> u64 \<Rightarrow> (go_error, bid_trace_with_timestamp list) res" where
  "getHeadersByBlockNum G w blockNumber =
     bind_res (bg_Get G (HeaderNumKey G blockNumber) w) (\<lambda>slot.
     bind_res (Uint64 slot) (\<lambda>slot. getHeadersRange G w (dec (unat slot)) []))"

definition getHeadersByBlockHash :: "'w badger_db \<Rightarrow> 'w \<Rightarrow> hash \<Rightarrow> (go_error, bid_trace_with_timestamp list) res" where
  "getHeadersByBlockHash G w hash =
     bind_res (bg_Get G (HeaderHashKey G hash) w) (\<lambda>slot.
     bind_res (Uint64 slot) (\<lambda>slot. getHeadersRange G w (dec (unat slot)) (bg_hash_String G hash)))"

definition maxSlotLagBlocks :: u64 where
  "maxSlotLagBlocks = 50"

definition maxSlotLagPayloads :: u64 where
  "maxSlotLagPayloads = 350"

text \<open>\<open>el[0:limit]\<close> for a list longer than \<open>limit\<close>, which panics on a negative limit.\<close>

definition cut :: "int \<Rightarrow> 'a list \<Rightarrow> ('e, 'a list) res" where
  "cut limit el = (if limit < 0 then Panic else Ok (take (nat limit) el))"

text \<open>One step back in the slots takes the distance from the start one further, until the lag is reached.\<close>

lemma unat_next: "d < (n :: u64) \<Longrightarrow> unat (d + 1) = unat d + 1"
proof -
  assume "d < n"
  moreover have "unat n < 2 ^ 64"
    using unsigned_less [of n] by simp
  ultimately show ?thesis
    by (simp add: word_less_nat_alt unat_word_ariths(1))
qed

lemma lag_step: "d < (n :: u64) \<Longrightarrow> unat n - unat (d + 1) < unat n - unat d"
  using unat_next [of d n] by (simp add: word_less_nat_alt)

text \<open>A measure for both ways of the second loop; the distance can be one below zero, but only once.\<close>

definition lag_left :: "u64 \<Rightarrow> u64 \<Rightarrow> nat" where
  "lag_left n d = (if d < n then unat n - unat d else if d = - 1 then unat n + 1 else 0)"

lemma lag_left_step:
  assumes "d + 1 < n \<or> d < n" and "n \<noteq> (- 1 :: u64)"
  shows "lag_left n (d + 1) < lag_left n d"
proof (cases "d < n")
  case True
  then have d: "unat (d + 1) = unat d + 1" "unat d < unat n"
    using unat_next [of d n] by (auto simp: word_less_nat_alt)
  have "d + 1 \<noteq> - 1"
  proof
    assume max: "d + 1 = - 1"
    then have "n \<le> d + 1"
      by (simp only: word_order.extremum)
    moreover have "d + 1 \<le> n"
      using d by (simp add: word_le_nat_alt)
    ultimately have "n = d + 1" by (rule antisym)
    with assms(2) max show False by simp
  qed
  then show ?thesis
    using True d by (simp add: lag_left_def word_less_nat_alt) linarith
next
  case False
  show ?thesis
  proof (cases "d = - 1")
    case True
    then show ?thesis
      using False assms(1) by (simp add: lag_left_def)
  next
    case d: False
    then have "d < - 1"
      by (simp add: order.strict_iff_order)
    then have "d < d + 1"
      using unat_next [of d "- 1"] by (simp add: word_less_nat_alt)
    then show ?thesis
      using False assms(1) by simp
  qed
qed

lemma lag_left_payloads:
  "\<lbrakk>start - (i - 1) < maxSlotLagPayloads \<or> start - i < maxSlotLagPayloads\<rbrakk> \<Longrightarrow>
   lag_left maxSlotLagPayloads (start - (i - 1)) < lag_left maxSlotLagPayloads (start - i)"
proof -
  have "maxSlotLagPayloads \<noteq> - 1"
    by code_simp
  then show "\<lbrakk>start - (i - 1) < maxSlotLagPayloads \<or> start - i < maxSlotLagPayloads\<rbrakk> \<Longrightarrow>
      lag_left maxSlotLagPayloads (start - (i - 1)) < lag_left maxSlotLagPayloads (start - i)"
    using lag_left_step [of "start - i" maxSlotLagPayloads] by (simp add: algebra_simps)
qed

function latest_headers ::
  "'w badger_db \<Rightarrow> 'w \<Rightarrow> u64 \<Rightarrow> int \<Rightarrow> u64 \<Rightarrow> bid_trace_with_timestamp list \<Rightarrow> (go_error, bid_trace_with_timestamp list) res" where
  "latest_headers G w headSlot limit initialSlot el =
     (case getHeadersRange G w (dec (unat initialSlot)) [] of
        Err e \<Rightarrow> if errors_Is e (bg_ErrNotFound G) then Ok el else Err e
      | Panic \<Rightarrow> Panic
      | Ok events \<Rightarrow>
          let el = el @ events
          in if int (length el) = limit then Ok el
             else if int (length el) > limit then cut limit el
             else if headSlot - initialSlot \<ge> maxSlotLagBlocks then Ok el
             else latest_headers G w headSlot limit (initialSlot - 1) el)"
  by pat_completeness auto
termination
proof (relation "measure (\<lambda>(G, w, headSlot, limit, initialSlot, el). unat maxSlotLagBlocks - unat (headSlot - initialSlot))", goal_cases)
  case (2 G w headSlot limit initialSlot el events x)
  then have "headSlot - initialSlot < maxSlotLagBlocks" by simp
  from lag_step [OF this] show ?case by (simp add: algebra_simps)
qed simp

declare latest_headers.simps [simp del]

definition getLatestHeaders :: "'w badger_db \<Rightarrow> 'w \<Rightarrow> u64 \<Rightarrow> int \<Rightarrow> (go_error, bid_trace_with_timestamp list) res" where
  "getLatestHeaders G w headSlot limit = latest_headers G w headSlot limit (headSlot - 1) []"

text \<open>The conversion \<open>int(limit)\<close> of an unsigned number.\<close>

definition to_int :: "u64 \<Rightarrow> int" where
  "to_int n = sint n"

definition GetBuilderBlockSubmissions ::
  "'w badger_db \<Rightarrow> 'w \<Rightarrow> u64 \<Rightarrow> submission_trace_query \<Rightarrow> (go_error, bid_trace_with_timestamp list) res" where
  "GetBuilderBlockSubmissions G w headSlot query =
     (let events =
        (if stq_HasSlot query then getHeadersRange G w (dec (unat (stq_Slot query))) []
         else if stq_HasBlockHash query then getHeadersByBlockHash G w (stq_BlockHash query)
         else if stq_HasBlockNum query then getHeadersByBlockNum G w (stq_BlockNum query)
         else getLatestHeaders G w headSlot (to_int (stq_Limit query)))
      in case events of
           Err e \<Rightarrow> if errors_Is e (bg_ErrNotFound G) then Ok [] else Err e
         | r \<Rightarrow> r)"

section \<open>Delivered payloads\<close>

definition DeliveredKey :: "'w badger_db \<Rightarrow> slot \<Rightarrow> string" where
  "DeliveredKey G slot = bg_NewKey G (''delivered-'' @ dec (unat slot))"

definition DeliveredHashKey :: "'w badger_db \<Rightarrow> hash \<Rightarrow> string" where
  "DeliveredHashKey G bh = bg_NewKey G (''delivered-hash-'' @ bg_hash_String G bh)"

definition DeliveredNumKey :: "'w badger_db \<Rightarrow> u64 \<Rightarrow> string" where
  "DeliveredNumKey G bn = bg_NewKey G (''delivered-num-'' @ dec (unat bn))"

definition DeliveredPubkeyKey :: "'w badger_db \<Rightarrow> pubkey \<Rightarrow> string" where
  "DeliveredPubkeyKey G pk = bg_NewKey G (''delivered-pk-'' @ bg_pubkey_String G pk)"

definition PutDelivered :: "'w badger_db \<Rightarrow> slot \<Rightarrow> delivered_trace \<Rightarrow> (go_error, 'w, unit) handler" where
  "PutDelivered G slot trace w =
     (case trace_Marshal G (dt_Trace trace) of
        Err e \<Rightarrow> (Err e, w)
      | Panic \<Rightarrow> (Panic, w)
      | Ok data \<Rightarrow>
          transaction G
            [(DeliveredHashKey G (bt_BlockHash (dt_Trace trace)), string_bytes (DeliveredKey G slot)),
             (DeliveredNumKey G (dt_BlockNumber trace), string_bytes (DeliveredKey G slot)),
             (DeliveredPubkeyKey G (bt_ProposerPubkey (dt_Trace trace)), string_bytes (DeliveredKey G slot)),
             (DeliveredKey G slot, data)] w)"

definition queryToDeliveredKey :: "'w badger_db \<Rightarrow> 'w \<Rightarrow> payload_query \<Rightarrow> (go_error, string) res" where
  "queryToDeliveredKey G w query =
     bind_res
       (if pq_BlockHash query \<noteq> 0 then bg_Get G (DeliveredHashKey G (pq_BlockHash query)) w
        else if pq_BlockNum query \<noteq> 0 then bg_Get G (DeliveredNumKey G (pq_BlockNum query)) w
        else if pq_PubKey query \<noteq> 0 then bg_Get G (DeliveredPubkeyKey G (pq_PubKey query)) w
        else Ok (string_bytes (DeliveredKey G (pq_Slot query))))
       (\<lambda>rawKey. Ok (bg_NewKey G (bytes_string rawKey)))"

function latest_delivered ::
  "'w badger_db \<Rightarrow> 'w \<Rightarrow> u64 \<Rightarrow> int \<Rightarrow> u64 \<Rightarrow> bid_trace_extended list \<Rightarrow> (go_error, bid_trace_extended list) res" where
  "latest_delivered G w start limit initialSlot el =
     (case bg_Get G (DeliveredKey G initialSlot) w of
        Err e \<Rightarrow>
          if errors_Is e (bg_ErrNotFound G)
          then (let initialSlot' = initialSlot - 1
                in if start - initialSlot' \<ge> maxSlotLagPayloads then Ok el
                   else latest_delivered G w start limit initialSlot' el)
          else Err e
      | Panic \<Rightarrow> Panic
      | Ok payload \<Rightarrow>
          bind_res (trace_Unmarshal G payload) (\<lambda>bte.
            let el = el @ [bid_trace_extended.truncate bte]
            in if int (length el) = limit then Ok el
               else if int (length el) > limit then cut limit el
               else if start - initialSlot \<ge> maxSlotLagPayloads then Ok el
               else latest_delivered G w start limit (initialSlot - 1) el))"
  by pat_completeness auto
termination
proof (relation "measure (\<lambda>(G, w, start, limit, initialSlot, el). lag_left maxSlotLagPayloads (start - initialSlot))", goal_cases)
  case (2 G w start limit initialSlot el e x)
  then show ?case
    using lag_left_payloads [of start initialSlot] by (simp add: not_le)
next
  case (3 G w start limit initialSlot el payload bte)
  then show ?case
    using lag_left_payloads [of start initialSlot] by (simp add: not_le)
qed simp

declare latest_delivered.simps [simp del]

definition getlatestDelivered :: "'w badger_db \<Rightarrow> 'w \<Rightarrow> u64 \<Rightarrow> int \<Rightarrow> (go_error, bid_trace_extended list) res" where
  "getlatestDelivered G w start limit = latest_delivered G w start limit start []"

text \<open>The key to look up, if the query names one.\<close>

definition delivered_query :: "payload_trace_query \<Rightarrow> payload_query option" where
  "delivered_query query =
     (let none = \<lparr>pq_Slot = 0, pq_BlockHash = 0, pq_BlockNum = 0, pq_PubKey = 0\<rparr>
      in if ptq_HasSlot query then Some (none\<lparr>pq_Slot := ptq_Slot query\<rparr>)
         else if ptq_HasBlockHash query then Some (none\<lparr>pq_BlockHash := ptq_BlockHash query\<rparr>)
         else if ptq_HasBlockNum query then Some (none\<lparr>pq_BlockNum := ptq_BlockNum query\<rparr>)
         else if ptq_HasPubkey query then Some (none\<lparr>pq_PubKey := ptq_ProposerPubkey query\<rparr>)
         else None)"

definition GetDeliveredPayloads ::
  "'w badger_db \<Rightarrow> 'w \<Rightarrow> u64 \<Rightarrow> payload_trace_query \<Rightarrow> (go_error, bid_trace_extended list) res" where
  "GetDeliveredPayloads G w headSlot query =
     (case (case delivered_query query of None \<Rightarrow> Ok [] | Some q \<Rightarrow> queryToDeliveredKey G w q) of
        Err e \<Rightarrow> if errors_Is e (bg_ErrNotFound G) then Ok [] else Err e
      | Panic \<Rightarrow> Panic
      | Ok key \<Rightarrow>
          if key = []
          then getlatestDelivered G w (if ptq_Cursor query \<noteq> 0 then min headSlot (ptq_Cursor query) else headSlot)
                 (to_int (ptq_Limit query))
          else
            (case bg_Get G key w of
               Err e \<Rightarrow> if errors_Is e (bg_ErrNotFound G) then Ok [] else Err e
             | Panic \<Rightarrow> Panic
             | Ok data \<Rightarrow> bind_res (trace_Unmarshal G data) (\<lambda>trace. Ok [bid_trace_extended.truncate trace])))"

section \<open>Keys\<close>

lemma dec_first: "\<exists>c cs. dec n = c # cs \<and> is_digit c"
  using dec_digits [of n] part_dec [of n] by (cases "dec n") (auto simp: key_part_def)

definition content_key :: "'w badger_db \<Rightarrow> bid_trace_with_timestamp \<Rightarrow> string" where
  "content_key G t = HeaderKeyContent G (bt_Slot t) (bg_hash_String G (bt_BlockHash t)) (bg_pubkey_String G (bt_BuilderPubkey t))"

context badger_laws
begin

lemma NewKey_append:
  "\<lbrakk>key_part p; CHR ''/'' \<notin> set q; CHR ''.'' \<notin> set q\<rbrakk> \<Longrightarrow>
   bg_NewKey G (q @ p) = ''/'' @ q @ p \<and> bg_NewKey G (''/'' @ q @ p) = ''/'' @ q @ p"
  using NewKey_part [of "q @ p"] by (simp add: part_append)

lemma HeaderKey_text:
  "HeaderHashKey G h = ''/header-hash-'' @ bg_hash_String G h"
  "HeaderNumKey G n = ''/header-num-'' @ dec (unat n)"
  using NewKey_append [OF part_hash, of "''header-hash-''"] NewKey_append [OF part_dec, of "''header-num-''"]
  by (simp_all add: HeaderHashKey_def HeaderNumKey_def)

lemma content_key_text:
  "content_key G t = ''/hc/'' @ dec (unat (bt_Slot t)) @ ''/'' @ bg_hash_String G (bt_BlockHash t)
     @ ''/'' @ bg_pubkey_String G (bt_BuilderPubkey t)"
proof -
  have "key_part ''hc''"
    by (simp add: key_part_def)
  then show ?thesis
    using key_text [of "[''hc'', dec (unat (bt_Slot t)), bg_hash_String G (bt_BlockHash t), bg_pubkey_String G (bt_BuilderPubkey t)]"]
    by (simp add: content_key_def HeaderKeyContent_def HeaderContentPrefix_def part_hash part_pubkey part_dec)
qed

lemma DeliveredKey_text:
  "DeliveredKey G s = ''/delivered-'' @ dec (unat s)"
  "DeliveredHashKey G h = ''/delivered-hash-'' @ bg_hash_String G h"
  "DeliveredNumKey G n = ''/delivered-num-'' @ dec (unat n)"
  "DeliveredPubkeyKey G pk = ''/delivered-pk-'' @ bg_pubkey_String G pk"
  using NewKey_append [OF part_dec, of "''delivered-''"] NewKey_append [OF part_hash, of "''delivered-hash-''"]
    NewKey_append [OF part_dec, of "''delivered-num-''"] NewKey_append [OF part_pubkey, of "''delivered-pk-''"]
  by (simp_all add: DeliveredKey_def DeliveredHashKey_def DeliveredNumKey_def DeliveredPubkeyKey_def)

lemma NewKey_Delivered: "bg_NewKey G (DeliveredKey G s) = DeliveredKey G s"
  using NewKey_append [OF part_dec, of "''delivered-''"] by (simp add: DeliveredKey_text)

lemma delivered_keys_differ:
  "DeliveredKey G s = DeliveredKey G s' \<longleftrightarrow> s = s'"
  "DeliveredHashKey G h = DeliveredHashKey G h' \<longleftrightarrow> h = h'"
  "DeliveredNumKey G n = DeliveredNumKey G n' \<longleftrightarrow> n = n'"
  "DeliveredPubkeyKey G pk = DeliveredPubkeyKey G pk' \<longleftrightarrow> pk = pk'"
  "DeliveredKey G s \<noteq> DeliveredHashKey G h" "DeliveredKey G s \<noteq> DeliveredNumKey G n" "DeliveredKey G s \<noteq> DeliveredPubkeyKey G pk"
  "DeliveredHashKey G h \<noteq> DeliveredNumKey G n" "DeliveredHashKey G h \<noteq> DeliveredPubkeyKey G pk"
  "DeliveredNumKey G n \<noteq> DeliveredPubkeyKey G pk"
  using dec_first [of "unat s"]
  by (auto simp: DeliveredKey_text is_digit_def dest: hash_text_inj pubkey_text_inj dec_inj)

end

section \<open>Delivered payloads are found\<close>

text \<open>Queries by one attribute.\<close>

definition no_query :: payload_trace_query where
  "no_query = \<lparr>ptq_Slot = 0, ptq_BlockHash = 0, ptq_BlockNum = 0, ptq_ProposerPubkey = 0, ptq_BuilderPubkey = 0,
     ptq_Cursor = 0, ptq_Limit = 0, ptq_OrderByValue = 0\<rparr>"

definition by_slot :: "slot \<Rightarrow> payload_trace_query" where
  "by_slot s = no_query\<lparr>ptq_Slot := s\<rparr>"

definition by_hash :: "hash \<Rightarrow> payload_trace_query" where
  "by_hash h = no_query\<lparr>ptq_BlockHash := h\<rparr>"

definition by_number :: "u64 \<Rightarrow> payload_trace_query" where
  "by_number n = no_query\<lparr>ptq_BlockNum := n\<rparr>"

definition by_proposer :: "pubkey \<Rightarrow> payload_trace_query" where
  "by_proposer pk = no_query\<lparr>ptq_ProposerPubkey := pk\<rparr>"

lemmas query_defs = by_slot_def by_hash_def by_number_def by_proposer_def no_query_def
  ptq_HasSlot_def ptq_HasBlockHash_def ptq_HasBlockNum_def ptq_HasPubkey_def

context badger_laws
begin

lemma PutDelivered_get:
  assumes "PutDelivered G slot trace w = (Ok (), w')"
  obtains data where "trace_Marshal G (dt_Trace trace) = Ok data"
    and "\<And>k. bg_Get G k w' =
      (if k = DeliveredKey G slot then Ok data
       else if k = DeliveredHashKey G (bt_BlockHash (dt_Trace trace)) \<or> k = DeliveredNumKey G (dt_BlockNumber trace)
         \<or> k = DeliveredPubkeyKey G (bt_ProposerPubkey (dt_Trace trace)) then Ok (string_bytes (DeliveredKey G slot))
       else bg_Get G k w)"
proof -
  obtain data where d: "trace_Marshal G (dt_Trace trace) = Ok data"
    and t: "transaction G
       [(DeliveredHashKey G (bt_BlockHash (dt_Trace trace)), string_bytes (DeliveredKey G slot)),
        (DeliveredNumKey G (dt_BlockNumber trace), string_bytes (DeliveredKey G slot)),
        (DeliveredPubkeyKey G (bt_ProposerPubkey (dt_Trace trace)), string_bytes (DeliveredKey G slot)),
        (DeliveredKey G slot, data)] w = (Ok (), w')"
    using assms by (auto simp: PutDelivered_def split: res.splits)
  show thesis
    by (rule that [OF d]) (simp add: transaction_get [OF t])
qed

lemma Delivered_nonempty: "DeliveredKey G s \<noteq> []"
  by (simp add: DeliveredKey_text)

lemma delivered_found:
  assumes "PutDelivered G slot trace w = (Ok (), w')" and "delivered_query q = Some pq"
    and "queryToDeliveredKey G w' pq = Ok (DeliveredKey G slot)"
  shows "GetDeliveredPayloads G w' head q = Ok [bid_trace_extended.truncate (dt_Trace trace)]"
proof -
  obtain data where "trace_Marshal G (dt_Trace trace) = Ok data" "bg_Get G (DeliveredKey G slot) w' = Ok data"
    using PutDelivered_get [OF assms(1)] by (metis (full_types))
  then show ?thesis
    using assms(2,3) Delivered_nonempty by (simp add: GetDeliveredPayloads_def trace_codec)
qed

lemma delivered_query_found:
  assumes "PutDelivered G slot trace w = (Ok (), w')"
    and "q = by_slot slot \<and> slot \<noteq> 0
      \<or> q = by_hash (bt_BlockHash (dt_Trace trace)) \<and> bt_BlockHash (dt_Trace trace) \<noteq> 0
      \<or> q = by_number (dt_BlockNumber trace) \<and> dt_BlockNumber trace \<noteq> 0
      \<or> q = by_proposer (bt_ProposerPubkey (dt_Trace trace)) \<and> bt_ProposerPubkey (dt_Trace trace) \<noteq> 0"
  shows "\<exists>pq. delivered_query q = Some pq \<and> queryToDeliveredKey G w' pq = Ok (DeliveredKey G slot)"
proof -
  obtain data where get: "\<And>k. bg_Get G k w' =
      (if k = DeliveredKey G slot then Ok data
       else if k = DeliveredHashKey G (bt_BlockHash (dt_Trace trace)) \<or> k = DeliveredNumKey G (dt_BlockNumber trace)
         \<or> k = DeliveredPubkeyKey G (bt_ProposerPubkey (dt_Trace trace)) then Ok (string_bytes (DeliveredKey G slot))
       else bg_Get G k w)"
    using PutDelivered_get [OF assms(1)] by blast
  show ?thesis
    using assms(2)
    by (elim disjE) (simp_all add: query_defs delivered_query_def queryToDeliveredKey_def get NewKey_Delivered
        delivered_keys_differ delivered_keys_differ(5-10) [symmetric])
qed

end

section \<open>The latest delivered payloads\<close>

definition delivered_at :: "'w badger_db \<Rightarrow> 'w \<Rightarrow> slot \<Rightarrow> bid_trace_extended list" where
  "delivered_at G w s =
     (case bind_res (bg_Get G (DeliveredKey G s) w) (trace_Unmarshal G) of Ok t \<Rightarrow> [bid_trace_extended.truncate t] | _ \<Rightarrow> [])"

text \<open>Every entry of a delivered payload can be read, and the others are reported as not found.\<close>

definition delivered_ok :: "'w badger_db \<Rightarrow> 'w \<Rightarrow> bool" where
  "delivered_ok G w \<longleftrightarrow>
     (\<forall>s. (\<exists>e. bg_Get G (DeliveredKey G s) w = Err e \<and> errors_Is e (bg_ErrNotFound G))
        \<or> (\<exists>d t. bg_Get G (DeliveredKey G s) w = Ok d \<and> trace_Unmarshal G d = Ok t))"

text \<open>The slots that are walked: 350 of them, and one more when the last of these has a payload.\<close>

definition window_from :: "'w badger_db \<Rightarrow> 'w \<Rightarrow> slot \<Rightarrow> nat \<Rightarrow> bid_trace_extended list" where
  "window_from G w start k =
     concat (map (\<lambda>i. delivered_at G w (start - of_nat i)) [k..<350])
     @ (if delivered_at G w (start - 349) = [] then [] else delivered_at G w (start - 350))"

lemma lag_reached: "k \<le> 350 \<Longrightarrow> (350 :: u64) \<le> of_nat k \<longleftrightarrow> k = 350"
  by (auto simp: word_le_nat_alt unat_of_nat)

lemma window_step: "k < 350 \<Longrightarrow> window_from G w start k = delivered_at G w (start - of_nat k) @ window_from G w start (Suc k)"
  by (simp add: window_from_def upt_conv_Cons)

lemma window_last: "window_from G w start 350 = (if delivered_at G w (start - 349) = [] then [] else delivered_at G w (start - 350))"
  by (simp add: window_from_def)

text \<open>One round of the loop.\<close>

lemma latest_delivered_round:
  assumes "delivered_ok G w" and "k \<le> 350" and "int (length el) < limit \<or> el = [] \<and> limit = 0"
  shows "latest_delivered G w start limit (start - of_nat k) el =
     (let el' = el @ delivered_at G w (start - of_nat k)
      in if delivered_at G w (start - of_nat k) \<noteq> [] \<and> limit \<le> int (length el') then Ok (take (nat limit) el')
         else if delivered_at G w (start - of_nat k) = [] \<and> 349 \<le> k \<or> k = 350 then Ok el'
         else latest_delivered G w start limit (start - of_nat (Suc k)) el')"
proof -
  have prev: "start - of_nat k - 1 = start - of_nat (Suc k)"
    by simp
  have reached: "(350 :: u64) \<le> of_nat (Suc k) \<longleftrightarrow> 349 \<le> k"
    using assms(2) by (auto simp: word_le_nat_alt unat_of_nat simp del: of_nat_Suc)
  have here: "(350 :: u64) \<le> of_nat k \<longleftrightarrow> k = 350"
    using lag_reached [OF assms(2)] .
  let ?get = "bg_Get G (DeliveredKey G (start - of_nat k)) w"
  from assms(1) consider (none) e where "?get = Err e" "errors_Is e (bg_ErrNotFound G)"
    | (found) d t where "?get = Ok d" "trace_Unmarshal G d = Ok t"
    unfolding delivered_ok_def by blast
  then show ?thesis
  proof cases
    case none
    then show ?thesis
      using assms(2,3) reached
      by (subst latest_delivered.simps) (auto simp: Let_def delivered_at_def maxSlotLagPayloads_def prev simp del: of_nat_Suc)
  next
    case found
    then show ?thesis
      using assms(3) here
      by (subst latest_delivered.simps) (auto simp: Let_def delivered_at_def maxSlotLagPayloads_def prev cut_def simp del: of_nat_Suc)
  qed
qed

lemma latest_delivered_window:
  assumes "delivered_ok G w" and "k \<le> 349" and "int (length el) < limit \<or> el = [] \<and> limit = 0"
  shows "latest_delivered G w start limit (start - of_nat k) el = Ok (take (nat limit) (el @ window_from G w start k))"
  using assms(2,3)
proof (induction arbitrary: el rule: inc_induct)
  case base
  show ?case
    using base latest_delivered_round [OF assms(1), of 349 el limit start]
      latest_delivered_round [OF assms(1), of 350 "el @ delivered_at G w (start - 349)" limit start]
    by (auto simp: Let_def window_step window_last)
next
  case (step k)
  show ?case
    using step latest_delivered_round [OF assms(1), of k el limit start]
    by (auto simp: Let_def window_step simp del: of_nat_Suc)
qed

lemma getlatestDelivered_window:
  assumes "delivered_ok G w" and "0 \<le> limit"
  shows "getlatestDelivered G w start limit = Ok (take (nat limit) (window_from G w start 0))"
proof -
  have "int (length []) < limit \<or> [] = [] \<and> limit = 0"
    using assms(2) by auto
  then show ?thesis
    using latest_delivered_window [OF assms(1), of 0 "[]" limit start] by (simp add: getlatestDelivered_def)
qed

section \<open>Submissions are found\<close>

text \<open>
  What the store keeps: entries under \<open>/hc/\<close> are traces at their own keys, the indexes by block hash and
  number hold slots, those of delivered payloads hold keys of delivered payloads, and lookups fail only
  when there is no entry.
\<close>

definition index_ok :: "'w badger_db \<Rightarrow> 'w \<Rightarrow> bool" where
  "index_ok G w \<longleftrightarrow>
     (\<forall>k v. bg_Get G k w = Ok v
        \<and> ((\<exists>h. k = DeliveredHashKey G h) \<or> (\<exists>n. k = DeliveredNumKey G n) \<or> (\<exists>pk. k = DeliveredPubkeyKey G pk))
        \<longrightarrow> (\<exists>s. v = string_bytes (DeliveredKey G s)))"

definition evidence_ok :: "'w badger_db \<Rightarrow> 'w \<Rightarrow> bool" where
  "evidence_ok G w \<longleftrightarrow>
     (\<forall>k v. has_prefix k ''/hc/'' \<and> bg_Get G k w = Ok v \<longrightarrow> (\<exists>t. trace_Unmarshal G v = Ok t \<and> k = content_key G t))
     \<and> (\<forall>k. (\<exists>v. bg_Get G k w = Ok v) \<or> (\<exists>e. bg_Get G k w = Err e \<and> errors_Is e (bg_ErrNotFound G)))
     \<and> (\<forall>h v. bg_Get G (HeaderHashKey G h) w = Ok v \<longrightarrow> 8 \<le> length v)
     \<and> (\<forall>n v. bg_Get G (HeaderNumKey G n) w = Ok v \<longrightarrow> 8 \<le> length v)
     \<and> delivered_ok G w \<and> index_ok G w"

definition stored :: "'w badger_db \<Rightarrow> 'w \<Rightarrow> bid_trace_with_timestamp \<Rightarrow> bool" where
  "stored G w t \<longleftrightarrow> bind_res (bg_Get G (content_key G t) w) (trace_Unmarshal G) = Ok t"

lemma decode_items_set:
  assumes "\<forall>i \<in> set items. \<exists>v t. snd i = Ok v \<and> trace_Unmarshal G v = Ok t"
  shows "\<exists>el. decode_items G items = Ok el \<and> set el = {t. \<exists>k v. (k, Ok v) \<in> set items \<and> trace_Unmarshal G v = Ok t}"
  using assms
proof (induction items)
  case (Cons i items)
  obtain k v t where i: "i = (k, Ok v)" "trace_Unmarshal G v = Ok t"
    using Cons.prems by (cases i) auto
  obtain el where el: "decode_items G items = Ok el"
    "set el = {t. \<exists>k v. (k, Ok v) \<in> set items \<and> trace_Unmarshal G v = Ok t}"
    using Cons by auto
  have "{t. \<exists>k v. (k, Ok v) \<in> set (i # items) \<and> trace_Unmarshal G v = Ok t} = insert t (set el)"
    using i by (auto simp: el(2))
  then show ?case
    using i el(1) by simp
qed simp

lemma has_prefix_append_iff: "has_prefix (p @ s) (p @ q) \<longleftrightarrow> has_prefix s q"
  by (simp add: has_prefix_def)

lemma has_prefix_before:
  assumes "c \<notin> set q"
  shows "has_prefix (s @ c # r) q \<longleftrightarrow> has_prefix s q"
proof (cases "length q \<le> length s")
  case True
  then show ?thesis
    by (simp add: has_prefix_def)
next
  case False
  then have "take (length q) (s @ c # r) = s @ c # take (length q - length s - 1) r"
    by (simp add: take_Cons')
  moreover have "s @ c # take (length q - length s - 1) r \<noteq> q"
    using assms by (metis in_set_conv_decomp)
  ultimately show ?thesis
    using False by (simp add: has_prefix_def)
qed

lemma has_prefix_separated:
  assumes "c \<notin> set s" and "c \<notin> set q" and "length a = length b"
  shows "has_prefix (s @ c # a @ r) (q @ c # b) \<longleftrightarrow> s = q \<and> a = b"
proof
  assume "has_prefix (s @ c # a @ r) (q @ c # b)"
  then obtain x where "s @ c # a @ r = q @ c # b @ x"
    by (auto simp: has_prefix_iff)
  moreover from this have "s = q"
    using assms(1,2) by (auto simp: append_eq_append_conv2 Cons_eq_append_conv append_eq_Cons_conv)
  ultimately show "s = q \<and> a = b"
    using assms(3) by simp
qed (simp add: has_prefix_def)

context badger_laws
begin

lemma slot_prefix:
  "has_prefix (content_key G t) (header_prefix (dec (unat s)) []) \<longleftrightarrow> has_prefix (dec (unat (bt_Slot t))) (dec (unat s))"
proof -
  have "CHR ''/'' \<notin> set (dec (unat s))"
    using part_dec by (simp add: key_part_def)
  then show ?thesis
    using has_prefix_append_iff [of "''/hc/''"] has_prefix_before [of "CHR ''/''" "dec (unat s)"]
    by (simp add: content_key_text header_prefix_def HeaderContentPrefix_def)
qed

lemma hash_prefix:
  "has_prefix (content_key G t) (header_prefix (dec (unat s)) (bg_hash_String G h)) \<longleftrightarrow> bt_Slot t = s \<and> bt_BlockHash t = h"
proof -
  have no: "CHR ''/'' \<notin> set (dec (unat n))" for n :: u64
    using part_dec by (simp add: key_part_def)
  have ne: "bg_hash_String G h \<noteq> []"
    using hash_text(1) [of h] by auto
  show ?thesis
    using has_prefix_append_iff [of "''/hc/''"] ne
      has_prefix_separated [OF no no, of "bg_hash_String G (bt_BlockHash t)" "bg_hash_String G h" "bt_Slot t" _ s]
    by (auto simp: content_key_text header_prefix_def HeaderContentPrefix_def hash_text dest: dec_inj hash_text_inj)
qed

lemma range_answer:
  assumes "evidence_ok G w"
  shows "\<exists>el. getHeadersRange G w slot bh = Ok el
    \<and> set el = {t. stored G w t \<and> has_prefix (content_key G t) (header_prefix slot bh)}"
proof -
  let ?items = "prefix_items G (header_prefix slot bh) w"
  have hc: "has_prefix k ''/hc/''" if "has_prefix k (header_prefix slot bh)" for k
  proof -
    obtain r where "header_prefix slot bh = ''/hc/'' @ r"
      using that by (cases "bh = []") (simp_all add: header_prefix_def HeaderContentPrefix_def)
    with that show ?thesis
      by (auto simp: has_prefix_iff)
  qed
  have entry: "\<exists>t. trace_Unmarshal G v = Ok t \<and> k = content_key G t"
    if "has_prefix k (header_prefix slot bh)" "bg_Get G k w = Ok v" for k v
    using assms that hc [OF that(1)] unfolding evidence_ok_def by blast
  have "\<forall>i \<in> set ?items. \<exists>v t. snd i = Ok v \<and> trace_Unmarshal G v = Ok t"
    using entry prefix_items_iff by fastforce
  moreover have "{t. \<exists>k v. (k, Ok v) \<in> set ?items \<and> trace_Unmarshal G v = Ok t}
      = {t. stored G w t \<and> has_prefix (content_key G t) (header_prefix slot bh)}"
    using entry by (fastforce simp: prefix_items_iff stored_def bind_res_Ok_iff)
  ultimately show ?thesis
    unfolding getHeadersRange_def using decode_items_set [of ?items G] by simp
qed

end

context badger_laws
begin

lemma header_keys_differ:
  "content_key G t \<noteq> HeaderHashKey G h" "content_key G t \<noteq> HeaderNumKey G n" "HeaderHashKey G h \<noteq> HeaderNumKey G n"
  "HeaderHashKey G h = HeaderHashKey G h' \<longleftrightarrow> h = h'"
  "DeliveredKey G s \<noteq> content_key G t" "DeliveredKey G s \<noteq> HeaderHashKey G h" "DeliveredKey G s \<noteq> HeaderNumKey G n"
  "DeliveredHashKey G h \<noteq> content_key G t" "DeliveredHashKey G h \<noteq> HeaderHashKey G h'" "DeliveredHashKey G h \<noteq> HeaderNumKey G n"
  "DeliveredNumKey G n \<noteq> content_key G t" "DeliveredNumKey G n \<noteq> HeaderHashKey G h'" "DeliveredNumKey G n \<noteq> HeaderNumKey G n'"
  "DeliveredPubkeyKey G pk \<noteq> content_key G t" "DeliveredPubkeyKey G pk \<noteq> HeaderHashKey G h'"
  "DeliveredPubkeyKey G pk \<noteq> HeaderNumKey G n'"
  by (auto simp: content_key_text HeaderKey_text DeliveredKey_text dest: hash_text_inj)

lemma submission_keys:
  "has_prefix (content_key G t) ''/hc/''" "\<not> has_prefix (HeaderHashKey G h) ''/hc/''" "\<not> has_prefix (HeaderNumKey G n) ''/hc/''"
  "\<not> has_prefix (DeliveredKey G s) ''/hc/''" "\<not> has_prefix (DeliveredHashKey G h) ''/hc/''"
  "\<not> has_prefix (DeliveredNumKey G n) ''/hc/''" "\<not> has_prefix (DeliveredPubkeyKey G pk) ''/hc/''"
  by (simp_all add: content_key_text HeaderKey_text DeliveredKey_text has_prefix_def)

lemma PutSubmission_get:
  assumes "PutBuilderBlockSubmission G bid w = (Ok (), w')"
  obtains data where "trace_Marshal G bid = Ok data"
    and "\<And>k. bg_Get G k w' =
      (if k = HeaderNumKey G (bte_BlockNumber bid) \<or> k = HeaderHashKey G (bt_BlockHash bid)
       then Ok (le_bytes 8 (unat (bt_Slot bid)))
       else if k = content_key G bid then Ok data else bg_Get G k w)"
proof -
  obtain data where d: "trace_Marshal G bid = Ok data"
    and t: "transaction G
       [(content_key G bid, data), (HeaderHashKey G (bt_BlockHash bid), le_bytes 8 (unat (bt_Slot bid))),
        (HeaderNumKey G (bte_BlockNumber bid), le_bytes 8 (unat (bt_Slot bid)))] w = (Ok (), w')"
    using assms by (auto simp: PutBuilderBlockSubmission_def content_key_def Let_def split: res.splits)
  show thesis
    by (rule that [OF d]) (simp add: transaction_get [OF t])
qed

lemma PutSubmission_ok:
  assumes "PutBuilderBlockSubmission G bid w = (Ok (), w')" and "evidence_ok G w"
  shows "evidence_ok G w'"
proof -
  obtain data where d: "trace_Marshal G bid = Ok data" and get: "\<And>k. bg_Get G k w' =
      (if k = HeaderNumKey G (bte_BlockNumber bid) \<or> k = HeaderHashKey G (bt_BlockHash bid)
       then Ok (le_bytes 8 (unat (bt_Slot bid)))
       else if k = content_key G bid then Ok data else bg_Get G k w)"
    using PutSubmission_get [OF assms(1)] by blast
  have "delivered_ok G w'"
    using assms(2) by (simp add: evidence_ok_def delivered_ok_def get header_keys_differ)
  moreover have "index_ok G w'"
    using assms(2) by (auto simp: evidence_ok_def index_ok_def get header_keys_differ
        header_keys_differ(8-16) [symmetric] split: if_splits)
  moreover have "\<exists>t. trace_Unmarshal G v = Ok t \<and> k = content_key G t"
    if "has_prefix k ''/hc/''" "bg_Get G k w' = Ok v" for k v
    using assms(2) that d trace_codec [OF d] submission_keys(2,3)
    by (auto simp: evidence_ok_def get split: if_splits)
  moreover have "8 \<le> length v" if "bg_Get G (HeaderHashKey G h) w' = Ok v \<or> bg_Get G (HeaderNumKey G n) w' = Ok v" for h n v
    using assms(2) that header_keys_differ(1,2) [of bid, symmetric] by (auto simp: evidence_ok_def get split: if_splits)
  moreover have "(\<exists>v. bg_Get G k w' = Ok v) \<or> (\<exists>e. bg_Get G k w' = Err e \<and> errors_Is e (bg_ErrNotFound G))" for k
    using assms(2) by (simp add: evidence_ok_def get)
  ultimately show ?thesis
    unfolding evidence_ok_def by blast
qed

lemma PutDelivered_ok:
  assumes "PutDelivered G slot trace w = (Ok (), w')" and "evidence_ok G w"
  shows "evidence_ok G w'"
proof -
  obtain data where d: "trace_Marshal G (dt_Trace trace) = Ok data" and get: "\<And>k. bg_Get G k w' =
      (if k = DeliveredKey G slot then Ok data
       else if k = DeliveredHashKey G (bt_BlockHash (dt_Trace trace)) \<or> k = DeliveredNumKey G (dt_BlockNumber trace)
         \<or> k = DeliveredPubkeyKey G (bt_ProposerPubkey (dt_Trace trace)) then Ok (string_bytes (DeliveredKey G slot))
       else bg_Get G k w)"
    using PutDelivered_get [OF assms(1)] by blast
  have "delivered_ok G w'"
    using assms(2) trace_codec [OF d] by (simp add: evidence_ok_def delivered_ok_def get delivered_keys_differ)
  moreover have "index_ok G w'"
    using assms(2) unfolding index_ok_def get by (auto simp: evidence_ok_def index_ok_def delivered_keys_differ(5-7) delivered_keys_differ(5-7) [symmetric] split: if_splits)
  moreover have "\<exists>t. trace_Unmarshal G v = Ok t \<and> k = content_key G t"
    if "has_prefix k ''/hc/''" "bg_Get G k w' = Ok v" for k v
    using assms(2) that submission_keys(4-7) by (auto simp: evidence_ok_def get split: if_splits)
  moreover have "8 \<le> length v" if "bg_Get G (HeaderHashKey G h) w' = Ok v \<or> bg_Get G (HeaderNumKey G n) w' = Ok v" for h n v
    using assms(2) that by (auto simp: evidence_ok_def get HeaderKey_text DeliveredKey_text)
  moreover have "(\<exists>v. bg_Get G k w' = Ok v) \<or> (\<exists>e. bg_Get G k w' = Err e \<and> errors_Is e (bg_ErrNotFound G))" for k
    using assms(2) by (simp add: evidence_ok_def get)
  ultimately show ?thesis
    unfolding evidence_ok_def by blast
qed

end

section \<open>Queries are answered\<close>

lemma Uint64_answer: "8 \<le> length v \<Longrightarrow> \<exists>n. Uint64 v = Ok n"
  by (simp add: Uint64_def)

lemma latest_headers_answer:
  assumes "\<forall>slot. \<exists>el. getHeadersRange G w slot [] = Ok el" and "int (length el) \<le> limit"
  shows "\<exists>el'. latest_headers G w headSlot limit initialSlot el = Ok el' \<and> int (length el') \<le> limit"
  using assms
proof (induction G w headSlot limit initialSlot el rule: latest_headers.induct)
  case (1 G w headSlot limit initialSlot el)
  obtain events where e: "getHeadersRange G w (dec (unat initialSlot)) [] = Ok events"
    using "1.prems"(1) by blast
  consider "int (length (el @ events)) \<ge> limit" | "int (length (el @ events)) < limit" "headSlot - initialSlot \<ge> maxSlotLagBlocks"
    | "int (length (el @ events)) < limit" "\<not> headSlot - initialSlot \<ge> maxSlotLagBlocks"
    by linarith
  then show ?case
  proof cases
    case 3
    then show ?thesis
      using "1.IH" [OF e refl] "1.prems"(1) e by (subst latest_headers.simps) (simp add: Let_def)
  qed (use e "1.prems" in \<open>subst latest_headers.simps, auto simp: Let_def cut_def\<close>)+
qed

context badger_laws
begin

lemma submissions_answer:
  assumes "evidence_ok G w" and "0 \<le> to_int (stq_Limit query)"
  shows "\<exists>el. GetBuilderBlockSubmissions G w headSlot query = Ok el"
proof -
  have range: "\<exists>el. getHeadersRange G w slot bh = Ok el" for slot bh
    using range_answer [OF assms(1)] by blast
  have index: "(\<exists>el. bind_res (bg_Get G k w) (\<lambda>v. bind_res (Uint64 v) (\<lambda>n. getHeadersRange G w (dec (unat n)) bh)) = Ok el)
      \<or> (\<exists>e. bind_res (bg_Get G k w) (\<lambda>v. bind_res (Uint64 v) (\<lambda>n. getHeadersRange G w (dec (unat n)) bh)) = Err e
          \<and> errors_Is e (bg_ErrNotFound G))"
    if len: "\<And>v. bg_Get G k w = Ok v \<Longrightarrow> 8 \<le> length v" for k bh
  proof (cases "bg_Get G k w")
    case (Ok v)
    then obtain n where "Uint64 v = Ok n"
      using Uint64_answer len by blast
    then show ?thesis
      using Ok range by simp
  qed (use assms(1) in \<open>auto simp: evidence_ok_def dest: spec [of _ k]\<close>)
  let ?events =
    "if stq_HasSlot query then getHeadersRange G w (dec (unat (stq_Slot query))) []
     else if stq_HasBlockHash query then getHeadersByBlockHash G w (stq_BlockHash query)
     else if stq_HasBlockNum query then getHeadersByBlockNum G w (stq_BlockNum query)
     else getLatestHeaders G w headSlot (to_int (stq_Limit query))"
  have lens: "bg_Get G (HeaderHashKey G h) w = Ok v \<Longrightarrow> 8 \<le> length v" "bg_Get G (HeaderNumKey G n) w = Ok v \<Longrightarrow> 8 \<le> length v" for h n v
    using assms(1) unfolding evidence_ok_def by blast+
  note hash = index [of "HeaderHashKey G (stq_BlockHash query)" "bg_hash_String G (stq_BlockHash query)", OF lens(1) [of "stq_BlockHash query"], folded getHeadersByBlockHash_def]
  note number = index [of "HeaderNumKey G (stq_BlockNum query)" "[]", OF lens(2) [of "stq_BlockNum query"], folded getHeadersByBlockNum_def]
  have "\<exists>el. getLatestHeaders G w headSlot (to_int (stq_Limit query)) = Ok el"
    using latest_headers_answer [of G w "[]" "to_int (stq_Limit query)" headSlot "headSlot - 1"] range assms(2)
    unfolding getLatestHeaders_def by auto
  then have "(\<exists>el. ?events = Ok el) \<or> (\<exists>e. ?events = Err e \<and> errors_Is e (bg_ErrNotFound G))"
    using range [of "dec (unat (stq_Slot query))" "[]"] hash number by (simp split: if_splits)
  then show ?thesis
    unfolding GetBuilderBlockSubmissions_def Let_def by (elim disjE exE conjE) simp_all
qed

lemma delivered_key_answer:
  assumes "evidence_ok G w"
  shows "(\<exists>s. queryToDeliveredKey G w q = Ok (DeliveredKey G s))
    \<or> (\<exists>e. queryToDeliveredKey G w q = Err e \<and> errors_Is e (bg_ErrNotFound G))"
proof -
  have index: "(\<exists>s. bind_res (bg_Get G k w) (\<lambda>raw. Ok (bg_NewKey G (bytes_string raw))) = Ok (DeliveredKey G s))
      \<or> (\<exists>e. bind_res (bg_Get G k w) (\<lambda>raw. Ok (bg_NewKey G (bytes_string raw))) = Err e \<and> errors_Is e (bg_ErrNotFound G))"
    if k: "(\<exists>h. k = DeliveredHashKey G h) \<or> (\<exists>n. k = DeliveredNumKey G n) \<or> (\<exists>pk. k = DeliveredPubkeyKey G pk)" for k
  proof (cases "bg_Get G k w")
    case (Ok v)
    then obtain s where "v = string_bytes (DeliveredKey G s)"
      using assms k unfolding evidence_ok_def index_ok_def by blast
    then show ?thesis
      using Ok by (auto simp: NewKey_Delivered)
  qed (use assms in \<open>auto simp: evidence_ok_def dest: spec [of _ k]\<close>)
  show ?thesis
    using index [of "DeliveredHashKey G (pq_BlockHash q)"] index [of "DeliveredNumKey G (pq_BlockNum q)"]
      index [of "DeliveredPubkeyKey G (pq_PubKey q)"]
    by (auto simp: queryToDeliveredKey_def NewKey_Delivered)
qed

lemma delivered_answer:
  assumes "evidence_ok G w" and "0 \<le> to_int (ptq_Limit query)"
  shows "\<exists>el. GetDeliveredPayloads G w headSlot query = Ok el"
proof -
  have d: "delivered_ok G w"
    using assms(1) by (simp add: evidence_ok_def)
  have latest: "\<exists>el. getlatestDelivered G w start (to_int (ptq_Limit query)) = Ok el" for start
    using getlatestDelivered_window [OF d assms(2)] by blast
  have entry: "(\<exists>e. bg_Get G (DeliveredKey G s) w = Err e \<and> errors_Is e (bg_ErrNotFound G))
      \<or> (\<exists>d t. bg_Get G (DeliveredKey G s) w = Ok d \<and> trace_Unmarshal G d = Ok t)" for s
    using d unfolding delivered_ok_def by blast
  show ?thesis
  proof (cases "delivered_query query")
    case None
    then show ?thesis
      using latest by (simp add: GetDeliveredPayloads_def)
  next
    case (Some q)
    from delivered_key_answer [OF assms(1), of q] show ?thesis
    proof (elim disjE exE conjE)
      fix s
      assume "queryToDeliveredKey G w q = Ok (DeliveredKey G s)"
      then show ?thesis
        using Some entry [of s] Delivered_nonempty [of s] by (auto simp: GetDeliveredPayloads_def)
    qed (simp add: GetDeliveredPayloads_def Some)
  qed
qed

end

section \<open>A small database\<close>

definition sample_evidence :: bid_trace_with_timestamp where
  "sample_evidence =
     \<lparr>bt_Slot = 50, bt_ParentHash = 0, bt_BlockHash = barr_copy [2], bt_BuilderPubkey = barr_copy [10],
      bt_ProposerPubkey = barr_copy [3], bt_ProposerFeeRecipient = 0, bt_GasLimit = 0, bt_GasUsed = 0, bt_Value = 0,
      bte_BlockNumber = 7, bte_NumTx = 1, btt_Timestamp = 9, btt_TimestampMs = 9000\<rparr>"

definition sample_delivery :: delivered_trace where
  "sample_delivery = \<lparr>dt_Trace = sample_evidence, dt_BlockNumber = 7\<rparr>"

definition sample_submissions :: "(string \<times> bytes) list" where
  "sample_submissions = snd (PutBuilderBlockSubmission mem_badger sample_evidence [])"

definition sample_deliveries :: "(string \<times> bytes) list" where
  "sample_deliveries = snd (PutDelivered mem_badger 50 sample_delivery [])"

definition submissions_for :: "slot \<Rightarrow> submission_trace_query" where
  "submissions_for s = \<lparr>stq_Slot = s, stq_BlockHash = 0, stq_BlockNum = 0, stq_Limit = 0, stq_BuilderPubkey = 0\<rparr>"

lemma sample_puts:
  "PutBuilderBlockSubmission mem_badger sample_evidence [] = (Ok (), sample_submissions)"
  "PutDelivered mem_badger 50 sample_delivery [] = (Ok (), sample_deliveries)"
  by (simp_all add: sample_submissions_def sample_deliveries_def PutBuilderBlockSubmission_def PutDelivered_def transaction_def
      mem_badger_def Let_def)

lemma empty_evidence: "evidence_ok mem_badger []"
  by (simp add: evidence_ok_def delivered_ok_def index_ok_def mem_badger_def)

lemma sample_stored_submission: "stored mem_badger sample_submissions sample_evidence"
proof -
  obtain data where "trace_Marshal mem_badger sample_evidence = Ok data"
    "bg_Get mem_badger (content_key mem_badger sample_evidence) sample_submissions = Ok data"
    using memory.PutSubmission_get [OF sample_puts(1)] memory.header_keys_differ(1,2) by (metis (full_types))
  then show ?thesis
    by (simp add: stored_def memory.trace_codec)
qed

section \<open>Properties\<close>

text \<open>
  C24: A delivered payload is found by each of its attributes.  Once \<open>PutDelivered\<close> succeeded, the data API
  returns exactly this trace for the slot, for the block hash, for the block number and for the
  proposer's public key, when these are not zero, and what was recorded for other slots is still there.
\<close>

theorem delivered_payload_found:
  assumes "badger_laws G" and "PutDelivered G slot trace w = (Ok (), w')" and "slot \<noteq> 0"
    and "bt_BlockHash (dt_Trace trace) \<noteq> 0" and "dt_BlockNumber trace \<noteq> 0" and "bt_ProposerPubkey (dt_Trace trace) \<noteq> 0"
  shows "(\<forall>q \<in> {by_slot slot, by_hash (bt_BlockHash (dt_Trace trace)), by_number (dt_BlockNumber trace),
             by_proposer (bt_ProposerPubkey (dt_Trace trace))}.
           GetDeliveredPayloads G w' headSlot q = Ok [bid_trace_extended.truncate (dt_Trace trace)])
    \<and> (\<forall>s. s \<noteq> slot \<longrightarrow> delivered_at G w' s = delivered_at G w s)"
proof (intro conjI ballI allI impI)
  fix q
  assume "q \<in> {by_slot slot, by_hash (bt_BlockHash (dt_Trace trace)), by_number (dt_BlockNumber trace),
             by_proposer (bt_ProposerPubkey (dt_Trace trace))}"
  then obtain pq where "delivered_query q = Some pq" "queryToDeliveredKey G w' pq = Ok (DeliveredKey G slot)"
    using badger_laws.delivered_query_found [OF assms(1,2), of q] assms(3-6) by blast
  then show "GetDeliveredPayloads G w' headSlot q = Ok [bid_trace_extended.truncate (dt_Trace trace)]"
    using badger_laws.delivered_found [OF assms(1,2)] by blast
next
  fix s
  assume "s \<noteq> slot"
  then show "delivered_at G w' s = delivered_at G w s"
    using badger_laws.PutDelivered_get [OF assms(1,2)] badger_laws.delivered_keys_differ [OF assms(1)]
    unfolding delivered_at_def by (metis (no_types, lifting))
qed

theorem delivered_payload_found_witness:
  "GetDeliveredPayloads mem_badger sample_deliveries 60 (by_number 7) = Ok [bid_trace_extended.truncate sample_evidence]
   \<and> GetDeliveredPayloads mem_badger sample_deliveries 60 (by_proposer (barr_copy [3])) = Ok [bid_trace_extended.truncate sample_evidence]"
  using delivered_payload_found [OF memory.badger_laws_axioms sample_puts(2), of 60]
  by (simp add: sample_delivery_def) (simp add: sample_evidence_def)

text \<open>
  C25: Without a filter the data API returns the latest delivered payloads.  On a database whose entries
  can be read, \<open>GetDeliveredPayloads\<close> walks back from the cursor or the head slot and returns the first
  \<open>limit\<close> payloads of a window: the slots start, start - 1, ..., start - 349, and start - 350 too when
  start - 349 has a payload.  The slots are computed with the wrap-around of the source.
\<close>

theorem latest_delivered_is_window:
  assumes "delivered_ok G w" and "delivered_query query = None" and "0 \<le> to_int (ptq_Limit query)"
  shows "GetDeliveredPayloads G w headSlot query =
    Ok (take (nat (to_int (ptq_Limit query)))
      (window_from G w (if ptq_Cursor query = 0 then headSlot else min headSlot (ptq_Cursor query)) 0))"
  using getlatestDelivered_window [OF assms(1,3)] by (simp add: GetDeliveredPayloads_def assms(2))

theorem latest_delivered_is_window_witness:
  "GetDeliveredPayloads mem_badger sample_deliveries 60 (no_query\<lparr>ptq_Limit := 1\<rparr>)
     = Ok (take 1 (window_from mem_badger sample_deliveries 60 0))"
proof -
  have "delivered_ok mem_badger sample_deliveries"
    using memory.PutDelivered_ok [OF sample_puts(2) empty_evidence] by (simp add: evidence_ok_def)
  then show ?thesis
    using latest_delivered_is_window [of mem_badger sample_deliveries "no_query\<lparr>ptq_Limit := 1\<rparr>" 60]
    by (simp add: query_defs delivered_query_def to_int_def)
qed

text \<open>
  What the query for a slot returns.  The submissions it returns are those whose slot number starts,
  as decimal text, with the number of the queried slot: the submissions for slot 5 come together with
  those for slot 50 and slot 5123.
\<close>

theorem slot_query_matches_prefix:
  assumes "badger_laws G" and "evidence_ok G w" and "stq_HasSlot query"
  shows "\<exists>el. GetBuilderBlockSubmissions G w headSlot query = Ok el
    \<and> set el = {t. stored G w t \<and> has_prefix (dec (unat (bt_Slot t))) (dec (unat (stq_Slot query)))}"
  using badger_laws.range_answer [OF assms(1,2), of "dec (unat (stq_Slot query))" "[]"] assms(3)
  by (auto simp: GetBuilderBlockSubmissions_def badger_laws.slot_prefix [OF assms(1)])

theorem slot_query_matches_prefix_witness:
  "\<exists>el. GetBuilderBlockSubmissions mem_badger sample_submissions 60 (submissions_for 5) = Ok el
     \<and> sample_evidence \<in> set el \<and> bt_Slot sample_evidence = 50"
proof -
  have "evidence_ok mem_badger sample_submissions"
    by (rule memory.PutSubmission_ok [OF sample_puts(1) empty_evidence])
  moreover have "stq_HasSlot (submissions_for 5)"
    by (simp add: stq_HasSlot_def submissions_for_def)
  moreover have "has_prefix (dec (unat (bt_Slot sample_evidence))) (dec (unat (stq_Slot (submissions_for 5))))"
    by code_simp
  ultimately show ?thesis
    using slot_query_matches_prefix [OF memory.badger_laws_axioms, of sample_submissions "submissions_for 5" 60]
      sample_stored_submission by (auto simp: sample_evidence_def)
qed

text \<open>
  C26: The store of evidence stays readable.  Recording submissions and deliveries keeps every entry
  readable and at its key, and on such a database each query of the data API is answered with a list,
  never with an error or a panic, as long as its limit is below 2 to the 63.
\<close>

theorem evidence_queries_answer:
  assumes "badger_laws G" and "evidence_ok G w"
    and "PutBuilderBlockSubmission G bid w = (Ok (), w') \<or> PutDelivered G slot trace w = (Ok (), w')"
    and "0 \<le> to_int (stq_Limit sq)" and "0 \<le> to_int (ptq_Limit pq)"
  shows "evidence_ok G w' \<and> (\<exists>el. GetBuilderBlockSubmissions G w' headSlot sq = Ok el)
    \<and> (\<exists>el. GetDeliveredPayloads G w' headSlot pq = Ok el)"
proof -
  have "evidence_ok G w'"
    using assms(3) badger_laws.PutSubmission_ok [OF assms(1) _ assms(2)] badger_laws.PutDelivered_ok [OF assms(1) _ assms(2)]
    by blast
  then show ?thesis
    using badger_laws.submissions_answer [OF assms(1) _ assms(4)] badger_laws.delivered_answer [OF assms(1) _ assms(5)] by blast
qed

theorem evidence_queries_answer_witness:
  "\<exists>el. GetBuilderBlockSubmissions mem_badger sample_submissions 60 (submissions_for 0) = Ok el"
  using evidence_queries_answer [OF memory.badger_laws_axioms empty_evidence, of sample_evidence sample_submissions 50 sample_delivery
      "submissions_for 0" no_query 60] sample_puts(1)
  by (simp add: submissions_for_def no_query_def to_int_def)

end
