(* ===== verification/Config.thy ===== *)
theory Config
  imports Structs
begin

text \<open>
  Configuration: the structs of \<open>src/cmd/dreamboat/config/config.go\<close> with their defaults, and the reader of
  INI files \<open>src/cmd/dreamboat/config/source/file/file.go\<close>, which finds its way by reflection.

  The structs are trees: a section has fields with their names, tags and values, and the listeners of
  its \<open>Subscriber\<close>, if it embeds one.  Reading a parameter returns the changed tree and the list of
  changes that were propagated.  The text of durations is read by the function \<open>pd\<close>, for
  \<open>time.ParseDuration\<close>.  Text is ASCII.
\<close>

section \<open>Strings and lines\<close>

definition is_space :: "char \<Rightarrow> bool" where
  "is_space c \<longleftrightarrow> of_char c \<in> {9, 10, 11, 12, 13, 32 :: nat}"

definition TrimSpace :: "string \<Rightarrow> string" where
  "TrimSpace s = rev (dropWhile is_space (rev (dropWhile is_space s)))"

text \<open>\<open>strings.Cut\<close> at one character: before, after, and whether it was found.\<close>

fun Cut :: "string \<Rightarrow> char \<Rightarrow> string \<times> string \<times> bool" where
  "Cut [] sep = ([], [], False)"
| "Cut (c # cs) sep =
     (if c = sep then ([], cs, True) else case Cut cs sep of (before, after, found) \<Rightarrow> (c # before, after, found))"

fun Split :: "string \<Rightarrow> char \<Rightarrow> string list" where
  "Split [] sep = [[]]"
| "Split (c # cs) sep =
     (if c = sep then [] # Split cs sep
      else case Split cs sep of p # ps \<Rightarrow> (c # p) # ps | [] \<Rightarrow> [[c]])"

text \<open>\<open>strconv.ParseInt\<close> in base 10 with 64 bits.\<close>

definition ParseInt :: "string \<Rightarrow> (num_error, int) res" where
  "ParseInt s =
     (if s = [] then Err ErrSyntax
      else
        let neg = (hd s = CHR ''-''); digits = (if hd s = CHR ''-'' \<or> hd s = CHR ''+'' then tl s else s)
        in bind_res (ParseUint digits) (\<lambda>un.
             if \<not> neg \<and> un \<ge> 2 ^ 63 then Err ErrRange
             else if neg \<and> un > 2 ^ 63 then Err ErrRange
             else Ok (if neg then - int (unat un) else int (unat un))))"

text \<open>
  \<open>bufio.Scanner\<close> with \<open>ScanLines\<close>: lines without their end, a carriage return before it is dropped; a line
  that does not fit the buffer of 65536 bytes ends the scan with an error.
\<close>

definition drop_cr :: "string \<Rightarrow> string" where
  "drop_cr l = (if l \<noteq> [] \<and> last l = CHR 13 then butlast l else l)"

fun scan_pieces :: "string list \<Rightarrow> string list \<times> go_error option" where
  "scan_pieces [] = ([], None)"
| "scan_pieces (l # ls) =
     (if length l > 65535 then ([], Some (LibErr ''bufio.Scanner: token too long''))
      else if l = [] \<and> ls = [] then ([], None)
      else case scan_pieces ls of (rest, e) \<Rightarrow> (drop_cr l # rest, e))"

definition scan_lines :: "string \<Rightarrow> string list \<times> go_error option" where
  "scan_lines text = scan_pieces (Split text (CHR 10))"

section \<open>Sections and changes\<close>

datatype cfg_value =
  DurationV int
| BoolV bool
| UintV u64
| IntV int
| StringV string
| StringsV "string list option"
| ArrayV "byte list"
| StructV cfg_section
| PtrV "cfg_section option"
and cfg_section = Section (listeners: "nat list option") (fields: "cfg_field list")
and cfg_field = Field (field_name: string) (field_tag: "string option") (field_value: cfg_value)

text \<open>What a change carries as \<open>any\<close>; \<open>AnyValue\<close> is a \<open>reflect.Value\<close>.\<close>

datatype cfg_any =
  AnyBool bool
| AnyUint u64
| AnyInt int
| AnyString string
| AnyStrings "string list"
| AnyDuration int
| AnyValue cfg_value

record old_new =
  on_Name :: string
  on_ParamPath :: string
  on_Old :: cfg_any
  on_New :: cfg_any

text \<open>The listeners that are told about a change, with the change.\<close>

type_synonym propagated = "(nat list \<times> old_new) list"

definition paramParseBool :: "string \<Rightarrow> bool" where
  "paramParseBool v = (ToLower v = ''true'' \<or> ToLower v = ''1'')"

definition paramParseStringSlice :: "string \<Rightarrow> string list" where
  "paramParseStringSlice v = Split v (CHR '','')"

definition inArr :: "string list \<Rightarrow> string \<Rightarrow> bool" where
  "inArr xs b = list_ex (\<lambda>a. a = b) xs"

definition dynamic_error :: "string \<Rightarrow> go_error" where
  "dynamic_error key = ErrNew (''dynamic change of '' @ key @ '' parameter is not allowed  '')"

text \<open>
  Setting a value that differs from the present one: on a reload only parameters marked
  \<open>allow_dynamic\<close>, after telling the listeners.
\<close>

definition set_param ::
  "bool \<Rightarrow> nat list option \<Rightarrow> string list \<Rightarrow> string \<Rightarrow> string \<Rightarrow> string \<Rightarrow> cfg_any \<Rightarrow> cfg_any \<Rightarrow> cfg_value \<Rightarrow> cfg_value
     \<Rightarrow> (go_error, unit) res \<times> cfg_value \<times> propagated" where
  "set_param initial root params key name path old new present updated =
     (if initial then (Ok (), updated, [])
      else if \<not> inArr params ''allow_dynamic'' then (Err (dynamic_error key), present, [])
      else (Ok (), updated,
        case root of None \<Rightarrow> []
        | Some ls \<Rightarrow> [(ls, \<lparr>on_Name = name, on_ParamPath = path, on_Old = old, on_New = new\<rparr>)]))"

section \<open>Reading a parameter\<close>

text \<open>
  \<open>parseParam\<close> walks the fields of a section; \<open>parse_value\<close> is the body of its loop for a field whose tag
  starts with the key.
\<close>

fun parseParam ::
  "(string \<Rightarrow> (go_error, int) res) \<Rightarrow> bool \<Rightarrow> nat list option \<Rightarrow> string \<Rightarrow> string \<Rightarrow> string \<Rightarrow> cfg_section
     \<Rightarrow> (go_error, unit) res \<times> cfg_section \<times> propagated"
and parse_fields ::
  "(string \<Rightarrow> (go_error, int) res) \<Rightarrow> bool \<Rightarrow> nat list option \<Rightarrow> string \<Rightarrow> string \<Rightarrow> string \<Rightarrow> string \<Rightarrow> cfg_field list
     \<Rightarrow> (go_error, unit) res \<times> cfg_field list \<times> propagated"
and parse_value ::
  "(string \<Rightarrow> (go_error, int) res) \<Rightarrow> bool \<Rightarrow> nat list option \<Rightarrow> string \<Rightarrow> string \<Rightarrow> string \<Rightarrow> string \<Rightarrow> string list \<Rightarrow> string \<Rightarrow> cfg_value
     \<Rightarrow> (go_error, unit) res \<times> cfg_value \<times> propagated" where
  "parseParam pd initial subscribtionRoot fullPath key value (Section ls fs) =
     (case Cut key (CHR ''.'') of (key, rest, _) \<Rightarrow>
      case parse_fields pd initial (if ls = None then subscribtionRoot else ls) fullPath key rest value fs of
        (r, fs, ps) \<Rightarrow> (r, Section ls fs, ps))"
| "parse_fields pd initial sRoot fullPath key rest value [] = (Ok (), [], [])"
| "parse_fields pd initial sRoot fullPath key rest value (Field name tag el # fs) =
     (if tag = None \<or> hd (Split (the tag) (CHR '','')) \<noteq> key
      then (case parse_fields pd initial sRoot fullPath key rest value fs of (r, fs, ps) \<Rightarrow> (r, Field name tag el # fs, ps))
      else
        case parse_value pd initial sRoot fullPath key rest value (Split (the tag) (CHR '','')) name el of
          (Ok _, el, ps) \<Rightarrow>
            (case parse_fields pd initial sRoot fullPath key rest value fs of
               (r, fs, ps') \<Rightarrow> (r, Field name tag el # fs, ps @ ps'))
        | (r, el, ps) \<Rightarrow> (r, Field name tag el # fs, ps))"
| "parse_value pd initial sRoot fullPath key rest value params name (DurationV dur) =
     (case pd (TrimSpace value) of
        Panic \<Rightarrow> (Panic, DurationV dur, [])
      | Err e \<Rightarrow> (Err e, DurationV dur, [])
      | Ok b \<Rightarrow>
          if dur = b then (Ok (), DurationV dur, [])
          else set_param initial sRoot params key name fullPath (AnyDuration b) (AnyValue (DurationV dur)) (DurationV dur) (DurationV b))"
| "parse_value pd initial sRoot fullPath key rest value params name (PtrV (Some sec)) =
     (case parseParam pd initial sRoot fullPath rest value sec of (r, sec, ps) \<Rightarrow> (r, PtrV (Some sec), ps))"
| "parse_value pd initial sRoot fullPath key rest value params name (PtrV None) = (Panic, PtrV None, [])"
| "parse_value pd initial sRoot fullPath key rest value params name (BoolV el) =
     (let b = paramParseBool (TrimSpace value)
      in if el = b then (Ok (), BoolV el, [])
         else set_param initial sRoot params key name fullPath (AnyBool el) (AnyBool b) (BoolV el) (BoolV b))"
| "parse_value pd initial sRoot fullPath key rest value params name (UintV el) =
     (case map_err NumErr (ParseUint (TrimSpace value)) of
        Panic \<Rightarrow> (Panic, UintV el, [])
      | Err e \<Rightarrow> (Err e, UintV el, [])
      | Ok uintP \<Rightarrow>
          if el = uintP then (Ok (), UintV el, [])
          else set_param initial sRoot params key name fullPath (AnyUint el) (AnyUint uintP) (UintV el) (UintV uintP))"
| "parse_value pd initial sRoot fullPath key rest value params name (IntV el) =
     (case map_err NumErr (ParseInt (TrimSpace value)) of
        Panic \<Rightarrow> (Panic, IntV el, [])
      | Err e \<Rightarrow> (Err e, IntV el, [])
      | Ok intP \<Rightarrow>
          if el = intP then (Ok (), IntV el, [])
          else set_param initial sRoot params key name fullPath (AnyInt el) (AnyInt intP) (IntV el) (IntV intP))"
| "parse_value pd initial sRoot fullPath key rest value params name (StringV el) =
     (let v = TrimSpace value
      in if el = v then (Ok (), StringV el, [])
         else set_param initial sRoot params key name fullPath (AnyString el) (AnyString v) (StringV el) (StringV v))"
| "parse_value pd initial sRoot fullPath key rest value params name (StringsV el) =
     (let v = paramParseStringSlice (TrimSpace value)
      in if el = Some v then (Ok (), StringsV el, [])
         else set_param initial sRoot params key name fullPath (AnyValue (StringsV el)) (AnyStrings v) (StringsV el) (StringsV (Some v)))"
| "parse_value pd initial sRoot fullPath key rest value params name (ArrayV bs) = (Panic, ArrayV bs, [])"
| "parse_value pd initial sRoot fullPath key rest value params name (StructV sec) =
     (case parseParam pd initial sRoot fullPath rest value sec of (r, sec, ps) \<Rightarrow> (r, StructV sec, ps))"

section \<open>Reading a file\<close>

text \<open>
  The lines are read one after the other; the state is the configuration, the tag of the current section
  and the changes told so far.  A section is known by the name of its field in \<open>Config\<close>.
\<close>

type_synonym config = "cfg_field list"

definition find_section :: "string \<Rightarrow> config \<Rightarrow> bool" where
  "find_section tag cfg = list_ex (\<lambda>f. field_tag f = Some tag) cfg"

text \<open>A change to the field whose tag is the current one; the last such field, as in the source.\<close>

fun update_last :: "string \<Rightarrow> (cfg_value \<Rightarrow> 'r \<times> cfg_value) \<Rightarrow> config \<Rightarrow> ('r \<times> config) option" where
  "update_last tag f [] = None"
| "update_last tag f (Field name t v # fs) =
     (case update_last tag f fs of
        Some (r, fs') \<Rightarrow> Some (r, Field name t v # fs')
      | None \<Rightarrow> if t = Some tag then (case f v of (r, v') \<Rightarrow> Some (r, Field name t v' # fs)) else None)"

definition section_param ::
  "(string \<Rightarrow> (go_error, int) res) \<Rightarrow> bool \<Rightarrow> string \<Rightarrow> string \<Rightarrow> string \<Rightarrow> cfg_value
     \<Rightarrow> ((go_error, unit) res \<times> propagated) \<times> cfg_value" where
  "section_param pd initial path key value sec =
     (case sec of
        PtrV (Some s) \<Rightarrow> (case parseParam pd initial None path key value s of (r, s, ps) \<Rightarrow> ((r, ps), PtrV (Some s)))
      | PtrV None \<Rightarrow> ((Panic, []), sec)
      | StructV s \<Rightarrow> ((Panic, []), sec)
      | _ \<Rightarrow> ((Err (ErrNew ''malformed config''), []), sec))"

definition parse_line ::
  "(string \<Rightarrow> (go_error, int) res) \<Rightarrow> bool \<Rightarrow> string \<Rightarrow> string option \<times> config
     \<Rightarrow> ((go_error, unit) res \<times> propagated) \<times> string option \<times> config" where
  "parse_line pd initial text st =
     (let line = TrimSpace text; (currentTag, cfg) = st
      in if line = [] then ((Ok (), []), st)
         else if hd line \<in> set ''#/;'' then ((Ok (), []), st)
         else if hd line = CHR ''[''
         then (case Cut (tl line) (CHR '']'') of (tag, _, ok) \<Rightarrow>
                 if \<not> ok then ((Err (ErrNew ''parse failure''), []), st)
                 else ((Ok (), []), (if find_section (TrimSpace tag) cfg then Some (TrimSpace tag) else currentTag), cfg))
         else
           (case Cut line (CHR ''='') of (key, value, found) \<Rightarrow>
              if \<not> found then ((Err (ErrNew ''parse failure''), []), st)
              else
                (case currentTag of
                   None \<Rightarrow> ((Err (ErrNew ''malformed config''), []), st)
                 | Some tag \<Rightarrow>
                     (case update_last tag
                             (section_param pd initial (tag @ ''.'' @ TrimSpace key) (TrimSpace key) (TrimSpace value)) cfg of
                        None \<Rightarrow> ((Err (ErrNew ''malformed config''), []), st)
                      | Some (out, cfg) \<Rightarrow> (out, currentTag, cfg)))))"

fun parse_lines ::
  "(string \<Rightarrow> (go_error, int) res) \<Rightarrow> bool \<Rightarrow> string list \<Rightarrow> string option \<times> config
     \<Rightarrow> ((go_error, unit) res \<times> propagated) \<times> string option \<times> config" where
  "parse_lines pd initial [] st = ((Ok (), []), st)"
| "parse_lines pd initial (l # ls) st =
     (case parse_line pd initial l st of
        ((Ok _, ps), st) \<Rightarrow> (case parse_lines pd initial ls st of ((r, ps'), st) \<Rightarrow> ((r, ps @ ps'), st))
      | ((r, ps), st) \<Rightarrow> ((r, ps), st))"

definition parseIni :: "(string \<Rightarrow> (go_error, int) res) \<Rightarrow> bool \<Rightarrow> string \<Rightarrow> config \<Rightarrow> (go_error, unit) res \<times> config \<times> propagated" where
  "parseIni pd initial text cfg =
     (case scan_lines text of (ls, scanErr) \<Rightarrow>
      case parse_lines pd initial ls (None, cfg) of
        ((Ok _, ps), _, cfg) \<Rightarrow> (case scanErr of None \<Rightarrow> (Ok (), cfg, ps) | Some e \<Rightarrow> (Err e, cfg, ps))
      | ((r, ps), _, cfg) \<Rightarrow> (r, cfg, ps))"

text \<open>\<open>Source.Load\<close>: the text of the file, or the error of opening it.\<close>

definition source_Load ::
  "(string \<Rightarrow> (go_error, int) res) \<Rightarrow> bool \<Rightarrow> (go_error, string) res \<Rightarrow> config \<Rightarrow> (go_error, unit) res \<times> config \<times> propagated" where
  "source_Load pd initial file cfg =
     (case file of Ok text \<Rightarrow> parseIni pd initial text cfg | Err e \<Rightarrow> (Err e, cfg, []) | Panic \<Rightarrow> (Panic, cfg, []))"

text \<open>\<open>ConfigManager\<close>.\<close>

definition cm_Load where
  "cm_Load pd input cfg = source_Load pd True input cfg"

definition cm_Reload where
  "cm_Reload pd input cfg = source_Load pd False input cfg"

section \<open>The configuration of the relay\<close>

text \<open>Durations are in nanoseconds.\<close>

abbreviation "seconds n \<equiv> DurationV (n * 1000000000)"

definition HTTPConfig :: "string \<Rightarrow> cfg_section" where
  "HTTPConfig address = Section None
     [Field ''Address'' (Some ''address'') (StringV address),
      Field ''ReadTimeout'' (Some ''read_timeout'') (seconds 5),
      Field ''IdleTimeout'' (Some ''idle_timeout'') (seconds 5),
      Field ''WriteTimeout'' (Some ''write_timeout'') (seconds 5)]"

definition DefaultSQLConfig :: cfg_section where
  "DefaultSQLConfig = Section None
     [Field ''URL'' (Some ''url'') (StringV []),
      Field ''MaxOpenConns'' (Some ''max_open_conns'') (IntV 15),
      Field ''MaxIdleConns'' (Some ''max_idle_conns'') (IntV 10),
      Field ''ConnMaxIdleTime'' (Some ''conn_max_idle_time'') (seconds 15)]"

definition DefaultBadgerDBConfig :: cfg_section where
  "DefaultBadgerDBConfig = Section None [Field ''TTL'' (Some ''ttl'') (seconds (24 * 3600))]"

definition DefaultApiConfig :: "nat list \<Rightarrow> cfg_section" where
  "DefaultApiConfig ls = Section (Some ls)
     [Field ''Subscriber'' None (StructV (Section (Some ls) [])),
      Field ''AllowedBuilders'' (Some ''allowed_builders,allow_dynamic'') (StringsV None),
      Field ''SubmissionLimitRate'' (Some ''submission_limit_rate,allow_dynamic'') (IntV 2),
      Field ''SubmissionLimitBurst'' (Some ''submission_limit_burst,allow_dynamic'') (IntV 2),
      Field ''LimitterCacheSize'' (Some ''limitter_cache_size'') (IntV 1000),
      Field ''DataLimit'' (Some ''datalimit,allow_dynamic'') (IntV 450),
      Field ''ErrorsOnDisable'' (Some ''errors_on_disable,allow_dynamic'') (BoolV False)]"

text \<open>\<open>DefaultConfig\<close> sets the network of the relay.\<close>

definition DefaultRelayConfig :: "nat list \<Rightarrow> string \<Rightarrow> cfg_section" where
  "DefaultRelayConfig ls network = Section (Some ls)
     [Field ''Subscriber'' None (StructV (Section (Some ls) [])),
      Field ''Network'' (Some ''network'') (StringV network),
      Field ''SecretKey'' (Some ''secret_key'') (StringV []),
      Field ''PublishBlock'' (Some ''publish_block'') (BoolV True),
      Field ''GetPayloadResponseDelay'' (Some ''get_payload_response_delay,allow_dynamic'') (DurationV 800000000),
      Field ''GetPayloadRequestTimeLimit'' (Some ''get_payload_request_time_limit,allow_dynamic'') (seconds 4),
      Field ''AllowedBuilders'' (Some ''allowed_builders,allow_dynamic'') (StringsV None)]"

definition DefaultBeaconConfig :: "nat list \<Rightarrow> cfg_section" where
  "DefaultBeaconConfig ls = Section (Some ls)
     [Field ''Subscriber'' None (StructV (Section (Some ls) [])),
      Field ''Addresses'' (Some ''addresses,allow_dynamic'') (StringsV None),
      Field ''PublishAddresses'' (Some ''publish_addresses,allow_dynamic'') (StringsV None),
      Field ''PublishAddressesV2'' (Some ''publish_addresses_v2,allow_dynamic'') (StringsV None),
      Field ''PayloadAttributesSubscription'' (Some ''payload_attributes_subscription,allow_dynamic'') (BoolV True),
      Field ''EventTimeout'' (Some ''event_timeout'') (seconds 16),
      Field ''EventRestart'' (Some ''event_restart'') (IntV 5),
      Field ''QueryTimeout'' (Some ''query_timeout'') (seconds 20)]"

definition BlockSimulationRPCConfig :: cfg_section where
  "BlockSimulationRPCConfig = Section None [Field ''Address'' (Some ''address'') (StringV [])]"

definition BlockSimulationWSConfig :: "nat list \<Rightarrow> cfg_section" where
  "BlockSimulationWSConfig ls = Section (Some ls)
     [Field ''Subscriber'' None (StructV (Section (Some ls) [])),
      Field ''Address'' (Some ''address,allow_dynamic'') (StringsV None),
      Field ''Retry'' (Some ''retry,allow_dynamic'') (BoolV True)]"

definition BlockSimulationHTTPConfig :: "nat list \<Rightarrow> cfg_section" where
  "BlockSimulationHTTPConfig ls = Section (Some ls)
     [Field ''Subscriber'' None (StructV (Section (Some ls) [])),
      Field ''Address'' (Some ''address'') (StringV [])]"

definition DefaultBlockSimulation :: "nat list \<Rightarrow> nat list \<Rightarrow> cfg_section" where
  "DefaultBlockSimulation ws http = Section None
     [Field ''RPC'' (Some ''rpc'') (PtrV (Some BlockSimulationRPCConfig)),
      Field ''WS'' (Some ''ws'') (PtrV (Some (BlockSimulationWSConfig ws))),
      Field ''HTTP'' (Some ''http'') (PtrV (Some (BlockSimulationHTTPConfig http)))]"

definition DefaultValidatorsConfig :: cfg_section where
  "DefaultValidatorsConfig = Section None
     [Field ''DB'' (Some ''db'') (PtrV (Some DefaultSQLConfig)),
      Field ''Badger'' (Some ''badger'') (StructV DefaultBadgerDBConfig),
      Field ''QueueSize'' (Some ''queue_size'') (UintV 100000),
      Field ''StoreWorkersNum'' (Some ''store_workers'') (UintV 400),
      Field ''RegistrationsCacheSize'' (Some ''registrations_cache_size'') (IntV 600000),
      Field ''RegistrationsReadCacheTTL'' (Some ''registrations_cache_ttl'') (seconds 3600),
      Field ''RegistrationsWriteCacheTTL'' (Some ''registrations_write_cache_ttl'') (seconds (12 * 3600))]"

definition DefaultVerifyConfig :: cfg_section where
  "DefaultVerifyConfig = Section None
     [Field ''WorkersNum'' (Some ''workers'') (UintV 2000), Field ''QueueSize'' (Some ''queue_size'') (UintV 100000)]"

definition DefaultDataAPIConfig :: cfg_section where
  "DefaultDataAPIConfig = Section None
     [Field ''DB'' (Some ''db'') (StructV DefaultSQLConfig), Field ''Badger'' (Some ''badger'') (StructV DefaultBadgerDBConfig)]"

definition RedisConfig :: cfg_section where
  "RedisConfig = Section None [Field ''Address'' (Some ''address'') (StringV [])]"

definition DefaultRedisDBConfig :: cfg_section where
  "DefaultRedisDBConfig = Section None
     [Field ''Read'' (Some ''read'') (PtrV (Some RedisConfig)), Field ''Write'' (Some ''write'') (PtrV (Some RedisConfig))]"

definition DefaultPayloadConfig :: cfg_section where
  "DefaultPayloadConfig = Section None
     [Field ''Badger'' (Some ''badger'') (StructV DefaultBadgerDBConfig),
      Field ''CacheSize'' (Some ''cache_size'') (IntV 1000),
      Field ''Redis'' (Some ''redis'') (StructV DefaultRedisDBConfig),
      Field ''TTL'' (Some ''ttl,allow_dynamic'') (seconds (24 * 3600))]"

definition DefaultWarehouseConfig :: cfg_section where
  "DefaultWarehouseConfig = Section None
     [Field ''Directory'' (Some ''directory'') (StringV ''/data/relay/warehouse''),
      Field ''WorkerNumber'' (Some ''workers'') (IntV 32),
      Field ''Buffer'' (Some ''buffer'') (IntV 1000)]"

definition RedisStreamConfig :: cfg_section where
  "RedisStreamConfig = Section None
     [Field ''Topic'' (Some ''topic'') (StringV ''relay''), Field ''Address'' (Some ''address'') (StringV [])]"

definition DefaultDistributedConfig :: cfg_section where
  "DefaultDistributedConfig = Section None
     [Field ''Redis'' (Some ''redis'') (PtrV (Some RedisStreamConfig)),
      Field ''InstanceID'' (Some ''id'') (ArrayV (replicate 16 0)),
      Field ''WorkerNumber'' (Some ''workers'') (IntV 100),
      Field ''StreamQueueSize'' (Some ''stream_queue_size'') (IntV 100),
      Field ''StreamServedBids'' (Some ''stream_served_bids'') (BoolV True)]"

text \<open>The listeners of the sections that have subscribers.\<close>

record subscribers =
  sub_Api :: "nat list"
  sub_Relay :: "nat list"
  sub_Beacon :: "nat list"
  sub_WS :: "nat list"
  sub_HTTP :: "nat list"

definition DefaultConfig :: "subscribers \<Rightarrow> config" where
  "DefaultConfig ls =
     [Field ''ExternalHttp'' (Some ''external_http'') (PtrV (Some (HTTPConfig ''0.0.0.0:18550''))),
      Field ''InternalHttp'' (Some ''internal_http'') (PtrV (Some (HTTPConfig ''0.0.0.0:19550''))),
      Field ''Api'' (Some ''api'') (PtrV (Some (DefaultApiConfig (sub_Api ls)))),
      Field ''Relay'' (Some ''relay'') (PtrV (Some (DefaultRelayConfig (sub_Relay ls) ''mainnet''))),
      Field ''Beacon'' (Some ''beacon'') (PtrV (Some (DefaultBeaconConfig (sub_Beacon ls)))),
      Field ''Verify'' (Some ''verify'') (PtrV (Some DefaultVerifyConfig)),
      Field ''Validators'' (Some ''validators'') (PtrV (Some DefaultValidatorsConfig)),
      Field ''BlockSimulation'' (Some ''block_simulation'') (PtrV (Some (DefaultBlockSimulation (sub_WS ls) (sub_HTTP ls)))),
      Field ''Payload'' (Some ''payload'') (PtrV (Some DefaultPayloadConfig)),
      Field ''DataAPI'' (Some ''dataapi'') (PtrV (Some DefaultDataAPIConfig)),
      Field ''Warehouse'' (Some ''warehouse'') (PtrV (Some DefaultWarehouseConfig)),
      Field ''Distributed'' (Some ''distributed'') (PtrV (Some DefaultDistributedConfig))]"

section \<open>What reading keeps\<close>

text \<open>
  \<open>erase e\<close> resets the values of the fields whose tags satisfy \<open>e\<close>: with all tags, what is left is the
  shape of the configuration, and with the tags that allow dynamic changes, the static part of it.
\<close>

primrec erase_value :: "(string option \<Rightarrow> bool) \<Rightarrow> cfg_value \<Rightarrow> bool \<Rightarrow> cfg_value"
  and erase_section :: "(string option \<Rightarrow> bool) \<Rightarrow> cfg_section \<Rightarrow> cfg_section"
  and erase_field :: "(string option \<Rightarrow> bool) \<Rightarrow> cfg_field \<Rightarrow> cfg_field" where
  "erase_value e (DurationV n) d = DurationV (if d then 0 else n)"
| "erase_value e (BoolV b) d = BoolV (\<not> d \<and> b)"
| "erase_value e (UintV n) d = UintV (if d then 0 else n)"
| "erase_value e (IntV n) d = IntV (if d then 0 else n)"
| "erase_value e (StringV s) d = StringV (if d then [] else s)"
| "erase_value e (StringsV s) d = StringsV (if d then None else s)"
| "erase_value e (ArrayV s) d = ArrayV s"
| "erase_value e (StructV s) d = StructV (erase_section e s)"
| "erase_value e (PtrV s) d = PtrV (map_option (erase_section e) s)"
| "erase_section e (Section ls fs) = Section ls (map (erase_field e) fs)"
| "erase_field e (Field n t v) = Field n t (erase_value e v (e t))"

definition dynamic_tag :: "string option \<Rightarrow> bool" where
  "dynamic_tag t \<longleftrightarrow> t \<noteq> None \<and> inArr (Split (the t) (CHR '','')) ''allow_dynamic''"

definition config_shape :: "config \<Rightarrow> config" where
  "config_shape cfg = map (erase_field (\<lambda>t. True)) cfg"

definition static_config :: "config \<Rightarrow> config" where
  "static_config cfg = map (erase_field dynamic_tag) cfg"

lemma set_param_cases:
  "set_param initial root params key name path old new present updated = (r, v, ps) \<Longrightarrow>
   v = present \<or> v = updated \<and> (initial \<or> inArr params ''allow_dynamic'')"
  by (auto simp: set_param_def split: if_splits)

lemma parse_keeps:
  shows "\<lbrakk>parseParam pd initial root path key v sec = (r, sec', ps); \<And>t. initial \<or> dynamic_tag t \<Longrightarrow> e t\<rbrakk>
      \<Longrightarrow> erase_section e sec' = erase_section e sec"
    and "\<lbrakk>parse_fields pd initial root path key rest v fs = (r, fs', ps); \<And>t. initial \<or> dynamic_tag t \<Longrightarrow> e t\<rbrakk>
      \<Longrightarrow> map (erase_field e) fs' = map (erase_field e) fs"
    and "\<lbrakk>parse_value pd initial root path key rest v params name el = (r, el', ps); \<And>t. initial \<or> dynamic_tag t \<Longrightarrow> e t;
        initial \<or> inArr params ''allow_dynamic'' \<Longrightarrow> d\<rbrakk> \<Longrightarrow> erase_value e el' d = erase_value e el d"
proof (induction pd initial root path key v sec and pd initial root path key rest v fs
    and pd initial root path key rest v params name el
    arbitrary: r sec' ps and r fs' ps and r el' ps d
    rule: parseParam_parse_fields_parse_value.induct)
  case (1 pd initial root path key v ls fs)
  then show ?case
    by (auto split: prod.splits)
next
  case (3 pd initial root path key rest v name tag el fs)
  then show ?case
    by (auto split: prod.splits res.splits if_splits simp: dynamic_tag_def)
qed (auto split: res.splits if_splits prod.splits simp: Let_def dest!: set_param_cases)

lemma update_last_keeps:
  assumes "update_last tag f cfg = Some (r, cfg')" and "\<And>v r v' d. f v = (r, v') \<Longrightarrow> erase_value e v' d = erase_value e v d"
  shows "map (erase_field e) cfg' = map (erase_field e) cfg"
  using assms(1)
proof (induction cfg arbitrary: r cfg')
  case (Cons fld cfg)
  then show ?case
    by (cases fld) (auto split: option.splits if_splits prod.splits dest: assms(2))
qed simp

lemma section_param_keeps:
  assumes "section_param pd initial path key v sec = (r, sec')" and "\<And>t. initial \<or> dynamic_tag t \<Longrightarrow> e t"
  shows "erase_value e sec' d = erase_value e sec d"
proof (cases "\<exists>s. sec = PtrV (Some s)")
  case True
  then show ?thesis
    using assms parse_keeps(1) [OF _ assms(2)] by (auto simp: section_param_def split: prod.splits)
next
  case False
  then show ?thesis
    using assms(1) by (auto simp: section_param_def split: cfg_value.splits option.splits)
qed

lemma section_param_parses:
  assumes "section_param pd initial path key v sec = ((r, ps), sec')" and "r = Ok () \<or> ps \<noteq> []"
  shows "\<exists>s s'. sec = PtrV (Some s) \<and> sec' = PtrV (Some s') \<and> parseParam pd initial None path key v s = (r, s', ps)"
proof (cases sec)
  case (PtrV p)
  then show ?thesis
    using assms by (cases p) (auto simp: section_param_def split: prod.splits)
qed (use assms in \<open>auto simp: section_param_def\<close>)

lemma parse_line_keeps:
  assumes "parse_line pd initial l (tag, cfg) = (out, tag', cfg')" and "\<And>t. initial \<or> dynamic_tag t \<Longrightarrow> e t"
  shows "map (erase_field e) cfg' = map (erase_field e) cfg"
proof (cases "cfg' = cfg")
  case False
  then obtain t k v where "update_last t (section_param pd initial (t @ ''.'' @ k) k v) cfg = Some (out, cfg')"
    using assms(1) by (auto simp: parse_line_def Let_def split: if_splits prod.splits option.splits)
  then show ?thesis
    by (rule update_last_keeps) (rule section_param_keeps [OF _ assms(2)])
qed simp

lemma parse_lines_keeps:
  assumes "\<And>t. initial \<or> dynamic_tag t \<Longrightarrow> e t"
  shows "parse_lines pd initial ls (tag, cfg) = (out, tag', cfg') \<Longrightarrow> map (erase_field e) cfg' = map (erase_field e) cfg"
proof (induction ls arbitrary: tag cfg out)
  case (Cons l ls)
  obtain r ps t1 c1 where l: "parse_line pd initial l (tag, cfg) = ((r, ps), t1, c1)"
    by (metis surj_pair)
  have "map (erase_field e) c1 = map (erase_field e) cfg"
    by (rule parse_line_keeps [OF l assms])
  then show ?case
    using Cons l by (cases r) (auto split: prod.splits)
qed simp

lemma source_Load_keeps:
  assumes "\<And>t. initial \<or> dynamic_tag t \<Longrightarrow> e t" and "source_Load pd initial input cfg = (r, cfg', ps)"
  shows "map (erase_field e) cfg' = map (erase_field e) cfg"
proof (cases input)
  case (Ok w)
  obtain ls err where sl: "scan_lines w = (ls, err)"
    by (metis surj_pair)
  obtain r1 ps1 tag c1 where pl: "parse_lines pd initial ls (None, cfg) = ((r1, ps1), tag, c1)"
    by (metis surj_pair)
  have "cfg' = c1"
    using assms(2) Ok sl pl by (auto simp: source_Load_def parseIni_def split: res.splits option.splits)
  then show ?thesis
    using parse_lines_keeps [OF assms(1) pl] by simp
qed (use assms(2) in \<open>auto simp: source_Load_def\<close>)

section \<open>What reading sets\<close>

text \<open>The value of the first parameter that a key leads to, and the value that a text gives it.\<close>

fun get_section :: "string \<Rightarrow> cfg_section \<Rightarrow> cfg_value option"
  and get_fields :: "string \<Rightarrow> string \<Rightarrow> cfg_field list \<Rightarrow> cfg_value option"
  and get_value :: "string \<Rightarrow> cfg_value \<Rightarrow> cfg_value option" where
  "get_section key (Section ls fs) = (case Cut key (CHR ''.'') of (key, rest, _) \<Rightarrow> get_fields key rest fs)"
| "get_fields key rest [] = None"
| "get_fields key rest (Field name tag v # fs) =
     (if tag = None \<or> hd (Split (the tag) (CHR '','')) \<noteq> key then get_fields key rest fs else get_value rest v)"
| "get_value rest (PtrV (Some sec)) = get_section rest sec"
| "get_value rest (PtrV None) = None"
| "get_value rest (StructV sec) = get_section rest sec"
| "get_value rest v = Some v"

fun find_last :: "string \<Rightarrow> config \<Rightarrow> cfg_value option" where
  "find_last tag [] = None"
| "find_last tag (Field name t v # fs) =
     (case find_last tag fs of Some u \<Rightarrow> Some u | None \<Rightarrow> if t = Some tag then Some v else None)"

definition get_param :: "string \<Rightarrow> string \<Rightarrow> config \<Rightarrow> cfg_value option" where
  "get_param tag key cfg = Option.bind (find_last tag cfg) (get_value key)"

fun read_leaf :: "(string \<Rightarrow> (go_error, int) res) \<Rightarrow> string \<Rightarrow> cfg_value \<Rightarrow> cfg_value option" where
  "read_leaf pd v (DurationV _) = (case pd v of Ok b \<Rightarrow> Some (DurationV b) | _ \<Rightarrow> None)"
| "read_leaf pd v (BoolV _) = Some (BoolV (paramParseBool v))"
| "read_leaf pd v (UintV _) = (case ParseUint v of Ok n \<Rightarrow> Some (UintV n) | _ \<Rightarrow> None)"
| "read_leaf pd v (IntV _) = (case ParseInt v of Ok n \<Rightarrow> Some (IntV n) | _ \<Rightarrow> None)"
| "read_leaf pd v (StringV _) = Some (StringV v)"
| "read_leaf pd v (StringsV _) = Some (StringsV (Some (paramParseStringSlice v)))"
| "read_leaf pd v _ = None"

lemma set_param_Ok:
  "set_param initial root params key name path old new present updated = (Ok (), v, ps) \<Longrightarrow> v = updated"
  by (auto simp: set_param_def split: if_splits)

lemma parse_sets:
  shows "parseParam pd initial root path key v sec = (Ok (), sec', ps) \<Longrightarrow>
      get_section key sec' = Option.bind (get_section key sec) (read_leaf pd (TrimSpace v))"
    and "parse_fields pd initial root path key rest v fs = (Ok (), fs', ps) \<Longrightarrow>
      get_fields key rest fs' = Option.bind (get_fields key rest fs) (read_leaf pd (TrimSpace v))"
    and "parse_value pd initial root path key rest v params name el = (Ok (), el', ps) \<Longrightarrow>
      get_value rest el' = Option.bind (get_value rest el) (read_leaf pd (TrimSpace v))"
proof (induction pd initial root path key v sec and pd initial root path key rest v fs
    and pd initial root path key rest v params name el
    arbitrary: sec' ps and fs' ps and el' ps
    rule: parseParam_parse_fields_parse_value.induct)
  case (1 pd initial root path key v ls fs)
  then show ?case
    by (auto split: prod.splits)
next
  case (3 pd initial root path key rest v name tag el fs)
  then show ?case
    by (auto split: prod.splits res.splits if_splits)
qed (auto split: res.splits if_splits prod.splits simp: Let_def map_err_iff dest!: set_param_Ok)

lemma dropWhile_idem: "dropWhile P (dropWhile P xs) = dropWhile P xs"
  by (induction xs) auto

lemma TrimSpace_idem [simp]: "TrimSpace (TrimSpace s) = TrimSpace s"
proof -
  let ?t = "dropWhile is_space s"
  obtain r where r: "?t = rev (dropWhile is_space (rev ?t)) @ r"
    by (metis dropWhile_eq_drop rev_append rev_rev_ident append_take_drop_id)
  have "dropWhile is_space (rev (dropWhile is_space (rev ?t))) = rev (dropWhile is_space (rev ?t))"
  proof (cases "rev (dropWhile is_space (rev ?t))")
    case (Cons c cs)
    then have "?t = c # cs @ r"
      using r by simp
    then have "\<not> is_space c"
      by (metis dropWhile_eq_Cons_conv)
    then show ?thesis
      unfolding Cons by simp
  next
    case Nil
    show ?thesis
      unfolding Nil by simp
  qed
  then show ?thesis
    by (simp add: TrimSpace_def dropWhile_idem)
qed

lemma update_last_sets:
  assumes "update_last tag f cfg = Some (r, cfg')"
  shows "\<exists>v v'. find_last tag cfg = Some v \<and> f v = (r, v') \<and> find_last tag cfg' = Some v'"
  using assms
proof (induction cfg arbitrary: cfg')
  case (Cons fld cfg)
  obtain name t v where fld: "fld = Field name t v"
    by (cases fld)
  have none: "update_last tag f cfg = None \<Longrightarrow> find_last tag cfg = None" for cfg
    by (induction cfg rule: find_last.induct) (auto split: option.splits if_splits prod.splits)
  show ?case
    using Cons fld none [of cfg] by (auto split: option.splits if_splits prod.splits)
qed simp

lemma parse_lines_append:
  "parse_lines pd initial (ls @ ls') st =
     (case parse_lines pd initial ls st of
        ((Ok _, ps), st) \<Rightarrow> (case parse_lines pd initial ls' st of ((r, ps'), st) \<Rightarrow> ((r, ps @ ps'), st))
      | ((r, ps), st) \<Rightarrow> ((r, ps), st))"
  by (induction ls arbitrary: st) (auto split: prod.splits res.splits)

text \<open>The erased configuration has the same keys, and reading only depends on the kind of a parameter.\<close>

lemma get_erase:
  shows "get_section key (erase_section (\<lambda>t. True) sec) = map_option (\<lambda>v. erase_value (\<lambda>t. True) v True) (get_section key sec)"
    and "get_fields key rest (map (erase_field (\<lambda>t. True)) fs) = map_option (\<lambda>v. erase_value (\<lambda>t. True) v True) (get_fields key rest fs)"
    and "get_value rest (erase_value (\<lambda>t. True) v True) = map_option (\<lambda>v. erase_value (\<lambda>t. True) v True) (get_value rest v)"
  by (induction key sec and key rest fs and rest v rule: get_section_get_fields_get_value.induct)
     (auto split: prod.splits)

lemma get_param_shape: "get_param tag key (config_shape cfg) = map_option (\<lambda>v. erase_value (\<lambda>t. True) v True) (get_param tag key cfg)"
proof -
  have "find_last tag (map (erase_field (\<lambda>t. True)) cfg) = map_option (\<lambda>v. erase_value (\<lambda>t. True) v True) (find_last tag cfg)"
    by (induction cfg rule: find_last.induct) (auto split: option.splits)
  then show ?thesis
    by (cases "find_last tag cfg") (simp_all add: get_param_def config_shape_def get_erase)
qed

lemma read_leaf_erase: "read_leaf pd v (erase_value e leaf d) = read_leaf pd v leaf"
  by (cases leaf) simp_all

lemma read_param_shape:
  assumes "config_shape cfg = config_shape cfg'"
  shows "Option.bind (get_param tag key cfg) (read_leaf pd v) = Option.bind (get_param tag key cfg') (read_leaf pd v)"
  using get_param_shape [of tag key cfg] get_param_shape [of tag key cfg'] assms
  by (cases "get_param tag key cfg"; cases "get_param tag key cfg'") (auto, metis read_leaf_erase)

section \<open>What listeners are told\<close>

definition tells_duration :: "nat list \<times> old_new \<Rightarrow> bool" where
  "tells_duration p \<longleftrightarrow> (\<exists>d. on_New (snd p) = AnyDuration d)"

lemma parse_tells:
  shows "parseParam pd initial root path key v sec = (r, sec', ps) \<Longrightarrow> \<forall>p \<in> set ps. \<not> tells_duration p"
    and "parse_fields pd initial root path key rest v fs = (r, fs', ps) \<Longrightarrow> \<forall>p \<in> set ps. \<not> tells_duration p"
    and "parse_value pd initial root path key rest v params name el = (r, el', ps) \<Longrightarrow> \<forall>p \<in> set ps. \<not> tells_duration p"
proof (induction pd initial root path key v sec and pd initial root path key rest v fs
    and pd initial root path key rest v params name el
    arbitrary: r sec' ps and r fs' ps and r el' ps
    rule: parseParam_parse_fields_parse_value.induct)
  case (1 pd initial root path key v ls fs)
  then show ?case
    by (auto split: prod.splits)
next
  case (3 pd initial root path key rest v name tag el fs)
  then show ?case
    by (auto split: prod.splits res.splits if_splits)
qed (auto split: res.splits if_splits prod.splits option.splits simp: Let_def set_param_def tells_duration_def)

lemma parse_line_tells:
  assumes "parse_line pd initial l st = ((r, ps), st')"
  shows "\<forall>p \<in> set ps. \<not> tells_duration p"
proof (cases "ps = []")
  case False
  then obtain t k v cfg cfg' where "update_last t (section_param pd initial (t @ ''.'' @ k) k v) cfg = Some ((r, ps), cfg')"
    using assms by (cases st) (auto simp: parse_line_def Let_def split: if_splits prod.splits option.splits)
  from update_last_sets [OF this] obtain sec sec' where "section_param pd initial (t @ ''.'' @ k) k v sec = ((r, ps), sec')"
    by blast
  then obtain s s' where "parseParam pd initial None (t @ ''.'' @ k) k v s = (r, s', ps)"
    using section_param_parses False by blast
  then show ?thesis
    by (rule parse_tells(1))
qed simp

lemma parse_lines_tells:
  "parse_lines pd initial ls st = ((r, ps), st') \<Longrightarrow> \<forall>p \<in> set ps. \<not> tells_duration p"
proof (induction ls arbitrary: st ps)
  case (Cons l ls)
  obtain r1 ps1 st1 where l: "parse_line pd initial l st = ((r1, ps1), st1)"
    by (metis surj_pair)
  show ?case
    using Cons.prems l parse_line_tells [OF l] Cons.IH [of st1] by (cases r1) (auto split: prod.splits)
qed simp

lemma Reload_tells:
  "cm_Reload pd input cfg = (r, cfg', ps) \<Longrightarrow> \<forall>p \<in> set ps. \<not> tells_duration p"
  using parse_lines_tells
  by (fastforce simp: cm_Reload_def source_Load_def parseIni_def split: res.splits option.splits prod.splits)

section \<open>Properties\<close>


text \<open>
  C32: Parameters that are not marked \<open>allow_dynamic\<close> keep their values on \<open>Reload\<close>, with any file and also
  when it ends with an error half way.
\<close>

theorem Reload_keeps_static:
  "static_config (fst (snd (cm_Reload pd input cfg))) = static_config cfg"
proof -
  obtain r cfg' ps where l: "source_Load pd False input cfg = (r, cfg', ps)"
    by (metis surj_pair)
  then show ?thesis
    using source_Load_keeps [OF _ l, of dynamic_tag] by (simp add: static_config_def cm_Reload_def)
qed

text \<open>The key and the value of a line that sets a parameter.\<close>

definition assignment :: "string \<Rightarrow> (string \<times> string) option" where
  "assignment l =
     (case TrimSpace l of
        [] \<Rightarrow> None
      | c # cs \<Rightarrow>
          if c \<in> set ''#/;['' then None
          else (case Cut (c # cs) (CHR ''='') of (key, v, found) \<Rightarrow> if found then Some (TrimSpace key, TrimSpace v) else None))"


definition no_subscribers :: subscribers where
  "no_subscribers = \<lparr>sub_Api = [], sub_Relay = [], sub_Beacon = [], sub_WS = [], sub_HTTP = []\<rparr>"

lemmas eval_config = parse_line_def TrimSpace_def is_space_def find_section_def Let_def section_param_def
  DefaultConfig_def DefaultApiConfig_def DefaultDistributedConfig_def set_param_def ParseInt_def ParseUint_def get_param_def
  is_digit_def digit_val_def assignment_def


text \<open>
  A section that is not known does not end the section before it: the parameters that follow are set
  there.  A value for the identifier of a relay instance ends the program.
\<close>

lemma unknown_section_sets_previous:
  "get_param ''api'' ''datalimit''
     (snd (snd (parse_lines (\<lambda>v. Err (ErrNew v)) True [''[api]'', ''[unknown]'', ''datalimit = 10''] (None, DefaultConfig no_subscribers))))
   = Some (IntV 10)"
  by (simp add: eval_config)

lemma instance_id_panics:
  "fst (fst (parse_lines (\<lambda>v. Err (ErrNew v)) True [''[distributed]'', ''id = 1''] (None, DefaultConfig no_subscribers))) = Panic"
  by (simp add: eval_config)

end
