(* ===== verification/Api.thy ===== *)
theory Api
  imports Evidence Config
begin

text \<open>
  The HTTP interface of the relay, \<open>src/api/api.go\<close> and \<open>src/api/middleware.go\<close>.

  A handler works on the state \<open>api_state\<close>: the response that is being written, the metrics, and the
  state \<open>'w\<close> of the services behind the interfaces \<open>Relay\<close>, \<open>Registrations\<close>, \<open>RateLimitter\<close> and \<open>State\<close>
  of the source, which are the fields of the record \<open>services\<close>.  Bodies are readers: the bytes they
  deliver and the error that ends them, if any.  gzip, JSON and the texts of hashes and public keys are
  the record \<open>api_lib\<close>; JSON output is the value that is encoded.  Logging and timers are left out.
\<close>

section \<open>Requests and responses\<close>

type_synonym reader = "bytes \<times> go_error option"

definition ReadAll :: "reader \<Rightarrow> (go_error, bytes) res" where
  "ReadAll r = (case snd r of None \<Rightarrow> Ok (fst r) | Some e \<Rightarrow> Err e)"

text \<open>\<open>io.LimitReader\<close> reports the end after \<open>n\<close> bytes and does not look at what follows.\<close>

definition LimitReader :: "nat \<Rightarrow> reader \<Rightarrow> reader" where
  "LimitReader n r = (if n \<le> length (fst r) then (take n (fst r), None) else r)"

record http_request =
  rq_Header :: "string \<Rightarrow> string"
  rq_Query :: "(string \<times> string list) list"
  rq_Vars :: header_request
  rq_Body :: reader
  rq_ctxErr :: "go_error option"
  rq_encodeErr :: "go_error option"

text \<open>\<open>url.Values.Get\<close>.\<close>

definition query_Get :: "http_request \<Rightarrow> string \<Rightarrow> string" where
  "query_Get r k = (case map_of (rq_Query r) k of Some (v # _) \<Rightarrow> v | _ \<Rightarrow> [])"

datatype body =
  JsonError nat string
| HeaderBody header_response
| PayloadBody payload_response
| ValidatorsBody "validators_entry list"
| RegistrationBody signed_registration
| DeliveredBody "bid_trace_extended list"
| ReceivedBody "bid_trace_with_timestamp list"
| StatusBody bool bool bool
| RawBody bytes

datatype metric =
  ApiReqCounter string string string
| ApiReqElCount string string nat
| RelayTiming "go_error option"

record 'w api_state =
  ap_code :: "nat option"
  ap_body :: "body list"
  ap_metrics :: "metric list"
  ap_w :: 'w

type_synonym 'w api_handler = "http_request \<Rightarrow> 'w api_state \<Rightarrow> (go_error, unit) res \<times> 'w api_state"

text \<open>\<open>http.ResponseWriter\<close>: the first status code counts, and a body without one has status 200.\<close>

definition WriteHeader :: "nat \<Rightarrow> 'w api_state \<Rightarrow> 'w api_state" where
  "WriteHeader code s = (if ap_code s = None then s\<lparr>ap_code := Some code\<rparr> else s)"

definition WriteBody :: "body \<Rightarrow> 'w api_state \<Rightarrow> 'w api_state" where
  "WriteBody b s = (let s = WriteHeader 200 s in s\<lparr>ap_body := ap_body s @ [b]\<rparr>)"

definition status_code :: "'w api_state \<Rightarrow> nat" where
  "status_code s = (case ap_code s of None \<Rightarrow> 200 | Some c \<Rightarrow> c)"

definition metric :: "metric \<Rightarrow> 'w api_state \<Rightarrow> 'w api_state" where
  "metric m s = s\<lparr>ap_metrics := ap_metrics s @ [m]\<rparr>"

definition writeError :: "nat \<Rightarrow> go_error \<Rightarrow> 'w api_state \<Rightarrow> 'w api_state" where
  "writeError code err s = WriteBody (JsonError code (error_text err)) (WriteHeader code s)"

text \<open>A counter and an error response, with which most handlers end early.\<close>

definition fail :: "string \<Rightarrow> string \<Rightarrow> nat \<Rightarrow> string \<Rightarrow> go_error \<Rightarrow> 'w api_state \<Rightarrow> 'w api_state" where
  "fail endpoint counted code reason err s = writeError code err (metric (ApiReqCounter endpoint counted reason) s)"

section \<open>Services and libraries\<close>

record 'w services =
  svc_GetHeader :: "header_request \<Rightarrow> (go_error, 'w, header_response) handler"
  svc_GetPayload :: "blinded_block \<Rightarrow> (go_error, 'w, payload_response) handler"
  svc_SubmitBlock :: "submit_request \<Rightarrow> (go_error, 'w, unit) handler"
  svc_GetPayloadDelivered :: "payload_trace_query \<Rightarrow> (go_error, 'w, bid_trace_extended list) handler"
  svc_GetBlockReceived :: "submission_trace_query \<Rightarrow> (go_error, 'w, bid_trace_with_timestamp list) handler"
  svc_RegisterValidator :: "signed_registration list \<Rightarrow> (go_error, 'w, unit) handler"
  svc_Registration :: "pubkey \<Rightarrow> (go_error, 'w, signed_registration) handler"
  svc_GetValidators :: "'w \<Rightarrow> validators_entry list option"
  svc_Allow :: "pubkey \<Rightarrow> (go_error, 'w, unit) handler"
  svc_ForkVersion :: "slot \<Rightarrow> 'w \<Rightarrow> fork_version"
  svc_HeadSlot :: "'w \<Rightarrow> slot"

record api_lib =
  gzip_NewReader :: "reader \<Rightarrow> (go_error, reader) res"
  json_registrations :: "reader \<Rightarrow> (go_error, signed_registration list option) res"
  json_capella_blinded :: "bytes \<Rightarrow> (go_error, capella_blinded_body signed_blinded) res"
  json_bellatrix_blinded :: "bytes \<Rightarrow> (go_error, bellatrix_blinded_body signed_blinded) res"
  json_capella_submit :: "bytes \<Rightarrow> (go_error, capella_submit) res"
  json_bellatrix_submit :: "bytes \<Rightarrow> (go_error, bellatrix_submit) res"
  api_ssz :: ssz_lib
  text_hash :: "string \<Rightarrow> (go_error, hash) res"
  text_pubkey :: "string \<Rightarrow> (go_error, pubkey) res"
  u256_String :: "u256 \<Rightarrow> string"
  is_json_error :: "go_error \<Rightarrow> bool"

record enabled_endpoints =
  en_GetHeader :: bool
  en_GetPayload :: bool
  en_SubmitBlock :: bool

record api_config =
  api_dataLimit :: int
  api_errorsOnDisable :: bool
  api_enabled :: enabled_endpoints

text \<open>Calling a service.\<close>

definition call :: "(go_error, 'w, 'a) handler \<Rightarrow> 'w api_state \<Rightarrow> (go_error, 'a) res \<times> 'w api_state" where
  "call f s = (case f (ap_w s) of (r, w') \<Rightarrow> (r, s\<lparr>ap_w := w'\<rparr>))"

section \<open>Errors\<close>

abbreviation "ErrParamNotFound \<equiv> ErrNew ''not found''"

text \<open>The errors that are reported by name, in the order in which they are looked for.\<close>

definition known_errors :: "go_error list" where
  "known_errors =
     [ErrUnknownValue, ErrPayloadDiffBlockHash, ErrHigherSlotDelivered, ErrNoPayloadFound, ErrNew ''req is nil'',
      ErrMissingSecretKey, ErrNoBuilderBid, ErrTraceMismatch, ErrZeroBid, ErrOldSlot, ErrNew ''invalid block header from datastore'',
      ErrInvalidSignature, ErrStore, ErrNew ''failed to marshal'', ErrInternal, ErrUnknownValidator, ErrVerification,
      ErrInvalidTimestamp, ErrInvalidSlot, ErrEmptyBlock, ErrInvalidRandao, ErrLateRequest, ErrInvalidExecutionPayload,
      ErrNew ''invalid signature'', ErrNew ''unknown validator'', ErrNew ''invalid timestamp'']"

definition unwrapError :: "go_error \<Rightarrow> string \<Rightarrow> go_error" where
  "unwrapError err defaultMsg =
     (case find (errors_Is err) known_errors of Some e \<Rightarrow> e | None \<Rightarrow> ErrNew defaultMsg)"

definition encode_errors :: "go_error list" where
  "encode_errors = [LibErr ''io: read/write on closed pipe'', LibErr ''short write'', LibErr ''short buffer'', LibErr ''unexpected EOF'']"

text \<open>\<open>is_json_error\<close> tells the six error types of \<open>encoding/json\<close> that the source lists.\<close>

definition isEncodeError :: "api_lib \<Rightarrow> go_error \<Rightarrow> bool" where
  "isEncodeError AL err \<longleftrightarrow> (\<exists>e \<in> set encode_errors. errors_Is err e) \<or> is_json_error AL err"

definition isContextDoneError :: "go_error \<Rightarrow> bool" where
  "isContextDoneError err \<longleftrightarrow> errors_Is err (LibErr ''context canceled'') \<or> errors_Is err (LibErr ''context deadline exceeded'')"

section \<open>Proposers\<close>

definition api_status :: "'w api_handler" where
  "api_status r s = (Ok (), WriteHeader 200 s)"

definition registerValidator :: "api_lib \<Rightarrow> 'w services \<Rightarrow> 'w api_handler" where
  "registerValidator AL S r s =
     (case json_registrations AL (rq_Body r) of
        Panic \<Rightarrow> (Panic, s)
      | Err e \<Rightarrow> (Ok (), fail ''registerValidator'' ''400'' 400 ''input decoding'' (ErrNew ''invalid payload'') s)
      | Ok payload \<Rightarrow>
          let s = (if payload \<noteq> None then metric (ApiReqElCount ''registerValidator'' ''payload'' (length (nil_list payload))) s else s)
          in case call (svc_RegisterValidator S (nil_list payload)) s of
               (Panic, s) \<Rightarrow> (Panic, s)
             | (Err e, s) \<Rightarrow>
                 let s = metric (RelayTiming (Some (unwrapError e ''register validator unknown''))) s
                 in if rq_ctxErr r \<noteq> None
                    then (Ok (), metric (ApiReqCounter ''registerValidator'' ''408'' ''register validator'') s)
                    else (Ok (), fail ''registerValidator'' ''400'' 400 ''register validator'' e s)
             | (Ok _, s) \<Rightarrow>
                 (Ok (), metric (ApiReqCounter ''registerValidator'' ''200'' []) (metric (RelayTiming None) s)))"

text \<open>\<open>json.NewEncoder(w).Encode(v)\<close>, which writes nothing when the encoding fails, and the two counters.\<close>

definition respond :: "string \<Rightarrow> string \<Rightarrow> http_request \<Rightarrow> body \<Rightarrow> 'w api_state \<Rightarrow> 'w api_state" where
  "respond endpoint reason r b s =
     (if rq_encodeErr r \<noteq> None then metric (ApiReqCounter endpoint ''500'' reason) s
      else metric (ApiReqCounter endpoint ''200'' []) (WriteBody b s))"

definition api_getHeader :: "api_config \<Rightarrow> 'w services \<Rightarrow> 'w api_handler" where
  "api_getHeader a S r s =
     (if \<not> en_GetHeader (api_enabled a)
      then (if api_errorsOnDisable a
            then (Ok (), metric (ApiReqCounter ''getHeader'' ''403'' ''forbiden'') (WriteHeader 403 s))
            else (Ok (), fail ''getHeader'' ''499'' 400 ''disabled'' (ErrNew ''no builder bid'') s))
      else
        (case call (svc_GetHeader S (rq_Vars r)) s of
           (Panic, s) \<Rightarrow> (Panic, s)
         | (Err e, s) \<Rightarrow>
             if rq_ctxErr r \<noteq> None
             then (Ok (), metric (ApiReqCounter ''getHeader'' ''408'' ''get header'')
                     (metric (RelayTiming (Some (LibErr ''context canceled''))) s))
             else (Ok (), fail ''getHeader'' ''400'' 400 ''get header'' e
                     (metric (RelayTiming (Some (unwrapError e ''get header unknown''))) s))
         | (Ok response, s) \<Rightarrow>
             (Ok (), respond ''getHeader'' ''response encode'' r (HeaderBody response) (metric (RelayTiming None) s))))"

text \<open>The fork of the head slot decides how a body is decoded.\<close>

definition head_fork :: "'w services \<Rightarrow> 'w api_state \<Rightarrow> fork_version" where
  "head_fork S s = svc_ForkVersion S (svc_HeadSlot S (ap_w s)) (ap_w s)"

text \<open>What decoding a blinded block gives: a block or the message of the response.\<close>

definition decode_blinded :: "api_lib \<Rightarrow> fork_version \<Rightarrow> bytes \<Rightarrow> (go_error, blinded_block) res" where
  "decode_blinded AL fork b =
     (case fork of
        ForkCapella \<Rightarrow>
          (case json_capella_blinded AL b of
             Panic \<Rightarrow> Panic
           | Err e \<Rightarrow> Err (ErrNew ''invalid getPayload request cappella decode'')
           | Ok creq \<Rightarrow> Ok (CapellaBlinded (creq\<lparr>SRaw := b\<rparr>)))
      | _ \<Rightarrow>
          (case json_bellatrix_blinded AL b of
             Panic \<Rightarrow> Panic
           | Err e \<Rightarrow> Err (ErrNew ''invalid getPayload request bellatrix decode'')
           | Ok breq \<Rightarrow> Ok (BellatrixBlinded (breq\<lparr>SRaw := b\<rparr>))))"

definition api_getPayload :: "api_lib \<Rightarrow> api_config \<Rightarrow> 'w services \<Rightarrow> 'w api_handler" where
  "api_getPayload AL a S r s =
     (if \<not> en_GetPayload (api_enabled a)
      then (Ok (), metric (ApiReqCounter ''getHeader'' ''403'' ''get header'') (WriteHeader 403 s))
      else
        (case ReadAll (rq_Body r) of
           Panic \<Rightarrow> (Panic, s)
         | Err e \<Rightarrow> (Ok (), fail ''getPayload'' ''400'' 400 ''read body'' (ErrNew ''unable to read request body'') s)
         | Ok b \<Rightarrow>
             if head_fork S s \<notin> {ForkCapella, ForkBellatrix}
             then (Ok (), writeError 500 (ErrNew ''not supported fork version'') s)
             else
               (case decode_blinded AL (head_fork S s) b of
                  Panic \<Rightarrow> (Panic, s)
                | Err e \<Rightarrow> (Ok (), fail ''getPayload'' ''400'' 400 ''payload decode'' e s)
                | Ok req \<Rightarrow>
                    if \<not> blk_Validate req
                    then (Ok (), fail ''getPayload'' ''400'' 400 ''payload validation'' (ErrNew ''invalid payload'') s)
                    else
                      (case call (svc_GetPayload S req) s of
                         (Panic, s) \<Rightarrow> (Panic, s)
                       | (Err e, s) \<Rightarrow>
                           (Ok (), fail ''getPayload'' ''400'' 400 ''get payload'' e
                              (metric (RelayTiming (Some (unwrapError e ''get payload unknown''))) s))
                       | (Ok payload, s) \<Rightarrow>
                           (Ok (), respond ''getPayload'' ''encode response'' r (PayloadBody payload) (metric (RelayTiming None) s))))))"

section \<open>Builders\<close>

fun submit_Validate :: "(u256 \<Rightarrow> string) \<Rightarrow> submit_request \<Rightarrow> bool" where
  "submit_Validate str (BellatrixSubmit b) \<longleftrightarrow>
     str (bt_Value (BellatrixMessage b)) \<noteq> [] \<and> bt_Slot (BellatrixMessage b) \<noteq> 0
     \<and> EpBlockNumber (BellatrixExecutionPayload b) > 0 \<and> EpTimestamp (BellatrixExecutionPayload b) > 0"
| "submit_Validate str (CapellaSubmit b) \<longleftrightarrow>
     str (bt_Value (CapellaMessage b)) \<noteq> [] \<and> bt_Slot (CapellaMessage b) \<noteq> 0
     \<and> EpBlockNumber (CapellaExecutionPayload b) > 0 \<and> EpTimestamp (CapellaExecutionPayload b) > 0"

text \<open>The reader of the body: decompressed when the request says so, and cut at 10 MB.\<close>

definition submit_reader :: "api_lib \<Rightarrow> http_request \<Rightarrow> (go_error, reader) res" where
  "submit_reader AL r =
     bind_res (if ToLower (rq_Header r ''Content-Encoding'') = ''gzip'' then gzip_NewReader AL (rq_Body r) else Ok (rq_Body r))
       (\<lambda>reader. Ok (LimitReader (10 * 1024 * 1024) reader))"

definition zero_capella_submit :: capella_submit where
  "zero_capella_submit =
     \<lparr>CapellaRaw = [],
      CapellaMessage = \<lparr>bt_Slot = 0, bt_ParentHash = 0, bt_BlockHash = 0, bt_BuilderPubkey = 0, bt_ProposerPubkey = 0,
        bt_ProposerFeeRecipient = 0, bt_GasLimit = 0, bt_GasUsed = 0, bt_Value = 0\<rparr>,
      CapellaExecutionPayload = zero_capella_payload, CapellaSignature = 0\<rparr>"

text \<open>A submission, or the reason that is counted and the message of the response.\<close>

definition decode_submission :: "api_lib \<Rightarrow> http_request \<Rightarrow> fork_version \<Rightarrow> bytes \<Rightarrow> (string \<times> string, submit_request) res" where
  "decode_submission AL r fork b =
     (case fork of
        ForkCapella \<Rightarrow>
          if ToLower (rq_Header r ''Content-Type'') = ''application/octet-stream''
          then (case SubmitBlockRequest_UnmarshalSSZ (api_ssz AL) zero_capella_submit b of
                  Panic \<Rightarrow> Panic
                | Err e \<Rightarrow> Err (''payload decode ssz'', ''invalid submitblock request capella decode ssz'')
                | Ok creq \<Rightarrow> Ok (CapellaSubmit (creq\<lparr>CapellaRaw := b\<rparr>)))
          else (case json_capella_submit AL b of
                  Panic \<Rightarrow> Panic
                | Err e \<Rightarrow> Err (''payload decode'', ''invalid submitblock request capella decode'')
                | Ok creq \<Rightarrow> Ok (CapellaSubmit (creq\<lparr>CapellaRaw := b\<rparr>)))
      | _ \<Rightarrow>
          (case json_bellatrix_submit AL b of
             Panic \<Rightarrow> Panic
           | Err e \<Rightarrow> Err (''payload decode'', ''invalid submitblock request bellatrix decode'')
           | Ok breq \<Rightarrow> Ok (BellatrixSubmit (breq\<lparr>BellatrixRaw := b\<rparr>))))"

text \<open>What follows once the body is decoded.\<close>

definition submit_decoded :: "api_lib \<Rightarrow> 'w services \<Rightarrow> submit_request \<Rightarrow> 'w api_state \<Rightarrow> (go_error, unit) res \<times> 'w api_state" where
  "submit_decoded AL S req s =
     (if \<not> submit_Validate (u256_String AL) req
      then (Ok (), fail ''submitBlock'' ''400'' 400 ''payload validation'' (ErrNew ''invalid payload'') s)
      else if sr_Slot req = 0
      then (Ok (), fail ''submitBlock'' ''400'' 400 ''payload decode'' (ErrNew ''invalid payload (slot)'') s)
      else
        (case call (svc_Allow S (sr_BuilderPubkey req)) s of
           (Panic, s) \<Rightarrow> (Panic, s)
         | (Err e, s) \<Rightarrow> (Ok (), WriteHeader 429 (metric (ApiReqCounter ''submitBlock'' ''429'' ''rate limitted'') s))
         | (Ok _, s) \<Rightarrow>
             (case call (svc_SubmitBlock S req) (metric (ApiReqElCount ''submitBlock'' ''transaction'' (unat (sr_NumTx req))) s) of
                (Panic, s) \<Rightarrow> (Panic, s)
              | (Err e, s) \<Rightarrow>
                  (Ok (), fail ''submitBlock'' ''400'' 400
                     (if errors_Is e ErrPayloadDiffBlockHash \<or> errors_Is e ErrHigherSlotDelivered
                      then ''payload already delivered'' else ''block submission'') e
                     (metric (RelayTiming (Some (unwrapError e ''submit block unknown''))) s))
              | (Ok _, s) \<Rightarrow>
                  (Ok (), metric (ApiReqCounter ''submitBlock'' ''200'' []) (metric (RelayTiming None) s)))))"

definition api_submitBlock :: "api_lib \<Rightarrow> api_config \<Rightarrow> 'w services \<Rightarrow> 'w api_handler" where
  "api_submitBlock AL a S r s =
     (if \<not> en_SubmitBlock (api_enabled a)
      then (if api_errorsOnDisable a
            then (Ok (), metric (ApiReqCounter ''submitBlock'' ''403'' ''forbidden'') (WriteHeader 403 s))
            else (Ok (), metric (ApiReqCounter ''submitBlock'' ''499'' ''disabled'') s))
      else
        (case submit_reader AL r of
           Panic \<Rightarrow> (Panic, s)
         | Err e \<Rightarrow> (Ok (), fail ''submitBlock'' ''400'' 400 ''gzip reader'' (ErrNew ''invalid gzipped submitblock request decode'') s)
         | Ok reader \<Rightarrow>
             (case ReadAll reader of
                Panic \<Rightarrow> (Panic, s)
              | Err e \<Rightarrow> (Ok (), fail ''getPayload'' ''400'' 400 ''read body'' (ErrNew ''unable to read request body'') s)
              | Ok b \<Rightarrow>
                  if head_fork S s \<notin> {ForkCapella, ForkBellatrix}
                  then (Ok (), fail ''submitBlock'' ''500'' 500 ''unsupported fork'' (ErrNew ''not supported fork version'') s)
                  else
                    (case decode_submission AL r (head_fork S s) b of
                       Panic \<Rightarrow> (Panic, s)
                     | Err (reason, msg) \<Rightarrow> (Ok (), fail ''submitBlock'' ''400'' 400 reason (ErrNew msg) s)
                     | Ok req \<Rightarrow> submit_decoded AL S req s))))"

definition api_getValidators :: "'w services \<Rightarrow> 'w api_handler" where
  "api_getValidators S r s =
     (let vs = svc_GetValidators S (ap_w s);
          s = (if vs = None then metric (RelayTiming (Some (ErrNew ''no validators''))) s else s);
          s = metric (ApiReqElCount ''getValidators'' ''validator'' (length (nil_list vs))) (metric (RelayTiming None) s)
      in (Ok (), respond ''getValidators'' ''response encode'' r (ValidatorsBody (nil_list vs)) s))"

section \<open>The data API\<close>

definition specificRegistration :: "api_lib \<Rightarrow> 'w services \<Rightarrow> 'w api_handler" where
  "specificRegistration AL S r s =
     (if query_Get r ''pubkey'' = []
      then (Ok (), fail ''specificRegistration'' ''400'' 400 ''empty pk'' (ErrNew ''empty pubkey parameter'') s)
      else
        (case text_pubkey AL (query_Get r ''pubkey'') of
           Panic \<Rightarrow> (Panic, s)
         | Err e \<Rightarrow> (Ok (), fail ''specificRegistration'' ''400'' 400 ''unmarshaling pk'' e s)
         | Ok pk \<Rightarrow>
             (case call (svc_Registration S pk) s of
                (Panic, s) \<Rightarrow> (Panic, s)
              | (Err e, s) \<Rightarrow> (Ok (), fail ''specificRegistration'' ''500'' 500 ''registration'' e s)
              | (Ok registration, s) \<Rightarrow>
                  (Ok (), respond ''specificRegistration'' ''encode response'' r (RegistrationBody registration) s))))"

text \<open>Parameters of the query.\<close>

definition number_param :: "http_request \<Rightarrow> string \<Rightarrow> (go_error, u64) res" where
  "number_param r k = (if query_Get r k = [] then Err ErrParamNotFound else map_err NumErr (ParseUint (query_Get r k)))"

definition specificSlot :: "http_request \<Rightarrow> (go_error, slot) res" where
  "specificSlot r = number_param r ''slot''"

definition blockNumber :: "http_request \<Rightarrow> (go_error, u64) res" where
  "blockNumber r = number_param r ''block_number''"

definition cursor :: "http_request \<Rightarrow> (go_error, u64) res" where
  "cursor r = number_param r ''cursor''"

definition blockHash :: "api_lib \<Rightarrow> http_request \<Rightarrow> (go_error, hash) res" where
  "blockHash AL r =
     (if query_Get r ''block_hash'' = [] then Err ErrParamNotFound else text_hash AL (query_Get r ''block_hash''))"

definition key_param :: "api_lib \<Rightarrow> http_request \<Rightarrow> string \<Rightarrow> (go_error, pubkey) res" where
  "key_param AL r k = (if query_Get r k = [] then Err ErrParamNotFound else text_pubkey AL (query_Get r k))"

definition proposerPublickKey :: "api_lib \<Rightarrow> http_request \<Rightarrow> (go_error, pubkey) res" where
  "proposerPublickKey AL r = key_param AL r ''proposer_pubkey''"

definition builderPublicKey :: "api_lib \<Rightarrow> http_request \<Rightarrow> (go_error, pubkey) res" where
  "builderPublicKey AL r = key_param AL r ''builder_pubkey''"

definition api_limit :: "http_request \<Rightarrow> u64 \<Rightarrow> (go_error, u64) res" where
  "api_limit r dataLimit =
     bind_res (number_param r ''limit'') (\<lambda>limit.
       if dataLimit < limit then Err (ErrNew (''limit is higher than '' @ dec (unat dataLimit))) else Ok limit)"

definition orderByValue :: "http_request \<Rightarrow> int" where
  "orderByValue r =
     (if query_Get r ''order_by'' = ''value'' then 1 else if query_Get r ''order_by'' = ''-value'' then - 1 else 0)"

text \<open>
  A parameter that is absent has the given value; another error ends the validation, with the kind of the
  parameter.
\<close>

definition param :: "string \<Rightarrow> 'a \<Rightarrow> (go_error, 'a) res \<Rightarrow> (string \<times> go_error, 'a) res" where
  "param kind absent v =
     (case v of
        Ok x \<Rightarrow> Ok x
      | Panic \<Rightarrow> Panic
      | Err e \<Rightarrow> if errors_Is e ErrParamNotFound then Ok absent else Err (kind, e))"

definition validateBuilderBlocksReceived ::
  "api_lib \<Rightarrow> http_request \<Rightarrow> u64 \<Rightarrow> (string \<times> go_error, submission_trace_query) res" where
  "validateBuilderBlocksReceived AL r dataLimit =
     bind_res (param ''slot'' 0 (specificSlot r)) (\<lambda>slot.
     bind_res (param ''hash'' 0 (blockHash AL r)) (\<lambda>bh.
     bind_res (param ''number'' 0 (blockNumber r)) (\<lambda>bn.
     bind_res (param ''builder_key'' 0 (builderPublicKey AL r)) (\<lambda>bpk.
     bind_res (param ''limit'' dataLimit (api_limit r dataLimit)) (\<lambda>limit.
       Ok \<lparr>stq_Slot = slot, stq_BlockHash = bh, stq_BlockNum = bn, stq_Limit = limit, stq_BuilderPubkey = bpk\<rparr>)))))"

definition validateProposerPayloadsDelivered ::
  "api_lib \<Rightarrow> http_request \<Rightarrow> u64 \<Rightarrow> (string \<times> go_error, payload_trace_query) res" where
  "validateProposerPayloadsDelivered AL r dataLimit =
     bind_res (param ''slot'' 0 (specificSlot r)) (\<lambda>slot.
     bind_res (param ''hash'' 0 (blockHash AL r)) (\<lambda>bh.
     bind_res (param ''number'' 0 (blockNumber r)) (\<lambda>bn.
     bind_res (param ''proposer_key'' 0 (proposerPublickKey AL r)) (\<lambda>ppk.
     bind_res (param ''builder_key'' 0 (builderPublicKey AL r)) (\<lambda>bpk.
     bind_res (param ''limit'' dataLimit (api_limit r dataLimit)) (\<lambda>limit.
     bind_res (param ''cursor'' 0 (cursor r)) (\<lambda>cursor.
       Ok \<lparr>ptq_Slot = slot, ptq_BlockHash = bh, ptq_BlockNum = bn, ptq_ProposerPubkey = ppk, ptq_BuilderPubkey = bpk,
           ptq_Cursor = cursor, ptq_Limit = limit, ptq_OrderByValue = orderByValue r\<rparr>)))))))"

definition data_error :: "api_lib \<Rightarrow> string \<Rightarrow> string \<Rightarrow> go_error \<Rightarrow> 'w api_state \<Rightarrow> 'w api_state" where
  "data_error AL endpoint reason e s =
     fail endpoint ''500'' 500
       (if isEncodeError AL e then ''encode response'' else if isContextDoneError e then ''context done'' else reason) e s"

definition proposerPayloadsDelivered :: "api_lib \<Rightarrow> api_config \<Rightarrow> 'w services \<Rightarrow> 'w api_handler" where
  "proposerPayloadsDelivered AL a S r s =
     (case validateProposerPayloadsDelivered AL r (of_int (api_dataLimit a)) of
        Panic \<Rightarrow> (Panic, s)
      | Err (kind, e) \<Rightarrow> (Ok (), fail ''proposerPayloadsDelivered'' ''400'' 400 (''bad '' @ kind) e s)
      | Ok query \<Rightarrow>
          (case call (svc_GetPayloadDelivered S query) s of
             (Panic, s) \<Rightarrow> (Panic, s)
           | (Err e, s) \<Rightarrow> (Ok (), data_error AL ''proposerPayloadsDelivered'' ''get payloads'' e s)
           | (Ok traces, s) \<Rightarrow>
               (Ok (), metric (ApiReqCounter ''proposerPayloadsDelivered'' ''200'' []) (WriteBody (DeliveredBody traces) s))))"

definition builderBlocksReceived :: "api_lib \<Rightarrow> api_config \<Rightarrow> 'w services \<Rightarrow> 'w api_handler" where
  "builderBlocksReceived AL a S r s =
     (case validateBuilderBlocksReceived AL r (of_int (api_dataLimit a)) of
        Panic \<Rightarrow> (Panic, s)
      | Err (kind, e) \<Rightarrow> (Ok (), fail ''builderBlocksReceived'' ''400'' 400 (''bad '' @ kind) e s)
      | Ok query \<Rightarrow>
          (case call (svc_GetBlockReceived S query) s of
             (Panic, s) \<Rightarrow> (Panic, s)
           | (Err e, s) \<Rightarrow> (Ok (), data_error AL ''builderBlocksReceived'' ''get block'' e s)
           | (Ok traces, s) \<Rightarrow>
               (Ok (), metric (ApiReqCounter ''builderBlocksReceived'' ''200'' []) (WriteBody (ReceivedBody traces) s))))"

section \<open>Middleware and settings\<close>

text \<open>\<open>withAddons\<close> turns a panic of a handler into a response with status 500.\<close>

definition withAddons :: "'w api_handler \<Rightarrow> 'w api_handler" where
  "withAddons next r s = (case next r s of (Panic, s) \<Rightarrow> (Ok (), WriteHeader 500 s) | res \<Rightarrow> res)"

definition api_OnConfigChange :: "old_new \<Rightarrow> api_config \<Rightarrow> api_config" where
  "api_OnConfigChange c a =
     (if on_Name c = ''DataLimit'' then (case on_New c of AnyInt i \<Rightarrow> a\<lparr>api_dataLimit := i\<rparr> | _ \<Rightarrow> a)
      else if on_Name c = ''ErrorsOnDisable'' then (case on_New c of AnyBool b \<Rightarrow> a\<lparr>api_errorsOnDisable := b\<rparr> | _ \<Rightarrow> a)
      else a)"

definition GetBool :: "string \<Rightarrow> enabled_endpoints \<Rightarrow> (go_error, bool) res" where
  "GetBool key ee =
     (if ToLower key = ''getheader'' then Ok (en_GetHeader ee)
      else if ToLower key = ''getpayload'' then Ok (en_GetPayload ee)
      else if ToLower key = ''submitblock'' then Ok (en_SubmitBlock ee)
      else Err (ErrNew ''param not found''))"

definition SetBool :: "string \<Rightarrow> bool \<Rightarrow> enabled_endpoints \<Rightarrow> (go_error, unit) res \<times> enabled_endpoints" where
  "SetBool key val ee =
     (if ToLower key = ''getheader'' then (Ok (), ee\<lparr>en_GetHeader := val\<rparr>)
      else if ToLower key = ''getpayload'' then (Ok (), ee\<lparr>en_GetPayload := val\<rparr>)
      else if ToLower key = ''submitblock'' then (Ok (), ee\<lparr>en_SubmitBlock := val\<rparr>)
      else (Err (ErrNew ''param not found''), ee))"

section \<open>The internal API\<close>

text \<open>
  \<open>src/api/inner/inner.go\<close>.  The services behind it are the switches of the endpoints and the payload
  store.  Parameters are processed in the order in which the map of the query is iterated, which is the
  order of the list.
\<close>

type_synonym 'w inner_api = "(enabled_endpoints \<times> 'w) api_state"

definition inner_error :: "string \<Rightarrow> 'w inner_api \<Rightarrow> 'w inner_api" where
  "inner_error t s = WriteBody (RawBody (string_bytes t)) (WriteHeader 400 s)"

definition inner_getStatus :: "'w inner_api \<Rightarrow> 'w inner_api" where
  "inner_getStatus s =
     (case (GetBool ''getHeader'' (fst (ap_w s)), GetBool ''getPayload'' (fst (ap_w s)), GetBool ''submitBlock'' (fst (ap_w s))) of
        (Ok gh, Ok gp, Ok sb) \<Rightarrow> WriteBody (StatusBody gh gp sb) s
      | _ \<Rightarrow> WriteBody (RawBody (string_bytes ''{\"error\": \"wrong configuration\"}'')) (WriteHeader 500 s))"

definition inner_getConfig :: "(go_error, bytes) res \<Rightarrow> 'w inner_api \<Rightarrow> 'w inner_api" where
  "inner_getConfig json s = (case json of Ok b \<Rightarrow> WriteBody (RawBody b) s | _ \<Rightarrow> WriteHeader 500 s)"

fun set_all :: "(string \<times> string list) list \<Rightarrow> 'w inner_api \<Rightarrow> 'w inner_api" where
  "set_all [] s = s"
| "set_all ((k, v) # query) s =
     (if length v \<noteq> 1 then inner_error ''{\"error\": \"wrong parameter count\"}'' s
      else if ToLower (hd v) \<notin> {''true'', ''1'', ''false'', ''0''} then inner_error ''{\"error\": \"wrong parameter\"}'' s
      else
        (case SetBool k (ToLower (hd v) \<in> {''true'', ''1''}) (fst (ap_w s)) of
           (Ok _, ee) \<Rightarrow> set_all query (s\<lparr>ap_w := (ee, snd (ap_w s))\<rparr>)
         | (_, ee) \<Rightarrow> inner_error ''{\"error\": \"key not found\"}'' (s\<lparr>ap_w := (ee, snd (ap_w s))\<rparr>)))"

definition setAvailability :: "http_request \<Rightarrow> 'w inner_api \<Rightarrow> 'w inner_api" where
  "setAvailability r s = set_all (rq_Query r) s"

text \<open>Here an absent parameter is zero.\<close>

definition inner_param :: "http_request \<Rightarrow> string \<Rightarrow> 'a \<Rightarrow> (string \<Rightarrow> (go_error, 'a) res) \<Rightarrow> (go_error, 'a) res" where
  "inner_param r k zero parse = (if query_Get r k = [] then Ok zero else parse (query_Get r k))"

definition getSubmission :: "api_lib \<Rightarrow> 'w badger_db \<Rightarrow> http_request \<Rightarrow> 'w inner_api \<Rightarrow> (go_error, unit) res \<times> 'w inner_api" where
  "getSubmission AL G r s =
     (case inner_param r ''slot'' 0 (\<lambda>t. map_err NumErr (ParseUint t)) of
        Panic \<Rightarrow> (Panic, s)
      | Err e \<Rightarrow> (Ok (), inner_error ''wrong slot'' s)
      | Ok slot \<Rightarrow>
          (case inner_param r ''block_hash'' 0 (text_hash AL) of
             Panic \<Rightarrow> (Panic, s)
           | Err e \<Rightarrow> (Ok (), inner_error ''wrong blockhash'' s)
           | Ok bh \<Rightarrow>
               (case inner_param r ''proposer_pubkey'' 0 (text_pubkey AL) of
                  Panic \<Rightarrow> (Panic, s)
                | Err e \<Rightarrow> (Ok (), inner_error ''wrong public key'' s)
                | Ok pk \<Rightarrow>
                    (case GetSlotRawPayload G \<lparr>pk_BlockHash = bh, pk_Proposer = pk, pk_Slot = slot\<rparr> (snd (ap_w s)) of
                       Panic \<Rightarrow> (Panic, s)
                     | Err e \<Rightarrow> (Ok (), inner_error (''error processing request '' @ error_text e) s)
                     | Ok output \<Rightarrow> (Ok (), fold (\<lambda>b. WriteBody (RawBody b)) output s)))))"

section \<open>Routes\<close>

text \<open>The handlers that \<open>AttachToHandler\<close> registers, with their paths and methods; any method for the root.\<close>

definition routes :: "api_lib \<Rightarrow> api_config \<Rightarrow> 'w services \<Rightarrow> (string \<times> string option \<times> 'w api_handler) list" where
  "routes AL a S =
     map (\<lambda>(path, meth, h). (path, meth, withAddons h))
     [(''/'', None, api_status),
      (''/eth/v1/builder/status'', Some ''GET'', api_status),
      (''/eth/v1/builder/validators'', Some ''POST'', registerValidator AL S),
      (''/eth/v1/builder/header/{slot:[0-9]+}/{parent_hash:0x[a-fA-F0-9]+}/{pubkey:0x[a-fA-F0-9]+}'', Some ''GET'', api_getHeader a S),
      (''/eth/v1/builder/blinded_blocks'', Some ''POST'', api_getPayload AL a S),
      (''/relay/v1/builder/blocks'', Some ''POST'', api_submitBlock AL a S),
      (''/relay/v1/builder/validators'', Some ''GET'', api_getValidators S),
      (''/relay/v1/data/bidtraces/proposer_payload_delivered'', Some ''GET'', proposerPayloadsDelivered AL a S),
      (''/relay/v1/data/bidtraces/builder_blocks_received'', Some ''GET'', builderBlocksReceived AL a S),
      (''/relay/v1/data/validator_registration'', Some ''GET'', specificRegistration AL S)]"

section \<open>Responses\<close>

lemma api_state_ops [simp]:
  "ap_w (WriteHeader c s) = ap_w s" "ap_w (metric m s) = ap_w s" "ap_w (WriteBody b s) = ap_w s"
  "ap_w (fail ep ct c reason e s) = ap_w s" "ap_w (writeError c e s) = ap_w s" "ap_w (respond ep reason r b s) = ap_w s"
  "ap_code (metric m s) = ap_code s" "ap_body (metric m s) = ap_body s"
  "ap_code (WriteHeader c s) = (if ap_code s = None then Some c else ap_code s)" "ap_body (WriteHeader c s) = ap_body s"
  "ap_code (WriteBody b s) = (if ap_code s = None then Some 200 else ap_code s)" "ap_body (WriteBody b s) = ap_body s @ [b]"
  "ap_code (fail ep ct c reason e s) = (if ap_code s = None then Some c else ap_code s)"
  "ap_body (fail ep ct c reason e s) = ap_body s @ [JsonError c (error_text e)]"
  by (simp_all add: WriteHeader_def WriteBody_def metric_def fail_def writeError_def respond_def Let_def)

lemma call_keeps:
  assumes "call f s = (r, s')"
  shows "ap_code s' = ap_code s" "ap_body s' = ap_body s" "f (ap_w s) = (r, ap_w s')"
  using assms by (auto simp: call_def split: prod.splits)

text \<open>
  A response without a status code has no body, one with status 200 has no error in its body, the errors
  400 and 500 come with a JSON object that repeats the code, and 403 and 429 without a body.  A panic ends
  in a bare 500.
\<close>

definition is_error_body :: "body \<Rightarrow> bool" where
  "is_error_body b = (case b of JsonError _ _ \<Rightarrow> True | _ \<Rightarrow> False)"

definition wf_response :: "'w api_state \<Rightarrow> bool" where
  "wf_response s \<longleftrightarrow>
     ap_code s = None \<and> ap_body s = []
     \<or> ap_code s = Some 200 \<and> (\<forall>b \<in> set (ap_body s). \<not> is_error_body b)
     \<or> (\<exists>c \<in> {400, 500}. \<exists>m. ap_code s = Some c \<and> ap_body s = [JsonError c m])
     \<or> (\<exists>c \<in> {403, 429, 500}. ap_code s = Some c \<and> ap_body s = [])"

definition fresh :: "'w api_state \<Rightarrow> bool" where
  "fresh s \<longleftrightarrow> ap_code s = None \<and> ap_body s = []"

lemma fresh_ops [simp]:
  "fresh (metric m s) = fresh s"
  "fresh s \<Longrightarrow> wf_response s" "fresh s \<Longrightarrow> wf_response (WriteHeader 403 s)" "fresh s \<Longrightarrow> wf_response (WriteHeader 429 s)"
  "fresh s \<Longrightarrow> wf_response (WriteHeader 500 s)" "fresh s \<Longrightarrow> wf_response (WriteHeader 200 s)"
  "fresh s \<Longrightarrow> wf_response (fail ep ct 400 reason e s)" "fresh s \<Longrightarrow> wf_response (fail ep ct 500 reason e s)"
  "fresh s \<Longrightarrow> wf_response (writeError 500 e s)"
  "wf_response (metric m s) = wf_response s"
  "\<lbrakk>fresh s; \<not> is_error_body b\<rbrakk> \<Longrightarrow> wf_response (WriteBody b s)"
  "\<lbrakk>fresh s; \<not> is_error_body b\<rbrakk> \<Longrightarrow> wf_response (respond ep reason r b s)"
  by (auto simp: fresh_def wf_response_def respond_def writeError_def)

lemma fresh_call: "call f s = (r, s') \<Longrightarrow> fresh s' = fresh s"
  by (auto simp: fresh_def dest: call_keeps)

lemma is_error_body_simps [simp]:
  "\<not> is_error_body (HeaderBody x)" "\<not> is_error_body (PayloadBody y)" "\<not> is_error_body (ValidatorsBody vs)"
  "\<not> is_error_body (RegistrationBody z)" "\<not> is_error_body (DeliveredBody ts)" "\<not> is_error_body (ReceivedBody us)"
  by (simp_all add: is_error_body_def)

text \<open>A handler that panics has not written anything.\<close>

definition answers :: "'w api_handler \<Rightarrow> bool" where
  "answers h \<longleftrightarrow> (\<forall>r s. fresh s \<longrightarrow> (case h r s of (Ok _, s') \<Rightarrow> wf_response s' | (Err e, s') \<Rightarrow> False | (Panic, s') \<Rightarrow> fresh s'))"

lemma answers_simple: "answers api_status" "answers (api_getValidators S)"
  by (simp_all add: answers_def api_status_def api_getValidators_def Let_def)

lemma answers_registerValidator: "answers (registerValidator AL S)"
  by (auto simp: answers_def registerValidator_def Let_def dest: fresh_call split: res.splits prod.splits)

lemma answers_getHeader: "answers (api_getHeader a S)"
  by (auto simp: answers_def api_getHeader_def dest: fresh_call split: res.splits prod.splits)

lemma answers_getPayload: "answers (api_getPayload AL a S)"
  by (auto simp: answers_def api_getPayload_def dest: fresh_call split: res.splits prod.splits)

lemma answers_submit_decoded:
  "fresh s \<Longrightarrow> (case submit_decoded AL S req s of (Ok _, s') \<Rightarrow> wf_response s' | (Err e, s') \<Rightarrow> False | (Panic, s') \<Rightarrow> fresh s')"
  by (auto simp: submit_decoded_def dest!: fresh_call split: res.splits prod.splits)

lemma answers_submitBlock: "answers (api_submitBlock AL a S)"
  using answers_submit_decoded
  by (fastforce simp: answers_def api_submitBlock_def split: res.splits prod.splits)

lemma answers_data:
  "answers (proposerPayloadsDelivered AL a S)" "answers (builderBlocksReceived AL a S)" "answers (specificRegistration AL S)"
  by (auto simp: answers_def proposerPayloadsDelivered_def builderBlocksReceived_def specificRegistration_def data_error_def
      dest: fresh_call split: res.splits prod.splits)

lemma answers_withAddons: "\<lbrakk>answers h; fresh s\<rbrakk> \<Longrightarrow> \<exists>s'. withAddons h r s = (Ok (), s') \<and> wf_response s'"
  unfolding answers_def withAddons_def by (drule spec [of _ r], drule spec [of _ s]) (auto split: res.splits prod.splits)

section \<open>Submissions\<close>

lemma call_iff: "call f s = (r, s') \<longleftrightarrow> (\<exists>w. f (ap_w s) = (r, w) \<and> s' = s\<lparr>ap_w := w\<rparr>)"
  by (auto simp: call_def split: prod.splits)

lemma submit_decoded_200:
  assumes "fresh s" and "submit_decoded AL S req s = (Ok (), s')"
  shows "status_code s' = 200 \<longleftrightarrow>
    submit_Validate (u256_String AL) req \<and> sr_Slot req \<noteq> 0
    \<and> (\<exists>w1. svc_Allow S (sr_BuilderPubkey req) (ap_w s) = (Ok (), w1) \<and> svc_SubmitBlock S req w1 = (Ok (), ap_w s'))"
  using assms
  by (auto simp: submit_decoded_def status_code_def fresh_def call_iff split: if_splits res.splits prod.splits)

lemma submit_decoded_world:
  assumes "submit_decoded AL S req s = (res, s')" and "\<not> (submit_Validate (u256_String AL) req \<and> sr_Slot req \<noteq> 0)"
  shows "ap_w s' = ap_w s"
  using assms by (auto simp: submit_decoded_def split: if_splits)

lemma submit_reader_bound: "\<lbrakk>submit_reader AL r = Ok reader; ReadAll reader = Ok b\<rbrakk> \<Longrightarrow> length b \<le> 10 * 1024 * 1024"
  by (auto simp: submit_reader_def ReadAll_def LimitReader_def bind_res_Ok_iff split: if_splits option.splits)

text \<open>The submission that a request carries.\<close>

definition submission_of :: "api_lib \<Rightarrow> 'w services \<Rightarrow> http_request \<Rightarrow> 'w api_state \<Rightarrow> bytes \<Rightarrow> submit_request \<Rightarrow> bool" where
  "submission_of AL S r s b req \<longleftrightarrow>
     bind_res (submit_reader AL r) ReadAll = Ok b \<and> head_fork S s \<in> {ForkCapella, ForkBellatrix}
     \<and> decode_submission AL r (head_fork S s) b = Ok req"

lemma submitBlock_decoded:
  assumes "en_SubmitBlock (api_enabled a)" and "submission_of AL S r s b req"
  shows "api_submitBlock AL a S r s = submit_decoded AL S req s"
  using assms by (auto simp: submission_of_def bind_res_Ok_iff api_submitBlock_def)

lemma submitBlock_refused:
  assumes "en_SubmitBlock (api_enabled a)" and "\<forall>b req. \<not> submission_of AL S r s b req"
    and "api_submitBlock AL a S r s = (Ok (), s')"
    and "fresh s"
  shows "ap_w s' = ap_w s \<and> status_code s' \<in> {400, 500}"
proof (cases "submit_reader AL r")
  case (Ok reader)
  then show ?thesis
  proof (cases "ReadAll reader")
    case b: (Ok b)
    then have "head_fork S s \<notin> {ForkCapella, ForkBellatrix} \<or> (\<forall>req. decode_submission AL r (head_fork S s) b \<noteq> Ok req)"
      using assms(2) Ok by (auto simp: submission_of_def)
    then show ?thesis
      using assms(1,3,4) Ok b by (cases "decode_submission AL r (head_fork S s) b") (auto simp: api_submitBlock_def status_code_def fresh_def split: if_splits)
  qed (use assms(1,3,4) Ok in \<open>auto simp: api_submitBlock_def status_code_def fresh_def\<close>)
qed (use assms(1,3,4) in \<open>auto simp: api_submitBlock_def status_code_def fresh_def\<close>)

section \<open>Switches\<close>

lemma GetBool_SetBool: "SetBool key val ee = (Ok (), ee') \<Longrightarrow> GetBool key ee' = Ok val"
  by (auto simp: SetBool_def GetBool_def split: if_splits)

lemma switched_off_endpoints:
  "\<not> en_GetHeader (api_enabled a) \<Longrightarrow> ap_w (snd (api_getHeader a S r s)) = ap_w s"
  "\<not> en_GetPayload (api_enabled a) \<Longrightarrow> ap_w (snd (api_getPayload AL a S r s)) = ap_w s"
  "\<not> en_SubmitBlock (api_enabled a) \<Longrightarrow> ap_w (snd (api_submitBlock AL a S r s)) = ap_w s"
  by (simp_all add: api_getHeader_def api_getPayload_def api_submitBlock_def)

section \<open>Queries of the data API\<close>

text \<open>
  \<open>src/relay/dataapi.go\<close>: the relay passes the queries on to the store of evidence, with the head slot.
\<close>

definition relay_GetPayloadDelivered ::
  "'w badger_db \<Rightarrow> slot \<Rightarrow> payload_trace_query \<Rightarrow> (go_error, 'w, bid_trace_extended list) handler" where
  "relay_GetPayloadDelivered G headSlot query w = (GetDeliveredPayloads G w headSlot query, w)"

definition relay_GetBlockReceived ::
  "'w badger_db \<Rightarrow> slot \<Rightarrow> submission_trace_query \<Rightarrow> (go_error, 'w, bid_trace_with_timestamp list) handler" where
  "relay_GetBlockReceived G headSlot query w = (GetBuilderBlockSubmissions G w headSlot query, w)"

lemma to_int_below:
  assumes "n \<le> of_int d" and "0 \<le> d" and "d < 2 ^ 63"
  shows "0 \<le> to_int n \<and> to_int n \<le> d"
proof -
  have "uint (of_int d :: u64) = d"
    using assms(2,3) by (simp add: uint_word_of_int)
  then have "uint n \<le> d"
    using assms(1) by (simp add: word_le_def)
  moreover have "signed_take_bit 63 (uint n) = uint n"
  proof (rule signed_take_bit_int_eq_self)
    show "- (2 ^ 63) \<le> uint n"
      by (rule order_trans [of _ 0]) simp_all
    show "uint n < 2 ^ 63"
      using \<open>uint n \<le> d\<close> assms(3) by linarith
  qed
  then have "sint n = uint n"
    by (simp add: sint_uint)
  ultimately show ?thesis
    by (simp add: to_int_def)
qed

lemma limit_bounded: "param ''limit'' d (api_limit r d) = Ok limit \<Longrightarrow> limit \<le> d"
  by (auto simp: param_def api_limit_def split: res.splits if_splits simp: bind_res_Ok_iff)

lemma delivered_query_bounded:
  "validateProposerPayloadsDelivered AL r d = Ok query \<Longrightarrow> ptq_Limit query \<le> d"
  unfolding validateProposerPayloadsDelivered_def by (auto simp: bind_res_Ok_iff dest: limit_bounded)

lemma received_query_bounded:
  "validateBuilderBlocksReceived AL r d = Ok query \<Longrightarrow> stq_Limit query \<le> d"
  unfolding validateBuilderBlocksReceived_def by (auto simp: bind_res_Ok_iff dest: limit_bounded)

lemma delivered_length:
  assumes "delivered_ok G w" and "0 \<le> to_int (ptq_Limit query)" and "GetDeliveredPayloads G w headSlot query = Ok ts"
  shows "int (length ts) \<le> max 1 (to_int (ptq_Limit query))"
proof (cases "delivered_query query")
  case None
  then show ?thesis
    using assms getlatestDelivered_window [OF assms(1,2)] by (auto simp: GetDeliveredPayloads_def)
next
  case (Some q)
  then have "length ts \<le> 1 \<or> (\<exists>key. queryToDeliveredKey G w q = Ok key \<and> key = [])"
    using assms(3) by (auto simp: GetDeliveredPayloads_def bind_res_Ok_iff split: res.splits if_splits)
  then show ?thesis
    using assms(3) Some getlatestDelivered_window [OF assms(1,2)]
    by (auto simp: GetDeliveredPayloads_def split: res.splits if_splits)
qed

lemma query_Get_single: "query_Get (r\<lparr>rq_Query := [(k, [v])]\<rparr>) k' = (if k' = k then v else [])"
  by (simp add: query_Get_def)

lemma validate_slot:
  "validateProposerPayloadsDelivered AL (r\<lparr>rq_Query := [(''slot'', [dec (unat slot)])]\<rparr>) d =
     Ok \<lparr>ptq_Slot = slot, ptq_BlockHash = 0, ptq_BlockNum = 0, ptq_ProposerPubkey = 0, ptq_BuilderPubkey = 0,
         ptq_Cursor = 0, ptq_Limit = d, ptq_OrderByValue = 0\<rparr>"
proof -
  have "dec (unat slot) \<noteq> []"
    using part_dec [of "unat slot"] by (simp add: key_part_def)
  then show ?thesis
    by (simp add: validateProposerPayloadsDelivered_def param_def specificSlot_def blockHash_def blockNumber_def cursor_def
        proposerPublickKey_def builderPublicKey_def key_param_def number_param_def api_limit_def orderByValue_def
        query_Get_single ParseUint_dec)
qed

lemma slot_query_answer:
  assumes "badger_laws G" and "PutDelivered G slot trace w = (Ok (), w')" and "slot \<noteq> 0"
    and "svc_GetPayloadDelivered S = relay_GetPayloadDelivered G headSlot"
  shows "proposerPayloadsDelivered AL a S (r\<lparr>rq_Query := [(''slot'', [dec (unat slot)])]\<rparr>) (s\<lparr>ap_w := w'\<rparr>) =
    (Ok (), metric (ApiReqCounter ''proposerPayloadsDelivered'' ''200'' [])
       (WriteBody (DeliveredBody [bid_trace_extended.truncate (dt_Trace trace)]) (s\<lparr>ap_w := w'\<rparr>)))"
proof -
  let ?q = "\<lparr>ptq_Slot = slot, ptq_BlockHash = 0, ptq_BlockNum = 0, ptq_ProposerPubkey = 0, ptq_BuilderPubkey = 0,
      ptq_Cursor = 0, ptq_Limit = of_int (api_dataLimit a), ptq_OrderByValue = 0\<rparr>"
  have "delivered_query ?q = Some \<lparr>pq_Slot = slot, pq_BlockHash = 0, pq_BlockNum = 0, pq_PubKey = 0\<rparr>"
    using assms(3) by (simp add: delivered_query_def ptq_HasSlot_def)
  moreover have "queryToDeliveredKey G w' \<lparr>pq_Slot = slot, pq_BlockHash = 0, pq_BlockNum = 0, pq_PubKey = 0\<rparr> = Ok (DeliveredKey G slot)"
    by (simp add: queryToDeliveredKey_def badger_laws.NewKey_Delivered [OF assms(1)])
  ultimately have "GetDeliveredPayloads G w' headSlot ?q = Ok [bid_trace_extended.truncate (dt_Trace trace)]"
    by (rule badger_laws.delivered_found [OF assms(1,2)])
  then show ?thesis
    by (simp add: proposerPayloadsDelivered_def validate_slot call_def relay_GetPayloadDelivered_def assms(4))
qed

section \<open>Properties\<close>


text \<open>Services that count submissions, and requests for them.\<close>

definition counting_services :: "nat services" where
  "counting_services =
     \<lparr>svc_GetHeader = (\<lambda>r w. (Err ErrNoBuilderBid, w)), svc_GetPayload = (\<lambda>b w. (Err ErrNoPayloadFound, w)),
      svc_SubmitBlock = (\<lambda>r w. (Ok (), w + 1)), svc_GetPayloadDelivered = (\<lambda>q w. (Ok [], w)),
      svc_GetBlockReceived = (\<lambda>q w. (Ok [], w)), svc_RegisterValidator = (\<lambda>rs w. (Ok (), w)),
      svc_Registration = (\<lambda>pk w. (Err (ErrNew ''not found''), w)), svc_GetValidators = (\<lambda>w. None),
      svc_Allow = (\<lambda>pk w. (Ok (), w)), svc_ForkVersion = (\<lambda>s w. ForkCapella), svc_HeadSlot = (\<lambda>w. 63)\<rparr>"

definition sample_api_lib :: api_lib where
  "sample_api_lib =
     \<lparr>gzip_NewReader = (\<lambda>r. Err (ErrNew ''gzip: invalid header'')), json_registrations = (\<lambda>r. Ok None),
      json_capella_blinded = (\<lambda>b. Err (ErrNew ''EOF'')), json_bellatrix_blinded = (\<lambda>b. Err (ErrNew ''EOF'')),
      json_capella_submit = (\<lambda>b. case sample_submit of CapellaSubmit c \<Rightarrow> Ok c | _ \<Rightarrow> Err (ErrNew ''EOF'')),
      json_bellatrix_submit = (\<lambda>b. Err (ErrNew ''EOF'')), api_ssz = le_ssz,
      text_hash = (\<lambda>t. Err (ErrNew ''invalid length'')), text_pubkey = (\<lambda>t. Err (ErrNew ''invalid length'')),
      u256_String = (\<lambda>v. ''1''), is_json_error = (\<lambda>e. False)\<rparr>"

definition sample_api_config :: api_config where
  "sample_api_config = \<lparr>api_dataLimit = 450, api_errorsOnDisable = False,
     api_enabled = \<lparr>en_GetHeader = True, en_GetPayload = True, en_SubmitBlock = True\<rparr>\<rparr>"

definition plain_request :: "(string \<times> string list) list \<Rightarrow> http_request" where
  "plain_request q = \<lparr>rq_Header = (\<lambda>k. []), rq_Query = q, rq_Vars = Map.empty, rq_Body = ([], None), rq_ctxErr = None, rq_encodeErr = None\<rparr>"

definition new_state :: "'w \<Rightarrow> 'w api_state" where
  "new_state w = \<lparr>ap_code = None, ap_body = [], ap_metrics = [], ap_w = w\<rparr>"

lemma fresh_new_state [simp]: "fresh (new_state w)"
  by (simp add: fresh_def new_state_def)

lemma sample_submit_accepted:
  "\<exists>s'. api_submitBlock sample_api_lib sample_api_config counting_services (plain_request []) (new_state 0) = (Ok (), s')
     \<and> status_code s' = 200 \<and> ap_w s' = 1"
  by (simp add: api_submitBlock_def sample_api_config_def submit_reader_def plain_request_def ToLower_def LimitReader_def
      ReadAll_def head_fork_def counting_services_def decode_submission_def sample_api_lib_def sample_submit_def submit_decoded_def
      sr_Slot_def sample_trace_def sample_payload_def call_def status_code_def new_state_def)





definition evidence_services :: "(string \<times> bytes) list services" where
  "evidence_services =
     \<lparr>svc_GetHeader = (\<lambda>r w. (Err ErrNoBuilderBid, w)), svc_GetPayload = (\<lambda>b w. (Err ErrNoPayloadFound, w)),
      svc_SubmitBlock = (\<lambda>r w. (Ok (), w)), svc_GetPayloadDelivered = relay_GetPayloadDelivered mem_badger 63,
      svc_GetBlockReceived = relay_GetBlockReceived mem_badger 63, svc_RegisterValidator = (\<lambda>rs w. (Ok (), w)),
      svc_Registration = (\<lambda>pk w. (Err (ErrNew ''not found''), w)), svc_GetValidators = (\<lambda>w. None),
      svc_Allow = (\<lambda>pk w. (Ok (), w)), svc_ForkVersion = (\<lambda>s w. ForkCapella), svc_HeadSlot = (\<lambda>w. 63)\<rparr>"

lemma evidence_services_simps [simp]:
  "svc_GetPayloadDelivered evidence_services = relay_GetPayloadDelivered mem_badger 63" "api_dataLimit sample_api_config = 450"
  by (simp_all add: evidence_services_def sample_api_config_def)

definition slot_request :: http_request where
  "slot_request = plain_request []\<lparr>rq_Query := [(''slot'', [dec (unat (50 :: slot))])]\<rparr>"

lemma sample_slot_request:
  "\<exists>s'. proposerPayloadsDelivered sample_api_lib sample_api_config evidence_services slot_request
      (new_state []\<lparr>ap_w := sample_deliveries\<rparr>) = (Ok (), s')"
  using slot_query_answer [OF memory.badger_laws_axioms sample_puts(2), of evidence_services 63 sample_api_lib sample_api_config
      "plain_request []" "new_state []"]
  by (simp add: slot_request_def)


text \<open>
  A delivery can be seen over HTTP.  Once \<open>PutDelivered\<close> succeeded for a slot, a GET request to the data
  API with this slot as its only parameter, written in decimal, is answered with status 200 and the
  trace of that delivery.
\<close>

theorem delivered_seen_over_http:
  assumes "badger_laws G" and "PutDelivered G slot trace w = (Ok (), w')" and "slot \<noteq> 0" and "fresh s" and "ap_w s = w'"
    and "svc_GetPayloadDelivered S = relay_GetPayloadDelivered G headSlot"
    and "rq_Query r = [(''slot'', [dec (unat slot)])]"
  shows "\<exists>s'. proposerPayloadsDelivered AL a S r s = (Ok (), s') \<and> status_code s' = 200
    \<and> ap_body s' = [DeliveredBody [bid_trace_extended.truncate (dt_Trace trace)]]"
proof -
  have "r\<lparr>rq_Query := [(''slot'', [dec (unat slot)])]\<rparr> = r" "s\<lparr>ap_w := w'\<rparr> = s"
    using assms(5,7) by simp_all
  then show ?thesis
    using slot_query_answer [OF assms(1-3,6), of AL a r s] assms(4) by (auto simp: status_code_def fresh_def)
qed

theorem delivered_seen_over_http_witness:
  "ap_body (snd (proposerPayloadsDelivered sample_api_lib sample_api_config evidence_services slot_request
      (new_state sample_deliveries))) = [DeliveredBody [bid_trace_extended.truncate sample_evidence]]"
  using delivered_seen_over_http [OF memory.badger_laws_axioms sample_puts(2), of "new_state sample_deliveries" evidence_services 63
      slot_request sample_api_lib sample_api_config]
  by (auto simp: new_state_def fresh_def slot_request_def sample_delivery_def)

end
