(* ===== verification/Limiter.thy ===== *)
theory Limiter
  imports Config ForkData
begin

text \<open>
  The limit on submissions of each builder, \<open>src/api/limitter.go\<close>.  The cache of limiters and the limiters
  themselves are libraries (\<open>golang-lru\<close>, \<open>golang.org/x/time/rate\<close>): the record \<open>limit_lib\<close>.  A limiter is
  a reference into the world \<open>'w\<close>, since the cache and its users share it; whether a call is allowed may
  depend on the time, which the world stands for as well.
\<close>

section \<open>The limiter\<close>

record 'w limit_lib =
  lc_Get :: "pubkey \<Rightarrow> 'w \<Rightarrow> nat option \<times> 'w"
  lc_Add :: "pubkey \<Rightarrow> nat \<Rightarrow> 'w \<Rightarrow> 'w"
  lc_Purge :: "'w \<Rightarrow> 'w"
  rate_NewLimiter :: "int \<Rightarrow> int \<Rightarrow> 'w \<Rightarrow> nat \<times> 'w"
  rate_Allow :: "nat \<Rightarrow> 'w \<Rightarrow> bool \<times> 'w"
  rate_settings :: "nat \<Rightarrow> 'w \<Rightarrow> int \<times> int"
  key_UnmarshalText :: "string \<Rightarrow> (go_error, pubkey) res"

record 'w limitter =
  AllowedBuilders :: "pubkey list option"
  RateLimit :: int
  Burst :: int
  lim_w :: 'w

abbreviation "ErrTooManyCalls \<equiv> ErrNew ''too many calls''"

definition NewLimitter :: "int \<Rightarrow> int \<Rightarrow> 'w \<Rightarrow> 'w limitter" where
  "NewLimitter ratel burst c = \<lparr>AllowedBuilders = None, RateLimit = ratel, Burst = burst, lim_w = c\<rparr>"

definition lim_Allow :: "'w limit_lib \<Rightarrow> pubkey \<Rightarrow> 'w limitter \<Rightarrow> (go_error, unit) res \<times> 'w limitter" where
  "lim_Allow K pubkey l =
     (if pubkey \<in> set (nil_list (AllowedBuilders l)) then (Ok (), l)
      else
        let (lim, w) = (case lc_Get K pubkey (lim_w l) of
                          (Some lim, w) \<Rightarrow> (lim, w)
                        | (None, w) \<Rightarrow>
                            (case rate_NewLimiter K (RateLimit l) (Burst l) w of (lim, w) \<Rightarrow> (lim, lc_Add K pubkey lim w)));
            (ok, w) = rate_Allow K lim w
        in if \<not> ok then (Err ErrTooManyCalls, l\<lparr>lim_w := w\<rparr>) else (Ok (), l\<lparr>lim_w := w\<rparr>))"

fun makeKeyMap :: "(string \<Rightarrow> (go_error, pubkey) res) \<Rightarrow> string list \<Rightarrow> (go_error, pubkey list) res" where
  "makeKeyMap unmarshal [] = Ok []"
| "makeKeyMap unmarshal (key # keys) =
     (case unmarshal key of
        Panic \<Rightarrow> Panic
      | Err e \<Rightarrow> Err (Wrap (''allowed builder not added - wrong public key: '' @ key @ ''  - '' @ error_text e) e)
      | Ok pk \<Rightarrow> bind_res (makeKeyMap unmarshal keys) (\<lambda>newKeys. Ok (pk # newKeys)))"

definition lim_ParseInitialConfig :: "'w limit_lib \<Rightarrow> string list \<Rightarrow> 'w limitter \<Rightarrow> (go_error, unit) res \<times> 'w limitter" where
  "lim_ParseInitialConfig K keys l =
     (case makeKeyMap (key_UnmarshalText K) keys of
        Ok ab \<Rightarrow> (Ok (), l\<lparr>AllowedBuilders := Some ab\<rparr>)
      | Err e \<Rightarrow> (Err e, l\<lparr>AllowedBuilders := None\<rparr>)
      | Panic \<Rightarrow> (Panic, l))"

definition lim_OnConfigChange :: "'w limit_lib \<Rightarrow> old_new \<Rightarrow> 'w limitter \<Rightarrow> (go_error, unit) res \<times> 'w limitter" where
  "lim_OnConfigChange K c l =
     (if on_Name c = ''SubmissionLimitRate''
      then (case on_New c of AnyInt i \<Rightarrow> (Ok (), l\<lparr>RateLimit := i, lim_w := lc_Purge K (lim_w l)\<rparr>) | _ \<Rightarrow> (Ok (), l))
      else if on_Name c = ''SubmissionLimitBurst''
      then (case on_New c of AnyInt i \<Rightarrow> (Ok (), l\<lparr>Burst := i, lim_w := lc_Purge K (lim_w l)\<rparr>) | _ \<Rightarrow> (Ok (), l))
      else if on_Name c = ''AllowedBuilders''
      then (case on_New c of
              AnyStrings keys \<Rightarrow>
                (case makeKeyMap (key_UnmarshalText K) keys of
                   Ok ab \<Rightarrow> (Ok (), l\<lparr>AllowedBuilders := Some ab, lim_w := lc_Purge K (lim_w l)\<rparr>)
                 | Err e \<Rightarrow> (Err e, l)
                 | Panic \<Rightarrow> (Panic, l))
            | _ \<Rightarrow> (Ok (), l))
      else (Ok (), l))"

section \<open>What the libraries promise\<close>

definition cached :: "'w limit_lib \<Rightarrow> 'w \<Rightarrow> pubkey \<Rightarrow> nat \<Rightarrow> bool" where
  "cached K w k lim \<longleftrightarrow> fst (lc_Get K k w) = Some lim"

text \<open>
  A lookup and an addition make no other entry appear, a purged cache is empty, the cache leaves limiters
  alone, and limiters keep their settings.
\<close>

locale limiter_laws =
  fixes K :: "'w limit_lib"
  assumes get_cached: "cached K (snd (lc_Get K k w)) k' lim \<Longrightarrow> cached K w k' lim"
    and add_cached: "cached K (lc_Add K k lim w) k' lim' \<Longrightarrow> k' = k \<and> lim' = lim \<or> cached K w k' lim'"
    and purge_empty: "\<not> cached K (lc_Purge K w) k lim"
    and new_cached: "cached K (snd (rate_NewLimiter K r b w)) k lim \<Longrightarrow> cached K w k lim"
    and allow_cached: "cached K (snd (rate_Allow K l w)) k lim \<Longrightarrow> cached K w k lim"
    and get_settings: "rate_settings K lim (snd (lc_Get K k w)) = rate_settings K lim w"
    and add_settings: "rate_settings K lim' (lc_Add K k lim w) = rate_settings K lim' w"
    and new_settings: "rate_settings K (fst (rate_NewLimiter K r b w)) (snd (rate_NewLimiter K r b w)) = (r, b)"
    and old_settings: "cached K w k lim \<Longrightarrow> rate_settings K lim (snd (rate_NewLimiter K r b w)) = rate_settings K lim w"
    and allow_settings: "rate_settings K lim (snd (rate_Allow K l w)) = rate_settings K lim w"
begin

lemma fresh_entry:
  assumes "rate_NewLimiter K r b w = (lim, w1)" and "cached K (lc_Add K pk lim w1) k lim'"
    and "\<And>k lim. cached K w k lim \<Longrightarrow> rate_settings K lim w = (r, b)"
  shows "rate_settings K lim' (lc_Add K pk lim w1) = (r, b)"
  using add_cached [OF assms(2)] new_settings [of r b w] new_cached [of r b w] old_settings [of w _ _ r b] assms(1,3)
  by (auto simp: add_settings)

end

text \<open>Every limiter in the cache has the settings of the moment.\<close>

definition lim_current :: "'w limit_lib \<Rightarrow> 'w limitter \<Rightarrow> bool" where
  "lim_current K l \<longleftrightarrow> (\<forall>k lim. cached K (lim_w l) k lim \<longrightarrow> rate_settings K lim (lim_w l) = (RateLimit l, Burst l))"

context limiter_laws
begin

lemma Allow_current:
  assumes "lim_current K l"
  shows "lim_current K (snd (lim_Allow K pk l))"
proof (cases "pk \<in> set (nil_list (AllowedBuilders l))")
  case True
  then show ?thesis
    using assms by (simp add: lim_Allow_def)
next
  case False
  obtain g w1 where g: "lc_Get K pk (lim_w l) = (g, w1)"
    by (metis surj_pair)
  have c1: "cached K w1 k lim \<Longrightarrow> rate_settings K lim w1 = (RateLimit l, Burst l)" for k lim
    using get_cached [of pk "lim_w l" k lim] get_settings [of lim pk "lim_w l"] assms g by (simp add: lim_current_def)
  obtain lim w2 where n: "(case g of Some lim \<Rightarrow> (lim, w1)
      | None \<Rightarrow> (case rate_NewLimiter K (RateLimit l) (Burst l) w1 of (lim, w) \<Rightarrow> (lim, lc_Add K pk lim w))) = (lim, w2)"
    by (metis surj_pair)
  have c2: "cached K w2 k lim' \<Longrightarrow> rate_settings K lim' w2 = (RateLimit l, Burst l)" for k lim'
    using n c1 fresh_entry [of "RateLimit l" "Burst l" w1] by (auto split: option.splits prod.splits)
  have "lim_w (snd (lim_Allow K pk l)) = snd (rate_Allow K lim w2)"
    "RateLimit (snd (lim_Allow K pk l)) = RateLimit l" "Burst (snd (lim_Allow K pk l)) = Burst l"
    using False g n by (auto simp: lim_Allow_def Let_def split: option.splits prod.splits)
  then show ?thesis
    using c2 allow_cached [of lim w2] allow_settings [of _ lim w2] by (auto simp: lim_current_def)
qed

lemma purged_current: "lim_w l = lc_Purge K w \<Longrightarrow> lim_current K l"
  by (simp add: lim_current_def purge_empty)

lemma OnConfigChange_current:
  assumes "lim_current K l"
  shows "lim_current K (snd (lim_OnConfigChange K c l))"
  using assms purged_current
  by (auto simp: lim_OnConfigChange_def split: cfg_any.splits res.splits)

end

section \<open>Limiters in memory\<close>

text \<open>
  The cache without a bound, and limiters that allow as many calls as their burst; references are
  larger than those in use.
\<close>

type_synonym mem_limiters = "(pubkey \<times> nat) list \<times> (nat \<times> int \<times> int \<times> nat) list"

definition mem_limit :: "mem_limiters limit_lib" where
  "mem_limit =
     \<lparr>lc_Get = (\<lambda>k w. (map_of (fst w) k, w)), lc_Add = (\<lambda>k lim w. (AList.update k lim (fst w), snd w)),
      lc_Purge = (\<lambda>w. ([], snd w)),
      rate_NewLimiter = (\<lambda>r b w.
        let lim = Suc (sum_list (map snd (fst w)) + sum_list (map fst (snd w)))
        in (lim, (fst w, AList.update lim (r, b, 0) (snd w)))),
      rate_Allow = (\<lambda>lim w.
        case map_of (snd w) lim of
          Some (r, b, n) \<Rightarrow> if int n < b then (True, (fst w, AList.update lim (r, b, n + 1) (snd w))) else (False, w)
        | None \<Rightarrow> (False, w)),
      rate_settings = (\<lambda>lim w. case map_of (snd w) lim of Some (r, b, n) \<Rightarrow> (r, b) | None \<Rightarrow> (0, 0)),
      key_UnmarshalText = (\<lambda>t. if t = [] then Err (ErrNew ''invalid length'') else Ok (barr_copy (string_bytes t)))\<rparr>"

lemma in_use_below: "map_of m (k :: pubkey) = Some (lim :: nat) \<Longrightarrow> lim \<le> sum_list (map snd m)"
  by (induction m) (auto split: if_splits)

interpretation mem_lim: limiter_laws mem_limit
proof (unfold_locales, goal_cases)
  case (9 w k lim r b)
  then have "lim \<le> sum_list (map snd (fst w))"
    using in_use_below by (simp add: cached_def mem_limit_def)
  then show ?case
    by (simp add: mem_limit_def Let_def)
qed (auto simp: cached_def mem_limit_def Let_def split: option.splits if_splits prod.splits)

section \<open>Properties\<close>

datatype lim_op = AllowCall pubkey | ConfigChange old_new

definition lim_step :: "'w limit_lib \<Rightarrow> lim_op \<Rightarrow> 'w limitter \<Rightarrow> 'w limitter" where
  "lim_step K op l = (case op of AllowCall pk \<Rightarrow> snd (lim_Allow K pk l) | ConfigChange c \<Rightarrow> snd (lim_OnConfigChange K c l))"



lemma allow_listed_builder: "pk \<in> set (nil_list (AllowedBuilders l)) \<Longrightarrow> lim_Allow K pk l = (Ok (), l)"
  by (simp add: lim_Allow_def)

end
