(* ===== verification/Reconfigure.thy ===== *)
theory Reconfigure
  imports Relay Config Limiter
begin

text \<open>
  Configuration changes that reach the relay: \<open>OnConfigChange\<close> of \<open>src/relay/config.go\<close> and the subscribers
  of \<open>src/cmd/dreamboat/config/manager.go\<close>.  A listener is a number; the relay's settings change when the
  relay is among the listeners that a change is told to.
\<close>

record 'sk relay_settings = "'sk relay_config" +
  GetPayloadResponseDelay :: int

text \<open>The time limit is kept in milliseconds in the relay's model; the delay in nanoseconds.\<close>

definition relay_OnConfigChange ::
  "(string \<Rightarrow> (go_error, pubkey) res) \<Rightarrow> old_new \<Rightarrow> 'sk relay_settings \<Rightarrow> (go_error, unit) res \<times> 'sk relay_settings" where
  "relay_OnConfigChange unmarshal c rc =
     (if on_Name c = ''PublishBlock''
      then (case on_New c of AnyBool b \<Rightarrow> (Ok (), rc\<lparr>rc_PublishBlock := b\<rparr>) | _ \<Rightarrow> (Ok (), rc))
      else if on_Name c = ''StreamServedBids''
      then (case on_New c of AnyBool b \<Rightarrow> (Ok (), rc\<lparr>StreamServedBids := b\<rparr>) | _ \<Rightarrow> (Ok (), rc))
      else if on_Name c = ''GetPayloadResponseDelay''
      then (case on_New c of AnyDuration dur \<Rightarrow> (Ok (), rc\<lparr>GetPayloadResponseDelay := dur\<rparr>) | _ \<Rightarrow> (Ok (), rc))
      else if on_Name c = ''GetPayloadRequestTimeLimit''
      then (case on_New c of AnyDuration dur \<Rightarrow> (Ok (), rc\<lparr>GetPayloadRequestTimeLimit := sgn dur * (\<bar>dur\<bar> div 1000000)\<rparr>) | _ \<Rightarrow> (Ok (), rc))
      else if on_Name c = ''AllowedBuilders''
      then (case on_New c of
              AnyStrings keys \<Rightarrow>
                (case makeKeyMap unmarshal keys of
                   Ok ab \<Rightarrow> (Ok (), rc\<lparr>AllowedListedBuilders := Some ab\<rparr>)
                 | Err e \<Rightarrow> (Err e, rc)
                 | Panic \<Rightarrow> (Panic, rc))
            | _ \<Rightarrow> (Ok (), rc))
      else (Ok (), rc))"

definition relay_ParseInitialConfig ::
  "(string \<Rightarrow> (go_error, pubkey) res) \<Rightarrow> string list \<Rightarrow> 'sk relay_settings \<Rightarrow> (go_error, unit) res \<times> 'sk relay_settings" where
  "relay_ParseInitialConfig unmarshal keys rc =
     (case makeKeyMap unmarshal keys of
        Ok ab \<Rightarrow> (Ok (), rc\<lparr>AllowedListedBuilders := Some ab\<rparr>)
      | Err e \<Rightarrow> (Err e, rc\<lparr>AllowedListedBuilders := None\<rparr>)
      | Panic \<Rightarrow> (Panic, rc))"

text \<open>\<open>Propagate\<close> calls the listeners one after the other and drops their errors.\<close>

definition Propagate ::
  "(string \<Rightarrow> (go_error, pubkey) res) \<Rightarrow> nat \<Rightarrow> nat list \<times> old_new \<Rightarrow> 'sk relay_settings \<Rightarrow> 'sk relay_settings" where
  "Propagate unmarshal self p rc =
     fold (\<lambda>l rc. if l = self then snd (relay_OnConfigChange unmarshal (snd p) rc) else rc) (fst p) rc"

definition propagate_all ::
  "(string \<Rightarrow> (go_error, pubkey) res) \<Rightarrow> nat \<Rightarrow> propagated \<Rightarrow> 'sk relay_settings \<Rightarrow> 'sk relay_settings" where
  "propagate_all unmarshal self ps rc = fold (Propagate unmarshal self) ps rc"

section \<open>Durations\<close>

definition durations :: "'sk relay_settings \<Rightarrow> int \<times> int" where
  "durations rc = (GetPayloadResponseDelay rc, GetPayloadRequestTimeLimit rc)"

lemma OnConfigChange_durations:
  "\<not> tells_duration p \<Longrightarrow> durations (snd (relay_OnConfigChange unmarshal (snd p) rc)) = durations rc"
  by (auto simp: relay_OnConfigChange_def durations_def tells_duration_def split: cfg_any.splits res.splits)

lemma Propagate_durations: "\<not> tells_duration p \<Longrightarrow> durations (Propagate unmarshal self p rc) = durations rc"
proof -
  assume "\<not> tells_duration p"
  then have "durations (fold (\<lambda>l rc. if l = self then snd (relay_OnConfigChange unmarshal (snd p) rc) else rc) ls rc) = durations rc" for ls
    by (induction ls arbitrary: rc) (simp_all add: OnConfigChange_durations)
  then show ?thesis
    by (simp add: Propagate_def)
qed

lemma propagate_durations: "\<forall>p \<in> set ps. \<not> tells_duration p \<Longrightarrow> durations (propagate_all unmarshal self ps rc) = durations rc"
  unfolding propagate_all_def by (induction ps arbitrary: rc) (simp_all add: Propagate_durations)

text \<open>
  A reload never changes the deadlines of the relay.  The parameters \<open>get_payload_response_delay\<close> and
  \<open>get_payload_request_time_limit\<close> may be changed dynamically, and \<open>Reload\<close> stores their new values in the
  configuration, but the listeners get a \<open>reflect.Value\<close> in the place of the new duration, which the relay
  does not take for one: whatever the file, the relay keeps the durations that it was started with.
\<close>

theorem Reload_ignores_durations:
  assumes "cm_Reload pd input cfg = (r, cfg', ps)"
  shows "durations (propagate_all unmarshal self ps rc) = durations rc"
  using Reload_tells [OF assms] by (rule propagate_durations)

definition sample_settings :: "unit relay_settings" where
  "sample_settings =
     \<lparr>BuilderSigningDomain = 0, ProposerSigningDomain = Map.empty, rc_PubKey = 0,
      rc_SecretKey = Some (), GetPayloadRequestTimeLimit = 4000, RegistrationCacheTTL = 1000,
      Distributed = True, StreamServedBids = False, rc_PublishBlock = True,
      AllowedListedBuilders = None, rc_warehouse = True, GetPayloadResponseDelay = 800000000\<rparr>"

definition sample_file :: string where
  "sample_file = ''[relay]'' @ [CHR 10] @ ''get_payload_request_time_limit = 2s''"

definition sample_duration :: "string \<Rightarrow> (go_error, int) res" where
  "sample_duration v = (if v = ''2s'' then Ok 2000000000 else Err (ErrNew v))"

lemma sample_reload:
  "\<exists>cfg' ps. cm_Reload sample_duration (Ok sample_file) (DefaultConfig (no_subscribers\<lparr>sub_Relay := [1]\<rparr>)) = (Ok (), cfg', ps)
     \<and> get_param ''relay'' ''get_payload_request_time_limit'' cfg' = Some (DurationV 2000000000)
     \<and> map fst ps = [[1]] \<and> map (on_Name \<circ> snd) ps = [''GetPayloadRequestTimeLimit'']"
  by (simp add: cm_Reload_def source_Load_def parseIni_def sample_file_def scan_lines_def drop_cr_def eval_config
      DefaultRelayConfig_def sample_duration_def no_subscribers_def inArr_def)

theorem Reload_ignores_durations_witness:
  "\<exists>cfg' ps. cm_Reload sample_duration (Ok sample_file) (DefaultConfig (no_subscribers\<lparr>sub_Relay := [1]\<rparr>)) = (Ok (), cfg', ps)
     \<and> get_param ''relay'' ''get_payload_request_time_limit'' cfg' = Some (DurationV 2000000000)
     \<and> durations (propagate_all (\<lambda>t. Ok 0) 1 ps sample_settings) = (800000000, 4000)"
proof -
  obtain cfg' ps where r: "cm_Reload sample_duration (Ok sample_file) (DefaultConfig (no_subscribers\<lparr>sub_Relay := [1]\<rparr>)) = (Ok (), cfg', ps)"
    and g: "get_param ''relay'' ''get_payload_request_time_limit'' cfg' = Some (DurationV 2000000000)"
    using sample_reload by blast
  have "durations (propagate_all (\<lambda>t. Ok 0) 1 ps sample_settings) = (800000000, 4000)"
    using Reload_ignores_durations [OF r, of "\<lambda>t. Ok 0" 1 sample_settings] by (simp add: durations_def sample_settings_def)
  then show ?thesis
    using r g by blast
qed

end
