(* ===== verification/Sim.thy ===== *)
theory Sim
  imports Relay Samples
begin

text \<open>
  Block simulation: the list of simulation nodes with its fallback, \<open>src/sim/client/fallback/fallback.go\<close>,
  the clients over HTTP and RPC, \<open>src/sim/client/transport\<close>, and the manager that adds them,
  \<open>src/sim/sim.go\<close>.  The relay calls it as its block validation client (\<open>bvc\<close>).

  The error of the context is read before each call; the readings are the arguments \<open>ctx 0\<close>, \<open>ctx 1\<close>, ...
  Requests over the network are functions of the clients.
\<close>

section \<open>Clients\<close>

abbreviation "sim_ErrNotFound \<equiv> ErrNew ''network not found''"
abbreviation "ErrConnectionFailure \<equiv> ErrNew ''connection failure''"

datatype sim_request =
  BuilderBlockValidationRequest bellatrix_submit u64
| BuilderBlockValidationRequestV2 capella_submit root u64

record rpc_response =
  rr_VersionTag :: string
  rr_Result :: bytes
  rr_Error :: "(int \<times> string) option"
  rr_ID :: u64
  rr_Node :: string

record sim_client =
  cl_Kind :: string
  cl_ID :: string
  cl_ValidateBlock :: "sim_request \<Rightarrow> string \<times> go_error option"

definition sim_method :: "sim_request \<Rightarrow> string" where
  "sim_method req =
     (case req of BuilderBlockValidationRequest _ _ \<Rightarrow> ''validateBuilderSubmissionV1''
      | BuilderBlockValidationRequestV2 _ _ _ \<Rightarrow> ''validateBuilderSubmissionV2'')"

text \<open>An error of the node is the error of the call.\<close>

definition response_error :: "rpc_response \<Rightarrow> go_error option" where
  "response_error resp = (case rr_Error resp of Some (code, msg) \<Rightarrow> if msg \<noteq> [] then Some (ErrNew msg) else None | None \<Rightarrow> None)"

text \<open>\<open>encode\<close> is the JSON encoding of a request with its method, \<open>send\<close> is \<open>justsend\<close>.\<close>

definition http_validateBlock ::
  "string \<Rightarrow> string \<Rightarrow> go_error option \<Rightarrow> (string \<Rightarrow> sim_request \<Rightarrow> go_error + bytes) \<Rightarrow> (string \<Rightarrow> bytes \<Rightarrow> go_error + rpc_response)
     \<Rightarrow> sim_request \<Rightarrow> string \<times> go_error option" where
  "http_validateBlock namespace address ctxErr encode send req =
     (case ctxErr of
        Some e \<Rightarrow> ([], Some e)
      | None \<Rightarrow>
          (case encode (namespace @ ''_'' @ sim_method req) req of
             Inl e \<Rightarrow> ([], Some e)
           | Inr body \<Rightarrow>
               (case send address body of
                  Inl e \<Rightarrow> (address, Some e)
                | Inr resp \<Rightarrow> (address, response_error resp))))"

definition http_client where
  "http_client namespace address ctxErr encode send =
     \<lparr>cl_Kind = ''http'', cl_ID = address, cl_ValidateBlock = http_validateBlock namespace address ctxErr encode send\<rparr>"

text \<open>The call of \<open>rpc.Client\<close> gives the error of the call or the result decoded as an error.\<close>

definition rpc_validateBlock ::
  "string \<Rightarrow> string \<Rightarrow> (string \<Rightarrow> sim_request \<Rightarrow> go_error + go_error option) \<Rightarrow> sim_request \<Rightarrow> string \<times> go_error option" where
  "rpc_validateBlock namespace rawurl callContext req =
     (case callContext (namespace @ ''_'' @ sim_method req) req of
        Inl e \<Rightarrow> (rawurl, Some e)
      | Inr intI \<Rightarrow> (rawurl, intI))"

definition rpc_client where
  "rpc_client namespace rawurl callContext =
     \<lparr>cl_Kind = ''rpc'', cl_ID = rawurl, cl_ValidateBlock = rpc_validateBlock namespace rawurl callContext\<rparr>"

section \<open>The fallback\<close>

record fallback =
  clientsRPC :: "sim_client list"
  clientsWS :: "sim_client list"
  clientsHTTP :: "sim_client list"
  atLeastOne :: bool

definition NewFallback :: fallback where
  "NewFallback = \<lparr>clientsRPC = [], clientsWS = [], clientsHTTP = [], atLeastOne = False\<rparr>"

definition addClient :: "sim_client list \<Rightarrow> sim_client \<Rightarrow> sim_client list" where
  "addClient cs cli = (if list_ex (\<lambda>c. cl_ID c = cl_ID cli) cs then cs else cs @ [cli])"

fun removeClient :: "sim_client list \<Rightarrow> string \<Rightarrow> sim_client list" where
  "removeClient [] cid = []"
| "removeClient (c # cs) cid = (if cl_ID c = cid then cs else c # removeClient cs cid)"

definition AddClient :: "sim_client \<Rightarrow> fallback \<Rightarrow> fallback" where
  "AddClient cli f =
     (if cl_Kind cli = ''ws'' then f\<lparr>clientsWS := addClient (clientsWS f) cli\<rparr>
      else if cl_Kind cli = ''http'' then f\<lparr>clientsHTTP := addClient (clientsHTTP f) cli\<rparr>
      else if cl_Kind cli = ''rpc'' then f\<lparr>clientsRPC := addClient (clientsRPC f) cli\<rparr>
      else f)\<lparr>atLeastOne := True\<rparr>"

definition RemoveClient :: "string \<Rightarrow> string \<Rightarrow> fallback \<Rightarrow> fallback" where
  "RemoveClient kind cid f =
     (let f = (if kind = ''ws'' then f\<lparr>clientsWS := removeClient (clientsWS f) cid\<rparr>
               else if kind = ''http'' then f\<lparr>clientsHTTP := removeClient (clientsHTTP f) cid\<rparr>
               else if kind = ''rpc'' then f\<lparr>clientsRPC := removeClient (clientsRPC f) cid\<rparr>
               else f)
      in if clientsWS f = [] \<and> clientsHTTP f = [] \<and> clientsRPC f = [] then f\<lparr>atLeastOne := False\<rparr> else f)"

text \<open>One client: the error, whether to go on, and the labels that are counted.\<close>

definition fb_validateBlock ::
  "go_error option \<Rightarrow> sim_client \<Rightarrow> sim_request \<Rightarrow> (go_error option \<times> bool) \<times> (string \<times> string \<times> string)" where
  "fb_validateBlock ctxErr c block =
     (case ctxErr of
        Some e \<Rightarrow> ((Some e, False), (cl_Kind c, [], ''ctx''))
      | None \<Rightarrow>
          (case cl_ValidateBlock c block of (node, err) \<Rightarrow>
             case err of
               None \<Rightarrow> ((None, False), (cl_Kind c, node, ''ok''))
             | Some e \<Rightarrow>
                 if \<not> (errors_Is e sim_ErrNotFound \<or> errors_Is e ErrConnectionFailure)
                 then ((Some e, False), (cl_Kind c, node, ''error''))
                 else ((Some e, True), (cl_Kind c, node, ''fallback''))))"

text \<open>A loop over clients, with the number of readings of the context so far and the last error.\<close>

fun fb_loop ::
  "(nat \<Rightarrow> go_error option) \<Rightarrow> sim_request \<Rightarrow> sim_client list \<Rightarrow> nat \<times> go_error option
     \<Rightarrow> (go_error option \<times> bool) \<times> nat \<times> (string \<times> string \<times> string) list" where
  "fb_loop ctx block [] (i, err) = ((err, True), i, [])"
| "fb_loop ctx block (c # cs) (i, err) =
     (case fb_validateBlock (ctx i) c block of ((err, keepTrying), served) \<Rightarrow>
        if \<not> keepTrying then ((err, False), Suc i, [served])
        else case fb_loop ctx block cs (Suc i, err) of (r, i, s) \<Rightarrow> (r, i, served # s))"

definition fb_ValidateBlock ::
  "(nat \<Rightarrow> go_error option) \<Rightarrow> fallback \<Rightarrow> sim_request \<Rightarrow> go_error option \<times> (string \<times> string \<times> string) list" where
  "fb_ValidateBlock ctx f block =
     (if \<not> atLeastOne f
      then (Some sim_ErrNotFound,
            [(''none'', case block of BuilderBlockValidationRequest _ _ \<Rightarrow> ''notfound'' | _ \<Rightarrow> [], ''error'')])
      else
        case fb_loop ctx block (clientsRPC f) (0, None) of ((err, go), i, s) \<Rightarrow>
        if \<not> go then (err, s)
        else case fb_loop ctx block (clientsWS f) (i, err) of ((err, go), i, s') \<Rightarrow>
        if \<not> go then (err, s @ s')
        else case fb_loop ctx block (clientsHTTP f) (i, err) of ((err, go), i, s'') \<Rightarrow>
        if \<not> go then (err, s @ s' @ s'')
        else (err, s @ s' @ s'' @ [(''all'', ''all'', ''fatal'')]))"

section \<open>The manager\<close>

definition gethSimNamespace :: string where
  "gethSimNamespace = ''flashbots''"

text \<open>\<open>Dial\<close> is done before; a failure ends the program.\<close>

definition AddRPCClient where
  "AddRPCClient address callContext f =
     (if address = [] then f else AddClient (rpc_client gethSimNamespace address callContext) f)"

definition AddHTTPClient where
  "AddHTTPClient address ctxErr encode send f =
     (if address = [] then f else AddClient (http_client gethSimNamespace address ctxErr encode send) f)"

section \<open>Who decides\<close>

definition retryable :: "go_error option \<Rightarrow> bool" where
  "retryable err = (case err of None \<Rightarrow> False | Some e \<Rightarrow> errors_Is e sim_ErrNotFound \<or> errors_Is e ErrConnectionFailure)"

text \<open>The answer of the first client that has one, or the last failure.\<close>

fun decision :: "sim_request \<Rightarrow> go_error option \<Rightarrow> sim_client list \<Rightarrow> go_error option" where
  "decision block err [] = err"
| "decision block err (c # cs) =
     (let e = snd (cl_ValidateBlock c block) in if retryable e then decision block e cs else e)"

definition fb_clients :: "fallback \<Rightarrow> sim_client list" where
  "fb_clients f = clientsRPC f @ clientsWS f @ clientsHTTP f"

lemma fb_loop_append:
  "fb_loop ctx block (cs @ cs') (i, err) =
     (case fb_loop ctx block cs (i, err) of ((err, go), i, s) \<Rightarrow>
        if \<not> go then ((err, go), i, s) else case fb_loop ctx block cs' (i, err) of (r, i, s') \<Rightarrow> (r, i, s @ s'))"
  by (induction cs arbitrary: i err) (auto split: prod.splits)

lemma fb_ValidateBlock_loop:
  "atLeastOne f \<Longrightarrow> fst (fb_ValidateBlock ctx f block) = fst (fst (fb_loop ctx block (fb_clients f) (0, None)))"
  by (auto simp: fb_ValidateBlock_def fb_clients_def fb_loop_append split: prod.splits)

lemma fb_loop_step:
  "fst (fst (fb_loop ctx block (c # cs) (i, err))) =
     (case fst (fb_validateBlock (ctx i) c block) of (e, go) \<Rightarrow> if go then fst (fst (fb_loop ctx block cs (Suc i, e))) else e)"
  by (auto split: prod.splits)

lemma fb_loop_decision: "fst (fst (fb_loop (\<lambda>_. None) block cs (i, err))) = decision block err cs"
proof (induction cs arbitrary: i err)
  case (Cons c cs)
  then show ?case
    unfolding fb_loop_step by (auto simp: fb_validateBlock_def retryable_def Let_def split: prod.splits option.splits)
qed simp

lemma fb_loop_approved:
  "fst (fst (fb_loop ctx block cs (i, err))) = None \<Longrightarrow> (\<exists>c \<in> set cs. snd (cl_ValidateBlock c block) = None) \<or> cs = [] \<and> err = None"
proof (induction cs arbitrary: i err)
  case (Cons c cs)
  show ?case
    using Cons.prems Cons.IH [of "Suc i" "snd (cl_ValidateBlock c block)"]
    unfolding fb_loop_step by (auto simp: fb_validateBlock_def split: prod.splits option.splits if_splits)
qed simp

text \<open>The states of a fallback to which clients of the three kinds are added and from which they are removed.\<close>

inductive fb_reachable :: "fallback \<Rightarrow> bool" where
  new: "fb_reachable NewFallback"
| add: "\<lbrakk>fb_reachable f; cl_Kind c \<in> {''ws'', ''http'', ''rpc''}\<rbrakk> \<Longrightarrow> fb_reachable (AddClient c f)"
| remove: "fb_reachable f \<Longrightarrow> fb_reachable (RemoveClient kind cid f)"

lemma addClient_nonempty: "addClient cs c \<noteq> []"
  by (auto simp: addClient_def)

lemma reachable_clients: "fb_reachable f \<Longrightarrow> atLeastOne f \<longleftrightarrow> fb_clients f \<noteq> []"
proof (induction rule: fb_reachable.induct)
  case new
  then show ?case
    by (simp add: NewFallback_def fb_clients_def)
next
  case (add f c)
  then show ?case
    using addClient_nonempty by (auto simp: AddClient_def fb_clients_def)
next
  case (remove f kind cid)
  then show ?case
    by (cases "clientsRPC f"; cases "clientsWS f"; cases "clientsHTTP f") (auto simp: RemoveClient_def fb_clients_def Let_def)
qed

section \<open>Properties\<close>

text \<open>
  Simulation nodes are asked in order until one answers.  While the context is alive, the result is
  the answer of the first node, RPC before WebSocket before HTTP, that does not report that it cannot be
  reached, and the last such report when there is none.
\<close>

theorem fallback_first_answer:
  assumes "fb_reachable f"
  shows "fst (fb_ValidateBlock (\<lambda>_. None) f block) =
    (if fb_clients f = [] then Some sim_ErrNotFound else decision block None (fb_clients f))"
proof (cases "atLeastOne f")
  case True
  then show ?thesis
    using reachable_clients [OF assms] by (simp add: fb_ValidateBlock_loop fb_loop_decision)
next
  case False
  then show ?thesis
    using reachable_clients [OF assms] by (simp add: fb_ValidateBlock_def)
qed

text \<open>A node that cannot be reached, and one that approves every block.\<close>

definition node_down :: sim_client where
  "node_down = \<lparr>cl_Kind = ''ws'', cl_ID = [], cl_ValidateBlock = (\<lambda>r. ([], Some ErrConnectionFailure))\<rparr>"

definition node_up :: sim_client where
  "node_up = \<lparr>cl_Kind = ''http'', cl_ID = ''http://node'', cl_ValidateBlock = (\<lambda>r. (''http://node'', None))\<rparr>"

definition two_nodes :: fallback where
  "two_nodes = AddClient node_up (AddClient node_down NewFallback)"

lemma two_nodes_reachable: "fb_reachable two_nodes" "fb_clients two_nodes = [node_down, node_up]"
  unfolding two_nodes_def
  by (intro fb_reachable.intros; simp add: node_up_def node_down_def)
     (simp add: fb_clients_def AddClient_def NewFallback_def node_up_def node_down_def addClient_def)

theorem fallback_first_answer_witness:
  "fst (fb_ValidateBlock (\<lambda>_. None) two_nodes 
     (BuilderBlockValidationRequestV2 \<lparr>CapellaRaw = [], CapellaMessage = sample_trace, CapellaExecutionPayload = sample_payload,
        CapellaSignature = 0\<rparr> 0 30000000)) = None"
  using fallback_first_answer [OF two_nodes_reachable(1)]
  by (simp add: two_nodes_reachable(2)) (simp add: node_up_def node_down_def retryable_def Let_def)

text \<open>The relay with a fallback as its validation client.\<close>

definition with_fallback :: "(nat \<Rightarrow> go_error option) \<Rightarrow> fallback \<Rightarrow> 'w relay_deps \<Rightarrow> 'w relay_deps" where
  "with_fallback ctx f D = D
     \<lparr>bvc_IsSet := atLeastOne f,
      bvc_ValidateBlock := (\<lambda>t gasLimit. fst (fb_ValidateBlock ctx f (BuilderBlockValidationRequest t gasLimit))),
      bvc_ValidateBlockV2 := (\<lambda>t gasLimit root. fst (fb_ValidateBlock ctx f (BuilderBlockValidationRequestV2 t root gasLimit)))\<rparr>"


lemma sample_validated:
  "validateBlock sample_lib sample_config (with_fallback (\<lambda>_. None) two_nodes sample_deps) 30000000 sample_submit = Ok ()"
proof -
  have "fst (fb_ValidateBlock (\<lambda>_. None) two_nodes req) = None" for req
    by (simp add: fb_ValidateBlock_def two_nodes_def AddClient_def NewFallback_def node_up_def node_down_def addClient_def
        fb_validateBlock_def)
  moreover have "HashWithdrawals_root (hasher sample_lib) (Some []) = Ok (barr_copy [9])"
    by (simp add: HashWithdrawals_root_def HashWithdrawals_walk_def sample_lib_def HashWithDefaultHasher_def walk_list_def nil_list_def)
  ultimately show ?thesis
    by (simp add: validateBlock_def with_fallback_def sample_submit_def sample_payload_def allow_listed_def sample_config_def)
qed


end
