(* ===== verification/WsConn.thy ===== *)
theory WsConn
  imports Sim
begin

text \<open>
  Simulation over WebSocket, \<open>src/sim/client/transport/gethws\<close>: the list of connections that is shared by the
  requests and the goroutines that keep the connections, the client, and the text of a request.  Requests and
  responses on one connection are in \<open>WsRequests\<close>.
\<close>

section \<open>Connections\<close>

record ws_conn =
  wc_id :: nat
  wc_healthy :: bool

record reconn =
  rcn_c :: "ws_conn list"
  rcn_next :: "32 word"

text \<open>
  \<open>rc.c[(int(n)-1)\%len(rc.c)]\<close>: division by zero without a connection, and index -1 when the counter has
  wrapped around.
\<close>

definition rcn_Next :: "reconn \<Rightarrow> (go_error, ws_conn \<times> 32 word) res \<times> reconn" where
  "rcn_Next rc =
     (let n = rcn_next rc + 1; l = length (rcn_c rc); rc' = rc\<lparr>rcn_next := n\<rparr>
      in if l = 0 then (Panic, rc')
         else if n = 0 \<and> l \<noteq> 1 then (Panic, rc')
         else (Ok (rcn_c rc ! ((unat n - 1) mod l), n), rc'))"

definition rcn_Get :: "reconn \<Rightarrow> (go_error, ws_conn \<times> 32 word) res \<times> reconn" where
  "rcn_Get rc =
     (case rcn_Next rc of
        (Ok (c, n), rc) \<Rightarrow> if \<not> wc_healthy c then (Err ErrConnectionFailure, rc) else (Ok (c, n), rc)
      | r \<Rightarrow> r)"

definition TryOtherThan :: "32 word \<Rightarrow> reconn \<Rightarrow> (go_error, ws_conn) res" where
  "TryOtherThan e rc =
     (let l = of_nat (length (rcn_c rc)) :: 32 word
      in if l < 2 then Err ErrConnectionFailure
         else
           let c = (if l - 1 > e then rcn_c rc ! unat (e + 1) else rcn_c rc ! 0)
           in if \<not> wc_healthy c then Err ErrConnectionFailure else Ok c)"

text \<open>
  The two critical sections of \<open>KeepConnection\<close>: a new connection at the end of the list, with the length
  as its number, and the removal by this number.
\<close>

definition keep_add :: "ws_conn \<Rightarrow> reconn \<Rightarrow> nat \<times> reconn" where
  "keep_add c rc = (Suc (length (rcn_c rc)), rc\<lparr>rcn_c := rcn_c rc @ [c]\<rparr>)"

definition keep_remove :: "nat \<Rightarrow> reconn \<Rightarrow> (go_error, unit) res \<times> reconn" where
  "keep_remove connID rc =
     (if length (rcn_c rc) = 1 then (Ok (), rc\<lparr>rcn_c := []\<rparr>)
      else if connID = 0 \<or> length (rcn_c rc) < connID then (Panic, rc)
      else (Ok (), rc\<lparr>rcn_c := butlast ((rcn_c rc)[connID - 1 := last (rcn_c rc)])\<rparr>))"

section \<open>The client\<close>

text \<open>\<open>request\<close> is \<open>RequestRPC\<close> of a connection; the readings of the context's error are arguments.\<close>

definition trySend ::
  "go_error option \<Rightarrow> (ws_conn \<Rightarrow> string \<Rightarrow> bytes \<Rightarrow> (go_error, rpc_response) res) \<Rightarrow> string \<Rightarrow> ws_conn \<Rightarrow> string \<Rightarrow> bytes
     \<Rightarrow> (go_error, string \<times> go_error option) res" where
  "trySend ctxErr request namespace conn meth params =
     (case ctxErr of
        Some e \<Rightarrow> Ok ([], Some e)
      | None \<Rightarrow>
          (case request conn (namespace @ ''_'' @ meth) params of
             Panic \<Rightarrow> Panic
           | Err e \<Rightarrow> Ok ([], Some ErrConnectionFailure)
           | Ok resp \<Rightarrow> Ok (rr_Node resp, response_error resp)))"

definition ws_validateBlock ::
  "(nat \<Rightarrow> go_error option) \<Rightarrow> (ws_conn \<Rightarrow> string \<Rightarrow> bytes \<Rightarrow> (go_error, rpc_response) res) \<Rightarrow> (sim_request \<Rightarrow> (go_error, bytes) res)
     \<Rightarrow> string \<Rightarrow> bool \<Rightarrow> sim_request \<Rightarrow> reconn \<Rightarrow> (go_error, string \<times> go_error option) res \<times> reconn" where
  "ws_validateBlock ctx request marshal namespace tryOther req rc =
     (case ctx 0 of
        Some e \<Rightarrow> (Ok ([], Some e), rc)
      | None \<Rightarrow>
          (case rcn_Get rc of
             (Panic, rc) \<Rightarrow> (Panic, rc)
           | (Err e, rc) \<Rightarrow> (Ok ([], Some sim_ErrNotFound), rc)
           | (Ok (conn, n), rc) \<Rightarrow>
               (case marshal req of
                  Panic \<Rightarrow> (Panic, rc)
                | Err e \<Rightarrow> (Ok ([], Some e), rc)
                | Ok params \<Rightarrow>
                    (case trySend (ctx 1) request namespace conn (sim_method req) params of
                       Ok (node, err) \<Rightarrow>
                         if tryOther \<and> err = Some ErrConnectionFailure
                         then (case TryOtherThan n rc of
                                 Ok tConn \<Rightarrow> (trySend (ctx 2) request namespace tConn (sim_method req) params, rc)
                               | Err e \<Rightarrow> (Ok (node, err), rc)
                               | Panic \<Rightarrow> (Panic, rc))
                         else (Ok (node, err), rc)
                     | r \<Rightarrow> (r, rc)))))"

definition concatBytes :: "u64 \<Rightarrow> string \<Rightarrow> bytes \<Rightarrow> bytes" where
  "concatBytes i meth params =
     string_bytes (''{\"jsonrpc\":\"2.0\", \"id\": '' @ dec (unat i) @ '', \"method\": \"'' @ meth @ ''\",\"params\": '')
     @ params @ string_bytes '' }''"

section \<open>The list of connections\<close>

lemma no_connection_panics: "rcn_c rc = [] \<Longrightarrow> fst (rcn_Get rc) = Panic"
  by (simp add: rcn_Get_def rcn_Next_def Let_def)

lemma counter_wraps_panics: "rcn_next rc = - 1 \<Longrightarrow> length (rcn_c rc) \<noteq> 1 \<Longrightarrow> fst (rcn_Get rc) = Panic"
  by (simp add: rcn_Get_def rcn_Next_def Let_def)

text \<open>Requests go round the connections.\<close>

lemma rcn_Next_round:
  assumes "rcn_c rc \<noteq> []" and "rcn_next rc \<noteq> - 1"
  shows "rcn_Next rc = (Ok (rcn_c rc ! (unat (rcn_next rc) mod length (rcn_c rc)), rcn_next rc + 1), rc\<lparr>rcn_next := rcn_next rc + 1\<rparr>)"
proof -
  have "rcn_next rc + 1 \<noteq> 0"
    using assms(2) by (simp add: add_eq_0_iff2)
  then have "unat (rcn_next rc + 1) = Suc (unat (rcn_next rc))"
    by (simp add: unatSuc add.commute)
  then show ?thesis
    using assms(1) \<open>rcn_next rc + 1 \<noteq> 0\<close> by (simp add: rcn_Next_def Let_def)
qed

text \<open>
  The retry compares the counter of the requests with positions: of two connections it always takes the first,
  which every second time is the one that has just failed.
\<close>

lemma retry_on_failed_connection:
  assumes "rcn_c rc = [a, b]" and "even (unat (rcn_next rc))" and "rcn_next rc \<noteq> - 1" and "wc_healthy a"
  shows "rcn_Get rc = (Ok (a, rcn_next rc + 1), rc\<lparr>rcn_next := rcn_next rc + 1\<rparr>)"
    and "TryOtherThan (rcn_next rc + 1) (rc\<lparr>rcn_next := rcn_next rc + 1\<rparr>) = Ok a"
proof -
  show "rcn_Get rc = (Ok (a, rcn_next rc + 1), rc\<lparr>rcn_next := rcn_next rc + 1\<rparr>)"
    using assms by (simp add: rcn_Get_def rcn_Next_round even_iff_mod_2_eq_zero numeral_2_eq_2)
  have "rcn_next rc + 1 \<noteq> 0"
    using assms(3) by (simp add: add_eq_0_iff2)
  then show "TryOtherThan (rcn_next rc + 1) (rc\<lparr>rcn_next := rcn_next rc + 1\<rparr>) = Ok a"
    using assms(1,4) by (simp add: TryOtherThan_def word_less_nat_alt unat_eq_0 flip: neq0_conv)
qed

text \<open>
  The number of a connection is its position when it was added, but removals move connections: when the first
  of two connections is replaced by \<open>a'\<close> and then the other one closes, \<open>a'\<close> is removed and the closed one stays;
  with three connections a removal can be out of range.
\<close>

lemma stale_number_removes_other:
  assumes "rcn_c rc = [a, b]"
  shows "rcn_c (snd (keep_remove 2 (snd (keep_add a' (snd (keep_remove 1 rc)))))) = [b]"
  using assms by (simp add: keep_remove_def keep_add_def numeral_2_eq_2)

lemma stale_number_panics:
  assumes "rcn_c rc = [a, b, c]"
  shows "fst (keep_remove 3 (snd (keep_remove 1 rc))) = Panic"
  using assms by (simp add: keep_remove_def)

end
