(* ===== verification/WsRequests.thy ===== *)
theory WsRequests
  imports WsConn
begin

text \<open>
  Requests and responses on one WebSocket connection, \<open>Conn\<close> and \<open>RespCache\<close> of
  \<open>src/sim/client/transport/gethws/gethws.go\<close>.  Callers of \<open>RequestRPC\<close> and the decoders run concurrently;
  the steps are their atomic parts, so a run is any interleaving of them.  The node may send any messages.
\<close>

section \<open>State\<close>

text \<open>
  Channels are numbered as they are made.  \<open>cs_waiting\<close> holds the calls of \<open>RequestRPC\<close> that wait in their
  \<open>select\<close>, with their identifier and channel; \<open>cs_sending\<close> the decoders that have taken a channel from the
  cache and not yet sent the response to it; \<open>cs_returned\<close> the calls that have returned, without a response
  when their context ended.
\<close>

record conn_state =
  cs_url :: string
  cs_messageID :: u64
  cs_input :: "bytes list"
  cs_c :: "u64 \<rightharpoonup> nat"
  cs_p :: "nat list"
  cs_made :: nat
  cs_buf :: "nat \<Rightarrow> rpc_response option"
  cs_started :: nat
  cs_waiting :: "nat \<rightharpoonup> u64 \<times> nat"
  cs_sending :: "(nat \<times> rpc_response) list"
  cs_returned :: "(nat \<times> u64 \<times> rpc_response option) list"

definition NewConn :: "string \<Rightarrow> conn_state" where
  "NewConn url =
     \<lparr>cs_url = url, cs_messageID = 2, cs_input = [], cs_c = Map.empty, cs_p = [], cs_made = 0, cs_buf = (\<lambda>_. None),
      cs_started = 0, cs_waiting = Map.empty, cs_sending = [], cs_returned = []\<rparr>"

text \<open>\<open>sync.Pool\<close> gives any of its elements, or a new one.\<close>

definition PoolGet :: "nat option \<Rightarrow> conn_state \<Rightarrow> nat \<times> conn_state" where
  "PoolGet pick s =
     (case pick of
        Some i \<Rightarrow>
          if i < length (cs_p s) then (cs_p s ! i, s\<lparr>cs_p := take i (cs_p s) @ drop (Suc i) (cs_p s)\<rparr>)
          else (cs_made s, s\<lparr>cs_made := Suc (cs_made s)\<rparr>)
      | None \<Rightarrow> (cs_made s, s\<lparr>cs_made := Suc (cs_made s)\<rparr>))"

definition PoolPut :: "nat \<Rightarrow> conn_state \<Rightarrow> conn_state" where
  "PoolPut ch s = s\<lparr>cs_p := cs_p s @ [ch]\<rparr>"

definition rc_Set :: "u64 \<Rightarrow> nat \<Rightarrow> conn_state \<Rightarrow> conn_state" where
  "rc_Set i ch s = s\<lparr>cs_c := (cs_c s)(i \<mapsto> ch)\<rparr>"

definition rc_Del :: "u64 \<Rightarrow> conn_state \<Rightarrow> conn_state" where
  "rc_Del i s = s\<lparr>cs_c := (cs_c s)(i := None)\<rparr>"

definition rc_Get :: "u64 \<Rightarrow> conn_state \<Rightarrow> nat option \<times> conn_state" where
  "rc_Get i s = (case cs_c s i of Some ch \<Rightarrow> (Some ch, rc_Del i s) | None \<Rightarrow> (None, s))"

section \<open>Steps\<close>

text \<open>\<open>RequestRPC\<close> up to its \<open>select\<close>, and its two ends.\<close>

definition RequestRPC :: "nat option \<Rightarrow> string \<Rightarrow> bytes \<Rightarrow> conn_state \<Rightarrow> conn_state" where
  "RequestRPC pick meth content s =
     (case PoolGet pick s of (respCh, s) \<Rightarrow>
        let i = cs_messageID s + 1;
            s = rc_Set i respCh (s\<lparr>cs_messageID := i\<rparr>)
        in s\<lparr>cs_input := cs_input s @ [concatBytes i meth content], cs_started := Suc (cs_started s),
             cs_waiting := (cs_waiting s)(cs_started s \<mapsto> (i, respCh))\<rparr>)"

definition receive_response :: "nat \<Rightarrow> conn_state \<Rightarrow> conn_state option" where
  "receive_response r s =
     (case cs_waiting s r of
        None \<Rightarrow> None
      | Some (i, respCh) \<Rightarrow>
          (case cs_buf s respCh of
             None \<Rightarrow> None
           | Some b \<Rightarrow>
               Some (PoolPut respCh (s\<lparr>cs_buf := (cs_buf s)(respCh := None), cs_waiting := (cs_waiting s)(r := None),
                       cs_returned := cs_returned s @ [(r, i, Some b)]\<rparr>))))"

definition cancel_request :: "nat \<Rightarrow> conn_state \<Rightarrow> conn_state option" where
  "cancel_request r s =
     (case cs_waiting s r of
        None \<Rightarrow> None
      | Some (i, respCh) \<Rightarrow>
          Some (PoolPut respCh (rc_Del i (s\<lparr>cs_waiting := (cs_waiting s)(r := None), cs_returned := cs_returned s @ [(r, i, None)]\<rparr>))))"

text \<open>\<open>rpcDecoder\<close> up to its \<open>select\<close>, for a message that is decoded, and the \<open>select\<close>.\<close>

definition rpcDecoder :: "rpc_response \<Rightarrow> conn_state \<Rightarrow> conn_state" where
  "rpcDecoder r s =
     (if rr_ID r = 1 then s
      else
        let r = r\<lparr>rr_Node := cs_url s\<rparr>
        in case rc_Get (rr_ID r) s of
             (None, s) \<Rightarrow> s
           | (Some ch, s) \<Rightarrow> s\<lparr>cs_sending := cs_sending s @ [(ch, r)]\<rparr>)"

definition sent :: "nat \<Rightarrow> conn_state \<Rightarrow> conn_state" where
  "sent k s = s\<lparr>cs_sending := take k (cs_sending s) @ drop (Suc k) (cs_sending s)\<rparr>"

definition send_response :: "nat \<Rightarrow> conn_state \<Rightarrow> conn_state option" where
  "send_response k s =
     (if k < length (cs_sending s)
      then (case cs_sending s ! k of (ch, r) \<Rightarrow>
              Some (sent k (if cs_buf s ch = None then s\<lparr>cs_buf := (cs_buf s)(ch \<mapsto> r)\<rparr> else s)))
      else None)"

text \<open>\<open>DropResponse\<close>: the context of the reader has ended.\<close>

datatype conn_op =
  Request "nat option" string bytes
| Message rpc_response
| SendResponse nat
| DropResponse nat
| Receive nat
| Cancel nat

fun conn_step :: "conn_op \<Rightarrow> conn_state \<Rightarrow> conn_state option" where
  "conn_step (Request pick meth content) s = Some (RequestRPC pick meth content s)"
| "conn_step (Message r) s = Some (rpcDecoder r s)"
| "conn_step (SendResponse k) s = send_response k s"
| "conn_step (DropResponse k) s = (if k < length (cs_sending s) then Some (sent k s) else None)"
| "conn_step (Receive r) s = receive_response r s"
| "conn_step (Cancel r) s = cancel_request r s"

fun conn_run :: "conn_op list \<Rightarrow> conn_state \<Rightarrow> conn_state option" where
  "conn_run [] s = Some s"
| "conn_run (op # ops) s = (case conn_step op s of None \<Rightarrow> None | Some s \<Rightarrow> conn_run ops s)"

section \<open>Responses and requests belong together\<close>

definition awaits :: "conn_state \<Rightarrow> u64 \<Rightarrow> nat \<Rightarrow> bool" where
  "awaits s i ch \<longleftrightarrow> (\<exists>r. cs_waiting s r = Some (i, ch))"

definition own_answer :: "conn_state \<Rightarrow> nat \<Rightarrow> rpc_response \<Rightarrow> bool" where
  "own_answer s ch b \<longleftrightarrow> awaits s (rr_ID b) ch \<and> rr_Node b = cs_url s"

text \<open>
  A channel is in the pool, or one waiting request has it.  In the pool it is empty and no decoder holds it.
  The channel of a waiting request is in the cache, or held by one decoder with the response of the request,
  or has this response.
\<close>

definition requests_ok :: "conn_state \<Rightarrow> bool" where
  "requests_ok s \<longleftrightarrow>
     unat (cs_messageID s) = 2 + cs_started s
     \<and> (\<forall>r i ch. cs_waiting s r = Some (i, ch) \<longrightarrow> r < cs_started s \<and> unat i = 3 + r \<and> ch < cs_made s \<and> ch \<notin> set (cs_p s))
     \<and> (\<forall>r r' i i' ch. cs_waiting s r = Some (i, ch) \<longrightarrow> cs_waiting s r' = Some (i', ch) \<longrightarrow> r = r')
     \<and> distinct (cs_p s) \<and> (\<forall>ch \<in> set (cs_p s). ch < cs_made s)"

definition channels_ok :: "conn_state \<Rightarrow> bool" where
  "channels_ok s \<longleftrightarrow>
     (\<forall>i ch. cs_c s i = Some ch \<longrightarrow> awaits s i ch \<and> cs_buf s ch = None \<and> ch \<notin> fst ` set (cs_sending s))
     \<and> distinct (map fst (cs_sending s))
     \<and> (\<forall>ch b. (ch, b) \<in> set (cs_sending s) \<longrightarrow> own_answer s ch b \<and> cs_buf s ch = None)
     \<and> (\<forall>ch b. cs_buf s ch = Some b \<longrightarrow> own_answer s ch b)"

definition returned_ok :: "conn_state \<Rightarrow> bool" where
  "returned_ok s \<longleftrightarrow>
     (\<forall>(r, i, b) \<in> set (cs_returned s). unat i = 3 + r \<and> (\<exists>b'. b = Some b' \<and> rr_ID b' = i \<and> rr_Node b' = cs_url s))"

definition conn_ok :: "conn_state \<Rightarrow> bool" where
  "conn_ok s \<longleftrightarrow> requests_ok s \<and> channels_ok s \<and> returned_ok s"

lemma awaits_ran: "awaits s i ch \<longleftrightarrow> (i, ch) \<in> ran (cs_waiting s)"
  by (simp add: awaits_def ran_def)

lemma conn_ok_New: "conn_ok (NewConn url)"
  by (simp add: conn_ok_def requests_ok_def channels_ok_def returned_ok_def NewConn_def)

lemma requests_okI:
  assumes "unat (cs_messageID s) = 2 + cs_started s"
    and "\<And>r i ch. cs_waiting s r = Some (i, ch) \<Longrightarrow> r < cs_started s \<and> unat i = 3 + r \<and> ch < cs_made s \<and> ch \<notin> set (cs_p s)"
    and "\<And>r r' i i' ch. cs_waiting s r = Some (i, ch) \<Longrightarrow> cs_waiting s r' = Some (i', ch) \<Longrightarrow> r = r'"
    and "distinct (cs_p s)" and "\<And>ch. ch \<in> set (cs_p s) \<Longrightarrow> ch < cs_made s"
  shows "requests_ok s"
  using assms unfolding requests_ok_def by blast

lemma waiting_request:
  "requests_ok s \<Longrightarrow> cs_waiting s r = Some (i, ch) \<Longrightarrow> r < cs_started s \<and> unat i = 3 + r \<and> ch < cs_made s \<and> ch \<notin> set (cs_p s)"
  unfolding requests_ok_def by blast

lemma waiting_channel_unique:
  "requests_ok s \<Longrightarrow> cs_waiting s r = Some (i, ch) \<Longrightarrow> cs_waiting s r' = Some (i', ch) \<Longrightarrow> r' = r \<and> i' = i"
  unfolding requests_ok_def by (metis option.inject prod.inject)

lemma PoolGet_cases:
  assumes "PoolGet pick s = (ch, s')"
  obtains (pooled) xs ys where "cs_p s = xs @ ch # ys" "s' = s\<lparr>cs_p := xs @ ys\<rparr>"
    | (new) "ch = cs_made s" "s' = s\<lparr>cs_made := Suc (cs_made s)\<rparr>"
proof (cases "\<exists>i. pick = Some i \<and> i < length (cs_p s)")
  case True
  then obtain i where i: "pick = Some i" "i < length (cs_p s)"
    by blast
  with assms have *: "ch = cs_p s ! i" "s' = s\<lparr>cs_p := take i (cs_p s) @ drop (Suc i) (cs_p s)\<rparr>"
    by (auto simp: PoolGet_def)
  from i(2) have "cs_p s = take i (cs_p s) @ ch # drop (Suc i) (cs_p s)"
    unfolding *(1) by (rule id_take_nth_drop)
  then show ?thesis
    using *(2) by (rule pooled)
next
  case False
  with assms show ?thesis
    by (intro new) (auto simp: PoolGet_def split: option.splits if_splits)
qed

lemma PoolGet_ok:
  assumes "requests_ok s" and "PoolGet pick s = (ch, s')"
  shows "requests_ok s'" and "ch < cs_made s'" and "ch \<notin> set (cs_p s')" and "\<And>r i. cs_waiting s r \<noteq> Some (i, ch)"
    and "s' = s\<lparr>cs_p := cs_p s', cs_made := cs_made s'\<rparr>"
proof -
  consider (pooled) xs ys where "cs_p s = xs @ ch # ys" "s' = s\<lparr>cs_p := xs @ ys\<rparr>"
    | (new) "ch = cs_made s" "s' = s\<lparr>cs_made := Suc (cs_made s)\<rparr>"
    using assms(2) by (rule PoolGet_cases)
  then have "requests_ok s' \<and> ch < cs_made s' \<and> ch \<notin> set (cs_p s') \<and> (\<forall>r i. cs_waiting s r \<noteq> Some (i, ch))
      \<and> s' = s\<lparr>cs_p := cs_p s', cs_made := cs_made s'\<rparr>"
  proof cases
    case pooled
    then show ?thesis
      using assms(1) by (auto simp: requests_ok_def)
  next
    case new
    then show ?thesis
      using assms(1) by (force simp: requests_ok_def)
  qed
  then show "requests_ok s'" and "ch < cs_made s'" and "ch \<notin> set (cs_p s')" and "\<And>r i. cs_waiting s r \<noteq> Some (i, ch)"
    and "s' = s\<lparr>cs_p := cs_p s', cs_made := cs_made s'\<rparr>"
    by blast+
qed


text \<open>A new request.\<close>

lemma RequestRPC_ok:
  assumes "conn_ok s" and "cs_started s < 2 ^ 64 - 3"
  shows "conn_ok (RequestRPC pick meth content s)"
proof -
  obtain ch s' where get: "PoolGet pick s = (ch, s')"
    by fastforce
  have s: "requests_ok s" "channels_ok s" "returned_ok s"
    using assms(1) by (simp_all add: conn_ok_def)
  note g = PoolGet_ok [OF s(1) get]
  obtain p m where s': "s' = s\<lparr>cs_p := p, cs_made := m\<rparr>"
    using g(5) by blast
  define i where "i = cs_messageID s + 1"
  have "unat (cs_messageID s) = 2 + cs_started s"
    using s(1) by (simp add: requests_ok_def)
  then have i: "unat i = 3 + cs_started s"
    using assms(2) unfolding i_def by (subst unat_add_lem [THEN iffD1]) (simp_all add: unsigned_1)
  define t where "t = RequestRPC pick meth content s"
  have t: "t = s\<lparr>cs_p := p, cs_made := m, cs_messageID := i, cs_c := (cs_c s)(i \<mapsto> ch),
      cs_input := cs_input s @ [concatBytes i meth content], cs_started := Suc (cs_started s),
      cs_waiting := (cs_waiting s)(cs_started s \<mapsto> (i, ch))\<rparr>"
    unfolding t_def RequestRPC_def get s' by (simp add: rc_Set_def i_def Let_def)
  have fresh: "cs_waiting s (cs_started s) = None"
    using s(1) unfolding requests_ok_def by (metis less_irrefl not_Some_eq surj_pair)
  have "requests_ok t"
    using g i fresh unfolding s' t requests_ok_def by (auto intro: less_SucI)
  moreover have no: "\<not> awaits s j ch" for j
    using g(4) by (simp add: awaits_def)
  have unused: "cs_buf s ch = None" "\<And>b. (ch, b) \<notin> set (cs_sending s)"
    using s(2) no unfolding channels_ok_def own_answer_def by (metis not_Some_eq, metis)
  have "awaits t j c \<longleftrightarrow> awaits s j c \<or> j = i \<and> c = ch" for j c
    using fresh by (auto simp: awaits_ran t ran_map_upd)
  then have "channels_ok t"
    using s(2) unused by (auto simp: channels_ok_def own_answer_def t)
  moreover have "returned_ok t"
    using s(3) by (auto simp: t returned_ok_def)
  ultimately show ?thesis
    by (simp add: conn_ok_def t_def)
qed

text \<open>A message of the node.\<close>

lemma rpcDecoder_ok:
  assumes "conn_ok s"
  shows "conn_ok (rpcDecoder r s)"
proof (cases "rr_ID r = 1 \<or> cs_c s (rr_ID r) = None")
  case True
  then have "rpcDecoder r s = s"
    by (auto simp: rpcDecoder_def rc_Get_def)
  then show ?thesis
    using assms by simp
next
  case False
  then obtain ch where ch: "rr_ID r \<noteq> 1" "cs_c s (rr_ID r) = Some ch"
    by blast
  define t where "t = rpcDecoder r s"
  have t: "t = s\<lparr>cs_c := (cs_c s)(rr_ID r := None), cs_sending := cs_sending s @ [(ch, r\<lparr>rr_Node := cs_url s\<rparr>)]\<rparr>"
    using ch by (simp add: t_def rpcDecoder_def rc_Get_def rc_Del_def Let_def)
  have s: "requests_ok s" "channels_ok s" "returned_ok s"
    using assms by (simp_all add: conn_ok_def)
  have r: "awaits s (rr_ID r) ch" "cs_buf s ch = None" "ch \<notin> fst ` set (cs_sending s)"
    using s(2) ch(2) unfolding channels_ok_def by blast+
  have "c \<noteq> ch" if c: "cs_c s j = Some c" "j \<noteq> rr_ID r" for j c
  proof
    assume "c = ch"
    with s(2) c(1) have "awaits s j ch"
      by (simp add: channels_ok_def)
    with r(1) c(2) show False
      using waiting_channel_unique [OF s(1)] by (auto simp: awaits_def)
  qed
  moreover have "awaits t = awaits s"
    by (intro ext) (simp add: t awaits_def)
  ultimately have "channels_ok t"
    using s(2) r by (auto simp: channels_ok_def own_answer_def t)
  moreover have "requests_ok t" "returned_ok t"
    using s(1,3) by (simp_all add: t requests_ok_def returned_ok_def)
  ultimately show ?thesis
    by (simp add: conn_ok_def t_def)
qed

text \<open>A decoder sends a response or drops it.\<close>

lemma sending_split:
  assumes "k < length (cs_sending s)" and "cs_sending s ! k = (ch, b)"
  obtains xs ys where "cs_sending s = xs @ (ch, b) # ys" and "sent k s = s\<lparr>cs_sending := xs @ ys\<rparr>"
  using assms id_take_nth_drop [of k "cs_sending s"] by (auto simp: sent_def)

lemma sent_buf: "sent k (s\<lparr>cs_buf := f\<rparr>) = (sent k s)\<lparr>cs_buf := f\<rparr>"
  by (simp add: sent_def)

lemma drop_response_ok:
  assumes "conn_ok s" and "k < length (cs_sending s)"
  shows "conn_ok (sent k s)"
proof -
  obtain ch b where "cs_sending s ! k = (ch, b)"
    by fastforce
  with assms(2) obtain xs ys where x: "cs_sending s = xs @ (ch, b) # ys" "sent k s = s\<lparr>cs_sending := xs @ ys\<rparr>"
    by (rule sending_split)
  have "own_answer (sent k s) = own_answer s"
    by (intro ext) (simp add: x own_answer_def awaits_def)
  then show ?thesis
    using assms(1) x(1) unfolding conn_ok_def requests_ok_def channels_ok_def returned_ok_def awaits_def by (auto simp: x(2))
qed

lemma send_response_ok:
  assumes "conn_ok s" and "send_response k s = Some t"
  shows "conn_ok t"
proof -
  have k: "k < length (cs_sending s)"
    using assms(2) by (simp add: send_response_def split: if_splits)
  obtain ch b where nth: "cs_sending s ! k = (ch, b)"
    by fastforce
  with k obtain xs ys where x: "cs_sending s = xs @ (ch, b) # ys" "sent k s = s\<lparr>cs_sending := xs @ ys\<rparr>"
    by (rule sending_split)
  have s: "requests_ok s" "channels_ok s" "returned_ok s"
    using assms(1) by (simp_all add: conn_ok_def)
  have "(ch, b) \<in> set (cs_sending s)"
    by (simp add: x)
  then have o: "own_answer s ch b" "cs_buf s ch = None"
    using s(2) unfolding channels_ok_def by blast+
  then have t: "t = s\<lparr>cs_sending := xs @ ys, cs_buf := (cs_buf s)(ch \<mapsto> b)\<rparr>"
    using assms(2) k nth x(2) by (simp add: send_response_def sent_buf)
  have "own_answer t = own_answer s" "awaits t = awaits s"
    by (intro ext, simp add: t own_answer_def awaits_def)+
  moreover have "ch \<notin> fst ` set xs" "ch \<notin> fst ` set ys"
    using s(2) x(1) by (simp_all add: channels_ok_def)
  then have "(ch, c) \<notin> set xs" "(ch, c) \<notin> set ys" for c
    by (force, force)
  ultimately have "channels_ok t"
    using s(2) o unfolding channels_ok_def x(1) by (simp add: t)
  moreover have "requests_ok t" "returned_ok t"
    using s(1,3) by (simp_all add: t requests_ok_def returned_ok_def)
  ultimately show ?thesis
    by (simp add: conn_ok_def)
qed

text \<open>A request receives its response.\<close>

lemma receive_response_ok:
  assumes "conn_ok s" and "receive_response r s = Some t"
  shows "conn_ok t"
proof -
  obtain i ch b where w: "cs_waiting s r = Some (i, ch)" "cs_buf s ch = Some b"
    and t: "t = s\<lparr>cs_buf := (cs_buf s)(ch := None), cs_waiting := (cs_waiting s)(r := None),
      cs_returned := cs_returned s @ [(r, i, Some b)], cs_p := cs_p s @ [ch]\<rparr>"
    using assms(2) by (auto simp: receive_response_def PoolPut_def split: option.splits)
  have s: "requests_ok s" "channels_ok s" "returned_ok s"
    using assms(1) by (simp_all add: conn_ok_def)
  have b: "own_answer s ch b"
    using s(2) w(2) by (simp add: channels_ok_def)
  then have i: "rr_ID b = i"
    using waiting_channel_unique [OF s(1) w(1)] by (auto simp: own_answer_def awaits_def)
  have "awaits t j c \<longleftrightarrow> awaits s j c \<and> c \<noteq> ch" for j c
  proof
    assume "awaits t j c"
    then obtain q where q: "cs_waiting s q = Some (j, c)" "q \<noteq> r"
      by (auto simp: awaits_def t split: if_splits)
    moreover have "c \<noteq> ch"
      using waiting_channel_unique [OF s(1) w(1)] q by blast
    ultimately show "awaits s j c \<and> c \<noteq> ch"
      by (auto simp: awaits_def)
  next
    assume "awaits s j c \<and> c \<noteq> ch"
    then obtain q where "cs_waiting s q = Some (j, c)" "c \<noteq> ch"
      by (auto simp: awaits_def)
    then have "cs_waiting t q = Some (j, c)"
      using w(1) by (auto simp: t)
    then show "awaits t j c"
      by (auto simp: awaits_def)
  qed
  moreover have "cs_c s j \<noteq> Some ch" "(ch, a) \<notin> set (cs_sending s)" for j a
    using s(2) w(2) by (auto simp: channels_ok_def)
  ultimately have "channels_ok t"
    using s(2) by (auto simp: channels_ok_def own_answer_def t)
  moreover have sub: "cs_waiting s q = Some (j, c) \<and> c \<noteq> ch" if q: "cs_waiting t q = Some (j, c)" for q j c
  proof -
    have "cs_waiting s q = Some (j, c)" "q \<noteq> r"
      using q by (auto simp: t split: if_splits)
    then show ?thesis
      using waiting_channel_unique [OF s(1) w(1)] by blast
  qed
  have p: "cs_p t = cs_p s @ [ch]" "cs_made t = cs_made s" "cs_messageID t = cs_messageID s" "cs_started t = cs_started s"
    by (simp_all add: t)
  have "requests_ok t"
  proof (rule requests_okI, unfold p)
    show "unat (cs_messageID s) = 2 + cs_started s" "distinct (cs_p s @ [ch])"
      "\<And>c. c \<in> set (cs_p s @ [ch]) \<Longrightarrow> c < cs_made s"
      using s(1) waiting_request [OF s(1) w(1)] by (auto simp: requests_ok_def)
  next
    fix q j c assume "cs_waiting t q = Some (j, c)"
    then show "q < cs_started s \<and> unat j = 3 + q \<and> c < cs_made s \<and> c \<notin> set (cs_p s @ [ch])"
      using sub waiting_request [OF s(1), of q j c] by auto
  next
    fix q q' j j' c assume "cs_waiting t q = Some (j, c)" "cs_waiting t q' = Some (j', c)"
    then show "q = q'"
      using sub waiting_channel_unique [OF s(1)] by blast
  qed
  moreover have "returned_ok t"
    using s(1,3) w(1) b i by (auto simp: t returned_ok_def own_answer_def requests_ok_def)
  ultimately show ?thesis
    by (simp add: conn_ok_def)
qed

section \<open>Runs\<close>

lemma conn_step_url: "conn_step op s = Some t \<Longrightarrow> cs_url t = cs_url s"
  by (cases op)
    (auto simp: RequestRPC_def PoolGet_def PoolPut_def rc_Set_def rc_Del_def rc_Get_def rpcDecoder_def Let_def sent_def
      send_response_def receive_response_def cancel_request_def split: option.splits if_splits prod.splits)

lemma conn_step_started: "conn_step op s = Some t \<Longrightarrow> cs_started t \<le> Suc (cs_started s)"
  by (cases op)
    (auto simp: RequestRPC_def PoolGet_def PoolPut_def rc_Set_def rc_Del_def rc_Get_def rpcDecoder_def Let_def sent_def
      send_response_def receive_response_def cancel_request_def split: option.splits if_splits prod.splits)

lemma conn_step_ok:
  assumes "conn_ok s" and "conn_step op s = Some t" and "\<And>r. op \<noteq> Cancel r" and "cs_started s < 2 ^ 64 - 3"
  shows "conn_ok t"
proof (cases op)
  case (Request pick meth content)
  then show ?thesis
    using assms(2) RequestRPC_ok [OF assms(1,4)] by auto
next
  case (Message r)
  then show ?thesis
    using assms(2) rpcDecoder_ok [OF assms(1)] by auto
next
  case (SendResponse k)
  then show ?thesis
    using assms(2) send_response_ok [OF assms(1)] by simp
next
  case (DropResponse k)
  then show ?thesis
    using assms(2) drop_response_ok [OF assms(1)] by (auto split: if_splits)
next
  case (Receive r)
  then show ?thesis
    using assms(2) receive_response_ok [OF assms(1)] by simp
next
  case (Cancel r)
  then show ?thesis
    using assms(3) by blast
qed

lemma conn_run_ok:
  "conn_run ops s = Some t \<Longrightarrow> conn_ok s \<Longrightarrow> (\<And>r. Cancel r \<notin> set ops) \<Longrightarrow> cs_started s + length ops < 2 ^ 64 - 2
     \<Longrightarrow> conn_ok t \<and> cs_url t = cs_url s"
proof (induction ops arbitrary: s)
  case (Cons op ops)
  then obtain s' where s': "conn_step op s = Some s'" "conn_run ops s' = Some t"
    by (auto split: option.splits)
  have "cs_started s' + length ops < 2 ^ 64 - 2"
    using conn_step_started [OF s'(1)] Cons.prems(4) by simp
  moreover have "conn_ok s'"
  proof (rule conn_step_ok [OF Cons.prems(2) s'(1)])
    show "op \<noteq> Cancel r" for r
      using Cons.prems(3) [of r] by auto
    show "cs_started s < 2 ^ 64 - 3"
      using Cons.prems(4) by simp
  qed
  ultimately show ?case
    using Cons.IH [OF s'(2)] Cons.prems(3) conn_step_url [OF s'(1)] by simp
qed simp

text \<open>
  C23: Whatever the node sends and however callers and decoders interleave, as long as no request ends by its
  context and the identifiers do not wrap around, every request that returns has the response with its own
  identifier, marked with the node of the connection; and a response that a decoder holds finds its channel
  empty, so that it is not dropped as impossible to send.
\<close>

theorem requests_get_own_response:
  assumes "conn_run ops (NewConn url) = Some s" and "\<And>r. Cancel r \<notin> set ops" and "length ops < 2 ^ 64 - 2"
  shows "(\<forall>(r, i, b) \<in> set (cs_returned s). unat i = 3 + r \<and> (\<exists>b'. b = Some b' \<and> rr_ID b' = i \<and> rr_Node b' = url))
    \<and> (\<forall>(ch, b) \<in> set (cs_sending s). cs_buf s ch = None)"
proof -
  have "conn_ok s \<and> cs_url s = cs_url (NewConn url)"
    using assms by (intro conn_run_ok [OF _ conn_ok_New]) (simp_all add: NewConn_def)
  then show ?thesis
    by (auto simp: conn_ok_def returned_ok_def channels_ok_def NewConn_def)
qed

definition response_to :: "u64 \<Rightarrow> rpc_response" where
  "response_to i = \<lparr>rr_VersionTag = ''2.0'', rr_Result = [], rr_Error = None, rr_ID = i, rr_Node = []\<rparr>"

text \<open>Two requests that are answered in the other order, and an answer that nobody asked for.\<close>

definition sample_conn_ops :: "conn_op list" where
  "sample_conn_ops =
     [Request None ''m'' [], Request None ''m'' [], Message (response_to 4), Message (response_to 9), Message (response_to 3),
      SendResponse 1, SendResponse 0, Receive 1, Receive 0]"

lemmas conn_eval =
  NewConn_def RequestRPC_def PoolGet_def PoolPut_def rc_Set_def rc_Del_def rc_Get_def rpcDecoder_def sent_def send_response_def
  receive_response_def cancel_request_def response_to_def

lemma sample_conn_run:
  "\<exists>s. conn_run sample_conn_ops (NewConn ''ws'') = Some s
     \<and> cs_returned s = [(1, 4, Some (response_to 4\<lparr>rr_Node := ''ws''\<rparr>)), (0, 3, Some (response_to 3\<lparr>rr_Node := ''ws''\<rparr>))]"
  by (simp add: sample_conn_ops_def conn_eval)

theorem requests_get_own_response_witness:
  "\<exists>s. conn_run sample_conn_ops (NewConn ''ws'') = Some s \<and> length (cs_returned s) = 2
     \<and> list_all (\<lambda>(r, i, b). unat i = 3 + r \<and> (\<exists>b'. b = Some b' \<and> rr_ID b' = i \<and> rr_Node b' = ''ws'')) (cs_returned s)"
proof -
  obtain s where s: "conn_run sample_conn_ops (NewConn ''ws'') = Some s" "length (cs_returned s) = 2"
    using sample_conn_run by auto
  show ?thesis
    using s requests_get_own_response [OF s(1)] by (intro exI [of _ s]) (simp add: sample_conn_ops_def list_all_iff)
qed


end
