(* ===== verification/Warehouse.thy ===== *)
theory Warehouse
  imports Structs
begin

text \<open>
  The files of the warehouse, \<open>src/datastore/warehouse\<close>: its workers append records to files, each worker to
  files of its own, which are opened on demand and closed when idle; and the wait group of
  \<open>src/structs/waitgroup.go\<close>.

  The disk is a map from names to contents, with the open files by number.  Errors of the operating system
  are arguments, with the number of bytes that a failed write has written.  \<open>gz\<close> is what the gzip and base64
  writers put out on \<open>Write\<close>, on \<open>Flush\<close> and when they are closed; errors of the last are ignored.
\<close>

section \<open>Files\<close>

record wh_file =
  fh_name :: string
  fh_num :: nat

record os_state =
  os_disk :: "string \<Rightarrow> bytes"
  os_open :: "nat list"
  os_next :: nat

type_synonym fault = "(go_error \<times> nat) option"

abbreviation "os_ErrClosed \<equiv> LibErr ''file already closed''"

definition file_Write :: "fault \<Rightarrow> bytes \<Rightarrow> wh_file \<Rightarrow> os_state \<Rightarrow> (go_error, unit) res \<times> os_state" where
  "file_Write fault b f s =
     (if fh_num f \<notin> set (os_open s) then (Err os_ErrClosed, s)
      else
        case fault of
          None \<Rightarrow> (Ok (), s\<lparr>os_disk := (os_disk s)(fh_name f := os_disk s (fh_name f) @ b)\<rparr>)
        | Some (e, n) \<Rightarrow> (Err e, s\<lparr>os_disk := (os_disk s)(fh_name f := os_disk s (fh_name f) @ take n b)\<rparr>))"

definition file_Close :: "wh_file \<Rightarrow> os_state \<Rightarrow> os_state" where
  "file_Close f s = s\<lparr>os_open := removeAll (fh_num f) (os_open s)\<rparr>"

text \<open>The directory is made when it is missing; \<open>dirErr\<close> is the error of this.\<close>

definition openOrCreateFile :: "go_error option \<Rightarrow> go_error option \<Rightarrow> string \<Rightarrow> os_state \<Rightarrow> (go_error, wh_file) res \<times> os_state" where
  "openOrCreateFile dirErr openErr filename s =
     (case dirErr of
        Some e \<Rightarrow> (Err (wrap_msg ''failed to create directory'' e), s)
      | None \<Rightarrow>
          (case openErr of
             Some e \<Rightarrow> (Err (wrap_msg ''failed to create file'' e), s)
           | None \<Rightarrow>
               (Ok \<lparr>fh_name = filename, fh_num = os_next s\<rparr>, s\<lparr>os_open := os_next s # os_open s, os_next := Suc (os_next s)\<rparr>)))"

section \<open>Requests\<close>

record wh_request =
  sq_DataType :: string
  sq_Data :: bytes
  sq_Slot :: u64
  sq_Id :: string
  sq_Timestamp :: int
  sq_header :: bytes

text \<open>\<open>%d\<close> of a signed integer.\<close>

definition dec_int :: "int \<Rightarrow> string" where
  "dec_int i = (if i < 0 then CHR ''-'' # dec (nat (- i)) else dec (nat i))"

text \<open>What \<open>StoreAsync\<close> puts into the queue: the header is computed at this point.\<close>

definition with_header :: "wh_request \<Rightarrow> wh_request" where
  "with_header req =
     req\<lparr>sq_header := string_bytes (CHR 0x0A # dec_int (sq_Timestamp req) @ '';'' @ sq_Id req @ '';base64+gzip+json;'')\<rparr>"

type_synonym packer = "bytes \<Rightarrow> bytes \<times> bytes \<times> bytes"

record req_faults =
  rf_dir :: "go_error option"
  rf_open :: "go_error option"
  rf_header :: fault
  rf_data :: fault
  rf_flush :: fault
  rf_end :: fault
  rf_newline :: fault

definition writeToFile :: "packer \<Rightarrow> req_faults \<Rightarrow> wh_file \<Rightarrow> wh_request \<Rightarrow> os_state \<Rightarrow> (go_error, unit) res \<times> os_state" where
  "writeToFile gz rf f req s =
     (case gz (sq_Data req) of (written, flushed, closed) \<Rightarrow>
      case file_Write (rf_header rf) (sq_header req) f s of
        (Ok _, s) \<Rightarrow>
          (case file_Write (rf_data rf) written f s of
             (Ok _, s) \<Rightarrow>
               (case file_Write (rf_flush rf) flushed f s of
                  (Ok _, s) \<Rightarrow> (Ok (), snd (file_Write (rf_end rf) closed f s))
                | (r, s) \<Rightarrow> (map_err (wrap_msg ''failed to flush writer'') r, s))
           | (r, s) \<Rightarrow> (map_err (wrap_msg ''failed to write data'') r, s))
      | (r, s) \<Rightarrow> (map_err (wrap_msg ''failed to write data timestamp'') r, s))"

section \<open>Workers\<close>

record worker =
  wk_id :: nat
  wk_datadir :: string
  wk_files :: "(string \<times> wh_file \<times> int) list"

definition newWorker :: "nat \<Rightarrow> string \<Rightarrow> worker" where
  "newWorker i datadir = \<lparr>wk_id = i, wk_datadir = datadir, wk_files = []\<rparr>"

definition filename :: "worker \<Rightarrow> wh_request \<Rightarrow> string" where
  "filename w req =
     wk_datadir w @ ''/'' @ sq_DataType req @ ''/'' @ dec (unat (sq_Slot req)) @ ''_'' @ dec (wk_id w) @ ''.csv''"

text \<open>The time stamp of a file that is already open is set in a copy of the entry, so the entry keeps the time of its opening.\<close>

definition getOrCreateFile :: "int \<Rightarrow> req_faults \<Rightarrow> wh_request \<Rightarrow> worker \<Rightarrow> os_state \<Rightarrow> (go_error, wh_file) res \<times> worker \<times> os_state" where
  "getOrCreateFile now rf req w s =
     (case map_of (wk_files w) (filename w req) of
        Some (f, ts) \<Rightarrow> (Ok f, w, s)
      | None \<Rightarrow>
          (case openOrCreateFile (rf_dir rf) (rf_open rf) (filename w req) s of
             (Ok f, s) \<Rightarrow> (Ok f, w\<lparr>wk_files := AList.update (filename w req) (f, now) (wk_files w)\<rparr>, s)
           | (Err e, s) \<Rightarrow> (Err (wrap_msg ''failed to create file'' e), w, s)
           | (Panic, s) \<Rightarrow> (Panic, w, s)))"

definition closeFile :: "wh_file \<Rightarrow> worker \<times> os_state \<Rightarrow> worker \<times> os_state" where
  "closeFile f ws = (case ws of (w, s) \<Rightarrow> (w\<lparr>wk_files := AList.delete (fh_name f) (wk_files w)\<rparr>, file_Close f s))"

definition fileIdleTime :: int where
  "fileIdleTime = DurationPerSlot"

definition closeIdleFiles :: "int \<Rightarrow> worker \<times> os_state \<Rightarrow> worker \<times> os_state" where
  "closeIdleFiles now ws =
     fold (\<lambda>(n, f, ts). if now - ts > fileIdleTime then closeFile f else (\<lambda>ws. ws)) (wk_files (fst ws)) ws"

definition closeAllFiles :: "worker \<times> os_state \<Rightarrow> worker \<times> os_state" where
  "closeAllFiles ws = fold (\<lambda>(n, f, ts). closeFile f) (wk_files (fst ws)) ws"

text \<open>\<open>handleRequest\<close>; the flag tells which of the two counters goes up.\<close>

definition handleRequest ::
  "packer \<Rightarrow> int \<Rightarrow> req_faults \<Rightarrow> wh_request \<Rightarrow> worker \<times> os_state \<Rightarrow> bool \<times> worker \<times> os_state" where
  "handleRequest gz now rf req ws =
     (case getOrCreateFile now rf req (fst ws) (snd ws) of
        (Ok f, w, s) \<Rightarrow>
          (case writeToFile gz rf f req s of
             (Ok _, s) \<Rightarrow> (True, w, s)
           | (_, s) \<Rightarrow> (False, closeFile f (w, snd (file_Write (rf_newline rf) [10] f s))))
      | (_, w, s) \<Rightarrow> (False, w, s))"

section \<open>Open files\<close>

text \<open>
  What a worker keeps: the names of its table are those of the files, and the open files are these and the
  files \<open>R\<close> of the other workers.
\<close>

abbreviation "nums fs \<equiv> map (\<lambda>e. fh_num (fst (snd e))) fs"

definition table_ok :: "(string \<times> wh_file \<times> int) list \<Rightarrow> bool" where
  "table_ok fs \<longleftrightarrow> distinct (map fst fs) \<and> distinct (nums fs) \<and> (\<forall>(n, f, ts) \<in> set fs. fh_name f = n)"

definition files_ok :: "nat set \<Rightarrow> (string \<times> wh_file \<times> int) list \<Rightarrow> os_state \<Rightarrow> bool" where
  "files_ok R fs s \<longleftrightarrow>
     table_ok fs \<and> set (os_open s) = R \<union> set (nums fs) \<and> R \<inter> set (nums fs) = {} \<and> (\<forall>k \<in> set (os_open s). k < os_next s)"

lemma closeFile_entry:
  assumes "files_ok R (wk_files w) s" and "(n, f, ts) \<in> set (wk_files w)" and "closeFile f (w, s) = (w', s')"
  shows "files_ok R (wk_files w') s'" and "set (wk_files w') = set (wk_files w) - {(n, f, ts)}"
    and "os_disk s' = os_disk s" and "w' = w\<lparr>wk_files := wk_files w'\<rparr>"
proof -
  let ?fs = "wk_files w"
  have t: "distinct (map fst ?fs)" "distinct (nums ?fs)" "fh_name f = n"
    using assms(1,2) by (auto simp: files_ok_def table_ok_def)
  have w': "w' = w\<lparr>wk_files := AList.delete n ?fs\<rparr>" and s': "s' = file_Close f s"
    using assms(3) t(3) by (simp_all add: closeFile_def)
  have "e = (n, f, ts)" if e: "e \<in> set ?fs" "fst e = n" for e
    using e assms(2) t(1) by (metis eq_key_imp_eq_value prod.collapse)
  then have set: "set (AList.delete n ?fs) = set ?fs - {(n, f, ts)}"
    by (auto simp: AList.delete_eq)
  then show "set (wk_files w') = set (wk_files w) - {(n, f, ts)}"
    by (simp add: w')
  have "distinct (map fst (AList.delete n ?fs))" "distinct (nums (AList.delete n ?fs))"
    using t(1,2) by (simp_all add: AList.delete_eq distinct_map_filter)
  moreover have "set (nums (AList.delete n ?fs)) = set (nums ?fs) - {fh_num f}"
    using t(2) assms(2) unfolding set_map set distinct_map by (subst inj_on_image_set_diff) auto
  moreover have "fh_num f \<notin> R"
    using assms(1,2) by (force simp: files_ok_def)
  ultimately show "files_ok R (wk_files w') s'"
    using assms(1) by (auto simp: files_ok_def table_ok_def w' s' file_Close_def set)
  show "os_disk s' = os_disk s" and "w' = w\<lparr>wk_files := wk_files w'\<rparr>"
    by (simp_all add: w' s' file_Close_def)
qed

lemma fold_closeFile:
  "files_ok R (wk_files w) s \<Longrightarrow> set L \<subseteq> set (wk_files w) \<Longrightarrow> distinct L
     \<Longrightarrow> fold (\<lambda>(n, f, ts). if p ts then closeFile f else (\<lambda>ws. ws)) L (w, s) = (w', s')
     \<Longrightarrow> files_ok R (wk_files w') s' \<and> set (wk_files w') = set (wk_files w) - {(n, f, ts) \<in> set L. p ts}
        \<and> os_disk s' = os_disk s \<and> w' = w\<lparr>wk_files := wk_files w'\<rparr>"
proof (induction L arbitrary: w s)
  case (Cons e L)
  obtain n f ts where e: "e = (n, f, ts)"
    by (cases e)
  show ?case
  proof (cases "p ts")
    case True
    obtain w1 s1 where c: "closeFile f (w, s) = (w1, s1)"
      by fastforce
    have "(n, f, ts) \<in> set (wk_files w)"
      using Cons.prems(2) e by simp
    note c1 = closeFile_entry [OF Cons.prems(1) this c]
    have "set L \<subseteq> set (wk_files w1)"
      using Cons.prems(2,3) e c1(2) by auto
    moreover have "fold (\<lambda>(n, f, ts). if p ts then closeFile f else (\<lambda>ws. ws)) L (w1, s1) = (w', s')"
      using Cons.prems(4) True c by (simp add: e)
    ultimately have r: "files_ok R (wk_files w') s'" "set (wk_files w') = set (wk_files w1) - {(n, f, ts) \<in> set L. p ts}"
        "os_disk s' = os_disk s1" "w' = w1\<lparr>wk_files := wk_files w'\<rparr>"
      using Cons.IH [OF c1(1)] Cons.prems(3) by simp_all
    have ins: "{(n, f, ts) \<in> set (e # L). p ts} = insert (n, f, ts) {(n, f, ts) \<in> set L. p ts}"
      using True by (auto simp: e)
    have "w1\<lparr>wk_files := wk_files w'\<rparr> = w\<lparr>wk_files := wk_files w'\<rparr>"
      by (subst c1(4)) simp
    with r(4) have w': "w' = w\<lparr>wk_files := wk_files w'\<rparr>"
      by (rule trans)
    have "set (wk_files w') = set (wk_files w) - {(n, f, ts) \<in> set (e # L). p ts}"
      unfolding ins r(2) c1(2) by blast
    then show ?thesis
      using r(1) w' r(3) c1(3) by (intro conjI) (assumption | simp)+
  next
    case False
    have "{(n, f, ts) \<in> set (e # L). p ts} = {(n, f, ts) \<in> set L. p ts}"
      using False by (auto simp: e)
    moreover have "fold (\<lambda>(n, f, ts). if p ts then closeFile f else (\<lambda>ws. ws)) L (w, s) = (w', s')"
      using Cons.prems(4) False by (simp add: e)
    ultimately show ?thesis
      using Cons.IH [OF Cons.prems(1)] Cons.prems(2,3) by simp
  qed
qed auto

lemma update_absent: "k \<notin> fst ` set xs \<Longrightarrow> AList.update k v xs = xs @ [(k, v)]"
  by (induction xs) auto

lemma files_ok_distinct: "files_ok R fs s \<Longrightarrow> distinct fs"
  unfolding files_ok_def table_ok_def distinct_map by blast

lemma closeIdleFiles_ok:
  assumes "files_ok R (wk_files w) s" and "closeIdleFiles now (w, s) = (w', s')"
  shows "files_ok R (wk_files w') s' \<and> os_disk s' = os_disk s \<and> w' = w\<lparr>wk_files := wk_files w'\<rparr>"
  using fold_closeFile [OF assms(1) subset_refl files_ok_distinct [OF assms(1)], of "\<lambda>ts. now - ts > fileIdleTime" w' s'] assms(2)
  by (simp add: closeIdleFiles_def)

lemma closeAllFiles_ok:
  assumes "files_ok R (wk_files w) s" and "closeAllFiles (w, s) = (w', s')"
  shows "files_ok R [] s' \<and> os_disk s' = os_disk s \<and> w' = w\<lparr>wk_files := []\<rparr>"
proof -
  have "fold (\<lambda>(n, f, ts). if True then closeFile f else (\<lambda>ws. ws)) (wk_files w) (w, s) = (w', s')"
    using assms(2) by (simp add: closeAllFiles_def)
  note c = fold_closeFile [OF assms(1) subset_refl files_ok_distinct [OF assms(1)] this]
  then have "wk_files w' = []"
    by auto
  with c show ?thesis
    by (metis)
qed

lemma getOrCreateFile_ok:
  assumes "files_ok R (wk_files w) s" and "getOrCreateFile now rf req w s = (r, w', s')"
  shows "files_ok R (wk_files w') s' \<and> os_disk s' = os_disk s \<and> w' = w\<lparr>wk_files := wk_files w'\<rparr>
    \<and> (\<forall>f. r = Ok f \<longrightarrow> (\<exists>ts. (filename w req, f, ts) \<in> set (wk_files w')))
    \<and> (rf_dir rf = None \<longrightarrow> rf_open rf = None \<longrightarrow> (\<exists>f. r = Ok f))"
proof (cases "map_of (wk_files w) (filename w req)")
  case (Some fts)
  then obtain f ts where "map_of (wk_files w) (filename w req) = Some (f, ts)"
    by (cases fts) simp
  then show ?thesis
    using assms by (auto simp: getOrCreateFile_def dest: map_of_SomeD)
next
  case None
  then have new: "filename w req \<notin> fst ` set (wk_files w)"
    by (simp add: map_of_eq_None_iff)
  have upd: "AList.update (filename w req) v (wk_files w) = wk_files w @ [(filename w req, v)]" for v
    using new by (simp add: update_absent)
  have "os_next s \<notin> set (os_open s)"
    using assms(1) by (auto simp: files_ok_def)
  then have "os_next s \<notin> R" "os_next s \<notin> set (nums (wk_files w))"
    using assms(1) by (auto simp: files_ok_def)
  then have add: "files_ok R (wk_files w @ [(filename w req, \<lparr>fh_name = filename w req, fh_num = os_next s\<rparr>, now)])
      (s\<lparr>os_open := os_next s # os_open s, os_next := Suc (os_next s)\<rparr>)"
    using assms(1) new unfolding files_ok_def table_ok_def by (simp add: less_Suc_eq)
  show ?thesis
    using None assms add
    by (auto simp: getOrCreateFile_def openOrCreateFile_def upd split: option.splits)
qed

section \<open>Handling a request\<close>

definition only_appends :: "string \<Rightarrow> os_state \<Rightarrow> os_state \<Rightarrow> bool" where
  "only_appends name s s' \<longleftrightarrow>
     os_open s' = os_open s \<and> os_next s' = os_next s \<and> (\<forall>n. n \<noteq> name \<longrightarrow> os_disk s' n = os_disk s n)
     \<and> (\<exists>b. os_disk s' name = os_disk s name @ b)"

lemma only_appends_trans: "only_appends name s s' \<Longrightarrow> only_appends name s' s'' \<Longrightarrow> only_appends name s s''"
  by (auto simp: only_appends_def)

lemma file_Write_appends: "only_appends (fh_name f) s (snd (file_Write fault b f s))"
  by (auto simp: only_appends_def file_Write_def split: option.splits)

lemma writeToFile_appends:
  assumes "writeToFile gz rf f req s = (r, s')"
  shows "only_appends (fh_name f) s s'"
proof -
  obtain b1 b2 b3 where gz: "gz (sq_Data req) = (b1, b2, b3)"
    by (cases "gz (sq_Data req)") auto
  define s1 where "s1 = snd (file_Write (rf_header rf) (sq_header req) f s)"
  define s2 where "s2 = snd (file_Write (rf_data rf) b1 f s1)"
  define s3 where "s3 = snd (file_Write (rf_flush rf) b2 f s2)"
  define s4 where "s4 = snd (file_Write (rf_end rf) b3 f s3)"
  have "s' \<in> {s1, s2, s3, s4}"
    using assms by (auto simp: writeToFile_def gz s1_def s2_def s3_def s4_def split: prod.splits res.splits)
  moreover have "only_appends (fh_name f) s s1" "only_appends (fh_name f) s1 s2"
    "only_appends (fh_name f) s2 s3" "only_appends (fh_name f) s3 s4"
    by (simp_all add: s1_def s2_def s3_def s4_def file_Write_appends)
  ultimately show ?thesis
    by (auto intro: only_appends_trans)
qed

definition no_faults :: req_faults where
  "no_faults =
     \<lparr>rf_dir = None, rf_open = None, rf_header = None, rf_data = None, rf_flush = None, rf_end = None, rf_newline = None\<rparr>"

definition record_of :: "packer \<Rightarrow> wh_request \<Rightarrow> bytes" where
  "record_of gz req = (case gz (sq_Data req) of (written, flushed, closed) \<Rightarrow> sq_header req @ written @ flushed @ closed)"

lemma writeToFile_record:
  assumes "fh_num f \<in> set (os_open s)"
  shows "writeToFile gz no_faults f req s =
    (Ok (), s\<lparr>os_disk := (os_disk s)(fh_name f := os_disk s (fh_name f) @ record_of gz req)\<rparr>)"
  using assms by (simp add: writeToFile_def file_Write_def no_faults_def record_of_def split: prod.splits)

lemma files_ok_appends: "files_ok R fs s \<Longrightarrow> only_appends name s s' \<Longrightarrow> files_ok R fs s'"
  by (simp add: files_ok_def only_appends_def)

lemma handleRequest_ok:
  assumes "files_ok R (wk_files w) s" and "handleRequest gz now rf req (w, s) = (b, w', s')"
  shows "files_ok R (wk_files w') s' \<and> w' = w\<lparr>wk_files := wk_files w'\<rparr> \<and> (\<forall>n. n \<noteq> filename w req \<longrightarrow> os_disk s' n = os_disk s n)"
proof -
  obtain r w1 s1 where g: "getOrCreateFile now rf req w s = (r, w1, s1)"
    by (cases "getOrCreateFile now rf req w s") auto
  note g1 = getOrCreateFile_ok [OF assms(1) g]
  then have ok1: "files_ok R (wk_files w1) s1" and d1: "os_disk s1 = os_disk s" and w1: "w1 = w\<lparr>wk_files := wk_files w1\<rparr>"
    by blast+
  show ?thesis
  proof (cases "\<exists>f. r = Ok f")
    case True
    then obtain f ts where f: "r = Ok f" "(filename w req, f, ts) \<in> set (wk_files w1)"
      using g1 by blast
    then have name: "fh_name f = filename w req"
      using ok1 by (auto simp: files_ok_def table_ok_def)
    obtain r2 s2 where wr: "writeToFile gz rf f req s1 = (r2, s2)"
      by fastforce
    note a2 = writeToFile_appends [OF wr]
    define s3 where "s3 = snd (file_Write (rf_newline rf) [10] f s2)"
    have a3: "only_appends (fh_name f) s1 s3"
      unfolding s3_def by (rule only_appends_trans [OF a2 file_Write_appends])
    consider "w' = w1" "s' = s2" | "closeFile f (w1, s3) = (w', s')"
      using assms(2) g f(1) wr by (cases r2) (auto simp: handleRequest_def s3_def)
    then show ?thesis
    proof cases
      case 1
      have "\<forall>n. n \<noteq> filename w req \<longrightarrow> os_disk s2 n = os_disk s n"
        using a2 d1 name by (simp add: only_appends_def)
      then show ?thesis
        unfolding 1 using files_ok_appends [OF ok1 a2] w1 by blast
    next
      case 2
      note c1 = closeFile_entry [OF files_ok_appends [OF ok1 a3] f(2) 2]
      have "w1\<lparr>wk_files := wk_files w'\<rparr> = w\<lparr>wk_files := wk_files w'\<rparr>"
        by (subst w1) simp
      with c1(4) have "w' = w\<lparr>wk_files := wk_files w'\<rparr>"
        by (rule trans)
      moreover have "\<forall>n. n \<noteq> filename w req \<longrightarrow> os_disk s' n = os_disk s n"
        using a3 d1 name c1(3) by (simp add: only_appends_def)
      ultimately show ?thesis
        using c1(1) by blast
    qed
  next
    case False
    then have *: "w' = w1" "s' = s1"
      using assms(2) g by (cases r; simp add: handleRequest_def)+
    show ?thesis
      unfolding * by (intro conjI ok1 w1) (simp add: d1)
  qed
qed

lemma handleRequest_record:
  assumes "files_ok R (wk_files w) s" and "handleRequest gz now no_faults req (w, s) = (b, w', s')"
  shows "b \<and> os_disk s' = (os_disk s)(filename w req := os_disk s (filename w req) @ record_of gz req)"
proof -
  obtain r w1 s1 where g: "getOrCreateFile now no_faults req w s = (r, w1, s1)"
    by (cases "getOrCreateFile now no_faults req w s") auto
  note g1 = getOrCreateFile_ok [OF assms(1) g]
  have ok1: "files_ok R (wk_files w1) s1" and d1: "os_disk s1 = os_disk s"
    using g1 by blast+
  obtain f where f1: "r = Ok f"
    using g1 by (elim conjE) (simp add: no_faults_def, blast)
  obtain ts where "(filename w req, f, ts) \<in> set (wk_files w1)"
    using g1 f1 by blast
  note f = f1 this
  have "fh_num f \<in> set (nums (wk_files w1))"
    unfolding set_map by (rule rev_image_eqI [OF f(2)]) simp
  then have "fh_name f = filename w req" "fh_num f \<in> set (os_open s1)"
    using ok1 f(2) by (auto simp: files_ok_def table_ok_def)
  then show ?thesis
    using assms(2) g f(1) d1 by (auto simp: handleRequest_def writeToFile_record)
qed

section \<open>The wait group\<close>

record wait_group =
  wg_running :: int
  wg_done :: bool

definition NewTimeoutWaitGroup :: wait_group where
  "NewTimeoutWaitGroup = \<lparr>wg_running = 0, wg_done = False\<rparr>"

text \<open>\<open>Add\<close> looks at the channel first and then adds; the two parts are not one atomic step.\<close>

definition wg_add :: "int \<Rightarrow> wait_group \<Rightarrow> wait_group" where
  "wg_add i g = g\<lparr>wg_running := wg_running g + i\<rparr>"

definition wg_Add :: "int \<Rightarrow> wait_group \<Rightarrow> wait_group" where
  "wg_Add i g = (if wg_done g then g else wg_add i g)"

definition wg_Done :: "wait_group \<Rightarrow> (go_error, unit) res \<times> wait_group" where
  "wg_Done g =
     (let g = g\<lparr>wg_running := wg_running g - 1\<rparr>
      in if wg_running g = 0 then (if wg_done g then (Panic, g) else (Ok (), g\<lparr>wg_done := True\<rparr>)) else (Ok (), g))"

text \<open>
  A worker that starts while the last other one ends: it has seen the channel open, the other one closes it,
  and when it ends itself the channel is closed a second time.
\<close>

lemma late_Add_panics:
  "\<not> wg_done g \<Longrightarrow> wg_running g = 1 \<Longrightarrow> fst (wg_Done (wg_add 1 (snd (wg_Done g)))) = Panic"
  by (simp add: wg_Done_def wg_add_def Let_def)

end
