(* ===== verification/WarehouseRun.thy ===== *)
theory WarehouseRun
  imports Warehouse
begin

text \<open>
  The queue of the warehouse, \<open>src/datastore/warehouse/warehouse.go\<close>: requests are put into a buffered channel
  (of size at least one), workers take and handle them one at a time, and \<open>Close\<close> lets them empty the queue before
  they end.  The steps of the workers interleave in any order; errors of the disk are arguments of the steps.
\<close>

section \<open>The queue and its workers\<close>

datatype phase = NotStarted | Running | Draining | Stopped

record runner =
  rn_worker :: worker
  rn_phase :: phase
  rn_busy :: "wh_request option"

text \<open>
  \<open>rn_busy\<close> is the request a worker has received and not yet handled.  \<open>wh_accepted\<close> and \<open>wh_handled\<close> keep what
  was put into the queue and what was handled, with the worker and its success.
\<close>

record warehouse =
  wh_requests :: "wh_request list"
  wh_bufSize :: nat
  wh_cleanShutdown :: bool
  wh_runningWorkers :: wait_group
  wh_runners :: "runner list"
  wh_os :: os_state
  wh_accepted :: "wh_request list"
  wh_handled :: "(nat \<times> bool \<times> wh_request) list"

definition NewWarehouse :: "nat \<Rightarrow> os_state \<Rightarrow> warehouse" where
  "NewWarehouse bufSize os =
     \<lparr>wh_requests = [], wh_bufSize = bufSize, wh_cleanShutdown = False, wh_runningWorkers = NewTimeoutWaitGroup, wh_runners = [],
      wh_os = os, wh_accepted = [], wh_handled = []\<rparr>"

definition RunParallel :: "string \<Rightarrow> nat \<Rightarrow> warehouse \<Rightarrow> warehouse" where
  "RunParallel datadir numWorkers s =
     s\<lparr>wh_runners := wh_runners s
        @ map (\<lambda>i. \<lparr>rn_worker = newWorker i datadir, rn_phase = NotStarted, rn_busy = None\<rparr>) [0 ..< numWorkers]\<rparr>"

text \<open>\<open>StoreAsync\<close> waits while the queue is full; \<open>Close\<close> closes the channel that starts the shutdown.\<close>

definition StoreAsync :: "wh_request \<Rightarrow> warehouse \<Rightarrow> warehouse option" where
  "StoreAsync req s =
     (if length (wh_requests s) < wh_bufSize s
      then Some (s\<lparr>wh_requests := wh_requests s @ [with_header req], wh_accepted := wh_accepted s @ [with_header req]\<rparr>)
      else None)"

definition wh_Close :: "warehouse \<Rightarrow> (go_error, warehouse) res" where
  "wh_Close s = (if wh_cleanShutdown s then Panic else Ok (s\<lparr>wh_cleanShutdown := True\<rparr>))"

text \<open>\<open>Run\<close>: the start of a worker and its end, which closes its files.\<close>

definition set_runner :: "nat \<Rightarrow> runner \<Rightarrow> os_state \<Rightarrow> warehouse \<Rightarrow> warehouse" where
  "set_runner i r os s = s\<lparr>wh_runners := (wh_runners s)[i := r], wh_os := os\<rparr>"

definition run_start :: "nat \<Rightarrow> warehouse \<Rightarrow> warehouse" where
  "run_start i s =
     set_runner i ((wh_runners s ! i)\<lparr>rn_phase := Running\<rparr>) (wh_os s)
       (s\<lparr>wh_runningWorkers := wg_Add 1 (wh_runningWorkers s)\<rparr>)"

definition run_stop :: "nat \<Rightarrow> warehouse \<Rightarrow> (go_error, warehouse) res" where
  "run_stop i s =
     (let r = wh_runners s ! i in
      case closeAllFiles (rn_worker r, wh_os s) of (w, os) \<Rightarrow>
      case wg_Done (wh_runningWorkers s) of
        (Ok _, g) \<Rightarrow> Ok (set_runner i (r\<lparr>rn_worker := w, rn_phase := Stopped\<rparr>) os (s\<lparr>wh_runningWorkers := g\<rparr>))
      | (Err e, g) \<Rightarrow> Err e
      | (Panic, g) \<Rightarrow> Panic)"

definition run_take :: "nat \<Rightarrow> warehouse \<Rightarrow> warehouse" where
  "run_take i s =
     set_runner i ((wh_runners s ! i)\<lparr>rn_busy := Some (hd (wh_requests s))\<rparr>) (wh_os s) (s\<lparr>wh_requests := tl (wh_requests s)\<rparr>)"

definition run_handle :: "packer \<Rightarrow> int \<Rightarrow> req_faults \<Rightarrow> nat \<Rightarrow> wh_request \<Rightarrow> warehouse \<Rightarrow> warehouse" where
  "run_handle gz now rf i req s =
     (let r = wh_runners s ! i in
      case handleRequest gz now rf req (rn_worker r, wh_os s) of (b, w, os) \<Rightarrow>
        set_runner i (r\<lparr>rn_worker := w, rn_busy := None\<rparr>) os (s\<lparr>wh_handled := wh_handled s @ [(i, b, req)]\<rparr>))"

definition run_tick :: "int \<Rightarrow> nat \<Rightarrow> warehouse \<Rightarrow> warehouse" where
  "run_tick now i s =
     (let r = wh_runners s ! i in
      case closeIdleFiles now (rn_worker r, wh_os s) of (w, os) \<Rightarrow> set_runner i (r\<lparr>rn_worker := w\<rparr>) os s)"

text \<open>
  The steps: storing, closing, and for each worker its start, receiving a request, handling it, the ticker,
  the end of the context, the shutdown signal and the end on an empty queue.
\<close>

datatype wh_op =
  Store wh_request
| CloseWarehouse
| Start nat
| Take nat
| Handle nat int req_faults
| Tick nat int
| CtxDone nat
| Drain nat
| Finish nat

fun wh_worker_op :: "wh_op \<Rightarrow> nat option" where
  "wh_worker_op (Store _) = None"
| "wh_worker_op CloseWarehouse = None"
| "wh_worker_op (Start i) = Some i"
| "wh_worker_op (Take i) = Some i"
| "wh_worker_op (Handle i _ _) = Some i"
| "wh_worker_op (Tick i _) = Some i"
| "wh_worker_op (CtxDone i) = Some i"
| "wh_worker_op (Drain i) = Some i"
| "wh_worker_op (Finish i) = Some i"

definition in_loop :: "phase \<Rightarrow> bool" where
  "in_loop p \<longleftrightarrow> p = Running \<or> p = Draining"

fun wh_enabled :: "wh_op \<Rightarrow> runner \<Rightarrow> warehouse \<Rightarrow> bool" where
  "wh_enabled (Start i) r s \<longleftrightarrow> rn_phase r = NotStarted"
| "wh_enabled (Take i) r s \<longleftrightarrow> in_loop (rn_phase r) \<and> rn_busy r = None \<and> wh_requests s \<noteq> []"
| "wh_enabled (Handle i now rf) r s \<longleftrightarrow> rn_busy r \<noteq> None"
| "wh_enabled (Tick i now) r s \<longleftrightarrow> rn_phase r = Running \<and> rn_busy r = None"
| "wh_enabled (CtxDone i) r s \<longleftrightarrow> rn_phase r = Running \<and> rn_busy r = None"
| "wh_enabled (Drain i) r s \<longleftrightarrow> rn_phase r = Running \<and> rn_busy r = None \<and> wh_cleanShutdown s"
| "wh_enabled (Finish i) r s \<longleftrightarrow> rn_phase r = Draining \<and> rn_busy r = None \<and> wh_requests s = []"
| "wh_enabled _ r s \<longleftrightarrow> True"

fun wh_act :: "packer \<Rightarrow> wh_op \<Rightarrow> warehouse \<Rightarrow> (go_error, warehouse) res option" where
  "wh_act gz (Store req) s = map_option Ok (StoreAsync req s)"
| "wh_act gz CloseWarehouse s = Some (wh_Close s)"
| "wh_act gz (Start i) s = Some (Ok (run_start i s))"
| "wh_act gz (Take i) s = Some (Ok (run_take i s))"
| "wh_act gz (Handle i now rf) s = Some (Ok (run_handle gz now rf i (the (rn_busy (wh_runners s ! i))) s))"
| "wh_act gz (Tick i now) s = Some (Ok (run_tick now i s))"
| "wh_act gz (CtxDone i) s = Some (run_stop i s)"
| "wh_act gz (Drain i) s = Some (Ok (set_runner i ((wh_runners s ! i)\<lparr>rn_phase := Draining\<rparr>) (wh_os s) s))"
| "wh_act gz (Finish i) s = Some (run_stop i s)"

definition wh_step :: "packer \<Rightarrow> wh_op \<Rightarrow> warehouse \<Rightarrow> (go_error, warehouse) res option" where
  "wh_step gz op s =
     (case wh_worker_op op of
        None \<Rightarrow> wh_act gz op s
      | Some i \<Rightarrow> if i < length (wh_runners s) \<and> wh_enabled op (wh_runners s ! i) s then wh_act gz op s else None)"

fun wh_run :: "packer \<Rightarrow> wh_op list \<Rightarrow> warehouse \<Rightarrow> (go_error, warehouse) res option" where
  "wh_run gz [] s = Some (Ok s)"
| "wh_run gz (op # ops) s = (case wh_step gz op s of Some (Ok s) \<Rightarrow> wh_run gz ops s | r \<Rightarrow> r)"

section \<open>Open files\<close>

definition held :: "runner \<Rightarrow> nat set" where
  "held r = set (nums (wk_files (rn_worker r)))"

definition others :: "runner list \<Rightarrow> nat \<Rightarrow> nat set" where
  "others rs i = (\<Union>j \<in> {j. j < length rs \<and> j \<noteq> i}. held (rs ! j))"

text \<open>Every open file is in the table of one worker; a worker that does not run has no file and no request.\<close>

definition runners_ok :: "runner list \<Rightarrow> os_state \<Rightarrow> bool" where
  "runners_ok rs os \<longleftrightarrow>
     (\<forall>i < length rs. files_ok (others rs i) (wk_files (rn_worker (rs ! i))) os)
     \<and> set (os_open os) = (\<Union>i < length rs. held (rs ! i))
     \<and> (\<forall>r \<in> set rs. \<not> in_loop (rn_phase r) \<longrightarrow> wk_files (rn_worker r) = [] \<and> rn_busy r = None)"

lemma others_update_same: "others (rs[i := r]) i = others rs i"
  unfolding others_def by (rule SUP_cong) auto

lemma others_update:
  assumes "i < length rs" and "j \<noteq> i"
  shows "others (rs[i := r]) j = (\<Union>k \<in> {k. k < length rs \<and> k \<noteq> i \<and> k \<noteq> j}. held (rs ! k)) \<union> held r"
proof -
  have "{k. k < length rs \<and> k \<noteq> j} = insert i {k. k < length rs \<and> k \<noteq> i \<and> k \<noteq> j}"
    using assms by auto
  then show ?thesis
    using assms by (auto simp: others_def)
qed

lemma runners_ok_update:
  assumes ok: "runners_ok rs os" and i: "i < length rs"
    and new: "files_ok (others rs i) (wk_files (rn_worker r)) os'"
    and idle: "\<not> in_loop (rn_phase r) \<Longrightarrow> wk_files (rn_worker r) = [] \<and> rn_busy r = None"
  shows "runners_ok (rs[i := r]) os'"
proof -
  let ?rs = "rs[i := r]"
  have open': "set (os_open os') = others rs i \<union> held r" "others rs i \<inter> held r = {}"
    "\<forall>k \<in> set (os_open os'). k < os_next os'"
    using new by (simp_all add: files_ok_def held_def)
  have "files_ok (others ?rs j) (wk_files (rn_worker (?rs ! j))) os'" if j: "j < length rs" for j
  proof (cases "j = i")
    case True
    then show ?thesis
      using new i by (simp add: others_update_same)
  next
    case False
    have old: "table_ok (wk_files (rn_worker (rs ! j)))" "others rs j \<inter> held (rs ! j) = {}"
      using ok j by (simp_all add: runners_ok_def files_ok_def held_def)
    define X where "X = (\<Union>k \<in> {k. k < length rs \<and> k \<noteq> i \<and> k \<noteq> j}. held (rs ! k))"
    have "X \<subseteq> others rs j"
      by (auto simp: others_def X_def)
    then have X: "X \<inter> held (rs ! j) = {}"
      using old(2) by blast
    have "{k. k < length rs \<and> k \<noteq> i} = insert j {k. k < length rs \<and> k \<noteq> i \<and> k \<noteq> j}"
      using j False by auto
    then have "others rs i = X \<union> held (rs ! j)"
      by (auto simp: others_def X_def)
    with open'(1,2) have "set (os_open os') = (X \<union> held r) \<union> held (rs ! j)" "(X \<union> held r) \<inter> held (rs ! j) = {}"
      using X by blast+
    moreover have "others ?rs j = X \<union> held r"
      using others_update [OF i False] by (simp add: X_def)
    ultimately show ?thesis
      using old(1) open'(3) False unfolding files_ok_def held_def [symmetric] by simp
  qed
  moreover have "set (os_open os') = (\<Union>k < length ?rs. held (?rs ! k))"
  proof -
    have "{..< length rs} = insert i {k. k < length rs \<and> k \<noteq> i}"
      using i by auto
    then show ?thesis
      using open'(1) i by (auto simp: others_def)
  qed
  moreover have "\<forall>q \<in> set ?rs. \<not> in_loop (rn_phase q) \<longrightarrow> wk_files (rn_worker q) = [] \<and> rn_busy q = None"
    using ok idle set_update_subset_insert [of rs i r] unfolding runners_ok_def by blast
  ultimately show ?thesis
    by (simp add: runners_ok_def)
qed

section \<open>Requests\<close>

definition pending :: "runner list \<Rightarrow> wh_request multiset" where
  "pending rs = (\<Sum>r \<in># mset rs. case rn_busy r of None \<Rightarrow> {#} | Some q \<Rightarrow> {#q#})"

definition live :: "runner list \<Rightarrow> nat" where
  "live rs = length (filter (\<lambda>r. in_loop (rn_phase r)) rs)"

lemma live_mset: "live rs = size (filter_mset (\<lambda>r. in_loop (rn_phase r)) (mset rs))"
  by (simp add: live_def flip: mset_filter)

lemma mset_runner:
  assumes "i < length rs"
  obtains M where "mset rs = add_mset (rs ! i) M" and "\<And>r. mset (rs[i := r]) = add_mset r M"
proof
  show "mset rs = add_mset (rs ! i) (mset rs - {#rs ! i#})"
    using assms by simp
  show "mset (rs[i := r]) = add_mset r (mset rs - {#rs ! i#})" for r
    using assms by (simp add: mset_update)
qed

text \<open>
  Accepted requests are handled, in the queue, or with a worker.  Until the wait group is done it counts the
  workers in their loops; when it is done, without a stop by the context, nothing is left.
\<close>

definition queue_ok :: "warehouse \<Rightarrow> bool" where
  "queue_ok s \<longleftrightarrow>
     mset (wh_accepted s) = mset (map (\<lambda>h. snd (snd h)) (wh_handled s)) + mset (wh_requests s) + pending (wh_runners s)
     \<and> (\<not> wg_done (wh_runningWorkers s) \<longrightarrow> wg_running (wh_runningWorkers s) = int (live (wh_runners s))
          \<and> (Stopped \<in> rn_phase ` set (wh_runners s) \<longrightarrow> live (wh_runners s) > 0))
     \<and> (wg_done (wh_runningWorkers s) \<longrightarrow> wg_running (wh_runningWorkers s) \<le> 0 \<and> wh_cleanShutdown s
          \<and> wh_requests s = [] \<and> pending (wh_runners s) = {#})
     \<and> (\<forall>r \<in> set (wh_runners s). rn_phase r = Draining \<longrightarrow> wh_cleanShutdown s)"

definition warehouse_ok :: "warehouse \<Rightarrow> bool" where
  "warehouse_ok s \<longleftrightarrow> runners_ok (wh_runners s) (wh_os s) \<and> queue_ok s"

text \<open>A run in which no context ends and nothing is stored after the warehouse was closed.\<close>

fun orderly :: "wh_op \<Rightarrow> warehouse \<Rightarrow> bool" where
  "orderly (CtxDone i) s \<longleftrightarrow> False"
| "orderly (Store req) s \<longleftrightarrow> \<not> wh_cleanShutdown s"
| "orderly op s \<longleftrightarrow> True"

lemma idle_no_pending:
  assumes "runners_ok rs os" and "live rs = 0"
  shows "pending rs = {#}"
proof -
  have "\<not> in_loop (rn_phase r)" if "r \<in> set rs" for r
    using assms(2) that by (auto simp: live_def filter_empty_conv)
  then have "rn_busy r = None" if "r \<in> set rs" for r
    using assms(1) that by (auto simp: runners_ok_def)
  then show ?thesis
    unfolding pending_def by (intro sum_mset.neutral) auto
qed

lemma in_loop_simps [simp]: "in_loop Running" "in_loop Draining" "\<not> in_loop NotStarted" "\<not> in_loop Stopped"
  by (simp_all add: in_loop_def)

lemma runner_update_queue:
  assumes "i < length rs"
  shows "pending (rs[i := r]) + (case rn_busy (rs ! i) of None \<Rightarrow> {#} | Some q \<Rightarrow> {#q#})
      = pending rs + (case rn_busy r of None \<Rightarrow> {#} | Some q \<Rightarrow> {#q#})"
    and "live (rs[i := r]) + (if in_loop (rn_phase (rs ! i)) then 1 else 0) = live rs + (if in_loop (rn_phase r) then 1 else 0)"
proof -
  obtain M where "mset rs = add_mset (rs ! i) M" "\<And>r. mset (rs[i := r]) = add_mset r M"
    using mset_runner [OF assms] by blast
  then show "pending (rs[i := r]) + (case rn_busy (rs ! i) of None \<Rightarrow> {#} | Some q \<Rightarrow> {#q#})
      = pending rs + (case rn_busy r of None \<Rightarrow> {#} | Some q \<Rightarrow> {#q#})"
    and "live (rs[i := r]) + (if in_loop (rn_phase (rs ! i)) then 1 else 0) = live rs + (if in_loop (rn_phase r) then 1 else 0)"
    by (simp_all add: pending_def live_mset)
qed

section \<open>Steps\<close>

lemma wh_stepE:
  assumes "wh_step gz op s = Some (Ok t)"
  obtains (store) req where "op = Store req" "length (wh_requests s) < wh_bufSize s"
      "t = s\<lparr>wh_requests := wh_requests s @ [with_header req], wh_accepted := wh_accepted s @ [with_header req]\<rparr>"
  | (close) "op = CloseWarehouse" "\<not> wh_cleanShutdown s" "t = s\<lparr>wh_cleanShutdown := True\<rparr>"
  | (runner) i where "wh_worker_op op = Some i" "i < length (wh_runners s)" "wh_enabled op (wh_runners s ! i) s" "wh_act gz op s = Some (Ok t)"
  using assms
  by (cases op) (auto simp: wh_step_def StoreAsync_def wh_Close_def split: if_splits)

lemma run_stop_Ok:
  assumes "run_stop i s = Ok t"
  obtains w os where "closeAllFiles (rn_worker (wh_runners s ! i), wh_os s) = (w, os)"
    and "fst (wg_Done (wh_runningWorkers s)) = Ok ()"
    and "t = set_runner i ((wh_runners s ! i)\<lparr>rn_worker := w, rn_phase := Stopped\<rparr>) os
           (s\<lparr>wh_runningWorkers := snd (wg_Done (wh_runningWorkers s))\<rparr>)"
  using assms by (auto simp: run_stop_def Let_def split: prod.splits res.splits)

lemma runners_ok_step:
  assumes ok: "runners_ok (wh_runners s) (wh_os s)" and step: "wh_step gz op s = Some (Ok t)"
  shows "runners_ok (wh_runners t) (wh_os t)"
  using step
proof (cases rule: wh_stepE)
  case (runner i)
  let ?r = "wh_runners s ! i"
  have files: "files_ok (others (wh_runners s) i) (wk_files (rn_worker ?r)) (wh_os s)"
    using ok runner(2) by (simp add: runners_ok_def)
  have busy: "in_loop (rn_phase ?r)" if "rn_busy ?r \<noteq> None"
    using ok runner(2) that by (auto simp: runners_ok_def)
  note upd = runners_ok_update [OF ok runner(2)]
  show ?thesis
  proof (cases op)
    case (Handle j now rf)
    then have [simp]: "j = i" and "rn_busy ?r \<noteq> None"
      using runner(1,3) by simp_all
    obtain b w os where h: "handleRequest gz now rf (the (rn_busy ?r)) (rn_worker ?r, wh_os s) = (b, w, os)"
      by (cases "handleRequest gz now rf (the (rn_busy ?r)) (rn_worker ?r, wh_os s)") auto
    then have "t = set_runner i (?r\<lparr>rn_worker := w, rn_busy := None\<rparr>) os (s\<lparr>wh_handled := wh_handled s @ [(i, b, the (rn_busy ?r))]\<rparr>)"
      using runner(4) Handle by (simp add: run_handle_def Let_def)
    then show ?thesis
      using upd [of "?r\<lparr>rn_worker := w, rn_busy := None\<rparr>" os] handleRequest_ok [OF files h] busy \<open>rn_busy ?r \<noteq> None\<close>
      by (simp add: set_runner_def)
  next
    case (Tick j now)
    then have [simp]: "j = i" and "rn_phase ?r = Running"
      using runner(1,3) by simp_all
    obtain w os where h: "closeIdleFiles now (rn_worker ?r, wh_os s) = (w, os)"
      by fastforce
    then have "t = set_runner i (?r\<lparr>rn_worker := w\<rparr>) os s"
      using runner(4) Tick by (simp add: run_tick_def Let_def)
    then show ?thesis
      using upd [of "?r\<lparr>rn_worker := w\<rparr>" os] closeIdleFiles_ok [OF files h] \<open>rn_phase ?r = Running\<close> by (simp add: set_runner_def)
  next
    case (CtxDone j)
    then have "rn_busy ?r = None" "run_stop i s = Ok t"
      using runner by simp_all
    from this(2) show ?thesis
      by (rule run_stop_Ok) (use upd closeAllFiles_ok [OF files] \<open>rn_busy ?r = None\<close> in \<open>auto simp: set_runner_def\<close>)
  next
    case (Finish j)
    then have "rn_busy ?r = None" "run_stop i s = Ok t"
      using runner by simp_all
    from this(2) show ?thesis
      by (rule run_stop_Ok) (use upd closeAllFiles_ok [OF files] \<open>rn_busy ?r = None\<close> in \<open>auto simp: set_runner_def\<close>)
  qed (use runner files in \<open>auto simp: run_start_def run_take_def set_runner_def intro!: upd\<close>)
qed (use ok in simp_all)

lemma live_pos: "i < length rs \<Longrightarrow> in_loop (rn_phase r) \<Longrightarrow> live (rs[i := r]) > 0"
  by (auto simp: live_def filter_empty_conv intro!: set_update_memI)

text \<open>A worker that stays in its loop, with its request and the queue as they are, or one of them changed.\<close>

lemma queue_ok_loop:
  assumes q: "queue_ok s" and i: "i < length (wh_runners s)" and r: "in_loop (rn_phase r)" "in_loop (rn_phase (wh_runners s ! i))"
    and d: "rn_phase r = Draining \<Longrightarrow> wh_cleanShutdown s"
    and t: "wh_runners t = (wh_runners s)[i := r]" "wh_runningWorkers t = wh_runningWorkers s" "wh_cleanShutdown t = wh_cleanShutdown s"
      "wh_accepted t = wh_accepted s"
    and m: "mset (map (\<lambda>h. snd (snd h)) (wh_handled t)) + mset (wh_requests t) + pending (wh_runners t)
      = mset (map (\<lambda>h. snd (snd h)) (wh_handled s)) + mset (wh_requests s) + pending (wh_runners s)"
    and e: "wg_done (wh_runningWorkers s) \<Longrightarrow> wh_requests t = [] \<and> pending (wh_runners t) = {#}"
  shows "queue_ok t"
proof -
  have "live ((wh_runners s)[i := r]) = live (wh_runners s)"
    using runner_update_queue(2) [OF i, of r] r by simp
  moreover have "\<forall>q \<in> set ((wh_runners s)[i := r]). rn_phase q = Draining \<longrightarrow> wh_cleanShutdown s"
    using q d set_update_subset_insert [of "wh_runners s" i r] unfolding queue_ok_def by blast
  ultimately show ?thesis
    using q live_pos [OF i r(1)] e m unfolding queue_ok_def t by simp
qed

lemma queue_ok_finish:
  assumes ok: "runners_ok (wh_runners t) os" and q: "queue_ok s" and i: "i < length (wh_runners s)"
    and s: "rn_phase (wh_runners s ! i) = Draining" "rn_busy (wh_runners s ! i) = None" "wh_requests s = []"
    and r: "rn_phase r = Stopped" "rn_busy r = None"
    and t: "wh_runners t = (wh_runners s)[i := r]" "wh_runningWorkers t = snd (wg_Done (wh_runningWorkers s))"
      "wh_cleanShutdown t = wh_cleanShutdown s" "wh_accepted t = wh_accepted s" "wh_handled t = wh_handled s" "wh_requests t = wh_requests s"
  shows "queue_ok t"
proof -
  have l: "Suc (live (wh_runners t)) = live (wh_runners s)" and p: "pending (wh_runners t) = pending (wh_runners s)"
    using runner_update_queue [OF i, of r] s(1,2) r t(1) by simp_all
  have shut: "wh_cleanShutdown s"
    using q s(1) i by (auto simp: queue_ok_def)
  have d: "\<forall>x \<in> set (wh_runners t). rn_phase x = Draining \<longrightarrow> wh_cleanShutdown t"
    using shut t(3) by simp
  show ?thesis
  proof (cases "wg_done (wh_runningWorkers s)")
    case True
    then have "wh_runningWorkers t = (wh_runningWorkers s)\<lparr>wg_running := wg_running (wh_runningWorkers s) - 1\<rparr>"
      using q by (simp add: t(2) wg_Done_def queue_ok_def)
    then show ?thesis
      using True q p d by (simp add: queue_ok_def t)
  next
    case False
    then have run: "wg_running (wh_runningWorkers s) = int (live (wh_runners s))"
      using q by (simp add: queue_ok_def)
    show ?thesis
    proof (cases "live (wh_runners t) = 0")
      case True
      then have "wh_runningWorkers t = \<lparr>wg_running = 0, wg_done = True\<rparr>"
        using run l by (simp add: t(2) wg_Done_def Let_def)
      then show ?thesis
        using q p d shut s(3) idle_no_pending [OF ok True] by (simp add: queue_ok_def t(3-6))
    next
      case live: False
      then have "wh_runningWorkers t = (wh_runningWorkers s)\<lparr>wg_running := int (live (wh_runners t))\<rparr>"
        using run l by (simp add: t(2) wg_Done_def Let_def)
      then show ?thesis
        using q p d live False by (simp add: queue_ok_def t(3-6))
    qed
  qed
qed

lemma queue_ok_start:
  assumes ok: "runners_ok (wh_runners s) (wh_os s)" and q: "queue_ok s" and i: "i < length (wh_runners s)"
    and p: "rn_phase (wh_runners s ! i) = NotStarted"
  shows "queue_ok (run_start i s)"
proof -
  let ?r = "(wh_runners s ! i)\<lparr>rn_phase := Running\<rparr>"
  have "rn_busy (wh_runners s ! i) = None"
    using ok i p by (auto simp: runners_ok_def)
  then have "pending ((wh_runners s)[i := ?r]) = pending (wh_runners s)" "live ((wh_runners s)[i := ?r]) = Suc (live (wh_runners s))"
    using runner_update_queue [OF i, of ?r] p by simp_all
  moreover have "set ((wh_runners s)[i := ?r]) \<subseteq> insert ?r (set (wh_runners s))"
    by (rule set_update_subset_insert)
  ultimately show ?thesis
    using q by (auto simp: queue_ok_def run_start_def set_runner_def wg_Add_def wg_add_def)
qed

lemma queue_ok_take:
  assumes q: "queue_ok s" and i: "i < length (wh_runners s)"
    and p: "in_loop (rn_phase (wh_runners s ! i))" "rn_busy (wh_runners s ! i) = None" "wh_requests s \<noteq> []"
  shows "queue_ok (run_take i s)"
proof -
  let ?r = "(wh_runners s ! i)\<lparr>rn_busy := Some (hd (wh_requests s))\<rparr>"
  have "pending ((wh_runners s)[i := ?r]) = add_mset (hd (wh_requests s)) (pending (wh_runners s))"
    using runner_update_queue(1) [OF i, of ?r] p(2) by simp
  then show ?thesis
    using p q i unfolding run_take_def set_runner_def
    by (intro queue_ok_loop [OF q i, of ?r]) (cases "wh_requests s"; auto simp: queue_ok_def)+
qed

lemma queue_ok_handle:
  assumes ok: "runners_ok (wh_runners s) (wh_os s)" and q: "queue_ok s" and i: "i < length (wh_runners s)"
    and p: "rn_busy (wh_runners s ! i) = Some req"
  shows "queue_ok (run_handle gz now rf i req s)"
proof -
  obtain b w os where h: "handleRequest gz now rf req (rn_worker (wh_runners s ! i), wh_os s) = (b, w, os)"
    by (cases "handleRequest gz now rf req (rn_worker (wh_runners s ! i), wh_os s)") auto
  let ?r = "(wh_runners s ! i)\<lparr>rn_worker := w, rn_busy := None\<rparr>"
  have loop: "in_loop (rn_phase (wh_runners s ! i))"
    using ok i p by (auto simp: runners_ok_def)
  have "add_mset req (pending ((wh_runners s)[i := ?r])) = pending (wh_runners s)"
    using runner_update_queue(1) [OF i, of ?r] p by simp
  then show ?thesis
    using q loop i unfolding run_handle_def set_runner_def Let_def h prod.case
    by (intro queue_ok_loop [OF q i, of ?r]) (auto simp: queue_ok_def)
qed

lemma queue_ok_same:
  assumes q: "queue_ok s" and i: "i < length (wh_runners s)" and p: "in_loop (rn_phase (wh_runners s ! i))" "in_loop (rn_phase r)"
    and r: "rn_busy r = rn_busy (wh_runners s ! i)" "rn_phase r = Draining \<Longrightarrow> wh_cleanShutdown s"
  shows "queue_ok (set_runner i r os s)"
proof -
  have "pending ((wh_runners s)[i := r]) = pending (wh_runners s)"
    using runner_update_queue(1) [OF i, of r] r(1) by simp
  then show ?thesis
    using q p r(2) i unfolding set_runner_def by (intro queue_ok_loop [OF q i, of r]) (auto simp: queue_ok_def)
qed

lemma queue_ok_step:
  assumes ok: "runners_ok (wh_runners s) (wh_os s)" and q: "queue_ok s" and step: "wh_step gz op s = Some (Ok t)" and o: "orderly op s"
  shows "queue_ok t"
  using step
proof (cases rule: wh_stepE)
  case (store req)
  then show ?thesis
    using q o by (auto simp: queue_ok_def)
next
  case close
  then show ?thesis
    using q by (simp add: queue_ok_def)
next
  case (runner i)
  show ?thesis
  proof (cases op)
    case (Tick j now)
    obtain w os where "closeIdleFiles now (rn_worker (wh_runners s ! i), wh_os s) = (w, os)"
      by fastforce
    then have "t = set_runner i ((wh_runners s ! i)\<lparr>rn_worker := w\<rparr>) os s"
      using runner(1,4) Tick by (simp add: run_tick_def Let_def)
    moreover have "rn_phase (wh_runners s ! i) = Running"
      using runner(1,3) Tick by simp
    ultimately show ?thesis
      by (auto intro!: queue_ok_same [OF q runner(2)])
  next
    case (Finish j)
    then have "run_stop i s = Ok t" and p: "rn_phase (wh_runners s ! i) = Draining" "rn_busy (wh_runners s ! i) = None" "wh_requests s = []"
      using runner(1,3,4) by simp_all
    from this(1) obtain w os where
      t: "t = set_runner i ((wh_runners s ! i)\<lparr>rn_worker := w, rn_phase := Stopped\<rparr>) os
           (s\<lparr>wh_runningWorkers := snd (wg_Done (wh_runningWorkers s))\<rparr>)"
      by (rule run_stop_Ok)
    show ?thesis
      by (rule queue_ok_finish [OF runners_ok_step [OF ok step] q runner(2) p, of "(wh_runners s ! i)\<lparr>rn_worker := w, rn_phase := Stopped\<rparr>"])
        (simp_all add: t set_runner_def p)
  next
    case (Drain j)
    then show ?thesis
      using runner by (auto intro!: queue_ok_same [OF q])
  qed (use runner o ok q queue_ok_start queue_ok_take queue_ok_handle in auto)
qed

section \<open>What is on disk\<close>

abbreviation "name_of s i \<equiv> filename (rn_worker (wh_runners s ! i))"

definition written_to :: "warehouse \<Rightarrow> string \<Rightarrow> wh_request list" where
  "written_to s n = map (\<lambda>h. snd (snd h)) (filter (\<lambda>h. name_of s (fst h) (snd (snd h)) = n) (wh_handled s))"

definition disk_ok :: "packer \<Rightarrow> (string \<Rightarrow> bytes) \<Rightarrow> warehouse \<Rightarrow> bool" where
  "disk_ok gz d s \<longleftrightarrow> (\<forall>n. os_disk (wh_os s) n = d n @ concat (map (record_of gz) (written_to s n)))"

fun faultless :: "wh_op \<Rightarrow> bool" where
  "faultless (Handle i now rf) \<longleftrightarrow> rf = no_faults"
| "faultless op \<longleftrightarrow> True"

lemma filename_files [simp]: "filename (w\<lparr>wk_files := fs\<rparr>) = filename w"
  by (intro ext) (simp add: filename_def)

lemma name_of_update:
  "filename (rn_worker r) = filename (rn_worker (rs ! i)) \<Longrightarrow> filename (rn_worker (rs[i := r] ! j)) = filename (rn_worker (rs ! j))"
  by (cases "i < length rs") (auto simp: nth_list_update list_update_beyond)

lemma disk_ok_same:
  assumes "disk_ok gz d s" and "os_disk (wh_os t) = os_disk (wh_os s)" and "wh_handled t = wh_handled s" and "\<And>j. name_of t j = name_of s j"
  shows "disk_ok gz d t"
  using assms by (simp add: disk_ok_def written_to_def)

lemma disk_ok_handle:
  assumes ok: "runners_ok (wh_runners s) (wh_os s)" and d: "disk_ok gz d s" and i: "i < length (wh_runners s)"
  shows "disk_ok gz d (run_handle gz now no_faults i req s)"
proof -
  let ?w = "rn_worker (wh_runners s ! i)"
  obtain b w os where h: "handleRequest gz now no_faults req (?w, wh_os s) = (b, w, os)"
    by (cases "handleRequest gz now no_faults req (?w, wh_os s)") auto
  have files: "files_ok (others (wh_runners s) i) (wk_files ?w) (wh_os s)"
    using ok i by (simp add: runners_ok_def)
  have w: "filename w = filename ?w"
    using handleRequest_ok [OF files h] by (metis filename_files)
  define t where "t = run_handle gz now no_faults i req s"
  have t: "wh_os t = os" "wh_handled t = wh_handled s @ [(i, b, req)]" "wh_runners t = (wh_runners s)[i := (wh_runners s ! i)\<lparr>rn_worker := w, rn_busy := None\<rparr>]"
    by (simp_all add: t_def run_handle_def h set_runner_def Let_def)
  have "name_of t j = name_of s j" for j
    unfolding t(3) by (rule name_of_update) (simp add: w)
  then have "written_to t n = written_to s n @ (if filename ?w req = n then [req] else [])" for n
    by (simp add: written_to_def t(2))
  then show ?thesis
    using d handleRequest_record [OF files h] by (simp add: disk_ok_def t(1) flip: t_def)
qed

lemma disk_ok_step:
  assumes ok: "runners_ok (wh_runners s) (wh_os s)" and d: "disk_ok gz d s" and step: "wh_step gz op s = Some (Ok t)" and f: "faultless op"
  shows "disk_ok gz d t"
  using step
proof (cases rule: wh_stepE)
  case (runner i)
  let ?w = "rn_worker (wh_runners s ! i)"
  have files: "files_ok (others (wh_runners s) i) (wk_files ?w) (wh_os s)"
    using ok runner(2) by (simp add: runners_ok_def)
  have stop: "disk_ok gz d t" if "run_stop i s = Ok t"
    using that
  proof (rule run_stop_Ok)
    fix w os assume c: "closeAllFiles (?w, wh_os s) = (w, os)"
      and t: "t = set_runner i ((wh_runners s ! i)\<lparr>rn_worker := w, rn_phase := Stopped\<rparr>) os
        (s\<lparr>wh_runningWorkers := snd (wg_Done (wh_runningWorkers s))\<rparr>)"
    note c1 = closeAllFiles_ok [OF files c]
    then have "filename w = filename ?w"
      by (metis filename_files)
    then have "name_of t j = name_of s j" for j
      by (simp add: t set_runner_def name_of_update)
    then show ?thesis
      using c1 by (intro disk_ok_same [OF d]) (simp_all add: t set_runner_def)
  qed
  show ?thesis
  proof (cases op)
    case (Handle j now rf)
    then show ?thesis
      using runner f disk_ok_handle [OF ok d runner(2)] by auto
  next
    case (Tick j now)
    obtain w os where c: "closeIdleFiles now (?w, wh_os s) = (w, os)"
      by fastforce
    then have t: "t = set_runner i ((wh_runners s ! i)\<lparr>rn_worker := w\<rparr>) os s"
      using runner(1,4) Tick by (simp add: run_tick_def Let_def)
    note c1 = closeIdleFiles_ok [OF files c]
    then have "filename w = filename ?w"
      by (metis filename_files)
    then have "name_of t j = name_of s j" for j
      by (simp add: t set_runner_def name_of_update)
    then show ?thesis
      using c1 by (intro disk_ok_same [OF d]) (simp_all add: t set_runner_def)
  qed (use runner stop in \<open>auto simp: run_start_def run_take_def set_runner_def intro!: disk_ok_same [OF d] name_of_update\<close>)
qed (use d in \<open>simp_all add: disk_ok_def written_to_def\<close>)

section \<open>Runs\<close>

fun orderly_run :: "packer \<Rightarrow> wh_op list \<Rightarrow> warehouse \<Rightarrow> bool" where
  "orderly_run gz [] s \<longleftrightarrow> True"
| "orderly_run gz (op # ops) s \<longleftrightarrow> orderly op s \<and> (case wh_step gz op s of Some (Ok s) \<Rightarrow> orderly_run gz ops s | _ \<Rightarrow> True)"

lemma wh_run_runners_ok:
  "wh_run gz ops s = Some (Ok t) \<Longrightarrow> runners_ok (wh_runners s) (wh_os s) \<Longrightarrow> runners_ok (wh_runners t) (wh_os t)"
proof (induction ops arbitrary: s)
  case (Cons op ops)
  then show ?case
    by (auto split: option.splits res.splits dest: runners_ok_step)
qed simp

lemma wh_run_queue_ok:
  "wh_run gz ops s = Some (Ok t) \<Longrightarrow> orderly_run gz ops s \<Longrightarrow> runners_ok (wh_runners s) (wh_os s) \<Longrightarrow> queue_ok s \<Longrightarrow> queue_ok t"
proof (induction ops arbitrary: s)
  case (Cons op ops)
  then show ?case
    by (auto split: option.splits res.splits dest: runners_ok_step queue_ok_step)
qed simp

lemma wh_run_disk_ok:
  "wh_run gz ops s = Some (Ok t) \<Longrightarrow> list_all faultless ops \<Longrightarrow> runners_ok (wh_runners s) (wh_os s) \<Longrightarrow> disk_ok gz d s \<Longrightarrow> disk_ok gz d t"
proof (induction ops arbitrary: s)
  case (Cons op ops)
  then show ?case
    by (auto split: option.splits res.splits dest: runners_ok_step disk_ok_step)
qed simp

definition new_warehouse :: "nat \<Rightarrow> string \<Rightarrow> nat \<Rightarrow> (string \<Rightarrow> bytes) \<Rightarrow> warehouse" where
  "new_warehouse bufSize datadir workers d =
     RunParallel datadir workers (NewWarehouse bufSize \<lparr>os_disk = d, os_open = [], os_next = 0\<rparr>)"

lemma new_warehouse_ok:
  "runners_ok (wh_runners (new_warehouse bufSize datadir n d)) (wh_os (new_warehouse bufSize datadir n d))
   \<and> queue_ok (new_warehouse bufSize datadir n d) \<and> disk_ok gz d (new_warehouse bufSize datadir n d)"
proof -
  let ?s = "new_warehouse bufSize datadir n d"
  have rs: "wh_runners ?s = map (\<lambda>i. \<lparr>rn_worker = newWorker i datadir, rn_phase = NotStarted, rn_busy = None\<rparr>) [0 ..< n]"
    by (simp add: new_warehouse_def RunParallel_def NewWarehouse_def)
  have "pending (wh_runners ?s) = {#}" "live (wh_runners ?s) = 0"
    unfolding pending_def live_def rs by (intro sum_mset.neutral) (auto simp: filter_empty_conv)
  then have "queue_ok ?s"
    unfolding queue_ok_def by (auto simp: rs) (auto simp: new_warehouse_def RunParallel_def NewWarehouse_def NewTimeoutWaitGroup_def)
  moreover have "runners_ok (wh_runners ?s) (wh_os ?s)"
    unfolding runners_ok_def others_def held_def rs
    by (auto simp: newWorker_def files_ok_def table_ok_def) (auto simp: new_warehouse_def RunParallel_def NewWarehouse_def)
  moreover have "disk_ok gz d ?s"
    by (simp add: disk_ok_def written_to_def new_warehouse_def RunParallel_def NewWarehouse_def)
  ultimately show ?thesis
    by blast
qed

text \<open>The work that is left, and the steps that do it.\<close>

definition weight :: "runner \<Rightarrow> nat" where
  "weight r =
     (case rn_phase r of NotStarted \<Rightarrow> 3 | Running \<Rightarrow> 2 | Draining \<Rightarrow> 1 | Stopped \<Rightarrow> 0) + (if rn_busy r = None then 0 else 1)"

definition work_left :: "warehouse \<Rightarrow> nat" where
  "work_left s = 2 * length (wh_requests s) + sum_list (map weight (wh_runners s))"

fun progress :: "wh_op \<Rightarrow> bool" where
  "progress (Store req) \<longleftrightarrow> False"
| "progress CloseWarehouse \<longleftrightarrow> False"
| "progress (Tick i now) \<longleftrightarrow> False"
| "progress (CtxDone i) \<longleftrightarrow> False"
| "progress op \<longleftrightarrow> True"

lemma weight_update:
  assumes "i < length rs"
  shows "sum_list (map weight (rs[i := r])) + weight (rs ! i) = sum_list (map weight rs) + weight r"
proof -
  obtain M where "mset rs = add_mset (rs ! i) M" "\<And>r. mset (rs[i := r]) = add_mset r M"
    using mset_runner [OF assms] by blast
  then have "sum_mset (image_mset weight (mset (rs[i := r]))) + weight (rs ! i) = sum_mset (image_mset weight (mset rs)) + weight r"
    by simp
  then show ?thesis
    by (simp add: sum_mset_sum_list flip: mset_map)
qed

lemma progress_decreases:
  assumes "wh_step gz op s = Some (Ok t)" and "progress op"
  shows "work_left t < work_left s"
  using assms(1)
proof (cases rule: wh_stepE)
  case (runner i)
  note upd = weight_update [OF runner(2)]
  show ?thesis
  proof (cases op)
    case (Take j)
    then show ?thesis
      using runner upd [of "(wh_runners s ! i)\<lparr>rn_busy := Some (hd (wh_requests s))\<rparr>"]
      by (cases "wh_requests s") (auto simp: work_left_def run_take_def set_runner_def weight_def)
  next
    case (Handle j now rf)
    obtain b w os where "handleRequest gz now rf (the (rn_busy (wh_runners s ! i))) (rn_worker (wh_runners s ! i), wh_os s) = (b, w, os)"
      by (cases "handleRequest gz now rf (the (rn_busy (wh_runners s ! i))) (rn_worker (wh_runners s ! i), wh_os s)") auto
    then show ?thesis
      using Handle runner upd [of "(wh_runners s ! i)\<lparr>rn_worker := w, rn_busy := None\<rparr>"]
      by (auto simp: work_left_def run_handle_def set_runner_def weight_def Let_def)
  next
    case (Finish j)
    then have "run_stop i s = Ok t" "rn_phase (wh_runners s ! i) = Draining"
      using runner by simp_all
    from this(1) obtain w os where
      t: "t = set_runner i ((wh_runners s ! i)\<lparr>rn_worker := w, rn_phase := Stopped\<rparr>) os
           (s\<lparr>wh_runningWorkers := snd (wg_Done (wh_runningWorkers s))\<rparr>)"
      by (rule run_stop_Ok)
    then show ?thesis
      using upd [of "(wh_runners s ! i)\<lparr>rn_worker := w, rn_phase := Stopped\<rparr>"] \<open>rn_phase (wh_runners s ! i) = Draining\<close>
      by (simp add: work_left_def set_runner_def weight_def)
  next
    case (Start j)
    then show ?thesis
      using runner upd [of "(wh_runners s ! i)\<lparr>rn_phase := Running\<rparr>"]
      by (auto simp: work_left_def run_start_def set_runner_def weight_def)
  next
    case (Drain j)
    then show ?thesis
      using runner upd [of "(wh_runners s ! i)\<lparr>rn_phase := Draining\<rparr>"]
      by (auto simp: work_left_def set_runner_def weight_def)
  qed (use assms(2) in simp_all)
qed (use assms(2) in simp_all)

lemma run_stop_returns: "queue_ok s \<Longrightarrow> \<exists>t. run_stop i s = Ok t"
  by (auto simp: run_stop_def wg_Done_def queue_ok_def Let_def split: prod.splits)

lemma progress_possible:
  assumes q: "queue_ok s" and shut: "wh_cleanShutdown s" and n: "wh_runners s \<noteq> []" and nd: "\<not> wg_done (wh_runningWorkers s)"
  shows "\<exists>op t. progress op \<and> wh_step gz op s = Some (Ok t)"
proof -
  have "\<exists>r \<in> set (wh_runners s). rn_phase r \<noteq> Stopped"
  proof (rule ccontr)
    assume "\<not> ?thesis"
    then have all: "\<forall>r \<in> set (wh_runners s). rn_phase r = Stopped"
      by blast
    then have "live (wh_runners s) = 0"
      by (auto simp: live_def filter_empty_conv)
    moreover have "Stopped \<in> rn_phase ` set (wh_runners s)"
      using all n by (metis image_eqI last_in_set)
    ultimately show False
      using q nd by (simp add: queue_ok_def)
  qed
  then obtain i where i: "i < length (wh_runners s)" "rn_phase (wh_runners s ! i) \<noteq> Stopped"
    by (auto simp: in_set_conv_nth)
  let ?r = "wh_runners s ! i"
  obtain t where t: "run_stop i s = Ok t"
    using run_stop_returns [OF q] by blast
  consider "rn_phase ?r = NotStarted" | "rn_busy ?r \<noteq> None" | "rn_phase ?r = Running" "rn_busy ?r = None"
    | "rn_phase ?r = Draining" "rn_busy ?r = None" "wh_requests s = []"
    | "rn_phase ?r = Draining" "rn_busy ?r = None" "wh_requests s \<noteq> []"
    using i(2) by (cases "rn_phase ?r") auto
  then show ?thesis
  proof cases
    case 1
    then show ?thesis
      using i by (intro exI [of _ "Start i"]) (simp add: wh_step_def)
  next
    case 2
    then show ?thesis
      using i by (intro exI [of _ "Handle i 0 no_faults"]) (simp add: wh_step_def)
  next
    case 3
    then show ?thesis
      using i shut by (intro exI [of _ "Drain i"]) (simp add: wh_step_def)
  next
    case 4
    then show ?thesis
      using i t by (intro exI [of _ "Finish i"]) (simp add: wh_step_def)
  next
    case 5
    then show ?thesis
      using i by (intro exI [of _ "Take i"]) (simp add: wh_step_def)
  qed
qed

text \<open>
  C30: In a run in which no context ends, nothing is stored after \<open>Close\<close> and the disk does not fail: once
  \<open>Close\<close> has returned because the workers are done, every accepted request has been handled, and each file
  holds what it held before and the records of its requests in the order in which they were handled.
\<close>

theorem closed_warehouse_wrote_all:
  assumes "wh_run gz ops (new_warehouse bufSize datadir workers d) = Some (Ok s)"
    and "orderly_run gz ops (new_warehouse bufSize datadir workers d)" and "list_all faultless ops"
    and "wg_done (wh_runningWorkers s)"
  shows "mset (wh_accepted s) = mset (map (\<lambda>h. snd (snd h)) (wh_handled s))
    \<and> (\<forall>n. os_disk (wh_os s) n = d n @ concat (map (record_of gz) (written_to s n)))"
proof -
  note new = new_warehouse_ok [of bufSize datadir workers d gz]
  have "queue_ok s" "disk_ok gz d s"
    using wh_run_queue_ok [OF assms(1,2)] wh_run_disk_ok [OF assms(1,3)] new by blast+
  then show ?thesis
    using assms(4) by (simp add: queue_ok_def disk_ok_def)
qed

definition wh_sample :: "u64 \<Rightarrow> wh_request" where
  "wh_sample slot =
     \<lparr>sq_DataType = ''b'', sq_Data = [1], sq_Slot = slot, sq_Id = ''i'', sq_Timestamp = 5, sq_header = []\<rparr>"

text \<open>Two workers: one handles two requests of a slot, with its file closed in between, the other one a request of another slot.\<close>

definition sample_wh_ops :: "wh_op list" where
  "sample_wh_ops =
     [Start 0, Store (wh_sample 7), Store (wh_sample 8), Start 1, Take 0, Take 1, Handle 1 0 no_faults, Handle 0 0 no_faults,
      Tick 0 20000, Store (wh_sample 7), CloseWarehouse, Drain 0, Take 0, Handle 0 20001 no_faults, Drain 1, Finish 0, Finish 1]"

definition sample_pack :: packer where
  "sample_pack b = (b, [], [0])"

lemma sample_wh_run:
  "case wh_run sample_pack sample_wh_ops (new_warehouse 3 ''d'' 2 (\<lambda>_. [])) of
     Some (Ok s) \<Rightarrow> wg_done (wh_runningWorkers s) \<and> length (wh_accepted s) = 3 \<and> os_open (wh_os s) = []
   | _ \<Rightarrow> False"
  by code_simp

lemma sample_wh_orderly:
  "orderly_run sample_pack sample_wh_ops (new_warehouse 3 ''d'' 2 (\<lambda>_. []))"
  by code_simp

lemma sample_wh_result:
  "\<exists>s. wh_run sample_pack sample_wh_ops (new_warehouse 3 ''d'' 2 (\<lambda>_. [])) = Some (Ok s) \<and> wg_done (wh_runningWorkers s)
     \<and> length (wh_accepted s) = 3"
  using sample_wh_run by (auto split: option.splits res.splits)

theorem closed_warehouse_wrote_all_witness:
  "\<exists>s. wh_run sample_pack sample_wh_ops (new_warehouse 3 ''d'' 2 (\<lambda>_. [])) = Some (Ok s) \<and> length (wh_accepted s) = 3
     \<and> mset (wh_accepted s) = mset (map (\<lambda>h. snd (snd h)) (wh_handled s))
     \<and> (\<forall>n. os_disk (wh_os s) n = concat (map (record_of sample_pack) (written_to s n)))"
proof -
  obtain s where s: "wh_run sample_pack sample_wh_ops (new_warehouse 3 ''d'' 2 (\<lambda>_. [])) = Some (Ok s)" "wg_done (wh_runningWorkers s)"
    "length (wh_accepted s) = 3"
    using sample_wh_result by blast
  have "list_all faultless sample_wh_ops"
    by (simp add: sample_wh_ops_def)
  from closed_warehouse_wrote_all [OF s(1) sample_wh_orderly this s(2)] show ?thesis
    using s by auto
qed

lemma wh_run_length: "wh_run gz ops s = Some (Ok t) \<Longrightarrow> length (wh_runners t) = length (wh_runners s)"
proof (induction ops arbitrary: s)
  case (Cons op ops)
  then obtain s' where s': "wh_step gz op s = Some (Ok s')" "wh_run gz ops s' = Some (Ok t)"
    by (auto split: option.splits res.splits)
  have "length (wh_runners s') = length (wh_runners s)"
    using s'(1)
    by (cases op)
      (auto simp: wh_step_def StoreAsync_def wh_Close_def run_start_def run_take_def run_handle_def run_tick_def run_stop_def
        set_runner_def Let_def split: if_splits prod.splits res.splits)
  then show ?case
    using Cons.IH [OF s'(2)] by simp
qed simp

text \<open>
  C31: After \<open>Close\<close>, in a run in which no context ends and nothing is stored any more, the workers are done or
  one of them can go on, without a panic, and every such step leaves less work: the shutdown ends when the workers
  are scheduled.
\<close>

theorem closed_warehouse_gets_done:
  assumes "wh_run gz ops (new_warehouse bufSize datadir workers d) = Some (Ok s)"
    and "orderly_run gz ops (new_warehouse bufSize datadir workers d)" and "workers > 0" and "wh_cleanShutdown s"
  shows "(wg_done (wh_runningWorkers s) \<or> (\<exists>op t. progress op \<and> wh_step gz op s = Some (Ok t)))
    \<and> (\<forall>op t. progress op \<and> wh_step gz op s = Some (Ok t) \<longrightarrow> work_left t < work_left s)"
proof -
  have "length (wh_runners s) = workers"
    using wh_run_length [OF assms(1)] by (simp add: new_warehouse_def RunParallel_def NewWarehouse_def)
  moreover have "queue_ok s"
    using wh_run_queue_ok [OF assms(1,2)] new_warehouse_ok by blast
  ultimately have "wg_done (wh_runningWorkers s) \<or> (\<exists>op t. progress op \<and> wh_step gz op s = Some (Ok t))"
    using assms(3,4) progress_possible by fastforce
  then show ?thesis
    using progress_decreases by blast
qed

theorem closed_warehouse_gets_done_witness:
  "\<exists>s. wh_run sample_pack (take 11 sample_wh_ops) (new_warehouse 3 ''d'' 2 (\<lambda>_. [])) = Some (Ok s) \<and> \<not> wg_done (wh_runningWorkers s)
     \<and> (\<exists>op t. progress op \<and> wh_step sample_pack op s = Some (Ok t) \<and> work_left t < work_left s)"
proof -
  have "case wh_run sample_pack (take 11 sample_wh_ops) (new_warehouse 3 ''d'' 2 (\<lambda>_. [])) of
      Some (Ok s) \<Rightarrow> wh_cleanShutdown s \<and> \<not> wg_done (wh_runningWorkers s) | _ \<Rightarrow> False"
    by code_simp
  then obtain s where s: "wh_run sample_pack (take 11 sample_wh_ops) (new_warehouse 3 ''d'' 2 (\<lambda>_. [])) = Some (Ok s)"
    "wh_cleanShutdown s" "\<not> wg_done (wh_runningWorkers s)"
    by (auto split: option.splits res.splits)
  have "orderly_run sample_pack (take 11 sample_wh_ops) (new_warehouse 3 ''d'' 2 (\<lambda>_. []))"
    by code_simp
  from closed_warehouse_gets_done [OF s(1) this _ s(2)] show ?thesis
    using s(1,3) by auto
qed

text \<open>Whatever fails and however the workers end, the files of ended workers are closed.\<close>

lemma ended_workers_close_files:
  assumes "wh_run gz ops (new_warehouse bufSize datadir workers d) = Some (Ok s)"
    and "\<forall>r \<in> set (wh_runners s). rn_phase r = Stopped"
  shows "os_open (wh_os s) = []"
proof -
  have ok: "runners_ok (wh_runners s) (wh_os s)"
    using wh_run_runners_ok [OF assms(1)] new_warehouse_ok by blast
  then have "held (wh_runners s ! i) = {}" if "i < length (wh_runners s)" for i
    using assms(2) that by (auto simp: runners_ok_def held_def)
  then show ?thesis
    using ok by (simp add: runners_ok_def)
qed

text \<open>A request that is stored after the workers have ended is accepted and never handled.\<close>

lemma stored_after_close_is_lost:
  "case wh_run sample_pack [Start 0, CloseWarehouse, Drain 0, Finish 0, Store (wh_sample 7)] (new_warehouse 3 ''d'' 1 (\<lambda>_. [])) of
     Some (Ok s) \<Rightarrow> wg_done (wh_runningWorkers s) \<and> wh_accepted s = [with_header (wh_sample 7)] \<and> wh_handled s = []
       \<and> rn_phase (wh_runners s ! 0) = Stopped
   | _ \<Rightarrow> False"
  by code_simp

end
