(* ===== verification/PgEvidence.thy ===== *)
theory PgEvidence
  imports Structs
begin

text \<open>
  The PostgreSQL store of submissions and deliveries, \<open>src/datastore/evidence/postgres\<close>: the statements with their
  arguments, and the loops that write the rows of an answer as a JSON array.

  The database and the texts of hashes, keys and numbers are library code: the record \<open>pg_lib\<close>.  A row is what
  \<open>Scan\<close> gives.  An error of \<open>UnmarshalText\<close> is ignored by the source, so the decoders are functions that give the
  value after the call.
\<close>

section \<open>Library\<close>

datatype sql_value =
  SqlUint u64
| SqlString string
| SqlBool bool
| SqlMilli int
| SqlTime int

record delivered_row =
  dr_Slot :: u64
  dr_builderpubkey :: bytes
  dr_proposerPubkey :: bytes
  dr_proposerFeeRecipient :: bytes
  dr_parentHash :: bytes
  dr_blockHash :: bytes
  dr_BlockNumber :: u64
  dr_NumTx :: u64
  dr_value :: bytes
  dr_GasUsed :: u64
  dr_GasLimit :: u64

record submission_row = delivered_row +
  sb_time :: int

record 'w pg_lib =
  pg_Exec :: "string \<Rightarrow> sql_value list \<Rightarrow> 'w \<Rightarrow> (go_error, unit) res \<times> 'w"
  pg_Delivered :: "string \<Rightarrow> sql_value list \<Rightarrow> 'w \<Rightarrow> (go_error, (go_error, delivered_row) res list) res"
  pg_Submissions :: "string \<Rightarrow> sql_value list \<Rightarrow> 'w \<Rightarrow> (go_error, (go_error, submission_row) res list) res"
  pg_hash :: "hash \<Rightarrow> string"
  pg_pubkey :: "pubkey \<Rightarrow> string"
  pg_address :: "address \<Rightarrow> string"
  pg_u256 :: "u256 \<Rightarrow> string"
  pg_to_hash :: "bytes \<Rightarrow> hash"
  pg_to_pubkey :: "bytes \<Rightarrow> pubkey"
  pg_to_address :: "bytes \<Rightarrow> address"
  pg_to_u256 :: "bytes \<Rightarrow> u256"
  pg_json :: "bid_trace_extended \<Rightarrow> (go_error, string) res"
  pg_json_ts :: "bid_trace_with_timestamp \<Rightarrow> (go_error, string) res"

abbreviation "sql_ErrNoRows \<equiv> LibErr ''sql: no rows in result set''"

section \<open>Storing\<close>

definition insert_submission :: string where
  "insert_submission =
     ''INSERT INTO builder_block_submission ( relay_id, slot, parent_hash, block_hash, builder_pubkey, proposer_pubkey, proposer_fee_recipient, ''
     @ ''gas_used, gas_limit, value, epoch, num_tx, block_number, was_most_profitable, block_time) ''
     @ ''VALUES ($1,$2,$3,$4,$5,$6,$7,$8,$9,$10,$11,$12,$13,$14,$15) ''
     @ ''ON CONFLICT (relay_id, slot, proposer_pubkey, block_hash) DO UPDATE SET ''
     @ ''parent_hash = EXCLUDED.parent_hash, builder_pubkey = EXCLUDED.builder_pubkey, ''
     @ ''proposer_fee_recipient = EXCLUDED.proposer_fee_recipient, gas_used  = EXCLUDED.gas_used, gas_limit = EXCLUDED.gas_limit, ''
     @ ''value = EXCLUDED.value, epoch = EXCLUDED.epoch, num_tx = EXCLUDED.num_tx, block_number = EXCLUDED.block_number, ''
     @ ''was_most_profitable = EXCLUDED.was_most_profitable, block_time = EXCLUDED.block_time, inserted_at = NOW()''"

definition pg_PutBuilderBlockSubmission ::
  "'w pg_lib \<Rightarrow> u64 \<Rightarrow> bid_trace_with_timestamp \<Rightarrow> bool \<Rightarrow> 'w \<Rightarrow> (go_error, unit) res \<times> 'w" where
  "pg_PutBuilderBlockSubmission L relayID bid isMostProfitable =
     pg_Exec L insert_submission
       [SqlUint relayID, SqlUint (bt_Slot bid), SqlString (pg_hash L (bt_ParentHash bid)), SqlString (pg_hash L (bt_BlockHash bid)),
        SqlString (pg_pubkey L (bt_BuilderPubkey bid)), SqlString (pg_pubkey L (bt_ProposerPubkey bid)),
        SqlString (pg_address L (bt_ProposerFeeRecipient bid)), SqlUint (bt_GasUsed bid), SqlUint (bt_GasLimit bid),
        SqlString (pg_u256 L (bt_Value bid)), SqlUint (bt_Slot bid div 32), SqlUint (bte_NumTx bid), SqlUint (bte_BlockNumber bid),
        SqlBool isMostProfitable, SqlMilli (sint (btt_TimestampMs bid))]"

definition insert_delivered :: string where
  "insert_delivered =
     ''INSERT INTO payload_delivered ( relay_id, slot, epoch, builder_pubkey, proposer_pubkey, proposer_fee_recipient, parent_hash, ''
     @ ''block_hash, num_tx, block_number, gas_used, gas_limit, value ) VALUES ($1,$2,$3,$4,$5,$6,$7,$8,$9,$10,$11,$12,$13) ''
     @ ''ON CONFLICT (relay_id, slot, proposer_pubkey, block_hash) DO UPDATE SET ''
     @ ''parent_hash = EXCLUDED.parent_hash, builder_pubkey = EXCLUDED.builder_pubkey, ''
     @ ''proposer_fee_recipient = EXCLUDED.proposer_fee_recipient, gas_used  = EXCLUDED.gas_used, gas_limit = EXCLUDED.gas_limit, ''
     @ ''value = EXCLUDED.value, epoch = EXCLUDED.epoch, num_tx = EXCLUDED.num_tx, block_number = EXCLUDED.block_number, inserted_at = NOW()''"

definition pg_PutDelivered :: "'w pg_lib \<Rightarrow> u64 \<Rightarrow> slot \<Rightarrow> delivered_trace \<Rightarrow> 'w \<Rightarrow> (go_error, unit) res \<times> 'w" where
  "pg_PutDelivered L relayID slot payload =
     (let t = dt_Trace payload in
      pg_Exec L insert_delivered
        [SqlUint relayID, SqlUint slot, SqlUint (slot div 32), SqlString (pg_pubkey L (bt_BuilderPubkey t)),
         SqlString (pg_pubkey L (bt_ProposerPubkey t)), SqlString (pg_address L (bt_ProposerFeeRecipient t)),
         SqlString (pg_hash L (bt_ParentHash t)), SqlString (pg_hash L (bt_BlockHash t)), SqlUint (bte_NumTx t),
         SqlUint (dt_BlockNumber payload), SqlUint (bt_GasUsed t), SqlUint (bt_GasLimit t), SqlString (pg_u256 L (bt_Value t))])"

section \<open>Queries\<close>

text \<open>
  A condition with the next placeholder and its argument.  The state is \<open>i\<close>, \<open>parts\<close> and \<open>data\<close> of the source.
\<close>

type_synonym conditions = "nat \<times> string list \<times> sql_value list"

definition cond :: "bool \<Rightarrow> string \<Rightarrow> sql_value \<Rightarrow> conditions \<Rightarrow> conditions" where
  "cond present column v c =
     (case c of (i, parts, data) \<Rightarrow> if present then (Suc i, parts @ [column @ ''$'' @ dec i], data @ [v]) else c)"

fun and_all :: "string list \<Rightarrow> string" where
  "and_all [] = []"
| "and_all [p] = p"
| "and_all (p # ps) = p @ '' AND '' @ and_all ps"

definition where_clause :: "string list \<Rightarrow> string" where
  "where_clause parts = (if parts = [] then [] else '' WHERE '' @ and_all parts)"

definition submission_conditions :: "'w pg_lib \<Rightarrow> u64 \<Rightarrow> submission_trace_query \<Rightarrow> conditions" where
  "submission_conditions L relayID q =
     cond (stq_BuilderPubkey q \<noteq> 0) ''builder_pubkey = '' (SqlString (pg_pubkey L (stq_BuilderPubkey q)))
      (cond (stq_BlockNum q > 0) ''block_number = '' (SqlUint (stq_BlockNum q))
       (cond (stq_BlockHash q \<noteq> 0) ''block_hash = '' (SqlString (pg_hash L (stq_BlockHash q)))
        (cond (stq_Slot q > 0) ''slot = '' (SqlUint (stq_Slot q))
         (cond True ''relay_id = '' (SqlUint relayID) (1, [], [])))))"

definition select_submissions :: string where
  "select_submissions =
     ''SELECT block_time, slot, builder_pubkey, proposer_pubkey, proposer_fee_recipient, parent_hash, block_hash, value, gas_used, gas_limit, block_number, num_tx FROM builder_block_submission ''"

definition submission_query :: "'w pg_lib \<Rightarrow> u64 \<Rightarrow> submission_trace_query \<Rightarrow> string \<times> sql_value list" where
  "submission_query L relayID q =
     (case submission_conditions L relayID q of (i, parts, data) \<Rightarrow>
        let limited = \<not> (stq_Slot q > 0 \<or> stq_BlockNum q > 0)
        in (select_submissions
            @ where_clause parts @ '' ORDER BY slot DESC, block_time DESC, block_hash DESC '' @ (if limited then '' LIMIT $'' @ dec i else []),
            data @ (if limited then [SqlUint (stq_Limit q)] else [])))"

definition delivered_conditions :: "'w pg_lib \<Rightarrow> u64 \<Rightarrow> payload_trace_query \<Rightarrow> conditions" where
  "delivered_conditions L relayID q =
     cond (ptq_BuilderPubkey q \<noteq> 0) ''builder_pubkey = '' (SqlString (pg_pubkey L (ptq_BuilderPubkey q)))
      (cond (ptq_ProposerPubkey q \<noteq> 0) ''proposer_pubkey = '' (SqlString (pg_pubkey L (ptq_ProposerPubkey q)))
       (cond (ptq_BlockNum q > 0) ''block_number = '' (SqlUint (ptq_BlockNum q))
        (cond (ptq_BlockHash q \<noteq> 0) ''block_hash = '' (SqlString (pg_hash L (ptq_BlockHash q)))
         (cond (\<not> ptq_Slot q > 0 \<and> ptq_Cursor q > 0) ''slot <= '' (SqlUint (ptq_Cursor q))
          (cond (ptq_Slot q > 0) ''slot = '' (SqlUint (ptq_Slot q))
           (cond True ''relay_id = '' (SqlUint relayID) (1, [], [])))))))"

definition select_delivered :: string where
  "select_delivered =
     ''SELECT slot, builder_pubkey, proposer_pubkey, proposer_fee_recipient, parent_hash, block_hash, block_number, num_tx, value, gas_used, gas_limit FROM payload_delivered ''"

definition delivered_select :: "'w pg_lib \<Rightarrow> u64 \<Rightarrow> payload_trace_query \<Rightarrow> string \<times> sql_value list" where
  "delivered_select L relayID q =
     (case delivered_conditions L relayID q of (i, parts, data) \<Rightarrow>
        let order = (if ptq_OrderByValue q > 0 then '' ORDER BY value ASC ''
                     else if ptq_OrderByValue q < 0 then '' ORDER BY value DESC ''
                     else '' ORDER BY slot DESC, inserted_at DESC '')
        in (select_delivered
            @ where_clause parts @ order @ (if ptq_Limit q > 0 then '' LIMIT $'' @ dec i else []),
            data @ (if ptq_Limit q > 0 then [SqlUint (ptq_Limit q)] else [])))"

section \<open>Answers\<close>

text \<open>
  The rows of an answer are written one by one.  \<open>wr k\<close> is the error of the write number \<open>k\<close> to the response, if any,
  and \<open>ctx n\<close> tells whether the context has ended when row \<open>n\<close> is reached.  The state is the number of writes
  and what has been written.
\<close>

record answer_env =
  ae_write :: "nat \<Rightarrow> go_error option"
  ae_ctxDone :: "nat \<Rightarrow> bool"

type_synonym answer = "nat \<times> string"

definition Fprint :: "answer_env \<Rightarrow> string \<Rightarrow> answer \<Rightarrow> (go_error, unit) res \<times> answer" where
  "Fprint E t a = (case a of (k, out) \<Rightarrow> case ae_write E k of None \<Rightarrow> (Ok (), Suc k, out @ t) | Some e \<Rightarrow> (Err e, Suc k, out))"

definition Encode_row :: "answer_env \<Rightarrow> (go_error, string) res \<Rightarrow> answer \<Rightarrow> (go_error, unit) res \<times> answer" where
  "Encode_row E json a =
     (case json of Ok t \<Rightarrow> Fprint E (t @ [CHR 0x0A]) a | Err e \<Rightarrow> (Err e, a) | Panic \<Rightarrow> (Panic, a))"

text \<open>
  The loop over the rows, with \<open>to_json\<close> the decoding of a row and its encoding.  Once the first character is written,
  errors close the array and are not returned.
\<close>

fun write_rows ::
  "answer_env \<Rightarrow> ('r \<Rightarrow> (go_error, string) res) \<Rightarrow> (go_error, 'r) res list \<Rightarrow> nat \<Rightarrow> answer \<Rightarrow> (go_error, unit) res \<times> answer" where
  "write_rows E to_json [] idx a = (if idx = 0 then Fprint E ''[]'' a else Fprint E '']'' a)"
| "write_rows E to_json (row # rows) idx a =
     (case row of
        Panic \<Rightarrow> (Panic, a)
      | Err e \<Rightarrow> if idx = 0 then (Err e, a) else (Ok (), snd (Fprint E '']'' a))
      | Ok r \<Rightarrow>
          if ae_ctxDone E idx then (Ok (), a)
          else
            (case Fprint E (if idx = 0 then ''['' else '', '') a of
               (Ok _, a) \<Rightarrow>
                 (case Encode_row E (to_json r) a of
                    (Ok _, a) \<Rightarrow> write_rows E to_json rows (Suc idx) a
                  | (Err e, a) \<Rightarrow> (Ok (), snd (Fprint E '']'' a))
                  | (Panic, a) \<Rightarrow> (Panic, a))
             | (Err e, a) \<Rightarrow> if idx = 0 then (Err e, a) else (Ok (), snd (Fprint E '']'' a))
             | (Panic, a) \<Rightarrow> (Panic, a)))"

definition delivered_of_row :: "'w pg_lib \<Rightarrow> 'a delivered_row_scheme \<Rightarrow> bid_trace_extended" where
  "delivered_of_row L r =
     \<lparr>bt_Slot = dr_Slot r, bt_ParentHash = pg_to_hash L (dr_parentHash r), bt_BlockHash = pg_to_hash L (dr_blockHash r),
      bt_BuilderPubkey = pg_to_pubkey L (dr_builderpubkey r), bt_ProposerPubkey = pg_to_pubkey L (dr_proposerPubkey r),
      bt_ProposerFeeRecipient = pg_to_address L (dr_proposerFeeRecipient r), bt_GasLimit = dr_GasLimit r, bt_GasUsed = dr_GasUsed r,
      bt_Value = pg_to_u256 L (dr_value r), bte_BlockNumber = dr_BlockNumber r, bte_NumTx = dr_NumTx r\<rparr>"

text \<open>\<open>t.Unix()\<close> and \<open>t.UnixMilli()\<close>, as unsigned numbers.\<close>

definition submission_of_row :: "'w pg_lib \<Rightarrow> submission_row \<Rightarrow> bid_trace_with_timestamp" where
  "submission_of_row L r =
     bid_trace_extended.extend (delivered_of_row L r)
       \<lparr>btt_Timestamp = of_int (sb_time r div 1000), btt_TimestampMs = of_int (sb_time r)\<rparr>"

definition pg_GetDeliveredPayloads ::
  "'w pg_lib \<Rightarrow> answer_env \<Rightarrow> u64 \<Rightarrow> payload_trace_query \<Rightarrow> 'w \<Rightarrow> (go_error, unit) res \<times> answer" where
  "pg_GetDeliveredPayloads L E relayID q w =
     (case delivered_select L relayID q of (text, data) \<Rightarrow>
      case pg_Delivered L text data w of
        Panic \<Rightarrow> (Panic, 0, [])
      | Err e \<Rightarrow> if e = sql_ErrNoRows then Encode_row E (Ok ''[]'') (0, []) else (Err (wrap_msg ''query error'' e), 0, [])
      | Ok rows \<Rightarrow> write_rows E (\<lambda>r. pg_json L (delivered_of_row L r)) rows 0 (0, []))"

definition pg_GetBuilderBlockSubmissions ::
  "'w pg_lib \<Rightarrow> answer_env \<Rightarrow> u64 \<Rightarrow> submission_trace_query \<Rightarrow> 'w \<Rightarrow> (go_error, unit) res \<times> answer" where
  "pg_GetBuilderBlockSubmissions L E relayID q w =
     (case submission_query L relayID q of (text, data) \<Rightarrow>
      case pg_Submissions L text data w of
        Panic \<Rightarrow> (Panic, 0, [])
      | Err e \<Rightarrow> if e = sql_ErrNoRows then Fprint E ''[]'' (0, []) else (Err (wrap_msg ''query error'' e), 0, [])
      | Ok rows \<Rightarrow> write_rows E (\<lambda>r. pg_json_ts L (submission_of_row L r)) rows 0 (0, []))"

section \<open>Placeholders\<close>

text \<open>The conditions use the placeholders in order, one for each argument.\<close>

definition numbered :: "conditions \<Rightarrow> bool" where
  "numbered c \<longleftrightarrow>
     (case c of (i, parts, data) \<Rightarrow>
        i = Suc (length parts) \<and> length data = length parts \<and> (\<forall>k < length parts. has_suffix (parts ! k) (''$'' @ dec (Suc k))))"

lemma numbered_cond: "numbered c \<Longrightarrow> numbered (cond present column v c)"
proof (cases c)
  case (fields i parts data)
  assume *: "numbered c"
  have "has_suffix ((parts @ [column @ ''$'' @ dec i]) ! k) (''$'' @ dec (Suc k))" if "k < Suc (length parts)" "i = Suc (length parts)" for k
    using * that has_suffix_append [of column "''$'' @ dec i"] by (cases "k = length parts") (auto simp: numbered_def fields nth_append)
  then show ?thesis
    using * by (auto simp: numbered_def cond_def fields)
qed

lemma numbered_start: "numbered (1, [], [])"
  by (simp add: numbered_def)

lemma submission_numbered: "numbered (submission_conditions L relayID q)"
  unfolding submission_conditions_def by (intro numbered_cond numbered_start)

lemma delivered_numbered: "numbered (delivered_conditions L relayID q)"
  unfolding delivered_conditions_def by (intro numbered_cond numbered_start)

text \<open>The text of a query depends only on which of the fields are given: values are only passed as arguments.\<close>

definition shape :: "conditions \<Rightarrow> nat \<times> string list" where
  "shape c = (fst c, fst (snd c))"

lemma shape_cond: "present = present' \<Longrightarrow> shape c = shape c' \<Longrightarrow> shape (cond present column v c) = shape (cond present' column v' c')"
  by (cases c; cases c') (simp add: cond_def shape_def)

definition same_fields :: "payload_trace_query \<Rightarrow> payload_trace_query \<Rightarrow> bool" where
  "same_fields q q' \<longleftrightarrow>
     (ptq_Slot q > 0) = (ptq_Slot q' > 0) \<and> (ptq_Cursor q > 0) = (ptq_Cursor q' > 0) \<and> (ptq_BlockHash q = 0) = (ptq_BlockHash q' = 0)
     \<and> (ptq_BlockNum q > 0) = (ptq_BlockNum q' > 0) \<and> (ptq_ProposerPubkey q = 0) = (ptq_ProposerPubkey q' = 0)
     \<and> (ptq_BuilderPubkey q = 0) = (ptq_BuilderPubkey q' = 0) \<and> ptq_OrderByValue q = ptq_OrderByValue q'
     \<and> (ptq_Limit q > 0) = (ptq_Limit q' > 0)"

lemma delivered_text_of_fields:
  assumes "same_fields q q'"
  shows "fst (delivered_select L relayID q) = fst (delivered_select L' relayID' q')"
proof -
  have "shape (delivered_conditions L relayID q) = shape (delivered_conditions L' relayID' q')"
    unfolding delivered_conditions_def by (intro shape_cond refl) (use assms in \<open>simp_all add: same_fields_def\<close>)
  then obtain i ps d d' where c: "delivered_conditions L relayID q = (i, ps, d)" "delivered_conditions L' relayID' q' = (i, ps, d')"
    by (cases "delivered_conditions L relayID q"; cases "delivered_conditions L' relayID' q'") (auto simp: shape_def)
  have o: "ptq_OrderByValue q = ptq_OrderByValue q'" "(ptq_Limit q > 0) = (ptq_Limit q' > 0)"
    using assms by (simp_all add: same_fields_def)
  show ?thesis
    unfolding delivered_select_def c prod.case Let_def fst_conv o by (rule refl)
qed

section \<open>JSON\<close>

fun comma_rows :: "string list \<Rightarrow> string" where
  "comma_rows [] = []"
| "comma_rows [t] = t @ [CHR 0x0A]"
| "comma_rows (t # ts) = t @ [CHR 0x0A] @ '', '' @ comma_rows ts"

definition json_array :: "string list \<Rightarrow> string" where
  "json_array ts = ''['' @ comma_rows ts @ '']''"

text \<open>The rows before the first one that cannot be scanned.\<close>

fun scanned :: "(go_error, 'r) res list \<Rightarrow> 'r list" where
  "scanned (Ok r # rows) = r # scanned rows"
| "scanned rows = []"

definition undisturbed :: "answer_env \<Rightarrow> bool" where
  "undisturbed E \<longleftrightarrow> (\<forall>k. ae_write E k = None) \<and> (\<forall>n. \<not> ae_ctxDone E n)"

lemma Fprint_undisturbed: "undisturbed E \<Longrightarrow> Fprint E t (k, out) = (Ok (), Suc k, out @ t)"
  by (simp add: undisturbed_def Fprint_def)

lemma comma_rows_Cons: "ts \<noteq> [] \<Longrightarrow> comma_rows (t # ts) = t @ [CHR 0x0A] @ '', '' @ comma_rows ts"
  by (cases ts) simp_all

lemma write_more_rows:
  assumes "undisturbed E" and "\<And>r. to_json r = Ok (j r)"
  shows "Panic \<notin> set rows \<Longrightarrow> idx > 0 \<Longrightarrow>
    \<exists>k'. write_rows E to_json rows idx (k, out) =
      (Ok (), k', out @ (if scanned rows = [] then [] else '', '' @ comma_rows (map j (scanned rows))) @ '']'')"
proof (induction rows arbitrary: idx k out)
  case (Cons row rows)
  show ?case
  proof (cases row)
    case (Ok r)
    have "write_rows E to_json (row # rows) idx (k, out) = write_rows E to_json rows (Suc idx) (Suc (Suc k), out @ '', '' @ j r @ [CHR 0x0A])"
      using assms Cons.prems Ok by (simp add: Fprint_undisturbed Encode_row_def undisturbed_def)
    then show ?thesis
      using Cons.IH [of "Suc idx" "Suc (Suc k)" "out @ '', '' @ j r @ [CHR 0x0A]"] Cons.prems Ok
      by (auto simp: comma_rows_Cons)
  qed (use Cons.prems assms(1) in \<open>auto simp: Fprint_undisturbed\<close>)
qed (simp add: Fprint_undisturbed [OF assms(1)])

lemma write_all_rows:
  assumes "undisturbed E" and "\<And>r. to_json r = Ok (j r)" and "Panic \<notin> set rows" and "\<And>e rs. rows \<noteq> Err e # rs"
  shows "\<exists>k. write_rows E to_json rows 0 (0, []) = (Ok (), k, json_array (map j (scanned rows)))"
proof (cases rows)
  case Nil
  then show ?thesis
    by (simp add: Fprint_undisturbed [OF assms(1)] json_array_def)
next
  case (Cons row rs)
  then obtain r where row: "row = Ok r"
    using assms(3,4) by (cases row) auto
  have "write_rows E to_json rows 0 (0, []) = write_rows E to_json rs 1 (2, ''['' @ j r @ [CHR 0x0A])"
    using assms(1,2) by (simp add: Cons row Fprint_undisturbed Encode_row_def undisturbed_def numeral_2_eq_2)
  then show ?thesis
    using write_more_rows [where E = E and to_json = to_json and j = j and rows = rs and idx = 1 and k = 2 and out = "''['' @ j r @ [CHR 0x0A]", OF assms(1,2)] assms(3)
    by (auto simp: Cons row json_array_def comma_rows_Cons)
qed

text \<open>
  C27: When the query gives rows, the response takes all writes, the context does not end and traces can be
  encoded, the answer of the PostgreSQL store is the JSON array of the delivered traces up to the first row
  that cannot be scanned; only if this is the first row an error is returned, and then nothing is written.
\<close>

theorem pg_delivered_is_json_array:
  assumes "pg_Delivered L (fst (delivered_select L relayID q)) (snd (delivered_select L relayID q)) w = Ok rows"
    and "undisturbed E" and "Panic \<notin> set rows" and "\<And>t. pg_json L t = Ok (j t)"
  shows "(\<exists>e rs k. rows = Err e # rs \<and> pg_GetDeliveredPayloads L E relayID q w = (Err e, k, []))
    \<or> (\<exists>k. pg_GetDeliveredPayloads L E relayID q w = (Ok (), k, json_array (map (\<lambda>r. j (delivered_of_row L r)) (scanned rows))))"
proof -
  have get: "pg_GetDeliveredPayloads L E relayID q w = write_rows E (\<lambda>r. pg_json L (delivered_of_row L r)) rows 0 (0, [])"
    using assms(1) by (cases "delivered_select L relayID q") (simp add: pg_GetDeliveredPayloads_def)
  show ?thesis
  proof (cases "\<exists>e rs. rows = Err e # rs")
    case True
    then show ?thesis
      using get by auto
  next
    case False
    then show ?thesis
      using write_all_rows [OF assms(2), of "\<lambda>r. pg_json L (delivered_of_row L r)" "\<lambda>r. j (delivered_of_row L r)" rows] assms(3,4) get by simp
  qed
qed

text \<open>A context that ends while rows are written, or a trace that cannot be encoded, leaves a text that is no JSON.\<close>

lemma ended_context_cuts_array:
  assumes "ae_write E = (\<lambda>_. None)" and "ae_ctxDone E = (\<lambda>n. n = 1)" and "to_json r = Ok t"
  shows "write_rows E to_json (Ok r # Ok r' # rows) 0 (0, []) = (Ok (), 2, ''['' @ t @ [CHR 0x0A])"
  using assms by (simp add: Fprint_def Encode_row_def)

lemma failed_encoding_leaves_comma:
  assumes "undisturbed E" and "to_json r = Ok t" and "to_json r' = Err e"
  shows "snd (snd (write_rows E to_json (Ok r # Ok r' # rows) 0 (0, []))) = ''['' @ t @ [CHR 0x0A] @ '', ]''"
  using assms by (simp add: Fprint_undisturbed Encode_row_def undisturbed_def)

definition sample_pg :: "unit pg_lib" where
  "sample_pg =
     \<lparr>pg_Exec = (\<lambda>_ _ w. (Ok (), w)),
      pg_Delivered = (\<lambda>_ data w. Ok (map (\<lambda>i. Ok \<lparr>dr_Slot = i, dr_builderpubkey = [], dr_proposerPubkey = [], dr_proposerFeeRecipient = [],
        dr_parentHash = [], dr_blockHash = [], dr_BlockNumber = 0, dr_NumTx = 0, dr_value = [], dr_GasUsed = 0, dr_GasLimit = 0\<rparr>) [7, 8])),
      pg_Submissions = (\<lambda>_ _ w. Ok []), pg_hash = (\<lambda>_. []), pg_pubkey = (\<lambda>_. []), pg_address = (\<lambda>_. []), pg_u256 = (\<lambda>_. []),
      pg_to_hash = (\<lambda>_. 0), pg_to_pubkey = (\<lambda>_. 0), pg_to_address = (\<lambda>_. 0), pg_to_u256 = (\<lambda>_. 0),
      pg_json = (\<lambda>t. Ok (dec (unat (bt_Slot t)))), pg_json_ts = (\<lambda>t. Ok [])\<rparr>"

definition sample_pg_query :: payload_trace_query where
  "sample_pg_query =
     \<lparr>ptq_Slot = 0, ptq_BlockHash = 0, ptq_BlockNum = 0, ptq_ProposerPubkey = 0, ptq_BuilderPubkey = 0, ptq_Cursor = 9, ptq_Limit = 5,
      ptq_OrderByValue = 0\<rparr>"

theorem pg_delivered_is_json_array_witness:
  "\<exists>k. pg_GetDeliveredPayloads sample_pg \<lparr>ae_write = (\<lambda>_. None), ae_ctxDone = (\<lambda>_. False)\<rparr> 1 sample_pg_query ()
     = (Ok (), k, json_array [''7'', ''8''])"
proof -
  let ?E = "\<lparr>ae_write = (\<lambda>_. None), ae_ctxDone = (\<lambda>_. False)\<rparr> :: answer_env"
  have E: "undisturbed ?E"
    by (simp add: undisturbed_def)
  have j: "pg_json sample_pg t = Ok (dec (unat (bt_Slot t)))" for t
    by (simp add: sample_pg_def)
  have d: "dec 7 = ''7''" "dec 8 = ''8''"
    by code_simp+
  define rows where "rows = (case pg_Delivered sample_pg (fst (delivered_select sample_pg 1 sample_pg_query)) (snd (delivered_select sample_pg 1 sample_pg_query)) () of Ok rows \<Rightarrow> rows)"
  have rows: "pg_Delivered sample_pg (fst (delivered_select sample_pg 1 sample_pg_query)) (snd (delivered_select sample_pg 1 sample_pg_query)) () = Ok rows"
    "Panic \<notin> set rows" "map (\<lambda>r. dec (unat (bt_Slot (delivered_of_row sample_pg r)))) (scanned rows) = [''7'', ''8'']" "\<And>e rs. rows \<noteq> Err e # rs"
    by (simp_all add: rows_def sample_pg_def delivered_of_row_def d)
  show ?thesis
    using pg_delivered_is_json_array [OF rows(1) E rows(2) j] rows(3,4) by auto
qed

end
