(* ===== verification/ChainConfig.thy ===== *)
theory ChainConfig
  imports GoStd
begin

text \<open>
  Networks, \<open>src/cmd/dreamboat/config/chainconfig.go\<close>: the fork versions and the genesis validators root of
  the known networks, and of others from a file.  The file is what the JSON decoder gives, or the error of
  opening or decoding it.
\<close>

record network =
  nw_GenesisForkVersion :: string
  nw_BellatrixForkVersion :: string
  nw_CapellaForkVersion :: string
  nw_GenesisValidatorsRoot :: string

definition NewChainConfig :: network where
  "NewChainConfig =
     \<lparr>nw_GenesisForkVersion = [], nw_BellatrixForkVersion = [], nw_CapellaForkVersion = [], nw_GenesisValidatorsRoot = []\<rparr>"

definition LoadNetwork :: "string \<Rightarrow> network \<Rightarrow> network" where
  "LoadNetwork name c =
     (if name = ''main'' \<or> name = ''mainnet''
      then \<lparr>nw_GenesisForkVersion = ''0x00000000'', nw_BellatrixForkVersion = ''0x02000000'', nw_CapellaForkVersion = ''0x03000000'',
        nw_GenesisValidatorsRoot = ''0x4b363db94e286120d76eb905340fdd4e54bfe9f06bf33ff6cf5ad27f511bfe95''\<rparr>
      else if name = ''ropsten''
      then \<lparr>nw_GenesisForkVersion = ''0x80000069'', nw_BellatrixForkVersion = ''0x80000071'', nw_CapellaForkVersion = ''0x03001020'',
        nw_GenesisValidatorsRoot = ''0x44f1e56283ca88b35c789f7f449e52339bc1fefe3a45913a43a6d16edcd33cf1''\<rparr>
      else if name = ''sepolia''
      then \<lparr>nw_GenesisForkVersion = ''0x90000069'', nw_BellatrixForkVersion = ''0x90000071'', nw_CapellaForkVersion = ''0x90000072'',
        nw_GenesisValidatorsRoot = ''0xd8ea171f3c94aea21ebc42a1ed61052acf3f9209c00e4efbaaddac09ed9b8078''\<rparr>
      else if name = ''goerli''
      then \<lparr>nw_GenesisForkVersion = ''0x00001020'', nw_BellatrixForkVersion = ''0x02001020'', nw_CapellaForkVersion = ''0x03001020'',
        nw_GenesisValidatorsRoot = ''0x043db0d9a83813551ee2f33450d23797757d430911a9320530ad8a0eabc43efb''\<rparr>
      else c)"

definition ReadNetworkConfig ::
  "(string \<Rightarrow> (go_error, bytes) res) \<Rightarrow> (bytes \<Rightarrow> (go_error, string \<Rightarrow> network option) res) \<Rightarrow> string \<Rightarrow> string \<Rightarrow> network
     \<Rightarrow> (go_error, unit) res \<times> network" where
  "ReadNetworkConfig open decode datadir name c =
     (case open (datadir @ ''/networks.json'') of
        Panic \<Rightarrow> (Panic, c)
      | Err e \<Rightarrow> (Err (wrap_msg (''unknown network: '' @ name) e), c)
      | Ok content \<Rightarrow>
          (case decode content of
             Panic \<Rightarrow> (Panic, c)
           | Err e \<Rightarrow> (Err e, c)
           | Ok networks \<Rightarrow>
               (case networks name of
                  None \<Rightarrow> (Err (ErrNew (''not found in config file: '' @ datadir @ ''/networks.json'')), c)
                | Some n \<Rightarrow> (Ok (), n))))"

section \<open>Properties\<close>

text \<open>A known network sets all values, whatever they were; any other name leaves the configuration as it is.\<close>

lemma LoadNetwork_known:
  assumes "name \<in> {''main'', ''mainnet'', ''ropsten'', ''sepolia'', ''goerli''}"
  shows "LoadNetwork name c = LoadNetwork name NewChainConfig" and "LoadNetwork name c \<noteq> NewChainConfig"
  using assms by (auto simp: LoadNetwork_def NewChainConfig_def)

lemma LoadNetwork_unknown:
  "name \<notin> {''main'', ''mainnet'', ''ropsten'', ''sepolia'', ''goerli''} \<Longrightarrow> LoadNetwork name c = c"
  by (simp add: LoadNetwork_def)

lemma ReadNetworkConfig_keeps: "fst (ReadNetworkConfig open decode datadir name c) \<noteq> Ok () \<Longrightarrow> snd (ReadNetworkConfig open decode datadir name c) = c"
  by (auto simp: ReadNetworkConfig_def split: res.splits option.splits)

text \<open>The Capella version of Ropsten is the one of Goerli, although its other versions are of its own series.\<close>

lemma ropsten_has_goerli_version:
  "nw_CapellaForkVersion (LoadNetwork ''ropsten'' c) = nw_CapellaForkVersion (LoadNetwork ''goerli'' c)"
  by (simp add: LoadNetwork_def)

end
