(* ===== verification/PayloadCache.thy ===== *)
theory PayloadCache
  imports Relay
begin

text \<open>
  The payload cache of the relay, \<open>src/structs/cache.go\<close>: one LRU cache per slot of the state, chosen by the slot
  of the key.

  The LRU cache is library code: the record \<open>lru_lib\<close>, with what it holds as \<open>lru_content\<close>.  The locale
  \<open>payload_cache\<close> is the contract of the interface \<open>PayloadCache\<close>; \<open>lru_laws\<close> states it of one LRU cache, and the
  cache of several slots is shown to satisfy it again.  Beyond the contract, payloads are never evicted by a
  payload of a slot with another position.
\<close>

section \<open>Operations\<close>

record 'c lru_lib =
  lru_New :: "int \<Rightarrow> (go_error, 'c) res"
  lru_ContainsOrAdd :: "payload_key \<Rightarrow> block_and_trace \<Rightarrow> 'c \<Rightarrow> (bool \<times> bool) \<times> 'c"
  lru_Add :: "payload_key \<Rightarrow> block_and_trace \<Rightarrow> 'c \<Rightarrow> bool \<times> 'c"
  lru_Get :: "payload_key \<Rightarrow> 'c \<Rightarrow> block_and_trace option \<times> 'c"
  lru_content :: "'c \<Rightarrow> payload_key \<Rightarrow> block_and_trace option"

fun new_caches :: "'c lru_lib \<Rightarrow> int \<Rightarrow> nat \<Rightarrow> (go_error, 'c list) res" where
  "new_caches U cacheSize 0 = Ok []"
| "new_caches U cacheSize (Suc n) =
     (case lru_New U cacheSize of
        Ok payloadCache \<Rightarrow>
          (case new_caches U cacheSize n of Ok c \<Rightarrow> Ok (payloadCache # c) | r \<Rightarrow> r)
      | Err e \<Rightarrow> Err (wrap_msg ''failed to initialize cache'' e)
      | Panic \<Rightarrow> Panic)"

definition NewMultiSlotPayloadCache :: "'c lru_lib \<Rightarrow> int \<Rightarrow> (go_error, 'c list) res" where
  "NewMultiSlotPayloadCache U cacheSize = new_caches U cacheSize (unat NumberOfSlotsInState)"

definition msc_ContainsOrAdd ::
  "'c lru_lib \<Rightarrow> payload_key \<Rightarrow> block_and_trace \<Rightarrow> 'c list \<Rightarrow> (bool \<times> bool) \<times> 'c list" where
  "msc_ContainsOrAdd U key bbt c =
     (case lru_ContainsOrAdd U key bbt (c ! slot_index (pk_Slot key)) of (r, l) \<Rightarrow> (r, c[slot_index (pk_Slot key) := l]))"

definition msc_Add :: "'c lru_lib \<Rightarrow> payload_key \<Rightarrow> block_and_trace \<Rightarrow> 'c list \<Rightarrow> bool \<times> 'c list" where
  "msc_Add U key bbt c = (case lru_Add U key bbt (c ! slot_index (pk_Slot key)) of (r, l) \<Rightarrow> (r, c[slot_index (pk_Slot key) := l]))"

definition msc_Get :: "'c lru_lib \<Rightarrow> payload_key \<Rightarrow> 'c list \<Rightarrow> block_and_trace option \<times> 'c list" where
  "msc_Get U key c = (case lru_Get U key (c ! slot_index (pk_Slot key)) of (r, l) \<Rightarrow> (r, c[slot_index (pk_Slot key) := l]))"

section \<open>The contract of a payload cache\<close>

text \<open>
  A payload added is held, and what else is held was held before under the same key: a cache may forget, but never
  mixes up keys.  \<open>ok\<close> is the invariant of the cache.
\<close>

locale payload_cache =
  fixes ok :: "'c \<Rightarrow> bool"
    and coa :: "payload_key \<Rightarrow> block_and_trace \<Rightarrow> 'c \<Rightarrow> (bool \<times> bool) \<times> 'c"
    and add :: "payload_key \<Rightarrow> block_and_trace \<Rightarrow> 'c \<Rightarrow> bool \<times> 'c"
    and get :: "payload_key \<Rightarrow> 'c \<Rightarrow> block_and_trace option \<times> 'c"
    and content :: "'c \<Rightarrow> payload_key \<Rightarrow> block_and_trace option"
  assumes add_law: "ok c \<Longrightarrow> add k b c = (e, c') \<Longrightarrow> ok c' \<and> content c' k = Some b \<and> content c' \<subseteq>\<^sub>m (content c)(k \<mapsto> b)"
    and coa_found: "ok c \<Longrightarrow> coa k b c = ((f, e), c') \<Longrightarrow> content c k = Some b' \<Longrightarrow> ok c' \<and> f \<and> content c' = content c"
    and coa_added: "ok c \<Longrightarrow> coa k b c = ((f, e), c') \<Longrightarrow> content c k = None \<Longrightarrow>
        ok c' \<and> \<not> f \<and> content c' k = Some b \<and> content c' \<subseteq>\<^sub>m (content c)(k \<mapsto> b)"
    and get_law: "ok c \<Longrightarrow> get k c = (r, c') \<Longrightarrow> ok c' \<and> r = content c k \<and> content c' = content c"
begin

lemma fst_get: "ok c \<Longrightarrow> fst (get k c) = content c k"
  using get_law [of c k "fst (get k c)" "snd (get k c)"] by simp

lemma get_after_add:
  assumes "ok c" "add k b c = (e, c')"
  shows "fst (get k c') = Some b"
  using add_law [OF assms] fst_get [of c' k] by simp

lemma get_after_coa:
  assumes "ok c" "coa k b c = ((f, e), c')"
  shows "fst (get k c') = Some (case content c k of None \<Rightarrow> b | Some b' \<Rightarrow> b')"
proof (cases "content c k")
  case None
  then show ?thesis
    using coa_added [OF assms None] fst_get [of c' k] by simp
next
  case (Some b')
  then show ?thesis
    using coa_found [OF assms Some] fst_get [of c' k] by simp
qed

lemma add_content:
  assumes "ok c" "add k b c = (e, c')" "content c' k' = Some b'"
  shows "k' = k \<and> b' = b \<or> content c k' = Some b'"
proof -
  have "content c' k' = ((content c)(k \<mapsto> b)) k'"
    using add_law [OF assms(1,2)] assms(3) by (metis domI map_le_def)
  then show ?thesis
    using assms(3) by (cases "k' = k") simp_all
qed

end

section \<open>One cache per slot\<close>

locale lru_laws = payload_cache lru_ok "lru_ContainsOrAdd U" "lru_Add U" "lru_Get U" "lru_content U"
  for lru_ok :: "'c \<Rightarrow> bool" and U :: "'c lru_lib" +
  assumes new_law: "lru_New U n = Ok c \<Longrightarrow> lru_ok c \<and> lru_content U c = Map.empty"

definition caches_ok :: "('c \<Rightarrow> bool) \<Rightarrow> 'c list \<Rightarrow> bool" where
  "caches_ok lru_ok c \<longleftrightarrow> length c = 2 \<and> (\<forall>l \<in> set c. lru_ok l)"

definition msc_content :: "'c lru_lib \<Rightarrow> 'c list \<Rightarrow> payload_key \<Rightarrow> block_and_trace option" where
  "msc_content U c key = lru_content U (c ! slot_index (pk_Slot key)) key"

lemma caches_ok_update:
  "caches_ok P c \<Longrightarrow> P l \<Longrightarrow> caches_ok P (c[slot_index s := l])"
  using set_update_subset_insert [of c "slot_index s" l] by (auto simp: caches_ok_def)

lemma caches_ok_nth: "caches_ok P c \<Longrightarrow> P (c ! slot_index s)"
  by (simp add: caches_ok_def)

lemma nth_update_slot:
  "caches_ok P c \<Longrightarrow> c[slot_index s := l] ! slot_index t = (if slot_index t = slot_index s then l else c ! slot_index t)"
  by (simp add: caches_ok_def nth_list_update)

lemma msc_content_update:
  assumes "caches_ok P c"
  shows "msc_content U (c[slot_index s := l]) k =
    (if slot_index (pk_Slot k) = slot_index s then lru_content U l k else msc_content U c k)"
  using assms by (simp add: msc_content_def nth_update_slot)

lemma msc_content_le:
  assumes "caches_ok P c" "lru_content U l \<subseteq>\<^sub>m (lru_content U (c ! slot_index (pk_Slot k)))(k \<mapsto> b)"
  shows "msc_content U (c[slot_index (pk_Slot k) := l]) \<subseteq>\<^sub>m (msc_content U c)(k \<mapsto> b)"
  unfolding map_le_def
proof
  fix x
  assume x: "x \<in> dom (msc_content U (c[slot_index (pk_Slot k) := l]))"
  show "msc_content U (c[slot_index (pk_Slot k) := l]) x = ((msc_content U c)(k \<mapsto> b)) x"
  proof (cases "slot_index (pk_Slot x) = slot_index (pk_Slot k)")
    case True
    with x assms(1) have "x \<in> dom (lru_content U l)"
      by (simp add: dom_def msc_content_update)
    with assms(2) have "lru_content U l x = ((lru_content U (c ! slot_index (pk_Slot k)))(k \<mapsto> b)) x"
      by (simp add: map_le_def)
    moreover have "msc_content U c x = lru_content U (c ! slot_index (pk_Slot k)) x"
      by (simp add: msc_content_def True)
    ultimately show ?thesis
      by (simp add: msc_content_update [OF assms(1)] True)
  next
    case False
    then have "x \<noteq> k" by auto
    with False assms(1) show ?thesis
      by (simp add: msc_content_update)
  qed
qed

sublocale lru_laws \<subseteq> multi:
  payload_cache "caches_ok lru_ok" "msc_ContainsOrAdd U" "msc_Add U" "msc_Get U" "msc_content U"
proof (unfold_locales, goal_cases)
  case (1 c k b e c')
  obtain l where l: "lru_Add U k b (c ! slot_index (pk_Slot k)) = (e, l)" "c' = c[slot_index (pk_Slot k) := l]"
    using 1(2) by (auto simp: msc_Add_def split: prod.splits)
  note a = add_law [OF caches_ok_nth [OF 1(1)] l(1)]
  show ?case
    using a msc_content_le [OF 1(1)] caches_ok_update [OF 1(1)] by (simp add: l(2) msc_content_update [OF 1(1)])
next
  case (2 c k b f e c' b')
  obtain l where l: "lru_ContainsOrAdd U k b (c ! slot_index (pk_Slot k)) = ((f, e), l)" "c' = c[slot_index (pk_Slot k) := l]"
    using 2(2) by (auto simp: msc_ContainsOrAdd_def split: prod.splits)
  have f: "lru_content U (c ! slot_index (pk_Slot k)) k = Some b'"
    using 2(3) by (simp add: msc_content_def)
  note a = coa_found [OF caches_ok_nth [OF 2(1)] l(1) f]
  have "msc_content U c' x = msc_content U c x" for x
    using a by (simp add: l(2) msc_content_update [OF 2(1)]) (simp add: msc_content_def)
  then show ?case
    using a caches_ok_update [OF 2(1)] by (auto simp: l(2))
next
  case (3 c k b f e c')
  obtain l where l: "lru_ContainsOrAdd U k b (c ! slot_index (pk_Slot k)) = ((f, e), l)" "c' = c[slot_index (pk_Slot k) := l]"
    using 3(2) by (auto simp: msc_ContainsOrAdd_def split: prod.splits)
  have f: "lru_content U (c ! slot_index (pk_Slot k)) k = None"
    using 3(3) by (simp add: msc_content_def)
  note a = coa_added [OF caches_ok_nth [OF 3(1)] l(1) f]
  show ?case
    using a msc_content_le [OF 3(1)] caches_ok_update [OF 3(1)] by (simp add: l(2) msc_content_update [OF 3(1)])
next
  case (4 c k r c')
  obtain l where l: "lru_Get U k (c ! slot_index (pk_Slot k)) = (r, l)" "c' = c[slot_index (pk_Slot k) := l]"
    using 4(2) by (auto simp: msc_Get_def split: prod.splits)
  note a = get_law [OF caches_ok_nth [OF 4(1)] l(1)]
  have "msc_content U c' x = msc_content U c x" for x
    using a by (simp add: l(2) msc_content_update [OF 4(1)]) (simp add: msc_content_def)
  then show ?case
    using a caches_ok_update [OF 4(1)] by (auto simp: l(2) msc_content_def)
qed

context lru_laws
begin

lemma new_caches_ok:
  "new_caches U n k = Ok c \<Longrightarrow> length c = k \<and> (\<forall>l \<in> set c. lru_ok l \<and> lru_content U l = Map.empty)"
  by (induction k arbitrary: c) (auto split: res.splits dest: new_law)

lemma NewMultiSlotPayloadCache_empty:
  assumes "NewMultiSlotPayloadCache U n = Ok c"
  shows "caches_ok lru_ok c \<and> msc_content U c = Map.empty"
proof -
  have c: "length c = 2 \<and> (\<forall>l \<in> set c. lru_ok l \<and> lru_content U l = Map.empty)"
    using new_caches_ok assms by (simp add: NewMultiSlotPayloadCache_def NumberOfSlotsInState_def)
  then have "msc_content U c k = None" for k
    by (simp add: msc_content_def)
  with c show ?thesis
    by (auto simp: caches_ok_def)
qed

text \<open>A payload never makes the cache forget one of a slot with another position.\<close>

lemma other_slot_kept:
  assumes "caches_ok lru_ok c" "slot_index (pk_Slot k') \<noteq> slot_index (pk_Slot k)"
  shows "fst (msc_Get U k' (snd (msc_Add U k b c))) = fst (msc_Get U k' c)"
    and "fst (msc_Get U k' (snd (msc_ContainsOrAdd U k b c))) = fst (msc_Get U k' c)"
  using assms by (simp_all add: msc_Get_def msc_Add_def msc_ContainsOrAdd_def nth_update_slot case_prod_beta)

end

section \<open>An LRU cache in memory\<close>

text \<open>The size of the cache and its entries, the one used last first.\<close>

definition mem_lru :: "(nat \<times> (payload_key \<times> block_and_trace) list) lru_lib" where
  "mem_lru =
     \<lparr>lru_New = (\<lambda>n. if n \<le> 0 then Err (LibErr ''must provide a positive size'') else Ok (nat n, [])),
      lru_ContainsOrAdd = (\<lambda>k b (n, es).
        if map_of es k \<noteq> None then ((True, False), n, es)
        else ((False, length es \<ge> n), n, take n ((k, b) # es))),
      lru_Add = (\<lambda>k b (n, es).
        (map_of es k = None \<and> length es \<ge> n, n, take n ((k, b) # AList.delete k es))),
      lru_Get = (\<lambda>k (n, es).
        case map_of es k of None \<Rightarrow> (None, n, es) | Some b \<Rightarrow> (Some b, n, (k, b) # AList.delete k es)),
      lru_content = (\<lambda>(n, es). map_of es)\<rparr>"

definition mem_lru_ok :: "nat \<times> (payload_key \<times> block_and_trace) list \<Rightarrow> bool" where
  "mem_lru_ok c \<longleftrightarrow> 0 < fst c \<and> distinct (map fst (snd c))"

lemma map_of_take_le: "map_of (take n es) \<subseteq>\<^sub>m map_of es"
  using map_le_map_add [of "map_of (take n es)" "map_of (drop n es)"] by (metis append_take_drop_id map_of_append)

lemma delete_add_entry: "(map_of (AList.delete k es))(k \<mapsto> b) = (map_of es)(k \<mapsto> b)"
  by (auto simp: delete_conv')

lemma take_new_entry:
  assumes "0 < n"
  shows "map_of (take n ((k, b) # es)) k = Some b"
    and "map_of (take n ((k, b) # es)) \<subseteq>\<^sub>m (map_of es)(k \<mapsto> b)"
  using assms map_of_take_le [of n "(k, b) # es"] by (simp_all add: take_Cons')

lemma distinct_take_entry:
  assumes "distinct (map fst es)" "k \<notin> fst ` set es"
  shows "distinct (map fst (take n ((k, b) # es)))"
proof -
  have "distinct (map fst ((k, b) # es))"
    using assms by simp
  then show ?thesis
    by (metis distinct_take take_map)
qed

lemma delete_ok: "distinct (map fst es) \<Longrightarrow> distinct (map fst (AList.delete k es))" "k \<notin> fst ` set (AList.delete k es)"
  by (rule distinct_delete, assumption, rule delete_notin_dom)

interpretation mem_cache: lru_laws mem_lru_ok mem_lru
proof (unfold_locales, goal_cases)
  case (1 c k b e c')
  obtain n es where c: "c = (n, es)" by (cases c)
  with 1 have n: "0 < n" "distinct (map fst es)" and c': "c' = (n, take n ((k, b) # AList.delete k es))"
    by (simp_all add: mem_lru_def mem_lru_ok_def)
  show ?case
    using take_new_entry [OF n(1), of k b "AList.delete k es"] distinct_take_entry [OF delete_ok(1) [OF n(2)] delete_ok(2)] n(1)
    by (simp add: c c' mem_lru_def mem_lru_ok_def delete_add_entry del: take_Suc_Cons)
next
  case (2 c k b f e c' b')
  then show ?case
    by (cases c) (auto simp: mem_lru_def mem_lru_ok_def split: if_splits)
next
  case (3 c k b f e c')
  obtain n es where c: "c = (n, es)" by (cases c)
  with 3 have n: "0 < n" "distinct (map fst es)" "k \<notin> fst ` set es" and c': "\<not> f" "c' = (n, take n ((k, b) # es))"
    by (simp_all add: mem_lru_def mem_lru_ok_def map_of_eq_None_iff)
  show ?case
    using take_new_entry [OF n(1), of k b es] distinct_take_entry [OF n(2,3)] n(1) c'(1)
    by (simp add: c c'(2) mem_lru_def mem_lru_ok_def)
next
  case (4 c k r c')
  then show ?case
    using delete_ok(1) [of "snd c" k] delete_ok(2) [of k "snd c"]
    by (cases c) (auto simp: mem_lru_def mem_lru_ok_def delete_add_entry map_upd_triv split: option.splits)
next
  case (5 n c)
  then show ?case
    by (auto simp: mem_lru_def mem_lru_ok_def split: if_splits)
qed

end
