(* ===== verification/PgRegistrations.thy ===== *)
theory PgRegistrations
  imports RegistrationStore PgEvidence
begin

text \<open>
  The PostgreSQL store of validator registrations, \<open>src/datastore/validator/postgres\<close>.

  The database, the texts of keys and the decoders of the libraries are the record \<open>pg_reg_lib\<close>; the locale
  \<open>pg_reg_laws\<close> states what the upsert and the query of one key do on the table, which has a row for the text of
  a public key.  Times are seconds, signed as \<open>time.Unix\<close> takes them.  Unlike the store of \<open>RegistrationStore\<close>,
  this one keeps the registration it has when another one with the same time is put.
\<close>

section \<open>Operations\<close>

record registration_row =
  rw_signature :: string
  rw_feeRecipient :: string
  rw_GasLimit :: u64
  rw_registrationTime :: int

record full_registration_row = registration_row +
  rw_updated :: int
  rw_pubkey :: string

record 'w pg_reg_lib =
  rg_Exec :: "string \<Rightarrow> sql_value list \<Rightarrow> 'w \<Rightarrow> (go_error, unit) res \<times> 'w"
  rg_QueryRow :: "string \<Rightarrow> sql_value list \<Rightarrow> 'w \<Rightarrow> (go_error, registration_row) res"
  rg_Query :: "string \<Rightarrow> 'w \<Rightarrow> (go_error, (go_error, full_registration_row) res list) res"
  rg_pubkey :: "pubkey \<Rightarrow> string"
  rg_signature :: "signature \<Rightarrow> string"
  rg_address :: "address \<Rightarrow> string"
  hexutil_Decode :: "string \<Rightarrow> (go_error, bytes) res"
  rg_to_pubkey :: "bytes \<Rightarrow> (go_error, pubkey) res"
  rg_to_signature :: "bytes \<Rightarrow> (go_error, signature) res"
  rg_to_address :: "bytes \<Rightarrow> (go_error, address) res"

definition select_all :: string where
  "select_all = ''SELECT signature, updated_at, pubkey, fee_recipient, gas_limit, reg_time FROM validator_registrations''"

definition select_registration :: string where
  "select_registration =
     ''SELECT signature, fee_recipient, gas_limit, reg_time FROM validator_registrations WHERE pubkey = $1 LIMIT 1;''"

text \<open>The statement of \<open>PutNewerRegistration\<close>, with single spaces between its words.\<close>

definition upsert_registration :: string where
  "upsert_registration =
     ''INSERT INTO validator_registrations(pubkey, signature, fee_recipient, gas_limit, reg_time, updated_at) ''
     @ ''VALUES ($1, $2, $3, $4, $5, NOW()) ON CONFLICT (pubkey) DO UPDATE SET ''
     @ ''signature = EXCLUDED.signature, fee_recipient = EXCLUDED.fee_recipient, ''
     @ ''gas_limit = EXCLUDED.gas_limit, reg_time = EXCLUDED.reg_time, updated_at = NOW() ''
     @ ''WHERE validator_registrations.reg_time < EXCLUDED.reg_time''"

definition decode_with :: "'w pg_reg_lib \<Rightarrow> (bytes \<Rightarrow> (go_error, 'a) res) \<Rightarrow> string \<Rightarrow> (go_error, 'a) res" where
  "decode_with R FromSlice t = (case hexutil_Decode R t of Ok b \<Rightarrow> FromSlice b | Err e \<Rightarrow> Err e | Panic \<Rightarrow> Panic)"

definition pg_GetRegistration :: "'w pg_reg_lib \<Rightarrow> pubkey \<Rightarrow> 'w \<Rightarrow> (go_error, signed_registration) res" where
  "pg_GetRegistration R pk w =
     (case rg_QueryRow R select_registration [SqlString (rg_pubkey R pk)] w of
        Err _ \<Rightarrow> Err datastore_ErrNotFound
      | Panic \<Rightarrow> Panic
      | Ok row \<Rightarrow>
          (case decode_with R (rg_to_signature R) (rw_signature row) of
             Err e \<Rightarrow> Err e
           | Panic \<Rightarrow> Panic
           | Ok sig \<Rightarrow>
               (case decode_with R (rg_to_address R) (rw_feeRecipient row) of
                  Err e \<Rightarrow> Err e
                | Panic \<Rightarrow> Panic
                | Ok fee \<Rightarrow>
                    Ok \<lparr>sreg_Message = Some \<lparr>reg_FeeRecipient = fee, reg_GasLimit = rw_GasLimit row,
                          reg_Timestamp = word_of_int (rw_registrationTime row), reg_Pubkey = pk\<rparr>,
                        sreg_Signature = sig\<rparr>)))"

text \<open>The key of the call is not used: the row is the one of the key in the message.\<close>

definition pg_PutNewerRegistration ::
  "'w pg_reg_lib \<Rightarrow> pubkey \<Rightarrow> signed_registration \<Rightarrow> (go_error, 'w, unit) handler" where
  "pg_PutNewerRegistration R pk reg w =
     (case sreg_Message reg of
        None \<Rightarrow> (Panic, w)
      | Some m \<Rightarrow>
          rg_Exec R upsert_registration
            [SqlString (rg_pubkey R (reg_Pubkey m)), SqlString (rg_signature R (sreg_Signature reg)),
             SqlString (rg_address R (reg_FeeRecipient m)), SqlUint (reg_GasLimit m), SqlTime (sint (reg_Timestamp m))] w)"

text \<open>
  \<open>PopulateAllRegistrations\<close>: the entries sent on the channel \<open>out\<close>, and the error that ends the loop.  The signature
  is decoded first, then the fee recipient and the key.
\<close>

definition entry_of_row :: "'w pg_reg_lib \<Rightarrow> full_registration_row \<Rightarrow> (go_error, validator_cache_entry) res" where
  "entry_of_row R row =
     (case decode_with R (rg_to_signature R) (rw_signature row) of
        Err e \<Rightarrow> Err e
      | Panic \<Rightarrow> Panic
      | Ok sig \<Rightarrow>
          (case decode_with R (rg_to_address R) (rw_feeRecipient row) of
             Err e \<Rightarrow> Err e
           | Panic \<Rightarrow> Panic
           | Ok fee \<Rightarrow>
               (case decode_with R (rg_to_pubkey R) (rw_pubkey row) of
                  Err e \<Rightarrow> Err e
                | Panic \<Rightarrow> Panic
                | Ok pk \<Rightarrow>
                    Ok \<lparr>vce_Time = rw_updated row,
                        vce_Entry = \<lparr>sreg_Message = Some \<lparr>reg_FeeRecipient = fee, reg_GasLimit = rw_GasLimit row,
                              reg_Timestamp = word_of_int (rw_registrationTime row), reg_Pubkey = pk\<rparr>,
                            sreg_Signature = sig\<rparr>\<rparr>)))"

fun populate_rows ::
  "'w pg_reg_lib \<Rightarrow> (go_error, full_registration_row) res list \<Rightarrow> (go_error, unit) res \<times> validator_cache_entry list" where
  "populate_rows R [] = (Ok (), [])"
| "populate_rows R (Err e # rows) = (Err (if e = sql_ErrNoRows then datastore_ErrNotFound else e), [])"
| "populate_rows R (Panic # rows) = (Panic, [])"
| "populate_rows R (Ok row # rows) =
     (case entry_of_row R row of
        Err e \<Rightarrow> (Err e, [])
      | Panic \<Rightarrow> (Panic, [])
      | Ok vce \<Rightarrow> (case populate_rows R rows of (r, out) \<Rightarrow> (r, vce # out)))"

definition PopulateAllRegistrations ::
  "'w pg_reg_lib \<Rightarrow> 'w \<Rightarrow> (go_error, unit) res \<times> validator_cache_entry list" where
  "PopulateAllRegistrations R w =
     (case rg_Query R select_all w of Ok rows \<Rightarrow> populate_rows R rows | Err e \<Rightarrow> (Err e, []) | Panic \<Rightarrow> (Panic, []))"

section \<open>What the statements do\<close>

text \<open>
  The rows of the table by the text of their key.  A statement that fails changes nothing; the upsert inserts a row,
  or replaces the one of the key if its time is lower.  Decoding inverts the texts, which differ for different keys.
\<close>

locale pg_reg_laws =
  fixes R :: "'w pg_reg_lib" and table :: "'w \<Rightarrow> string \<Rightarrow> registration_row option"
  assumes upsert: "rg_Exec R upsert_registration [SqlString k, SqlString sg, SqlString fee, SqlUint gas, SqlTime t] w = (Ok (), w') \<Longrightarrow>
      table w' = (if \<exists>row. table w k = Some row \<and> t \<le> rw_registrationTime row then table w
        else (table w)(k \<mapsto> \<lparr>rw_signature = sg, rw_feeRecipient = fee, rw_GasLimit = gas, rw_registrationTime = t\<rparr>))"
    and exec_failed: "rg_Exec R stmt args w = (Err e, w') \<Longrightarrow> table w' = table w"
    and exec_returns: "fst (rg_Exec R stmt args w) \<noteq> Panic"
    and query_row: "rg_QueryRow R select_registration [SqlString k] w =
      (case table w k of None \<Rightarrow> Err sql_ErrNoRows | Some row \<Rightarrow> Ok row)"
    and signature_codec: "decode_with R (rg_to_signature R) (rg_signature R sig) = Ok sig"
    and address_codec: "decode_with R (rg_to_address R) (rg_address R adr) = Ok adr"
    and pubkey_text_differs: "rg_pubkey R p = rg_pubkey R q \<Longrightarrow> p = q"
begin

lemma pg_put_table:
  assumes "pg_PutNewerRegistration R pk r w = (Ok (), w')" "sreg_Message r = Some m"
  shows "table w' =
    (if \<exists>row. table w (rg_pubkey R (reg_Pubkey m)) = Some row \<and> sint (reg_Timestamp m) \<le> rw_registrationTime row then table w
     else (table w)(rg_pubkey R (reg_Pubkey m) \<mapsto>
       \<lparr>rw_signature = rg_signature R (sreg_Signature r), rw_feeRecipient = rg_address R (reg_FeeRecipient m),
        rw_GasLimit = reg_GasLimit m, rw_registrationTime = sint (reg_Timestamp m)\<rparr>))"
  using assms by (intro upsert) (simp add: pg_PutNewerRegistration_def)

text \<open>A newer registration is read back as it was put.\<close>

lemma pg_put_newer:
  assumes "pg_PutNewerRegistration R pk r w = (Ok (), w')" "sreg_Message r = Some m" "reg_Pubkey m = pk"
    and "\<forall>row. table w (rg_pubkey R pk) = Some row \<longrightarrow> rw_registrationTime row < sint (reg_Timestamp m)"
  shows "pg_GetRegistration R pk w' = Ok r"
proof -
  have n: "\<not> (\<exists>row. table w (rg_pubkey R (reg_Pubkey m)) = Some row \<and> sint (reg_Timestamp m) \<le> rw_registrationTime row)"
    using assms(3,4) by (metis not_le)
  have "table w' (rg_pubkey R pk) = Some
      \<lparr>rw_signature = rg_signature R (sreg_Signature r), rw_feeRecipient = rg_address R (reg_FeeRecipient m),
       rw_GasLimit = reg_GasLimit m, rw_registrationTime = sint (reg_Timestamp m)\<rparr>"
    using pg_put_table [OF assms(1,2), unfolded if_not_P [OF n]] assms(3) by simp
  then show ?thesis
    using assms(2,3) by (cases r, cases m) (simp add: pg_GetRegistration_def query_row signature_codec address_codec)
qed

text \<open>One that is not newer, of the same time included, changes nothing.\<close>

lemma pg_put_not_newer:
  assumes "pg_PutNewerRegistration R pk r w = (Ok (), w')" "sreg_Message r = Some m"
    and "table w (rg_pubkey R (reg_Pubkey m)) = Some row" "sint (reg_Timestamp m) \<le> rw_registrationTime row"
  shows "table w' = table w"
  using pg_put_table [OF assms(1,2)] assms(3,4) by simp

lemma pg_put_other:
  assumes "pg_PutNewerRegistration R pk r w = (x, w')" "sreg_Message r = Some m" "pk' \<noteq> reg_Pubkey m"
  shows "table w' (rg_pubkey R pk') = table w (rg_pubkey R pk')"
proof (cases x)
  case (Ok u)
  have "rg_pubkey R pk' \<noteq> rg_pubkey R (reg_Pubkey m)"
    using assms(3) pubkey_text_differs by blast
  moreover have put: "pg_PutNewerRegistration R pk r w = (Ok (), w')"
    using assms(1) Ok by simp
  ultimately show ?thesis
    unfolding pg_put_table [OF put assms(2)] by simp
next
  case (Err e)
  then show ?thesis
    using assms(1) by (simp add: pg_PutNewerRegistration_def assms(2)) (drule exec_failed, simp)
next
  case Panic
  then have "fst (pg_PutNewerRegistration R pk r w) = Panic"
    using assms(1) by simp
  then show ?thesis
    by (simp add: pg_PutNewerRegistration_def assms(2) exec_returns)
qed

text \<open>The time of a key never decreases, and after a put it is at least the one put.\<close>

definition row_time :: "pubkey \<Rightarrow> 'w \<Rightarrow> int option" where
  "row_time pk w = map_option rw_registrationTime (table w (rg_pubkey R pk))"

lemma pg_put_later:
  assumes "pg_PutNewerRegistration R pk r w = (Ok (), w')" "sreg_Message r = Some m"
  shows "\<exists>t'. row_time (reg_Pubkey m) w' = Some t' \<and> sint (reg_Timestamp m) \<le> t'"
    and "row_time pk' w = Some t \<Longrightarrow> \<exists>t'. row_time pk' w' = Some t' \<and> t \<le> t'"
proof -
  note tab = pg_put_table [OF assms]
  show "\<exists>t'. row_time (reg_Pubkey m) w' = Some t' \<and> sint (reg_Timestamp m) \<le> t'"
    using tab by (auto simp: row_time_def split: if_splits)
  assume t: "row_time pk' w = Some t"
  show "\<exists>t'. row_time pk' w' = Some t' \<and> t \<le> t'"
  proof (cases "pk' = reg_Pubkey m")
    case True
    with tab t show ?thesis
      by (auto simp: row_time_def split: if_splits)
  next
    case False
    with t show ?thesis
      using pg_put_other [OF assms False] by (auto simp: row_time_def)
  qed
qed

text \<open>After a request of the store manager every registration of it is in the table, or a newer one of its key.\<close>

lemma pg_store_later:
  assumes "storeRegistration V (pg_PutNewerRegistration R) now rs s = (Ok (), s')"
  shows "(\<forall>pk t. row_time pk (sm_store s) = Some t \<longrightarrow> (\<exists>t'. row_time pk (sm_store s') = Some t' \<and> t \<le> t'))
    \<and> (\<forall>r m. r \<in> set rs \<longrightarrow> sreg_Message r = Some m \<longrightarrow>
          (\<exists>t'. row_time (reg_Pubkey m) (sm_store s') = Some t' \<and> sint (reg_Timestamp m) \<le> t'))"
  using assms
proof (induction rs arbitrary: s now)
  case Nil
  then show ?case by auto
next
  case (Cons p ps)
  from Cons.prems obtain msg w where p: "sreg_Message p = Some msg"
    and w: "pg_PutNewerRegistration R (reg_Pubkey msg) p (sm_store s) = (Ok (), w)"
    and rest: "storeRegistration V (pg_PutNewerRegistration R) (\<lambda>i. now (Suc i)) ps
        (s\<lparr>sm_store := w, RegistrationCache :=
             cache_Add V (reg_Pubkey msg) \<lparr>vce_Time = now 0, vce_Entry = p\<rparr> (RegistrationCache s)\<rparr>) = (Ok (), s')"
    by (auto split: option.splits prod.splits res.splits)
  note IH = Cons.IH [OF rest, simplified]
  have "\<exists>t'. row_time pk (sm_store s') = Some t' \<and> t \<le> t'" if "row_time pk (sm_store s) = Some t" for pk t
    using pg_put_later(2) [OF w p that] IH by (meson order_trans)
  moreover have "\<exists>t'. row_time (reg_Pubkey msg) (sm_store s') = Some t' \<and> sint (reg_Timestamp msg) \<le> t'"
    using pg_put_later(1) [OF w p] IH by (meson order_trans)
  ultimately show ?case
    using IH p by auto
qed

end

text \<open>Whatever goes wrong with the query, the registration is reported as not found.\<close>

lemma pg_query_error_not_found:
  "rg_QueryRow R select_registration [SqlString (rg_pubkey R pk)] w = Err e \<Longrightarrow>
     pg_GetRegistration R pk w = Err datastore_ErrNotFound"
  by (simp add: pg_GetRegistration_def)

section \<open>A table in memory\<close>

text \<open>Rows in a map; the text of a key has its bytes as characters.\<close>

fun mem_upsert :: "sql_value list \<Rightarrow> (string \<Rightarrow> registration_row option) \<Rightarrow> (go_error, unit) res \<times> (string \<Rightarrow> registration_row option)" where
  "mem_upsert [SqlString k, SqlString sg, SqlString fee, SqlUint gas, SqlTime t] w =
     (Ok (), if (case w k of None \<Rightarrow> False | Some row \<Rightarrow> t \<le> rw_registrationTime row) then w
             else w(k \<mapsto> \<lparr>rw_signature = sg, rw_feeRecipient = fee, rw_GasLimit = gas, rw_registrationTime = t\<rparr>))"
| "mem_upsert args w = (Err (LibErr ''wrong arguments''), w)"

definition mem_pg :: "(string \<Rightarrow> registration_row option) pg_reg_lib" where
  "mem_pg =
     \<lparr>rg_Exec = (\<lambda>stmt args w. mem_upsert args w),
      rg_QueryRow = (\<lambda>stmt args w. case args of
         [SqlString k] \<Rightarrow> (case w k of None \<Rightarrow> Err sql_ErrNoRows | Some row \<Rightarrow> Ok row)
       | _ \<Rightarrow> Err (LibErr ''wrong arguments'')),
      rg_Query = (\<lambda>stmt w. Ok []),
      rg_pubkey = (\<lambda>x. bytes_string (barr_list x)), rg_signature = (\<lambda>x. bytes_string (barr_list x)),
      rg_address = (\<lambda>x. bytes_string (barr_list x)), hexutil_Decode = (\<lambda>t. Ok (string_bytes t)),
      rg_to_pubkey = (\<lambda>b. Ok (barr_copy b)), rg_to_signature = (\<lambda>b. Ok (barr_copy b)), rg_to_address = (\<lambda>b. Ok (barr_copy b))\<rparr>"

lemma string_bytes_string: "string_bytes (bytes_string bs) = bs"
proof -
  have "of_nat (of_char (char_of (unat b) :: char)) = b" for b :: byte
  proof -
    have "unat b < 256"
      using unsigned_less [of b] by simp
    then show ?thesis by simp
  qed
  then show ?thesis
    by (simp add: string_bytes_def bytes_string_def comp_def map_idI)
qed

lemma mem_upsert_failed: "mem_upsert args w = (Err e, w') \<Longrightarrow> w' = w"
  by (cases "(args, w)" rule: mem_upsert.cases) auto

lemma mem_upsert_returns: "fst (mem_upsert args w) \<noteq> Panic"
  by (cases "(args, w)" rule: mem_upsert.cases) auto

interpretation mem_table: pg_reg_laws mem_pg "\<lambda>w. w"
proof (unfold_locales, goal_cases)
  case (1 k sg fee gas t w w')
  then show ?case
    by (auto simp: mem_pg_def split: option.splits if_splits)
next
  case (2 stmt args w e w')
  then show ?case
    by (simp add: mem_pg_def mem_upsert_failed)
next
  case (3 stmt args w)
  then show ?case
    by (simp add: mem_pg_def mem_upsert_returns)
next
  case (4 k w)
  then show ?case
    by (simp add: mem_pg_def)
next
  case (5 sig)
  then show ?case
    by (simp add: mem_pg_def decode_with_def string_bytes_string)
next
  case (6 adr)
  then show ?case
    by (simp add: mem_pg_def decode_with_def string_bytes_string)
next
  case (7 p q)
  then show ?case
    by (simp add: mem_pg_def) (metis string_bytes_string barr_eq_iff)
qed

text \<open>With the same time as the stored one, this store keeps the registration it has and the other one replaces it.\<close>

lemma same_time_differs:
  defines "a \<equiv> sample_reg 1 5" and "b \<equiv> sample_reg 2 5"
  shows "pg_GetRegistration mem_pg (barr_copy [7])
      (snd (pg_PutNewerRegistration mem_pg (barr_copy [7]) b (snd (pg_PutNewerRegistration mem_pg (barr_copy [7]) a Map.empty)))) = Ok a"
    and "GetRegistration mem_db (barr_copy [7])
      (snd (PutNewerRegistration mem_db 9 (barr_copy [7]) b (snd (PutNewerRegistration mem_db 9 (barr_copy [7]) a Map.empty)))) = Ok b"
proof -
  have put: "pg_PutNewerRegistration mem_pg (barr_copy [7]) r w = (Ok (), snd (pg_PutNewerRegistration mem_pg (barr_copy [7]) r w))"
    if "r = a \<or> r = b" for r w
    using that by (auto simp: a_def b_def sample_reg_def pg_PutNewerRegistration_def mem_pg_def)
  define w1 where "w1 = snd (pg_PutNewerRegistration mem_pg (barr_copy [7]) a Map.empty)"
  have g: "pg_GetRegistration mem_pg (barr_copy [7]) w1 = Ok a"
    unfolding w1_def by (rule mem_table.pg_put_newer [OF put, where m = "the (sreg_Message a)"]) (simp_all add: a_def sample_reg_def)
  have "snd (pg_PutNewerRegistration mem_pg (barr_copy [7]) b w1) = w1"
    by (simp add: w1_def a_def b_def sample_reg_def pg_PutNewerRegistration_def mem_pg_def)
  with g show "pg_GetRegistration mem_pg (barr_copy [7])
      (snd (pg_PutNewerRegistration mem_pg (barr_copy [7]) b (snd (pg_PutNewerRegistration mem_pg (barr_copy [7]) a Map.empty)))) = Ok a"
    by (simp add: w1_def)
  define v1 where "v1 = snd (PutNewerRegistration mem_db 9 (barr_copy [7]) a Map.empty)"
  have dput: "PutNewerRegistration mem_db 9 (barr_copy [7]) b v1 = (Ok (), snd (PutNewerRegistration mem_db 9 (barr_copy [7]) b v1))"
    by (simp add: b_def sample_reg_def PutNewerRegistration_def mem_db_def)
  have da: "PutNewerRegistration mem_db 9 (barr_copy [7]) a Map.empty = (Ok (), v1)"
    by (simp add: v1_def a_def sample_reg_def PutNewerRegistration_def mem_db_def)
  have "stored_time mem_db (barr_copy [7]) v1 = Some 5"
    using mem.registers.put_new [OF da] by (simp add: a_def sample_reg_def stored_time_def mem_db_def)
  then show "GetRegistration mem_db (barr_copy [7])
      (snd (PutNewerRegistration mem_db 9 (barr_copy [7]) b (snd (PutNewerRegistration mem_db 9 (barr_copy [7]) a Map.empty)))) = Ok b"
    using mem.registers.put_new [OF dput] by (simp add: b_def sample_reg_def v1_def)
qed

end
