(* ===== verification/Spec2Isabelle.thy ===== *)
theory Spec2Isabelle
  imports RelayProps BeaconSsz BeaconManager Validators Stream Api Reconfigure WsRequests WarehouseRun PgEvidence ChainConfig PayloadCache PgRegistrations
begin

text \<open>
  Verification development for \<open>dreamboat\<close>, an MEV-boost relay written in Go (paths are below \<open>src/\<close>).

  \<^bold>\<open>The program.\<close>  Builders submit execution payloads with bids over HTTP (\<open>api\<close>).  The relay (\<open>relay\<close>) checks a
  submission against its view of the beacon chain (\<open>beacon\<close>), the registrations of validators (\<open>validators\<close>,
  \<open>datastore/validator\<close>), the builder's signature (\<open>verify\<close>) and a simulation of the block (\<open>sim\<close>), stores the
  payload (\<open>datastore\<close>) and enters the bid in an auction (\<open>auction\<close>).  A proposer asks for the best header and,
  with a signed blinded block, for the payload behind it.  What was submitted and delivered is kept as evidence for
  the data API (\<open>datastore/evidence\<close>) and on disk (\<open>datastore/warehouse\<close>); relays share bids and blocks over a
  stream (\<open>stream\<close>).  Settings come from a file that can be read again (\<open>cmd/dreamboat/config\<close>).

  \<^bold>\<open>Conventions.\<close>  Machine integers are words of their width, arrays of bytes have their length in the type, a call
  that can fail or panic returns \<open>Ok\<close>, \<open>Err\<close> or \<open>Panic\<close>, and a handler maps a state to a result and a state
  (\<open>Prelude\<close>, \<open>GoStd\<close>).  Pointers that may be nil are options.  Third-party code (\<open>go-boost-utils\<close>, \<open>fastssz\<close>, BLS,
  JSON, the databases, Redis, LRU caches, rate limiters, HTTP and WebSocket transports) is a record of functions that
  the definitions take as an argument.  What is relied on is a hypothesis or a locale of laws; every locale is
  interpreted on the definitions of the model, with an instance of the library in memory.  Readings of the clock, of the beacon state, of contexts and of random numbers are
  arguments in the order of the source.  Goroutines that share state are steps of a machine, and a run is any list of
  steps; orders that Go leaves open are arguments or permutations.

  \<^bold>\<open>Theories.\<close>
  \<^item> \<open>Structs\<close>, \<open>ForkData\<close>, \<open>HashWalk\<close>, \<open>Contents\<close>: package \<open>structs\<close> with \<open>structs/forks\<close>: slots, forks, queries,
    payloads, bids and blocks, the calls of hash tree roots, and what a submission is turned into.
  \<^item> \<open>Ssz\<close>, \<open>CapellaSsz\<close>, \<open>BeaconSsz\<close>: the SSZ codecs.  Decoding inverts encoding, decoders never panic, and published
    Capella blocks have the layout of the SSZ specification.
  \<^item> \<open>Auction\<close>: \<open>auction/auctioneer.go\<close> with an explicit heap, refining a map of latest bids.
  \<^item> \<open>BeaconState\<close>, \<open>BeaconClient\<close>, \<open>BeaconManager\<close>: \<open>beacon\<close> and \<open>beacon/client\<close>: the ring of recent slots, the clients
    of one and of several nodes, start and event loop.  The head never goes back, and events with a
    sensible slot do not make the loop panic.
  \<^item> \<open>Relay\<close>, \<open>RelaySubmit\<close>, \<open>RelayDeliver\<close>, \<open>RelayProps\<close>, with examples in \<open>Samples\<close>: \<open>relay\<close>.  Accepted submissions
    passed the checks, the best bid is served, a payload is revealed only against the proposer's signature, and at
    most one block per slot.
  \<^item> \<open>PayloadCache\<close>: \<open>structs/cache.go\<close>.  The caches of the slots together are a payload cache, and never evict
    payloads of a slot with another position.
  \<^item> \<open>Verify\<close>, \<open>RegistrationStore\<close>, \<open>PgRegistrations\<close>, \<open>Validators\<close>: \<open>verify\<close>, \<open>validators\<close> and both stores of
    \<open>datastore/validator\<close>.  Verdicts do not depend on the order of the workers, only verified registrations are
    stored, and a store keeps the newest.
  \<^item> \<open>Datastore\<close>, \<open>Evidence\<close>, \<open>PgEvidence\<close>: \<open>datastore\<close> and both stores of \<open>datastore/evidence\<close>: round trips, what
    queries return, and that they return.
  \<^item> \<open>Warehouse\<close>, \<open>WarehouseRun\<close>: \<open>datastore/warehouse\<close> and \<open>structs/waitgroup.go\<close>.  When the workers have
    ended after \<open>Close\<close>, the files of a disk without errors hold the records of all requests accepted before it.
  \<^item> \<open>Sim\<close>, \<open>WsConn\<close>, \<open>WsRequests\<close>: \<open>sim\<close>: fallback, clients, connections, and the responses on a connection.
  \<^item> \<open>Stream\<close>: \<open>stream\<close>: a subscriber receives what the other relays publish, in order.
  \<^item> \<open>Api\<close>, \<open>Limiter\<close>: \<open>api\<close>: every route answers, with the status the service calls for; rate limits.
  \<^item> \<open>Config\<close>, \<open>Reconfigure\<close>, \<open>ChainConfig\<close>: \<open>cmd/dreamboat/config\<close> and \<open>relay/config.go\<close>: reading, reloading and
    telling the relay; networks.

  Some theorems and lemmas show behaviour the code hardly intends, such as a lost verdict, a lost bid or a response
  given to another request; they hold of the code as it is.

  \<^bold>\<open>Bounds and termination.\<close>  No definition has fuel.  Loops are recursive on their data, or, where they count 64-bit
  slots down (\<open>latest_headers\<close>, \<open>latest_delivered\<close>) or read a subscription (\<open>subscribe\<close>), come with a termination proof.
  A loop that waits for input is a function of the list of inputs.

  \<^bold>\<open>Not modelled.\<close>  \<open>cmd/dreamboat/main.go\<close>, \<open>logger.go\<close> and \<open>cmd/migration\<close> wire parts together and do I/O;
  \<open>datastore/transport\<close> and \<open>blstools\<close> pass calls on to libraries; metrics other than the counters of the API and
  logging have no effect on results; the subscription of \<open>beacon/client/client.go\<close> to server-sent events and the socket
  loops of \<open>gethws.go\<close> are loops around library calls; \<open>stream/structs.go\<close> and \<open>EnqueueRPC\<close> are not used; mocks are
  generated, and \<open>test\<close> holds test programs.  Entries of databases do not expire in the model.
\<close>

end
